(* ===== verification/Drv_Prelude.thy ===== *)
theory Drv_Prelude
  imports "HOL-Library.Word"
begin

text \<open>
  The vocabulary every other theory of the development uses: the machine integer types of the
  target (a 32-bit ARM, so \<open>int\<close>, \<open>unsigned int\<close>, \<open>unsigned long\<close>, \<open>dma_addr_t\<close> and pointers
  are 32 bits wide), the C idioms \<open>if (v & FLAG)\<close>, \<open>if (b) stmt;\<close> and \<open>x++\<close>, and the bit-level
  lemmas on setting, clearing and testing flags that the register and descriptor proofs share.
  \<open>hw_consts\<close> collects the values of the register offsets and masks of the headers, \<open>bf_simps\<close>
  the positions of the descriptor bit-fields, \<open>ops_simps\<close> the members of the operation tables.
\<close>

unbundle bit_operations_syntax

named_theorems hw_consts \<open>values of the register offsets, masks and other #define constants\<close>
named_theorems bf_simps \<open>positions of the bit-fields of the descriptors\<close>
named_theorems ops_simps \<open>members of the tables of operations\<close>

section \<open>Machine integers and C idioms\<close>

type_synonym u8 = "8 word"
type_synonym u16 = "16 word"
type_synonym u32 = "32 word"
type_synonym u64 = "64 word"

text \<open>A kernel pointer is modelled by its address; \<open>0\<close> is \<open>NULL\<close>.\<close>

type_synonym ptr = int

text \<open>\<open>IS_ERR\<close>: the last page of the address space, here as the negative numbers down to -4095.\<close>

definition IS_ERR :: "ptr \<Rightarrow> bool" where
  "IS_ERR a \<longleftrightarrow> -4095 \<le> a \<and> a < 0"

text \<open>The test \<open>if (v & m)\<close>.\<close>

definition tst :: "u32 \<Rightarrow> u32 \<Rightarrow> bool" where
  "tst v m \<longleftrightarrow> v AND m \<noteq> 0"

text \<open>The statement \<open>if (b) s;\<close> on a state \<open>x\<close>.\<close>

definition doif :: "bool \<Rightarrow> ('a \<Rightarrow> 'a) \<Rightarrow> 'a \<Rightarrow> 'a" where
  "doif b f x = (if b then f x else x)"

abbreviation inc :: "u32 \<Rightarrow> u32" where
  "inc n \<equiv> n + 1"

lemma doif_True [simp]: "doif True f x = f x"
  by (simp add: doif_def)

lemma doif_False [simp]: "doif False f x = x"
  by (simp add: doif_def)

text \<open>Reading a field after a conditional statement: instantiated with the selector.\<close>

lemma doif_distrib: "sel (doif b f x) = (if b then sel (f x) else sel x)"
  by (simp add: doif_def)

lemma doif_id: "(\<And>y. sel (f y) = sel y) \<Longrightarrow> sel (doif b f x) = sel x"
  by (simp add: doif_def)

section \<open>Flags of a word\<close>

lemma and_or_same [simp]: "(v OR m) AND m = (m :: u32)"
  by (rule bit_eqI) (auto simp: bit_simps)

lemma and_or_same' [simp]: "(m OR v) AND m = (m :: u32)"
  by (rule bit_eqI) (auto simp: bit_simps)

lemma andnot_and_same [simp]: "(v AND NOT m) AND m = (0 :: u32)"
  by (rule bit_eqI) (auto simp: bit_simps)

lemma word_and_eq_0_iff: "m AND k = (0 :: u32) \<longleftrightarrow> (\<forall>n. \<not> (bit m n \<and> bit k n))"
  using bit_imp_le_length [of m] by (fastforce simp: bit_eq_iff bit_simps)

lemma or_and_disj: "m AND k = 0 \<Longrightarrow> (v OR m) AND k = v AND (k :: u32)"
  by (rule bit_eqI) (auto simp: bit_simps word_and_eq_0_iff)

lemma andnot_and_disj: "m AND k = 0 \<Longrightarrow> (v AND NOT m) AND k = v AND (k :: u32)"
  by (rule bit_eqI) (auto simp: bit_simps word_and_eq_0_iff)

text \<open>A set keeps every bit outside the mask, a clear too.\<close>

lemma or_keeps_others [simp]: "(v OR m) AND NOT m = v AND NOT (m :: u32)"
  by (rule bit_eqI) (auto simp: bit_simps)

lemma andnot_keeps_others [simp]: "(v AND NOT m) AND NOT m = v AND NOT (m :: u32)"
  by (rule bit_eqI) (auto simp: bit_simps)

lemma tst_or_same: "m \<noteq> 0 \<Longrightarrow> tst (v OR m) m"
  by (simp add: tst_def)

lemma tst_andnot_same [simp]: "\<not> tst (v AND NOT m) m"
  by (simp add: tst_def)

lemma tst_or_other: "m AND k = 0 \<Longrightarrow> tst (v OR m) k = tst v k"
  by (simp add: tst_def or_and_disj)

lemma tst_andnot_other: "m AND k = 0 \<Longrightarrow> tst (v AND NOT m) k = tst v k"
  by (simp add: tst_def andnot_and_disj)

lemma tst_or_arg: "tst v (m OR k) \<longleftrightarrow> tst v m \<or> tst v k"
  by (auto simp: tst_def word_and_eq_0_iff bit_simps)

lemma tst_or_val: "tst (v OR w) m \<longleftrightarrow> tst v m \<or> tst w m"
  by (auto simp: tst_def word_and_eq_0_iff bit_simps)

lemma tst_0 [simp]: "\<not> tst 0 m"
  by (simp add: tst_def)

section \<open>Bit-fields of a word\<close>

text \<open>
  \<open>wf_get off wd w\<close> is the \<open>wd\<close>-bit field of \<open>w\<close> that starts at bit \<open>off\<close>, and
  \<open>wf_set off wd v w\<close> stores the low \<open>wd\<close> bits of \<open>v\<close> into it, as a C assignment to an unsigned
  bit-field does.
\<close>

definition wf_mask :: "nat \<Rightarrow> nat \<Rightarrow> u32" where
  "wf_mask off wd = push_bit off (mask wd)"

definition wf_get :: "nat \<Rightarrow> nat \<Rightarrow> u32 \<Rightarrow> u32" where
  "wf_get off wd w = take_bit wd (drop_bit off w)"

definition wf_set :: "nat \<Rightarrow> nat \<Rightarrow> u32 \<Rightarrow> u32 \<Rightarrow> u32" where
  "wf_set off wd v w = (w AND NOT (wf_mask off wd)) OR push_bit off (take_bit wd v)"

lemma bit_wf_get: "bit (wf_get off wd w) n \<longleftrightarrow> n < wd \<and> bit w (off + n)"
  by (auto simp: wf_get_def bit_simps)

lemma bit_wf_set:
  "bit (wf_set off wd v w) n \<longleftrightarrow>
     n < 32 \<and> (if off \<le> n \<and> n < off + wd then bit v (n - off) else bit w n)"
  by (auto simp: wf_set_def wf_mask_def bit_simps dest: bit_imp_le_length)

lemma wf_get_set_same:
  "off + wd \<le> 32 \<Longrightarrow> wf_get off wd (wf_set off wd v w) = take_bit wd v"
  by (rule bit_eqI) (auto simp: bit_wf_get bit_wf_set bit_take_bit_iff)

lemma wf_get_set_other:
  "off + wd \<le> off' \<or> off' + wd' \<le> off \<Longrightarrow> off + wd \<le> 32 \<Longrightarrow>
     wf_get off wd (wf_set off' wd' v w) = wf_get off wd w"
  by (rule bit_eqI) (auto simp: bit_wf_get bit_wf_set)

lemma wf_get_0 [simp]: "wf_get off wd 0 = 0"
  by (simp add: wf_get_def)

lemma wf_set_get_id: "wf_set off wd (wf_get off wd w) w = w"
  by (rule bit_eqI) (auto simp: bit_wf_get bit_wf_set bit_imp_le_length)

lemma wf_get_bound: "unat (wf_get off wd w) < 2 ^ wd"
  by (simp add: wf_get_def unsigned_take_bit_eq take_bit_nat_less_exp)

lemma wf_get_bool: "wf_get off 1 w = 0 \<or> wf_get off 1 w = 1"
  by (auto simp: wf_get_def take_bit_Suc one_mod_two_eq_one odd_iff_mod_2_eq_one)

lemma take_bit_small: "unat x < 2 ^ wd \<Longrightarrow> take_bit wd x = (x :: u32)"
  by (simp add: word_unat_eq_iff unsigned_take_bit_eq take_bit_nat_eq_self)

lemma take_bit_1_1 [simp]: "take_bit (Suc 0) (1 :: u32) = 1" "take_bit wd (0 :: u32) = 0"
  by simp_all

text \<open>What every step of a loop over a list keeps, the loop keeps.\<close>

lemma fold_keeps: "(\<And>i y. f (g i y) = f y) \<Longrightarrow> f (fold g xs y) = f y"
  by (induction xs arbitrary: y) simp_all

end
