(* ===== verification/Drv_Env.thy ===== *)
theory Drv_Env
  imports Drv_Prelude
begin

text \<open>
  The interface between the driver and everything that is not under \<open>src/\<close>: the device behind
  the memory-mapped registers and the kernel. Both are parameters of the model. A value of
  \<open>'w env\<close> says how the outside world, a state of the arbitrary type \<open>'w\<close>, answers a register
  read (\<open>readl\<close> may have side effects), takes a register write and serves a kernel call. A
  kernel call is its name with its arguments; the result is an integer (a pointer, an error
  code, a value of \<open>jiffies\<close>; \<open>0\<close> is \<open>NULL\<close> or success), ignored where the C function is
  \<open>void\<close>. What a theorem assumes of the world is one of the predicates below.
\<close>

section \<open>The world\<close>

datatype karg = I int | S string

datatype kcall = K string "karg list"

record 'w env =
  rd_reg :: "u32 \<Rightarrow> 'w \<Rightarrow> u32 \<times> 'w"
  wr_reg :: "u32 \<Rightarrow> u32 \<Rightarrow> 'w \<Rightarrow> 'w"
  kfun :: "kcall \<Rightarrow> 'w \<Rightarrow> int \<times> 'w"

definition readl :: "'w env \<Rightarrow> u32 \<Rightarrow> 'w \<Rightarrow> u32 \<times> 'w" where
  "readl e addr w = rd_reg e addr w"

definition writel :: "'w env \<Rightarrow> u32 \<Rightarrow> u32 \<Rightarrow> 'w \<Rightarrow> 'w" where
  "writel e v addr w = wr_reg e v addr w"

text \<open>The value a read returns, a write of each pair of a list, and a kernel call whose result is unused.\<close>

definition peek :: "'w env \<Rightarrow> u32 \<Rightarrow> 'w \<Rightarrow> u32" where
  "peek e addr w = fst (readl e addr w)"

definition after_read :: "'w env \<Rightarrow> u32 \<Rightarrow> 'w \<Rightarrow> 'w" where
  "after_read e addr w = snd (readl e addr w)"

definition kcall :: "'w env \<Rightarrow> string \<Rightarrow> karg list \<Rightarrow> 'w \<Rightarrow> int \<times> 'w" where
  "kcall e name args w = kfun e (K name args) w"

definition kdo :: "'w env \<Rightarrow> string \<Rightarrow> karg list \<Rightarrow> 'w \<Rightarrow> 'w" where
  "kdo e name args w = snd (kfun e (K name args) w)"

definition kval :: "'w env \<Rightarrow> string \<Rightarrow> karg list \<Rightarrow> 'w \<Rightarrow> int" where
  "kval e name args w = fst (kfun e (K name args) w)"

lemma readl_eq: "readl e a w = (peek e a w, after_read e a w)"
  by (simp add: peek_def after_read_def)

lemma kcall_eq: "kcall e n as w = (kval e n as w, kdo e n as w)"
  by (simp add: kcall_def kval_def kdo_def)

section \<open>Read-modify-write\<close>

definition rmw :: "'w env \<Rightarrow> u32 \<Rightarrow> (u32 \<Rightarrow> u32) \<Rightarrow> 'w \<Rightarrow> 'w" where
  "rmw e a f w = (let (v, w) = readl e a w in writel e (f v) a w)"

lemma rmw_unfold: "rmw e a f w = writel e (f (peek e a w)) a (after_read e a w)"
  by (simp add: rmw_def readl_eq)

section \<open>Registers that hold what is written\<close>

text \<open>
  \<open>rw_regs e M\<close>: at every address \<open>a\<close>, the bits of the mask \<open>M a\<close> are plain read/write bits.
  They read back as last written, and neither a read nor a write at another such address
  disturbs them. Nothing is said of the other bits, nor of the addresses with mask \<open>0\<close> (status
  registers that clear on write, self-clearing reset bits, read-only bits).
\<close>

definition rw_regs :: "'w env \<Rightarrow> (u32 \<Rightarrow> u32) \<Rightarrow> bool" where
  "rw_regs e M \<longleftrightarrow>
     (\<forall>a v w. peek e a (writel e v a w) AND M a = v AND M a) \<and>
     (\<forall>a b v w. M b \<noteq> 0 \<longrightarrow> a \<noteq> b \<longrightarrow> peek e a (writel e v b w) AND M a = peek e a w AND M a) \<and>
     (\<forall>a b w. M b \<noteq> 0 \<longrightarrow> peek e a (after_read e b w) AND M a = peek e a w AND M a)"

lemma rw_write_same: "rw_regs e M \<Longrightarrow> peek e a (writel e v a w) AND M a = v AND M a"
  by (simp add: rw_regs_def)

lemma rw_write_other:
  "rw_regs e M \<Longrightarrow> M b \<noteq> 0 \<Longrightarrow> a \<noteq> b \<Longrightarrow> peek e a (writel e v b w) AND M a = peek e a w AND M a"
  by (simp add: rw_regs_def)

lemma rw_read: "rw_regs e M \<Longrightarrow> M b \<noteq> 0 \<Longrightarrow> peek e a (after_read e b w) AND M a = peek e a w AND M a"
  by (simp add: rw_regs_def)

lemma rw_rmw_same: "rw_regs e M \<Longrightarrow> peek e a (rmw e a f w) AND M a = f (peek e a w) AND M a"
  by (simp add: rmw_unfold rw_write_same)

lemma rw_rmw_other:
  "rw_regs e M \<Longrightarrow> M b \<noteq> 0 \<Longrightarrow> a \<noteq> b \<Longrightarrow> peek e a (rmw e b f w) AND M a = peek e a w AND M a"
  by (simp add: rmw_unfold rw_write_other rw_read)

text \<open>The same facts for a flag \<open>k\<close> inside the mask.\<close>

lemma and_submask:
  assumes "x AND m = y AND (m :: u32)" and "k AND m = k"
  shows "x AND k = y AND k"
proof -
  have "x AND k = (x AND m) AND k" using assms(2) by (metis and.commute and.left_commute)
  also have "\<dots> = (y AND m) AND k" by (simp add: assms(1))
  also have "\<dots> = y AND k" using assms(2) by (metis and.commute and.left_commute)
  finally show ?thesis .
qed

lemma rw_flag_same:
  "rw_regs e M \<Longrightarrow> k AND M a = k \<Longrightarrow> tst (peek e a (rmw e a f w)) k = tst (f (peek e a w)) k"
  by (simp add: tst_def and_submask [OF rw_rmw_same, of e M k a])

lemma rw_flag_other:
  "rw_regs e M \<Longrightarrow> k AND M a = k \<Longrightarrow> M b \<noteq> 0 \<Longrightarrow> a \<noteq> b \<Longrightarrow>
     tst (peek e a (rmw e b f w)) k = tst (peek e a w) k"
  by (simp add: tst_def and_submask [OF rw_rmw_other, of e M b a k])

section \<open>A concrete world, for closed instances\<close>

text \<open>
  A register file whose every address is plain memory, a kernel that answers by a table and
  remembers the calls it served, latest first. The witnesses of the properties run in it.
\<close>

record bench =
  b_regs :: "u32 \<Rightarrow> u32"
  b_calls :: "kcall list"

definition bench_env :: "(kcall \<Rightarrow> int) \<Rightarrow> bench env" where
  "bench_env ans = \<lparr>rd_reg = (\<lambda>a w. (b_regs w a, w)),
     wr_reg = (\<lambda>v a w. w\<lparr>b_regs := (b_regs w)(a := v)\<rparr>),
     kfun = (\<lambda>c w. (ans c, w\<lparr>b_calls := c # b_calls w\<rparr>))\<rparr>"

definition bench0 :: bench where
  "bench0 = \<lparr>b_regs = (\<lambda>_. 0), b_calls = []\<rparr>"

lemma bench_readl [simp]: "readl (bench_env ans) a w = (b_regs w a, w)"
  by (simp add: readl_def bench_env_def)

lemma bench_peek [simp]: "peek (bench_env ans) a w = b_regs w a"
  by (simp add: peek_def)

lemma bench_after_read [simp]: "after_read (bench_env ans) a w = w"
  by (simp add: after_read_def)

lemma bench_writel [simp]:
  "writel (bench_env ans) v a w = w\<lparr>b_regs := (b_regs w)(a := v)\<rparr>"
  by (simp add: writel_def bench_env_def)

lemma bench_kcall [simp]:
  "kcall (bench_env ans) n as w = (ans (K n as), w\<lparr>b_calls := K n as # b_calls w\<rparr>)"
  by (simp add: kcall_def bench_env_def)

lemma bench_kdo [simp]: "kdo (bench_env ans) n as w = w\<lparr>b_calls := K n as # b_calls w\<rparr>"
  by (simp add: kdo_def bench_env_def)

lemma bench_kval [simp]: "kval (bench_env ans) n as w = ans (K n as)"
  by (simp add: kval_def bench_env_def)

lemma bench_rw_regs: "rw_regs (bench_env ans) M"
  by (auto simp: rw_regs_def)

text \<open>The same world where the register at \<open>a\<close> clears the bits written as one, as status registers do.\<close>

definition bench_w1c_env :: "u32 \<Rightarrow> bench env" where
  "bench_w1c_env a = (bench_env (\<lambda>_. 0))
     \<lparr>wr_reg := (\<lambda>v b w. w\<lparr>b_regs := (b_regs w)(b := if b = a then b_regs w b AND NOT v else v)\<rparr>)\<rparr>"

text \<open>
  The same world where bit 0 of the register at 0x1000, the software reset of the bus mode
  register, clears itself.
\<close>

definition bench_selfclear_env :: "(kcall \<Rightarrow> int) \<Rightarrow> bench env" where
  "bench_selfclear_env ans = (bench_env ans)
     \<lparr>wr_reg := (\<lambda>v b w. w\<lparr>b_regs := (b_regs w)(b := if b = 0x1000 then v AND NOT 1 else v)\<rparr>)\<rparr>"

lemma bench_selfclear [simp]:
  "peek (bench_selfclear_env ans) a w = b_regs w a"
  "after_read (bench_selfclear_env ans) a w = w"
  "writel (bench_selfclear_env ans) v b w = w\<lparr>b_regs := (b_regs w)(b := if b = 0x1000 then v AND NOT 1 else v)\<rparr>"
  "kdo (bench_selfclear_env ans) n as w = w\<lparr>b_calls := K n as # b_calls w\<rparr>"
  "kval (bench_selfclear_env ans) n as w = ans (K n as)"
  by (simp_all add: bench_selfclear_env_def bench_env_def peek_def after_read_def readl_def writel_def kdo_def kval_def)

lemma bench_selfclear_rw: "rw_regs (bench_selfclear_env ans) (\<lambda>a. if a = 0x1000 then NOT 1 else - 1)"
  by (auto simp: rw_regs_def and.assoc)

section \<open>The calls of a run in the concrete world\<close>

text \<open>The arguments of the calls of one name, the latest first.\<close>

definition calls_of :: "string \<Rightarrow> bench \<Rightarrow> karg list list" where
  "calls_of name w = concat (map (\<lambda>c. case c of K n as \<Rightarrow> if n = name then [as] else []) (b_calls w))"

lemma calls_of_upd [simp]:
  "calls_of name (w\<lparr>b_calls := K n as # cs\<rparr>) = (if n = name then [as] else []) @ calls_of name (w\<lparr>b_calls := cs\<rparr>)"
  "calls_of name (w\<lparr>b_calls := b_calls v\<rparr>) = calls_of name v"
  "calls_of name (w\<lparr>b_regs := r\<rparr>) = calls_of name w"
  by (simp_all add: calls_of_def)

lemma calls_of_kdo:
  "calls_of name (kdo (bench_env ans) n as w) = (if n = name then [as] else []) @ calls_of name w"
  by simp

end
