(* ===== verification/Hw_Consts.thy ===== *)
theory Hw_Consts
  imports Drv_Env
begin

text \<open>
  The register offsets, masks and field values of \<open>dwmac_dma.h\<close>, \<open>common.h\<close>, \<open>dwmac1000.h\<close>
  and \<open>dwmac100.h\<close>, each under its own name. The transmit thresholds of the two cores share
  their names in the source, with other values: those of \<open>dwmac100.h\<close> end in \<open>_100\<close> here. A
  define that two headers repeat with the same value appears once.
\<close>

section \<open>The DMA block: dwmac\_dma.h\<close>

definition DMA_BUS_MODE :: u32 where [hw_consts]: "DMA_BUS_MODE = 0x00001000"
definition DMA_XMT_POLL_DEMAND :: u32 where [hw_consts]: "DMA_XMT_POLL_DEMAND = 0x00001004"
definition DMA_RCV_POLL_DEMAND :: u32 where [hw_consts]: "DMA_RCV_POLL_DEMAND = 0x00001008"
definition DMA_RCV_BASE_ADDR :: u32 where [hw_consts]: "DMA_RCV_BASE_ADDR = 0x0000100c"
definition DMA_TX_BASE_ADDR :: u32 where [hw_consts]: "DMA_TX_BASE_ADDR = 0x00001010"
definition DMA_STATUS :: u32 where [hw_consts]: "DMA_STATUS = 0x00001014"
definition DMA_CONTROL :: u32 where [hw_consts]: "DMA_CONTROL = 0x00001018"
definition DMA_INTR_ENA :: u32 where [hw_consts]: "DMA_INTR_ENA = 0x0000101c"
definition DMA_MISSED_FRAME_CTR :: u32 where [hw_consts]: "DMA_MISSED_FRAME_CTR = 0x00001020"
definition DMA_RX_WATCHDOG :: u32 where [hw_consts]: "DMA_RX_WATCHDOG = 0x00001024"
definition DMA_AXI_BUS_MODE :: u32 where [hw_consts]: "DMA_AXI_BUS_MODE = 0x00001028"
definition DMA_CUR_TX_BUF_ADDR :: u32 where [hw_consts]: "DMA_CUR_TX_BUF_ADDR = 0x00001050"
definition DMA_CUR_RX_BUF_ADDR :: u32 where [hw_consts]: "DMA_CUR_RX_BUF_ADDR = 0x00001054"
definition DMA_HW_FEATURE :: u32 where [hw_consts]: "DMA_HW_FEATURE = 0x00001058"
definition DMA_CONTROL_ST :: u32 where [hw_consts]: "DMA_CONTROL_ST = 0x00002000"
definition DMA_CONTROL_SR :: u32 where [hw_consts]: "DMA_CONTROL_SR = 0x00000002"
definition DMA_INTR_ENA_NIE :: u32 where [hw_consts]: "DMA_INTR_ENA_NIE = 0x00010000"
definition DMA_INTR_ENA_TIE :: u32 where [hw_consts]: "DMA_INTR_ENA_TIE = 0x00000001"
definition DMA_INTR_ENA_TUE :: u32 where [hw_consts]: "DMA_INTR_ENA_TUE = 0x00000004"
definition DMA_INTR_ENA_RIE :: u32 where [hw_consts]: "DMA_INTR_ENA_RIE = 0x00000040"
definition DMA_INTR_ENA_ERE :: u32 where [hw_consts]: "DMA_INTR_ENA_ERE = 0x00004000"
definition DMA_INTR_NORMAL :: u32 where [hw_consts]:
  "DMA_INTR_NORMAL = DMA_INTR_ENA_NIE OR DMA_INTR_ENA_RIE OR DMA_INTR_ENA_TIE"
definition DMA_INTR_ENA_AIE :: u32 where [hw_consts]: "DMA_INTR_ENA_AIE = 0x00008000"
definition DMA_INTR_ENA_FBE :: u32 where [hw_consts]: "DMA_INTR_ENA_FBE = 0x00002000"
definition DMA_INTR_ENA_ETE :: u32 where [hw_consts]: "DMA_INTR_ENA_ETE = 0x00000400"
definition DMA_INTR_ENA_RWE :: u32 where [hw_consts]: "DMA_INTR_ENA_RWE = 0x00000200"
definition DMA_INTR_ENA_RSE :: u32 where [hw_consts]: "DMA_INTR_ENA_RSE = 0x00000100"
definition DMA_INTR_ENA_RUE :: u32 where [hw_consts]: "DMA_INTR_ENA_RUE = 0x00000080"
definition DMA_INTR_ENA_UNE :: u32 where [hw_consts]: "DMA_INTR_ENA_UNE = 0x00000020"
definition DMA_INTR_ENA_OVE :: u32 where [hw_consts]: "DMA_INTR_ENA_OVE = 0x00000010"
definition DMA_INTR_ENA_TJE :: u32 where [hw_consts]: "DMA_INTR_ENA_TJE = 0x00000008"
definition DMA_INTR_ENA_TSE :: u32 where [hw_consts]: "DMA_INTR_ENA_TSE = 0x00000002"
definition DMA_INTR_ABNORMAL :: u32 where [hw_consts]:
  "DMA_INTR_ABNORMAL = DMA_INTR_ENA_AIE OR DMA_INTR_ENA_FBE OR DMA_INTR_ENA_UNE"
definition DMA_INTR_DEFAULT_MASK :: u32 where [hw_consts]:
  "DMA_INTR_DEFAULT_MASK = DMA_INTR_NORMAL OR DMA_INTR_ABNORMAL"
definition DMA_STATUS_GLPII :: u32 where [hw_consts]: "DMA_STATUS_GLPII = 0x40000000"
definition DMA_STATUS_GPI :: u32 where [hw_consts]: "DMA_STATUS_GPI = 0x10000000"
definition DMA_STATUS_GMI :: u32 where [hw_consts]: "DMA_STATUS_GMI = 0x08000000"
definition DMA_STATUS_GLI :: u32 where [hw_consts]: "DMA_STATUS_GLI = 0x04000000"
definition DMA_STATUS_EB_MASK :: u32 where [hw_consts]: "DMA_STATUS_EB_MASK = 0x00380000"
definition DMA_STATUS_EB_TX_ABORT :: u32 where [hw_consts]: "DMA_STATUS_EB_TX_ABORT = 0x00080000"
definition DMA_STATUS_EB_RX_ABORT :: u32 where [hw_consts]: "DMA_STATUS_EB_RX_ABORT = 0x00100000"
definition DMA_STATUS_TS_MASK :: u32 where [hw_consts]: "DMA_STATUS_TS_MASK = 0x00700000"
definition DMA_STATUS_TS_SHIFT :: u32 where [hw_consts]: "DMA_STATUS_TS_SHIFT = 20"
definition DMA_STATUS_RS_MASK :: u32 where [hw_consts]: "DMA_STATUS_RS_MASK = 0x000e0000"
definition DMA_STATUS_RS_SHIFT :: u32 where [hw_consts]: "DMA_STATUS_RS_SHIFT = 17"
definition DMA_STATUS_NIS :: u32 where [hw_consts]: "DMA_STATUS_NIS = 0x00010000"
definition DMA_STATUS_AIS :: u32 where [hw_consts]: "DMA_STATUS_AIS = 0x00008000"
definition DMA_STATUS_ERI :: u32 where [hw_consts]: "DMA_STATUS_ERI = 0x00004000"
definition DMA_STATUS_FBI :: u32 where [hw_consts]: "DMA_STATUS_FBI = 0x00002000"
definition DMA_STATUS_ETI :: u32 where [hw_consts]: "DMA_STATUS_ETI = 0x00000400"
definition DMA_STATUS_RWT :: u32 where [hw_consts]: "DMA_STATUS_RWT = 0x00000200"
definition DMA_STATUS_RPS :: u32 where [hw_consts]: "DMA_STATUS_RPS = 0x00000100"
definition DMA_STATUS_RU :: u32 where [hw_consts]: "DMA_STATUS_RU = 0x00000080"
definition DMA_STATUS_RI :: u32 where [hw_consts]: "DMA_STATUS_RI = 0x00000040"
definition DMA_STATUS_UNF :: u32 where [hw_consts]: "DMA_STATUS_UNF = 0x00000020"
definition DMA_STATUS_OVF :: u32 where [hw_consts]: "DMA_STATUS_OVF = 0x00000010"
definition DMA_STATUS_TJT :: u32 where [hw_consts]: "DMA_STATUS_TJT = 0x00000008"
definition DMA_STATUS_TU :: u32 where [hw_consts]: "DMA_STATUS_TU = 0x00000004"
definition DMA_STATUS_TPS :: u32 where [hw_consts]: "DMA_STATUS_TPS = 0x00000002"
definition DMA_STATUS_TI :: u32 where [hw_consts]: "DMA_STATUS_TI = 0x00000001"
definition DMA_CONTROL_FTF :: u32 where [hw_consts]: "DMA_CONTROL_FTF = 0x00100000"

section \<open>Common defines: common.h\<close>

definition DWMAC_CORE_3_40 :: u32 where [hw_consts]: "DWMAC_CORE_3_40 = 0x34"
definition DWMAC_CORE_3_50 :: u32 where [hw_consts]: "DWMAC_CORE_3_50 = 0x35"
definition CSR_F_35M :: u32 where [hw_consts]: "CSR_F_35M = 35000000"
definition CSR_F_60M :: u32 where [hw_consts]: "CSR_F_60M = 60000000"
definition CSR_F_100M :: u32 where [hw_consts]: "CSR_F_100M = 100000000"
definition CSR_F_150M :: u32 where [hw_consts]: "CSR_F_150M = 150000000"
definition CSR_F_250M :: u32 where [hw_consts]: "CSR_F_250M = 250000000"
definition CSR_F_300M :: u32 where [hw_consts]: "CSR_F_300M = 300000000"
definition MAC_CSR_H_FRQ_MASK :: u32 where [hw_consts]: "MAC_CSR_H_FRQ_MASK = 0x20"
definition HASH_TABLE_SIZE :: u32 where [hw_consts]: "HASH_TABLE_SIZE = 64"
definition PAUSE_TIME :: u32 where [hw_consts]: "PAUSE_TIME = 0x200"
definition FLOW_OFF :: u32 where [hw_consts]: "FLOW_OFF = 0"
definition FLOW_RX :: u32 where [hw_consts]: "FLOW_RX = 1"
definition FLOW_TX :: u32 where [hw_consts]: "FLOW_TX = 2"
definition FLOW_AUTO :: u32 where [hw_consts]: "FLOW_AUTO = FLOW_TX OR FLOW_RX"
definition STMMAC_PCS_RGMII :: u32 where [hw_consts]: "STMMAC_PCS_RGMII = 0x1"
definition STMMAC_PCS_SGMII :: u32 where [hw_consts]: "STMMAC_PCS_SGMII = 0x2"
definition STMMAC_PCS_TBI :: u32 where [hw_consts]: "STMMAC_PCS_TBI = 0x4"
definition STMMAC_PCS_RTBI :: u32 where [hw_consts]: "STMMAC_PCS_RTBI = 0x8"
definition SF_DMA_MODE :: u32 where [hw_consts]: "SF_DMA_MODE = 1"
definition DMA_HW_FEAT_MIISEL :: u32 where [hw_consts]: "DMA_HW_FEAT_MIISEL = 0x00000001"
definition DMA_HW_FEAT_GMIISEL :: u32 where [hw_consts]: "DMA_HW_FEAT_GMIISEL = 0x00000002"
definition DMA_HW_FEAT_HDSEL :: u32 where [hw_consts]: "DMA_HW_FEAT_HDSEL = 0x00000004"
definition DMA_HW_FEAT_EXTHASHEN :: u32 where [hw_consts]: "DMA_HW_FEAT_EXTHASHEN = 0x00000008"
definition DMA_HW_FEAT_HASHSEL :: u32 where [hw_consts]: "DMA_HW_FEAT_HASHSEL = 0x00000010"
definition DMA_HW_FEAT_ADDMAC :: u32 where [hw_consts]: "DMA_HW_FEAT_ADDMAC = 0x00000020"
definition DMA_HW_FEAT_PCSSEL :: u32 where [hw_consts]: "DMA_HW_FEAT_PCSSEL = 0x00000040"
definition DMA_HW_FEAT_L3L4FLTREN :: u32 where [hw_consts]: "DMA_HW_FEAT_L3L4FLTREN = 0x00000080"
definition DMA_HW_FEAT_SMASEL :: u32 where [hw_consts]: "DMA_HW_FEAT_SMASEL = 0x00000100"
definition DMA_HW_FEAT_RWKSEL :: u32 where [hw_consts]: "DMA_HW_FEAT_RWKSEL = 0x00000200"
definition DMA_HW_FEAT_MGKSEL :: u32 where [hw_consts]: "DMA_HW_FEAT_MGKSEL = 0x00000400"
definition DMA_HW_FEAT_MMCSEL :: u32 where [hw_consts]: "DMA_HW_FEAT_MMCSEL = 0x00000800"
definition DMA_HW_FEAT_TSVER1SEL :: u32 where [hw_consts]: "DMA_HW_FEAT_TSVER1SEL = 0x00001000"
definition DMA_HW_FEAT_TSVER2SEL :: u32 where [hw_consts]: "DMA_HW_FEAT_TSVER2SEL = 0x00002000"
definition DMA_HW_FEAT_EEESEL :: u32 where [hw_consts]: "DMA_HW_FEAT_EEESEL = 0x00004000"
definition DMA_HW_FEAT_AVSEL :: u32 where [hw_consts]: "DMA_HW_FEAT_AVSEL = 0x00008000"
definition DMA_HW_FEAT_TXCOESEL :: u32 where [hw_consts]: "DMA_HW_FEAT_TXCOESEL = 0x00010000"
definition DMA_HW_FEAT_RXTYP1COE :: u32 where [hw_consts]: "DMA_HW_FEAT_RXTYP1COE = 0x00020000"
definition DMA_HW_FEAT_RXTYP2COE :: u32 where [hw_consts]: "DMA_HW_FEAT_RXTYP2COE = 0x00040000"
definition DMA_HW_FEAT_RXFIFOSIZE :: u32 where [hw_consts]: "DMA_HW_FEAT_RXFIFOSIZE = 0x00080000"
definition DMA_HW_FEAT_RXCHCNT :: u32 where [hw_consts]: "DMA_HW_FEAT_RXCHCNT = 0x00300000"
definition DMA_HW_FEAT_TXCHCNT :: u32 where [hw_consts]: "DMA_HW_FEAT_TXCHCNT = 0x00c00000"
definition DMA_HW_FEAT_ENHDESSEL :: u32 where [hw_consts]: "DMA_HW_FEAT_ENHDESSEL = 0x01000000"
definition DMA_HW_FEAT_INTTSEN :: u32 where [hw_consts]: "DMA_HW_FEAT_INTTSEN = 0x02000000"
definition DMA_HW_FEAT_FLEXIPPSEN :: u32 where [hw_consts]: "DMA_HW_FEAT_FLEXIPPSEN = 0x04000000"
definition DMA_HW_FEAT_SAVLANINS :: u32 where [hw_consts]: "DMA_HW_FEAT_SAVLANINS = 0x08000000"
definition DMA_HW_FEAT_ACTPHYIF :: u32 where [hw_consts]: "DMA_HW_FEAT_ACTPHYIF = 0x70000000"
definition DEFAULT_DMA_PBL :: u32 where [hw_consts]: "DEFAULT_DMA_PBL = 8"
definition MAX_DMA_RIWT :: u32 where [hw_consts]: "MAX_DMA_RIWT = 0xff"
definition MIN_DMA_RIWT :: u32 where [hw_consts]: "MIN_DMA_RIWT = 0x20"
definition STMMAC_COAL_TX_TIMER :: u32 where [hw_consts]: "STMMAC_COAL_TX_TIMER = 40000"
definition STMMAC_MAX_COAL_TX_TICK :: u32 where [hw_consts]: "STMMAC_MAX_COAL_TX_TICK = 100000"
definition STMMAC_TX_MAX_FRAMES :: u32 where [hw_consts]: "STMMAC_TX_MAX_FRAMES = 256"
definition STMMAC_TX_FRAMES :: u32 where [hw_consts]: "STMMAC_TX_FRAMES = 64"

text \<open>\<open>enum rx_frame_status\<close>.\<close>


text \<open>\<open>enum dma_irq_status\<close>.\<close>

definition tx_hard_error :: u32 where [hw_consts]: "tx_hard_error = 0x1"
definition tx_hard_error_bump_tc :: u32 where [hw_consts]: "tx_hard_error_bump_tc = 0x2"
definition handle_rx :: u32 where [hw_consts]: "handle_rx = 0x4"
definition handle_tx :: u32 where [hw_consts]: "handle_tx = 0x8"
definition CORE_IRQ_TX_PATH_IN_LPI_MODE :: u32 where [hw_consts]:
  "CORE_IRQ_TX_PATH_IN_LPI_MODE = 0x2"
definition CORE_IRQ_TX_PATH_EXIT_LPI_MODE :: u32 where [hw_consts]:
  "CORE_IRQ_TX_PATH_EXIT_LPI_MODE = 0x4"
definition CORE_IRQ_RX_PATH_IN_LPI_MODE :: u32 where [hw_consts]:
  "CORE_IRQ_RX_PATH_IN_LPI_MODE = 0x8"
definition CORE_IRQ_RX_PATH_EXIT_LPI_MODE :: u32 where [hw_consts]:
  "CORE_IRQ_RX_PATH_EXIT_LPI_MODE = 0x10"
definition CORE_PCS_ANE_COMPLETE :: u32 where [hw_consts]: "CORE_PCS_ANE_COMPLETE = 0x20"
definition CORE_PCS_LINK_STATUS :: u32 where [hw_consts]: "CORE_PCS_LINK_STATUS = 0x40"
definition CORE_RGMII_IRQ :: u32 where [hw_consts]: "CORE_RGMII_IRQ = 0x80"
definition STMMAC_PCS_PAUSE :: u32 where [hw_consts]: "STMMAC_PCS_PAUSE = 1"
definition STMMAC_PCS_ASYM_PAUSE :: u32 where [hw_consts]: "STMMAC_PCS_ASYM_PAUSE = 2"
definition PMT_NOT_SUPPORTED :: u32 where [hw_consts]: "PMT_NOT_SUPPORTED = 0"
definition PMT_SUPPORTED :: u32 where [hw_consts]: "PMT_SUPPORTED = 1"
definition MAC_CTRL_REG :: u32 where [hw_consts]: "MAC_CTRL_REG = 0x00000000"
definition MAC_ENABLE_TX :: u32 where [hw_consts]: "MAC_ENABLE_TX = 0x00000008"
definition MAC_RNABLE_RX :: u32 where [hw_consts]: "MAC_RNABLE_RX = 0x00000004"
definition STMMAC_DEFAULT_LIT_LS :: u32 where [hw_consts]: "STMMAC_DEFAULT_LIT_LS = 0x3E8"
definition STMMAC_DEFAULT_TWT_LS :: u32 where [hw_consts]: "STMMAC_DEFAULT_TWT_LS = 0x0"

section \<open>The GMAC core: dwmac1000.h\<close>

definition GMAC_CONTROL :: u32 where [hw_consts]: "GMAC_CONTROL = 0x00000000"
definition GMAC_FRAME_FILTER :: u32 where [hw_consts]: "GMAC_FRAME_FILTER = 0x00000004"
definition GMAC_HASH_HIGH :: u32 where [hw_consts]: "GMAC_HASH_HIGH = 0x00000008"
definition GMAC_HASH_LOW :: u32 where [hw_consts]: "GMAC_HASH_LOW = 0x0000000c"
definition GMAC_MII_ADDR :: u32 where [hw_consts]: "GMAC_MII_ADDR = 0x00000010"
definition GMAC_MII_DATA :: u32 where [hw_consts]: "GMAC_MII_DATA = 0x00000014"
definition GMAC_FLOW_CTRL :: u32 where [hw_consts]: "GMAC_FLOW_CTRL = 0x00000018"
definition GMAC_VLAN_TAG :: u32 where [hw_consts]: "GMAC_VLAN_TAG = 0x0000001c"
definition GMAC_VERSION :: u32 where [hw_consts]: "GMAC_VERSION = 0x00000020"
definition GMAC_WAKEUP_FILTER :: u32 where [hw_consts]: "GMAC_WAKEUP_FILTER = 0x00000028"
definition GMAC_INT_STATUS :: u32 where [hw_consts]: "GMAC_INT_STATUS = 0x00000038"

text \<open>\<open>enum dwmac1000_irq_status\<close>.\<close>

definition lpiis_irq :: u32 where [hw_consts]: "lpiis_irq = 0x400"
definition time_stamp_irq :: u32 where [hw_consts]: "time_stamp_irq = 0x0200"
definition mmc_rx_csum_offload_irq :: u32 where [hw_consts]: "mmc_rx_csum_offload_irq = 0x0080"
definition mmc_tx_irq :: u32 where [hw_consts]: "mmc_tx_irq = 0x0040"
definition mmc_rx_irq :: u32 where [hw_consts]: "mmc_rx_irq = 0x0020"
definition mmc_irq :: u32 where [hw_consts]: "mmc_irq = 0x0010"
definition pmt_irq :: u32 where [hw_consts]: "pmt_irq = 0x0008"
definition pcs_ane_irq :: u32 where [hw_consts]: "pcs_ane_irq = 0x0004"
definition pcs_link_irq :: u32 where [hw_consts]: "pcs_link_irq = 0x0002"
definition rgmii_irq :: u32 where [hw_consts]: "rgmii_irq = 0x0001"
definition GMAC_INT_MASK :: u32 where [hw_consts]: "GMAC_INT_MASK = 0x0000003c"
definition GMAC_PMT :: u32 where [hw_consts]: "GMAC_PMT = 0x0000002c"

text \<open>\<open>enum power_event\<close>.\<close>

definition pointer_reset :: u32 where [hw_consts]: "pointer_reset = 0x80000000"
definition global_unicast :: u32 where [hw_consts]: "global_unicast = 0x00000200"
definition wake_up_rx_frame :: u32 where [hw_consts]: "wake_up_rx_frame = 0x00000040"
definition magic_frame :: u32 where [hw_consts]: "magic_frame = 0x00000020"
definition wake_up_frame_en :: u32 where [hw_consts]: "wake_up_frame_en = 0x00000004"
definition magic_pkt_en :: u32 where [hw_consts]: "magic_pkt_en = 0x00000002"
definition power_down :: u32 where [hw_consts]: "power_down = 0x00000001"
definition LPI_CTRL_STATUS :: u32 where [hw_consts]: "LPI_CTRL_STATUS = 0x0030"
definition LPI_TIMER_CTRL :: u32 where [hw_consts]: "LPI_TIMER_CTRL = 0x0034"
definition LPI_CTRL_STATUS_LPITXA :: u32 where [hw_consts]: "LPI_CTRL_STATUS_LPITXA = 0x00080000"
definition LPI_CTRL_STATUS_PLSEN :: u32 where [hw_consts]: "LPI_CTRL_STATUS_PLSEN = 0x00040000"
definition LPI_CTRL_STATUS_PLS :: u32 where [hw_consts]: "LPI_CTRL_STATUS_PLS = 0x00020000"
definition LPI_CTRL_STATUS_LPIEN :: u32 where [hw_consts]: "LPI_CTRL_STATUS_LPIEN = 0x00010000"
definition LPI_CTRL_STATUS_RLPIST :: u32 where [hw_consts]: "LPI_CTRL_STATUS_RLPIST = 0x00000200"
definition LPI_CTRL_STATUS_TLPIST :: u32 where [hw_consts]: "LPI_CTRL_STATUS_TLPIST = 0x00000100"
definition LPI_CTRL_STATUS_RLPIEX :: u32 where [hw_consts]: "LPI_CTRL_STATUS_RLPIEX = 0x00000008"
definition LPI_CTRL_STATUS_RLPIEN :: u32 where [hw_consts]: "LPI_CTRL_STATUS_RLPIEN = 0x00000004"
definition LPI_CTRL_STATUS_TLPIEX :: u32 where [hw_consts]: "LPI_CTRL_STATUS_TLPIEX = 0x00000002"
definition LPI_CTRL_STATUS_TLPIEN :: u32 where [hw_consts]: "LPI_CTRL_STATUS_TLPIEN = 0x00000001"
definition GMAC_MAX_PERFECT_ADDRESSES :: u32 where [hw_consts]: "GMAC_MAX_PERFECT_ADDRESSES = 32"
definition GMAC_AN_CTRL :: u32 where [hw_consts]: "GMAC_AN_CTRL = 0x000000c0"
definition GMAC_AN_STATUS :: u32 where [hw_consts]: "GMAC_AN_STATUS = 0x000000c4"
definition GMAC_ANE_ADV :: u32 where [hw_consts]: "GMAC_ANE_ADV = 0x000000c8"
definition GMAC_ANE_LPA :: u32 where [hw_consts]: "GMAC_ANE_LPA = 0x000000cc"
definition GMAC_ANE_EXP :: u32 where [hw_consts]: "GMAC_ANE_EXP = 0x000000d0"
definition GMAC_TBI :: u32 where [hw_consts]: "GMAC_TBI = 0x000000d4"
definition GMAC_S_R_GMII :: u32 where [hw_consts]: "GMAC_S_R_GMII = 0x000000d8"
definition GMAC_AN_CTRL_RAN :: u32 where [hw_consts]: "GMAC_AN_CTRL_RAN = 0x00000200"
definition GMAC_AN_CTRL_ANE :: u32 where [hw_consts]: "GMAC_AN_CTRL_ANE = 0x00001000"
definition GMAC_AN_CTRL_ELE :: u32 where [hw_consts]: "GMAC_AN_CTRL_ELE = 0x00004000"
definition GMAC_AN_CTRL_ECD :: u32 where [hw_consts]: "GMAC_AN_CTRL_ECD = 0x00010000"
definition GMAC_AN_CTRL_LR :: u32 where [hw_consts]: "GMAC_AN_CTRL_LR = 0x00020000"
definition GMAC_AN_CTRL_SGMRAL :: u32 where [hw_consts]: "GMAC_AN_CTRL_SGMRAL = 0x00040000"
definition GMAC_AN_STATUS_LS :: u32 where [hw_consts]: "GMAC_AN_STATUS_LS = 0x00000004"
definition GMAC_AN_STATUS_ANA :: u32 where [hw_consts]: "GMAC_AN_STATUS_ANA = 0x00000008"
definition GMAC_AN_STATUS_ANC :: u32 where [hw_consts]: "GMAC_AN_STATUS_ANC = 0x00000020"
definition GMAC_AN_STATUS_ES :: u32 where [hw_consts]: "GMAC_AN_STATUS_ES = 0x00000100"
definition GMAC_S_R_GMII_LINK :: u32 where [hw_consts]: "GMAC_S_R_GMII_LINK = 0x8"
definition GMAC_S_R_GMII_SPEED :: u32 where [hw_consts]: "GMAC_S_R_GMII_SPEED = 0x5"
definition GMAC_S_R_GMII_SPEED_SHIFT :: u32 where [hw_consts]: "GMAC_S_R_GMII_SPEED_SHIFT = 0x1"
definition GMAC_S_R_GMII_MODE :: u32 where [hw_consts]: "GMAC_S_R_GMII_MODE = 0x1"
definition GMAC_S_R_GMII_SPEED_125 :: u32 where [hw_consts]: "GMAC_S_R_GMII_SPEED_125 = 2"
definition GMAC_S_R_GMII_SPEED_25 :: u32 where [hw_consts]: "GMAC_S_R_GMII_SPEED_25 = 1"
definition GMAC_ANE_FD :: u32 where [hw_consts]: "GMAC_ANE_FD = 0x20"
definition GMAC_ANE_HD :: u32 where [hw_consts]: "GMAC_ANE_HD = 0x40"
definition GMAC_ANE_PSE :: u32 where [hw_consts]: "GMAC_ANE_PSE = 0x180"
definition GMAC_ANE_PSE_SHIFT :: u32 where [hw_consts]: "GMAC_ANE_PSE_SHIFT = 7"
definition GMAC_CONTROL_TC :: u32 where [hw_consts]: "GMAC_CONTROL_TC = 0x01000000"
definition GMAC_CONTROL_WD :: u32 where [hw_consts]: "GMAC_CONTROL_WD = 0x00800000"
definition GMAC_CONTROL_JD :: u32 where [hw_consts]: "GMAC_CONTROL_JD = 0x00400000"
definition GMAC_CONTROL_BE :: u32 where [hw_consts]: "GMAC_CONTROL_BE = 0x00200000"
definition GMAC_CONTROL_JE :: u32 where [hw_consts]: "GMAC_CONTROL_JE = 0x00100000"

text \<open>\<open>enum inter_frame_gap\<close>.\<close>

definition GMAC_CONTROL_IFG_88 :: u32 where [hw_consts]: "GMAC_CONTROL_IFG_88 = 0x00040000"
definition GMAC_CONTROL_IFG_80 :: u32 where [hw_consts]: "GMAC_CONTROL_IFG_80 = 0x00020000"
definition GMAC_CONTROL_IFG_40 :: u32 where [hw_consts]: "GMAC_CONTROL_IFG_40 = 0x000e0000"
definition GMAC_CONTROL_DCRS :: u32 where [hw_consts]: "GMAC_CONTROL_DCRS = 0x00010000"
definition GMAC_CONTROL_PS :: u32 where [hw_consts]: "GMAC_CONTROL_PS = 0x00008000"
definition GMAC_CONTROL_FES :: u32 where [hw_consts]: "GMAC_CONTROL_FES = 0x00004000"
definition GMAC_CONTROL_DO :: u32 where [hw_consts]: "GMAC_CONTROL_DO = 0x00002000"
definition GMAC_CONTROL_LM :: u32 where [hw_consts]: "GMAC_CONTROL_LM = 0x00001000"
definition GMAC_CONTROL_DM :: u32 where [hw_consts]: "GMAC_CONTROL_DM = 0x00000800"
definition GMAC_CONTROL_IPC :: u32 where [hw_consts]: "GMAC_CONTROL_IPC = 0x00000400"
definition GMAC_CONTROL_DR :: u32 where [hw_consts]: "GMAC_CONTROL_DR = 0x00000200"
definition GMAC_CONTROL_LUD :: u32 where [hw_consts]: "GMAC_CONTROL_LUD = 0x00000100"
definition GMAC_CONTROL_ACS :: u32 where [hw_consts]: "GMAC_CONTROL_ACS = 0x00000080"
definition GMAC_CONTROL_DC :: u32 where [hw_consts]: "GMAC_CONTROL_DC = 0x00000010"
definition GMAC_CONTROL_TE :: u32 where [hw_consts]: "GMAC_CONTROL_TE = 0x00000008"
definition GMAC_CONTROL_RE :: u32 where [hw_consts]: "GMAC_CONTROL_RE = 0x00000004"
definition GMAC_CORE_INIT :: u32 where [hw_consts]:
  "GMAC_CORE_INIT = GMAC_CONTROL_JD OR GMAC_CONTROL_PS OR GMAC_CONTROL_ACS OR GMAC_CONTROL_JE OR GMAC_CONTROL_BE"
definition GMAC_FRAME_FILTER_PR :: u32 where [hw_consts]: "GMAC_FRAME_FILTER_PR = 0x00000001"
definition GMAC_FRAME_FILTER_HUC :: u32 where [hw_consts]: "GMAC_FRAME_FILTER_HUC = 0x00000002"
definition GMAC_FRAME_FILTER_HMC :: u32 where [hw_consts]: "GMAC_FRAME_FILTER_HMC = 0x00000004"
definition GMAC_FRAME_FILTER_DAIF :: u32 where [hw_consts]: "GMAC_FRAME_FILTER_DAIF = 0x00000008"
definition GMAC_FRAME_FILTER_PM :: u32 where [hw_consts]: "GMAC_FRAME_FILTER_PM = 0x00000010"
definition GMAC_FRAME_FILTER_DBF :: u32 where [hw_consts]: "GMAC_FRAME_FILTER_DBF = 0x00000020"
definition GMAC_FRAME_FILTER_SAIF :: u32 where [hw_consts]: "GMAC_FRAME_FILTER_SAIF = 0x00000100"
definition GMAC_FRAME_FILTER_SAF :: u32 where [hw_consts]: "GMAC_FRAME_FILTER_SAF = 0x00000200"
definition GMAC_FRAME_FILTER_HPF :: u32 where [hw_consts]: "GMAC_FRAME_FILTER_HPF = 0x00000400"
definition GMAC_FRAME_FILTER_RA :: u32 where [hw_consts]: "GMAC_FRAME_FILTER_RA = 0x80000000"
definition GMAC_MII_ADDR_WRITE :: u32 where [hw_consts]: "GMAC_MII_ADDR_WRITE = 0x00000002"
definition GMAC_MII_ADDR_BUSY :: u32 where [hw_consts]: "GMAC_MII_ADDR_BUSY = 0x00000001"
definition GMAC_FLOW_CTRL_PT_MASK :: u32 where [hw_consts]: "GMAC_FLOW_CTRL_PT_MASK = 0xffff0000"
definition GMAC_FLOW_CTRL_PT_SHIFT :: u32 where [hw_consts]: "GMAC_FLOW_CTRL_PT_SHIFT = 16"
definition GMAC_FLOW_CTRL_RFE :: u32 where [hw_consts]: "GMAC_FLOW_CTRL_RFE = 0x00000004"
definition GMAC_FLOW_CTRL_TFE :: u32 where [hw_consts]: "GMAC_FLOW_CTRL_TFE = 0x00000002"
definition GMAC_FLOW_CTRL_FCB_BPA :: u32 where [hw_consts]: "GMAC_FLOW_CTRL_FCB_BPA = 0x00000001"
definition DMA_BUS_MODE_SFT_RESET :: u32 where [hw_consts]: "DMA_BUS_MODE_SFT_RESET = 0x00000001"
definition DMA_BUS_MODE_DA :: u32 where [hw_consts]: "DMA_BUS_MODE_DA = 0x00000002"
definition DMA_BUS_MODE_DSL_MASK :: u32 where [hw_consts]: "DMA_BUS_MODE_DSL_MASK = 0x0000007c"
definition DMA_BUS_MODE_DSL_SHIFT :: u32 where [hw_consts]: "DMA_BUS_MODE_DSL_SHIFT = 2"
definition DMA_BUS_MODE_PBL_MASK :: u32 where [hw_consts]: "DMA_BUS_MODE_PBL_MASK = 0x00003f00"
definition DMA_BUS_MODE_PBL_SHIFT :: u32 where [hw_consts]: "DMA_BUS_MODE_PBL_SHIFT = 8"
definition DMA_BUS_MODE_ATDS :: u32 where [hw_consts]: "DMA_BUS_MODE_ATDS = 0x00000080"

text \<open>\<open>enum rx_tx_priority_ratio\<close>.\<close>

definition double_ratio :: u32 where [hw_consts]: "double_ratio = 0x00004000"
definition triple_ratio :: u32 where [hw_consts]: "triple_ratio = 0x00008000"
definition quadruple_ratio :: u32 where [hw_consts]: "quadruple_ratio = 0x0000c000"
definition DMA_BUS_MODE_FB :: u32 where [hw_consts]: "DMA_BUS_MODE_FB = 0x00010000"
definition DMA_BUS_MODE_MB :: u32 where [hw_consts]: "DMA_BUS_MODE_MB = 0x04000000"
definition DMA_BUS_MODE_RPBL_MASK :: u32 where [hw_consts]: "DMA_BUS_MODE_RPBL_MASK = 0x003e0000"
definition DMA_BUS_MODE_RPBL_SHIFT :: u32 where [hw_consts]: "DMA_BUS_MODE_RPBL_SHIFT = 17"
definition DMA_BUS_MODE_USP :: u32 where [hw_consts]: "DMA_BUS_MODE_USP = 0x00800000"
definition DMA_BUS_MODE_PBL :: u32 where [hw_consts]: "DMA_BUS_MODE_PBL = 0x01000000"
definition DMA_BUS_MODE_AAL :: u32 where [hw_consts]: "DMA_BUS_MODE_AAL = 0x02000000"
definition DMA_HOST_TX_DESC :: u32 where [hw_consts]: "DMA_HOST_TX_DESC = 0x00001048"
definition DMA_HOST_RX_DESC :: u32 where [hw_consts]: "DMA_HOST_RX_DESC = 0x0000104c"
definition DMA_BUS_PR_RATIO_MASK :: u32 where [hw_consts]: "DMA_BUS_PR_RATIO_MASK = 0x0000c000"
definition DMA_BUS_PR_RATIO_SHIFT :: u32 where [hw_consts]: "DMA_BUS_PR_RATIO_SHIFT = 14"
definition DMA_BUS_FB :: u32 where [hw_consts]: "DMA_BUS_FB = 0x00010000"
definition DMA_CONTROL_DT :: u32 where [hw_consts]: "DMA_CONTROL_DT = 0x04000000"
definition DMA_CONTROL_RSF :: u32 where [hw_consts]: "DMA_CONTROL_RSF = 0x02000000"
definition DMA_CONTROL_DFF :: u32 where [hw_consts]: "DMA_CONTROL_DFF = 0x01000000"

text \<open>\<open>enum rfa\<close>.\<close>

definition act_full_minus_1 :: u32 where [hw_consts]: "act_full_minus_1 = 0x00800000"
definition act_full_minus_2 :: u32 where [hw_consts]: "act_full_minus_2 = 0x00800200"
definition act_full_minus_3 :: u32 where [hw_consts]: "act_full_minus_3 = 0x00800400"
definition act_full_minus_4 :: u32 where [hw_consts]: "act_full_minus_4 = 0x00800600"

text \<open>\<open>enum rfd\<close>.\<close>

definition deac_full_minus_1 :: u32 where [hw_consts]: "deac_full_minus_1 = 0x00400000"
definition deac_full_minus_2 :: u32 where [hw_consts]: "deac_full_minus_2 = 0x00400800"
definition deac_full_minus_3 :: u32 where [hw_consts]: "deac_full_minus_3 = 0x00401000"
definition deac_full_minus_4 :: u32 where [hw_consts]: "deac_full_minus_4 = 0x00401800"
definition DMA_CONTROL_TSF :: u32 where [hw_consts]: "DMA_CONTROL_TSF = 0x00200000"

text \<open>\<open>enum ttc_control\<close>.\<close>

definition DMA_CONTROL_TTC_64 :: u32 where [hw_consts]: "DMA_CONTROL_TTC_64 = 0x00000000"
definition DMA_CONTROL_TTC_128 :: u32 where [hw_consts]: "DMA_CONTROL_TTC_128 = 0x00004000"
definition DMA_CONTROL_TTC_192 :: u32 where [hw_consts]: "DMA_CONTROL_TTC_192 = 0x00008000"
definition DMA_CONTROL_TTC_256 :: u32 where [hw_consts]: "DMA_CONTROL_TTC_256 = 0x0000c000"
definition DMA_CONTROL_TTC_40 :: u32 where [hw_consts]: "DMA_CONTROL_TTC_40 = 0x00010000"
definition DMA_CONTROL_TTC_32 :: u32 where [hw_consts]: "DMA_CONTROL_TTC_32 = 0x00014000"
definition DMA_CONTROL_TTC_24 :: u32 where [hw_consts]: "DMA_CONTROL_TTC_24 = 0x00018000"
definition DMA_CONTROL_TTC_16 :: u32 where [hw_consts]: "DMA_CONTROL_TTC_16 = 0x0001c000"
definition DMA_CONTROL_TC_TX_MASK :: u32 where [hw_consts]: "DMA_CONTROL_TC_TX_MASK = 0xfffe3fff"
definition DMA_CONTROL_EFC :: u32 where [hw_consts]: "DMA_CONTROL_EFC = 0x00000100"
definition DMA_CONTROL_FEF :: u32 where [hw_consts]: "DMA_CONTROL_FEF = 0x00000080"
definition DMA_CONTROL_FUF :: u32 where [hw_consts]: "DMA_CONTROL_FUF = 0x00000040"

text \<open>\<open>enum rtc_control\<close>.\<close>

definition DMA_CONTROL_RTC_64 :: u32 where [hw_consts]: "DMA_CONTROL_RTC_64 = 0x00000000"
definition DMA_CONTROL_RTC_32 :: u32 where [hw_consts]: "DMA_CONTROL_RTC_32 = 0x00000008"
definition DMA_CONTROL_RTC_96 :: u32 where [hw_consts]: "DMA_CONTROL_RTC_96 = 0x00000010"
definition DMA_CONTROL_RTC_128 :: u32 where [hw_consts]: "DMA_CONTROL_RTC_128 = 0x00000018"
definition DMA_CONTROL_TC_RX_MASK :: u32 where [hw_consts]: "DMA_CONTROL_TC_RX_MASK = 0xffffffe7"
definition DMA_CONTROL_OSF :: u32 where [hw_consts]: "DMA_CONTROL_OSF = 0x00000004"
definition GMAC_MMC_CTRL :: u32 where [hw_consts]: "GMAC_MMC_CTRL = 0x100"
definition GMAC_MMC_RX_INTR :: u32 where [hw_consts]: "GMAC_MMC_RX_INTR = 0x104"
definition GMAC_MMC_TX_INTR :: u32 where [hw_consts]: "GMAC_MMC_TX_INTR = 0x108"
definition GMAC_MMC_RX_CSUM_OFFLOAD :: u32 where [hw_consts]: "GMAC_MMC_RX_CSUM_OFFLOAD = 0x208"

section \<open>The 10/100 core: dwmac100.h\<close>

definition MAC_CONTROL :: u32 where [hw_consts]: "MAC_CONTROL = 0x00000000"
definition MAC_ADDR_HIGH :: u32 where [hw_consts]: "MAC_ADDR_HIGH = 0x00000004"
definition MAC_ADDR_LOW :: u32 where [hw_consts]: "MAC_ADDR_LOW = 0x00000008"
definition MAC_HASH_HIGH :: u32 where [hw_consts]: "MAC_HASH_HIGH = 0x0000000c"
definition MAC_HASH_LOW :: u32 where [hw_consts]: "MAC_HASH_LOW = 0x00000010"
definition MAC_MII_ADDR :: u32 where [hw_consts]: "MAC_MII_ADDR = 0x00000014"
definition MAC_MII_DATA :: u32 where [hw_consts]: "MAC_MII_DATA = 0x00000018"
definition MAC_FLOW_CTRL :: u32 where [hw_consts]: "MAC_FLOW_CTRL = 0x0000001c"
definition MAC_VLAN1 :: u32 where [hw_consts]: "MAC_VLAN1 = 0x00000020"
definition MAC_VLAN2 :: u32 where [hw_consts]: "MAC_VLAN2 = 0x00000024"
definition MAC_CONTROL_RA :: u32 where [hw_consts]: "MAC_CONTROL_RA = 0x80000000"
definition MAC_CONTROL_BLE :: u32 where [hw_consts]: "MAC_CONTROL_BLE = 0x40000000"
definition MAC_CONTROL_HBD :: u32 where [hw_consts]: "MAC_CONTROL_HBD = 0x10000000"
definition MAC_CONTROL_PS :: u32 where [hw_consts]: "MAC_CONTROL_PS = 0x08000000"
definition MAC_CONTROL_DRO :: u32 where [hw_consts]: "MAC_CONTROL_DRO = 0x00800000"
definition MAC_CONTROL_EXT_LOOPBACK :: u32 where [hw_consts]:
  "MAC_CONTROL_EXT_LOOPBACK = 0x00400000"
definition MAC_CONTROL_OM :: u32 where [hw_consts]: "MAC_CONTROL_OM = 0x00200000"
definition MAC_CONTROL_F :: u32 where [hw_consts]: "MAC_CONTROL_F = 0x00100000"
definition MAC_CONTROL_PM :: u32 where [hw_consts]: "MAC_CONTROL_PM = 0x00080000"
definition MAC_CONTROL_PR :: u32 where [hw_consts]: "MAC_CONTROL_PR = 0x00040000"
definition MAC_CONTROL_IF :: u32 where [hw_consts]: "MAC_CONTROL_IF = 0x00020000"
definition MAC_CONTROL_PB :: u32 where [hw_consts]: "MAC_CONTROL_PB = 0x00010000"
definition MAC_CONTROL_HO :: u32 where [hw_consts]: "MAC_CONTROL_HO = 0x00008000"
definition MAC_CONTROL_HP :: u32 where [hw_consts]: "MAC_CONTROL_HP = 0x00002000"
definition MAC_CONTROL_LCC :: u32 where [hw_consts]: "MAC_CONTROL_LCC = 0x00001000"
definition MAC_CONTROL_DBF :: u32 where [hw_consts]: "MAC_CONTROL_DBF = 0x00000800"
definition MAC_CONTROL_DRTY :: u32 where [hw_consts]: "MAC_CONTROL_DRTY = 0x00000400"
definition MAC_CONTROL_ASTP :: u32 where [hw_consts]: "MAC_CONTROL_ASTP = 0x00000100"
definition MAC_CONTROL_BOLMT_10 :: u32 where [hw_consts]: "MAC_CONTROL_BOLMT_10 = 0x00000000"
definition MAC_CONTROL_BOLMT_8 :: u32 where [hw_consts]: "MAC_CONTROL_BOLMT_8 = 0x00000040"
definition MAC_CONTROL_BOLMT_4 :: u32 where [hw_consts]: "MAC_CONTROL_BOLMT_4 = 0x00000080"
definition MAC_CONTROL_BOLMT_1 :: u32 where [hw_consts]: "MAC_CONTROL_BOLMT_1 = 0x000000c0"
definition MAC_CONTROL_DC :: u32 where [hw_consts]: "MAC_CONTROL_DC = 0x00000020"
definition MAC_CONTROL_TE :: u32 where [hw_consts]: "MAC_CONTROL_TE = 0x00000008"
definition MAC_CONTROL_RE :: u32 where [hw_consts]: "MAC_CONTROL_RE = 0x00000004"
definition MAC_CORE_INIT :: u32 where [hw_consts]:
  "MAC_CORE_INIT = MAC_CONTROL_HBD OR MAC_CONTROL_ASTP"
definition MAC_FLOW_CTRL_PT_MASK :: u32 where [hw_consts]: "MAC_FLOW_CTRL_PT_MASK = 0xffff0000"
definition MAC_FLOW_CTRL_PT_SHIFT :: u32 where [hw_consts]: "MAC_FLOW_CTRL_PT_SHIFT = 16"
definition MAC_FLOW_CTRL_PASS :: u32 where [hw_consts]: "MAC_FLOW_CTRL_PASS = 0x00000004"
definition MAC_FLOW_CTRL_ENABLE :: u32 where [hw_consts]: "MAC_FLOW_CTRL_ENABLE = 0x00000002"
definition MAC_FLOW_CTRL_PAUSE :: u32 where [hw_consts]: "MAC_FLOW_CTRL_PAUSE = 0x00000001"
definition MAC_MII_ADDR_WRITE :: u32 where [hw_consts]: "MAC_MII_ADDR_WRITE = 0x00000002"
definition MAC_MII_ADDR_BUSY :: u32 where [hw_consts]: "MAC_MII_ADDR_BUSY = 0x00000001"
definition DMA_BUS_MODE_DBO :: u32 where [hw_consts]: "DMA_BUS_MODE_DBO = 0x00100000"
definition DMA_BUS_MODE_BLE :: u32 where [hw_consts]: "DMA_BUS_MODE_BLE = 0x00000080"
definition DMA_BUS_MODE_BAR_BUS :: u32 where [hw_consts]: "DMA_BUS_MODE_BAR_BUS = 0x00000002"
definition DMA_BUS_MODE_DEFAULT :: u32 where [hw_consts]: "DMA_BUS_MODE_DEFAULT = 0x00000000"
definition DMA_CONTROL_SF :: u32 where [hw_consts]: "DMA_CONTROL_SF = 0x00200000"

text \<open>\<open>enum ttc_control\<close>.\<close>

definition DMA_CONTROL_TTC_DEFAULT :: u32 where [hw_consts]: "DMA_CONTROL_TTC_DEFAULT = 0x00000000"
definition DMA_CONTROL_TTC_64_100 :: u32 where [hw_consts]: "DMA_CONTROL_TTC_64_100 = 0x00004000"
definition DMA_CONTROL_TTC_128_100 :: u32 where [hw_consts]: "DMA_CONTROL_TTC_128_100 = 0x00008000"
definition DMA_CONTROL_TTC_18 :: u32 where [hw_consts]: "DMA_CONTROL_TTC_18 = 0x00400000"
definition DMA_CONTROL_TTC_24_100 :: u32 where [hw_consts]: "DMA_CONTROL_TTC_24_100 = 0x00404000"
definition DMA_CONTROL_TTC_32_100 :: u32 where [hw_consts]: "DMA_CONTROL_TTC_32_100 = 0x00408000"
definition DMA_CONTROL_TTC_40_100 :: u32 where [hw_consts]: "DMA_CONTROL_TTC_40_100 = 0x0040c000"
definition DMA_CONTROL_SE :: u32 where [hw_consts]: "DMA_CONTROL_SE = 0x00000008"
definition DMA_MISSED_FRAME_OVE :: u32 where [hw_consts]: "DMA_MISSED_FRAME_OVE = 0x10000000"
definition DMA_MISSED_FRAME_OVE_CNTR :: u32 where [hw_consts]:
  "DMA_MISSED_FRAME_OVE_CNTR = 0x0ffe0000"
definition DMA_MISSED_FRAME_OVE_M :: u32 where [hw_consts]: "DMA_MISSED_FRAME_OVE_M = 0x00010000"
definition DMA_MISSED_FRAME_M_CNTR :: u32 where [hw_consts]: "DMA_MISSED_FRAME_M_CNTR = 0x0000ffff"

section \<open>Macros with an argument\<close>

text \<open>The two address registers of the GMAC for the slot \<open>reg\<close>.\<close>

definition GMAC_ADDR_HIGH :: "u32 \<Rightarrow> u32" where
  "GMAC_ADDR_HIGH reg = (if reg > 15 then 0x00000800 else 0x00000040) + reg * 8"

definition GMAC_ADDR_LOW :: "u32 \<Rightarrow> u32" where
  "GMAC_ADDR_LOW reg = (if reg > 15 then 0x00000804 else 0x00000044) + reg * 8"

end
