(* ===== verification/Stats.thy ===== *)
theory Stats
  imports Drv_Prelude
begin

text \<open>
  The counters of the driver: \<open>struct stmmac_extra_stats\<close> of \<open>common.h\<close>, member by member
  (\<open>unsigned long\<close> is 32 bits wide on the target, so a counter wraps at \<open>2 ^ 32\<close>), and the
  members of the kernel's \<open>struct net_device_stats\<close> the driver updates.
\<close>

record stmmac_extra_stats =
  \<comment> \<open>Transmit errors\<close>
  tx_underflow :: u32
  tx_carrier :: u32
  tx_losscarrier :: u32
  vlan_tag :: u32
  tx_deferred :: u32
  tx_vlan :: u32
  tx_jabber :: u32
  tx_frame_flushed :: u32
  tx_payload_error :: u32
  tx_ip_header_error :: u32
  \<comment> \<open>Receive errors\<close>
  rx_desc :: u32
  sa_filter_fail :: u32
  overflow_error :: u32
  ipc_csum_error :: u32
  rx_collision :: u32
  rx_crc :: u32
  dribbling_bit :: u32
  rx_length :: u32
  rx_mii :: u32
  rx_multicast :: u32
  rx_gmac_overflow :: u32
  rx_watchdog :: u32
  da_rx_filter_fail :: u32
  sa_rx_filter_fail :: u32
  rx_missed_cntr :: u32
  rx_overflow_cntr :: u32
  rx_vlan :: u32
  \<comment> \<open>Tx/Rx IRQ error info\<close>
  tx_undeflow_irq :: u32
  tx_process_stopped_irq :: u32
  tx_jabber_irq :: u32
  rx_overflow_irq :: u32
  rx_buf_unav_irq :: u32
  rx_process_stopped_irq :: u32
  rx_watchdog_irq :: u32
  tx_early_irq :: u32
  fatal_bus_error_irq :: u32
  \<comment> \<open>Tx/Rx IRQ Events\<close>
  rx_early_irq :: u32
  threshold :: u32
  tx_pkt_n :: u32
  rx_pkt_n :: u32
  normal_irq_n :: u32
  rx_normal_irq_n :: u32
  napi_poll :: u32
  tx_normal_irq_n :: u32
  tx_clean :: u32
  tx_reset_ic_bit :: u32
  irq_receive_pmt_irq_n :: u32
  \<comment> \<open>MMC info\<close>
  mmc_tx_irq_n :: u32
  mmc_rx_irq_n :: u32
  mmc_rx_csum_offload_irq_n :: u32
  \<comment> \<open>EEE\<close>
  irq_tx_path_in_lpi_mode_n :: u32
  irq_tx_path_exit_lpi_mode_n :: u32
  irq_rx_path_in_lpi_mode_n :: u32
  irq_rx_path_exit_lpi_mode_n :: u32
  phy_eee_wakeup_error_n :: u32
  \<comment> \<open>Extended RDES status\<close>
  ip_hdr_err :: u32
  ip_payload_err :: u32
  ip_csum_bypassed :: u32
  ipv4_pkt_rcvd :: u32
  ipv6_pkt_rcvd :: u32
  rx_msg_type_ext_no_ptp :: u32
  rx_msg_type_sync :: u32
  rx_msg_type_follow_up :: u32
  rx_msg_type_delay_req :: u32
  rx_msg_type_delay_resp :: u32
  rx_msg_type_pdelay_req :: u32
  rx_msg_type_pdelay_resp :: u32
  rx_msg_type_pdelay_follow_up :: u32
  ptp_frame_type :: u32
  ptp_ver :: u32
  timestamp_dropped :: u32
  av_pkt_rcvd :: u32
  av_tagged_pkt_rcvd :: u32
  vlan_tag_priority_val :: u32
  l3_filter_match :: u32
  l4_filter_match :: u32
  l3_l4_filter_no_match :: u32
  \<comment> \<open>PCS\<close>
  irq_pcs_ane_n :: u32
  irq_pcs_link_n :: u32
  irq_rgmii_n :: u32
  pcs_link :: u32
  pcs_duplex :: u32
  pcs_speed :: u32

record net_device_stats =
  rx_packets :: u32
  tx_packets :: u32
  rx_bytes :: u32
  tx_bytes :: u32
  rx_errors :: u32
  tx_errors :: u32
  rx_dropped :: u32
  collisions :: u32
  rx_length_errors :: u32
  rx_over_errors :: u32
  rx_crc_errors :: u32
  rx_missed_errors :: u32
  tx_carrier_errors :: u32
  tx_fifo_errors :: u32

definition zero_stats :: net_device_stats where
  "zero_stats = \<lparr>rx_packets = 0, tx_packets = 0, rx_bytes = 0, tx_bytes = 0, rx_errors = 0,
     tx_errors = 0, rx_dropped = 0, collisions = 0, rx_length_errors = 0, rx_over_errors = 0,
     rx_crc_errors = 0, rx_missed_errors = 0, tx_carrier_errors = 0, tx_fifo_errors = 0\<rparr>"

text \<open>All counters cleared, as \<open>memset(&priv->xstats, 0, ...)\<close> leaves them.\<close>

definition zero_xstats :: stmmac_extra_stats where
  "zero_xstats = \<lparr>tx_underflow = 0, tx_carrier = 0, tx_losscarrier = 0, vlan_tag = 0,
     tx_deferred = 0, tx_vlan = 0, tx_jabber = 0, tx_frame_flushed = 0, tx_payload_error = 0,
     tx_ip_header_error = 0, rx_desc = 0, sa_filter_fail = 0, overflow_error = 0, ipc_csum_error =
     0, rx_collision = 0, rx_crc = 0, dribbling_bit = 0, rx_length = 0, rx_mii = 0, rx_multicast =
     0, rx_gmac_overflow = 0, rx_watchdog = 0, da_rx_filter_fail = 0, sa_rx_filter_fail = 0,
     rx_missed_cntr = 0, rx_overflow_cntr = 0, rx_vlan = 0, tx_undeflow_irq = 0,
     tx_process_stopped_irq = 0, tx_jabber_irq = 0, rx_overflow_irq = 0, rx_buf_unav_irq = 0,
     rx_process_stopped_irq = 0, rx_watchdog_irq = 0, tx_early_irq = 0, fatal_bus_error_irq = 0,
     rx_early_irq = 0, threshold = 0, tx_pkt_n = 0, rx_pkt_n = 0, normal_irq_n = 0,
     rx_normal_irq_n = 0, napi_poll = 0, tx_normal_irq_n = 0, tx_clean = 0, tx_reset_ic_bit = 0,
     irq_receive_pmt_irq_n = 0, mmc_tx_irq_n = 0, mmc_rx_irq_n = 0, mmc_rx_csum_offload_irq_n = 0,
     irq_tx_path_in_lpi_mode_n = 0, irq_tx_path_exit_lpi_mode_n = 0, irq_rx_path_in_lpi_mode_n =
     0, irq_rx_path_exit_lpi_mode_n = 0, phy_eee_wakeup_error_n = 0, ip_hdr_err = 0,
     ip_payload_err = 0, ip_csum_bypassed = 0, ipv4_pkt_rcvd = 0, ipv6_pkt_rcvd = 0,
     rx_msg_type_ext_no_ptp = 0, rx_msg_type_sync = 0, rx_msg_type_follow_up = 0,
     rx_msg_type_delay_req = 0, rx_msg_type_delay_resp = 0, rx_msg_type_pdelay_req = 0,
     rx_msg_type_pdelay_resp = 0, rx_msg_type_pdelay_follow_up = 0, ptp_frame_type = 0, ptp_ver =
     0, timestamp_dropped = 0, av_pkt_rcvd = 0, av_tagged_pkt_rcvd = 0, vlan_tag_priority_val = 0,
     l3_filter_match = 0, l4_filter_match = 0, l3_l4_filter_no_match = 0, irq_pcs_ane_n = 0,
     irq_pcs_link_n = 0, irq_rgmii_n = 0, pcs_link = 0, pcs_duplex = 0, pcs_speed = 0\<rparr>"

end
