(* ===== verification/Dwmac_Lib.thy ===== *)
theory Dwmac_Lib
  imports Hw_Consts Stats
begin

text \<open>
  The routines both cores share, of \<open>dwmac_lib.c\<close>: starting and stopping the two DMA
  directions, the DMA interrupt, flushing the transmit FIFO, the station address registers and
  the receiver/transmitter enable; and the polling of the software reset, which \<open>dma_init\<close> of both
  cores contains. A \<open>u8\<close> array of six elements is a list of six bytes. Messages to the log are
  not modelled, here and in the other theories. The two contracts the driver relies on are the
  locales \<open>reg_switch\<close>, a flag of the DMA control register with its start and stop routines, and
  \<open>umac_regs\<close>, an address register with its set and get routines.
\<close>

section \<open>Starting and stopping\<close>

definition GMAC_HI_REG_AE :: u32 where [hw_consts]: "GMAC_HI_REG_AE = 0x80000000"

definition dwmac_enable_dma_transmission :: "'w env \<Rightarrow> u32 \<Rightarrow> 'w \<Rightarrow> 'w" where
  "dwmac_enable_dma_transmission e ioaddr w = writel e 1 (ioaddr + DMA_XMT_POLL_DEMAND) w"

definition dwmac_enable_dma_irq :: "'w env \<Rightarrow> u32 \<Rightarrow> 'w \<Rightarrow> 'w" where
  "dwmac_enable_dma_irq e ioaddr w = writel e DMA_INTR_DEFAULT_MASK (ioaddr + DMA_INTR_ENA) w"

definition dwmac_disable_dma_irq :: "'w env \<Rightarrow> u32 \<Rightarrow> 'w \<Rightarrow> 'w" where
  "dwmac_disable_dma_irq e ioaddr w = writel e 0 (ioaddr + DMA_INTR_ENA) w"

definition dwmac_dma_start_tx :: "'w env \<Rightarrow> u32 \<Rightarrow> 'w \<Rightarrow> 'w" where
  "dwmac_dma_start_tx e ioaddr w =
     rmw e (ioaddr + DMA_CONTROL) (\<lambda>value. value OR DMA_CONTROL_ST) w"

definition dwmac_dma_stop_tx :: "'w env \<Rightarrow> u32 \<Rightarrow> 'w \<Rightarrow> 'w" where
  "dwmac_dma_stop_tx e ioaddr w =
     rmw e (ioaddr + DMA_CONTROL) (\<lambda>value. value AND NOT DMA_CONTROL_ST) w"

definition dwmac_dma_start_rx :: "'w env \<Rightarrow> u32 \<Rightarrow> 'w \<Rightarrow> 'w" where
  "dwmac_dma_start_rx e ioaddr w =
     rmw e (ioaddr + DMA_CONTROL) (\<lambda>value. value OR DMA_CONTROL_SR) w"

definition dwmac_dma_stop_rx :: "'w env \<Rightarrow> u32 \<Rightarrow> 'w \<Rightarrow> 'w" where
  "dwmac_dma_stop_rx e ioaddr w =
     rmw e (ioaddr + DMA_CONTROL) (\<lambda>value. value AND NOT DMA_CONTROL_SR) w"

definition stmmac_set_mac :: "'w env \<Rightarrow> u32 \<Rightarrow> bool \<Rightarrow> 'w \<Rightarrow> 'w" where
  "stmmac_set_mac e ioaddr enable w =
     rmw e (ioaddr + MAC_CTRL_REG)
       (\<lambda>value. if enable then value OR (MAC_RNABLE_RX OR MAC_ENABLE_TX)
                else value AND NOT (MAC_ENABLE_TX OR MAC_RNABLE_RX)) w"

section \<open>The DMA interrupt\<close>

text \<open>\<open>enum dma_irq_status\<close> is in \<open>Hw_Consts\<close>; a result is a 32-bit set of these flags.\<close>

definition dma_abnormal_irq :: "u32 \<Rightarrow> stmmac_extra_stats \<Rightarrow> u32 \<times> stmmac_extra_stats" where
  "dma_abnormal_irq intr_status x =
     (let unf = tst intr_status DMA_STATUS_UNF;
          ret = (if unf then tx_hard_error_bump_tc else 0);
          x = doif unf (tx_undeflow_irq_update inc) x;
          x = doif (tst intr_status DMA_STATUS_TJT) (tx_jabber_irq_update inc) x;
          x = doif (tst intr_status DMA_STATUS_OVF) (rx_overflow_irq_update inc) x;
          x = doif (tst intr_status DMA_STATUS_RU) (rx_buf_unav_irq_update inc) x;
          x = doif (tst intr_status DMA_STATUS_RPS) (rx_process_stopped_irq_update inc) x;
          x = doif (tst intr_status DMA_STATUS_RWT) (rx_watchdog_irq_update inc) x;
          x = doif (tst intr_status DMA_STATUS_ETI) (tx_early_irq_update inc) x;
          tps = tst intr_status DMA_STATUS_TPS;
          x = doif tps (tx_process_stopped_irq_update inc) x;
          ret = (if tps then tx_hard_error else ret);
          fbi = tst intr_status DMA_STATUS_FBI;
          x = doif fbi (fatal_bus_error_irq_update inc) x;
          ret = (if fbi then tx_hard_error else ret)
      in (ret, x))"

definition dma_normal_irq ::
    "'w env \<Rightarrow> u32 \<Rightarrow> u32 \<Rightarrow> u32 \<Rightarrow> stmmac_extra_stats \<Rightarrow> 'w \<Rightarrow> u32 \<times> stmmac_extra_stats \<times> 'w" where
  "dma_normal_irq e ioaddr intr_status ret x w =
     (let x = normal_irq_n_update inc x;
          (ret, x, w) =
            (if tst intr_status DMA_STATUS_RI
             then (let (value, w) = readl e (ioaddr + DMA_INTR_ENA) w
                   in if tst value DMA_INTR_ENA_RIE
                      then (ret OR handle_rx, rx_normal_irq_n_update inc x, w)
                      else (ret, x, w))
             else (ret, x, w));
          (ret, x) =
            (if tst intr_status DMA_STATUS_TI then (ret OR handle_tx, tx_normal_irq_n_update inc x)
             else (ret, x));
          x = doif (tst intr_status DMA_STATUS_ERI) (rx_early_irq_update inc) x
      in (ret, x, w))"

definition dwmac_dma_interrupt ::
    "'w env \<Rightarrow> u32 \<Rightarrow> stmmac_extra_stats \<Rightarrow> 'w \<Rightarrow> u32 \<times> stmmac_extra_stats \<times> 'w" where
  "dwmac_dma_interrupt e ioaddr x w =
     (let (intr_status, w) = readl e (ioaddr + DMA_STATUS) w;
          (ret, x) = (if tst intr_status DMA_STATUS_AIS then dma_abnormal_irq intr_status x
                      else (0, x));
          (ret, x, w) = (if tst intr_status DMA_STATUS_NIS
                         then dma_normal_irq e ioaddr intr_status ret x w else (ret, x, w));
          w = writel e (intr_status AND 0x1ffff) (ioaddr + DMA_STATUS) w
      in (ret, x, w))"

section \<open>Polling\<close>

text \<open>
  \<open>do {} while (readl(DMA_CONTROL) & DMA_CONTROL_FTF)\<close> has no bound in the source: \<open>None\<close> is a
  loop that never ends.
\<close>

partial_function (option) wait_ftf_clear :: "'w env \<Rightarrow> u32 \<Rightarrow> 'w \<Rightarrow> 'w option" where
  [code]: "wait_ftf_clear e ioaddr w =
     (let (v, w) = readl e (ioaddr + DMA_CONTROL) w
      in if tst v DMA_CONTROL_FTF then wait_ftf_clear e ioaddr w else Some w)"

definition dwmac_dma_flush_tx_fifo :: "'w env \<Rightarrow> u32 \<Rightarrow> 'w \<Rightarrow> 'w option" where
  "dwmac_dma_flush_tx_fifo e ioaddr w =
     wait_ftf_clear e ioaddr
       (rmw e (ioaddr + DMA_CONTROL) (\<lambda>csr6. csr6 OR DMA_CONTROL_FTF) w)"

text \<open>
  The software reset of both \<open>dma_init\<close>: the loop \<open>while (limit--)\<close> reads the bus mode register
  and waits 10 ms while the reset bit is set; the flag of the result says the reset ended.
\<close>

primrec dma_reset_poll :: "'w env \<Rightarrow> u32 \<Rightarrow> nat \<Rightarrow> 'w \<Rightarrow> bool \<times> 'w" where
  "dma_reset_poll e ioaddr 0 w = (False, w)"
| "dma_reset_poll e ioaddr (Suc limit) w =
     (let (v, w) = readl e (ioaddr + DMA_BUS_MODE) w
      in if \<not> tst v DMA_BUS_MODE_SFT_RESET then (True, w)
         else dma_reset_poll e ioaddr limit (kdo e ''mdelay'' [I 10] w))"

section \<open>Station addresses\<close>

definition stmmac_set_mac_addr :: "'w env \<Rightarrow> u32 \<Rightarrow> u8 list \<Rightarrow> u32 \<Rightarrow> u32 \<Rightarrow> 'w \<Rightarrow> 'w" where
  "stmmac_set_mac_addr e ioaddr addr high low w =
     (let data = push_bit 8 (ucast (addr ! 5)) OR ucast (addr ! 4);
          w = writel e (data OR GMAC_HI_REG_AE) (ioaddr + high) w;
          data = push_bit 24 (ucast (addr ! 3)) OR push_bit 16 (ucast (addr ! 2)) OR
                 push_bit 8 (ucast (addr ! 1)) OR ucast (addr ! 0)
      in writel e data (ioaddr + low) w)"

definition stmmac_get_mac_addr :: "'w env \<Rightarrow> u32 \<Rightarrow> u32 \<Rightarrow> u32 \<Rightarrow> 'w \<Rightarrow> u8 list \<times> 'w" where
  "stmmac_get_mac_addr e ioaddr high low w =
     (let (hi_addr, w) = readl e (ioaddr + high) w;
          (lo_addr, w) = readl e (ioaddr + low) w
      in ([ucast (lo_addr AND 0xff), ucast (drop_bit 8 lo_addr AND 0xff),
           ucast (drop_bit 16 lo_addr AND 0xff), ucast (drop_bit 24 lo_addr AND 0xff),
           ucast (hi_addr AND 0xff), ucast (drop_bit 8 hi_addr AND 0xff)], w))"

section \<open>A flag of the control register and its two routines\<close>

text \<open>
  What the driver expects of a pair of routines that start and stop one direction: each sets its
  own flag as named and leaves every other read/write bit of the device alone.
\<close>

locale reg_switch =
  fixes start stop :: "'w env \<Rightarrow> u32 \<Rightarrow> 'w \<Rightarrow> 'w"
    and reg flag :: u32
  assumes start_on: "rw_regs e M \<Longrightarrow> flag AND M (ioaddr + reg) = flag \<Longrightarrow>
      tst (peek e (ioaddr + reg) (start e ioaddr w)) flag"
    and stop_off: "rw_regs e M \<Longrightarrow> flag AND M (ioaddr + reg) = flag \<Longrightarrow>
      \<not> tst (peek e (ioaddr + reg) (stop e ioaddr w)) flag"
    and start_frame: "rw_regs e M \<Longrightarrow> flag AND M (ioaddr + reg) = flag \<Longrightarrow> k AND M a = k \<Longrightarrow>
      a \<noteq> ioaddr + reg \<or> flag AND k = 0 \<Longrightarrow>
      tst (peek e a (start e ioaddr w)) k = tst (peek e a w) k"
    and stop_frame: "rw_regs e M \<Longrightarrow> flag AND M (ioaddr + reg) = flag \<Longrightarrow> k AND M a = k \<Longrightarrow>
      a \<noteq> ioaddr + reg \<or> flag AND k = 0 \<Longrightarrow>
      tst (peek e a (stop e ioaddr w)) k = tst (peek e a w) k"
begin

definition switch :: "'w env \<Rightarrow> u32 \<Rightarrow> bool \<Rightarrow> 'w \<Rightarrow> 'w" where
  "switch e ioaddr on = (if on then start e ioaddr else stop e ioaddr)"

lemma switch_flag:
  "rw_regs e M \<Longrightarrow> flag AND M (ioaddr + reg) = flag \<Longrightarrow>
     tst (peek e (ioaddr + reg) (switch e ioaddr on w)) flag = on"
  by (simp add: switch_def start_on stop_off)

lemma switch_frame:
  "rw_regs e M \<Longrightarrow> flag AND M (ioaddr + reg) = flag \<Longrightarrow> k AND M a = k \<Longrightarrow>
     a \<noteq> ioaddr + reg \<or> flag AND k = 0 \<Longrightarrow>
     tst (peek e a (switch e ioaddr on w)) k = tst (peek e a w) k"
  by (cases on) (simp_all add: switch_def start_frame stop_frame)

end

text \<open>Two routines that set and clear a flag by read-modify-write fulfil the contract.\<close>

lemma rmw_set_frame:
  assumes "rw_regs e M" and "flag \<noteq> 0" and "flag AND M b = flag" and "k AND M a = k"
    and "a \<noteq> b \<or> flag AND k = 0"
  shows "tst (peek e a (rmw e b (\<lambda>v. v OR flag) w)) k = tst (peek e a w) k"
proof (cases "a = b")
  case True
  then show ?thesis using assms by (simp add: rw_flag_same tst_or_other tst_andnot_other)
next
  case False
  have "M b \<noteq> 0" using assms(2, 3) by auto
  with False assms show ?thesis by (simp add: rw_flag_other)
qed

lemma rmw_clear_frame:
  assumes "rw_regs e M" and "flag \<noteq> 0" and "flag AND M b = flag" and "k AND M a = k"
    and "a \<noteq> b \<or> flag AND k = 0"
  shows "tst (peek e a (rmw e b (\<lambda>v. v AND NOT flag) w)) k = tst (peek e a w) k"
proof (cases "a = b")
  case True
  then show ?thesis using assms by (simp add: rw_flag_same tst_or_other tst_andnot_other)
next
  case False
  have "M b \<noteq> 0" using assms(2, 3) by auto
  with False assms show ?thesis by (simp add: rw_flag_other)
qed

lemma reg_switchI:
  assumes "flag \<noteq> 0"
    and "\<And>e ioaddr w. start e ioaddr w = rmw e (ioaddr + reg) (\<lambda>v. v OR flag) w"
    and "\<And>e ioaddr w. stop e ioaddr w = rmw e (ioaddr + reg) (\<lambda>v. v AND NOT flag) w"
  shows "reg_switch start stop reg flag"
  using assms
  by unfold_locales (simp_all add: rw_flag_same tst_or_same rmw_set_frame rmw_clear_frame)

interpretation tx_dma: reg_switch dwmac_dma_start_tx dwmac_dma_stop_tx DMA_CONTROL DMA_CONTROL_ST
  by (rule reg_switchI)
    (simp_all add: dwmac_dma_start_tx_def dwmac_dma_stop_tx_def DMA_CONTROL_ST_def)

interpretation rx_dma: reg_switch dwmac_dma_start_rx dwmac_dma_stop_rx DMA_CONTROL DMA_CONTROL_SR
  by (rule reg_switchI)
    (simp_all add: dwmac_dma_start_rx_def dwmac_dma_stop_rx_def DMA_CONTROL_SR_def)

interpretation mac_sw: reg_switch "\<lambda>e ioaddr. stmmac_set_mac e ioaddr True"
  "\<lambda>e ioaddr. stmmac_set_mac e ioaddr False" MAC_CTRL_REG "MAC_RNABLE_RX OR MAC_ENABLE_TX"
  by (rule reg_switchI) (simp_all add: stmmac_set_mac_def hw_consts or.commute)

section \<open>An address register and its two routines\<close>

text \<open>The bits of the two registers that hold an address read back as written.\<close>

definition addr_bits_rw :: "(u32 \<Rightarrow> u32) \<Rightarrow> u32 \<Rightarrow> u32 \<Rightarrow> u32 \<Rightarrow> bool" where
  "addr_bits_rw M ioaddr high low \<longleftrightarrow>
     0xffff AND M (ioaddr + high) = 0xffff \<and> M (ioaddr + low) = - 1"

lemma addr_bits_rw_nz: "addr_bits_rw M ioaddr high low \<Longrightarrow> M (ioaddr + high) \<noteq> 0 \<and> M (ioaddr + low) \<noteq> 0"
  by (auto simp: addr_bits_rw_def)

lemma list6: "length xs = 6 \<Longrightarrow> xs = [xs ! 0, xs ! 1, xs ! 2, xs ! 3, xs ! 4, xs ! 5]"
  by (rule nth_equalityI) (auto simp: less_Suc_eq numeral_eq_Suc)

lemma addr_bytes:
  fixes a b c d :: u8
  defines "x \<equiv> push_bit 24 (ucast d) OR push_bit 16 (ucast c) OR push_bit 8 (ucast b) OR (ucast a :: u32)"
  shows "ucast (x AND 0xff) = a" "ucast (drop_bit 8 x AND 0xff) = b"
    "ucast (drop_bit 16 x AND 0xff) = c" "ucast (drop_bit 24 x AND 0xff) = d"
proof -
  have m: "(0xff :: u32) = mask 8" by (simp add: mask_numeral)
  show "ucast (x AND 0xff) = a" "ucast (drop_bit 8 x AND 0xff) = b"
    "ucast (drop_bit 16 x AND 0xff) = c" "ucast (drop_bit 24 x AND 0xff) = d"
    unfolding m x_def
    by (rule bit_eqI; auto simp: bit_simps dest: bit_imp_le_length; fail)+
qed

lemma addr_hi_bytes:
  fixes a b :: u8
  assumes "h AND 0xffff = ((push_bit 8 (ucast b) OR ucast a) OR GMAC_HI_REG_AE) AND (0xffff :: u32)"
  shows "ucast (h AND 0xff) = a" "ucast (drop_bit 8 h AND 0xff) = b"
proof -
  have m: "(0xff :: u32) = mask 8" "(0xffff :: u32) = mask 16"
    by (simp_all add: mask_numeral)
  have p: "GMAC_HI_REG_AE = 2 ^ 31" by (simp add: hw_consts)
  have ae: "bit GMAC_HI_REG_AE n \<longleftrightarrow> n = 31" for n
    unfolding p by (simp only: bit_exp_iff possible_bit_word) auto
  have h: "bit h n \<longleftrightarrow> (if n < 8 then bit a n else bit b (n - 8))" if "n < 16" for n
  proof -
    have "bit (h AND mask 16) n = bit (((push_bit 8 (ucast b) OR ucast a) OR GMAC_HI_REG_AE) AND (mask 16 :: u32)) n"
      using assms by (simp only: m)
    then show ?thesis using that by (auto simp: bit_simps ae dest: bit_imp_le_length)
  qed
  show "ucast (h AND 0xff) = a" "ucast (drop_bit 8 h AND 0xff) = b"
    unfolding m by (rule bit_eqI; auto simp: bit_simps h; fail)+
qed

lemma mac_addr_get_set:
  assumes "rw_regs e M" and "length addr = 6" and "addr_bits_rw M ioaddr high low" and "high \<noteq> low"
  shows "fst (stmmac_get_mac_addr e ioaddr high low (stmmac_set_mac_addr e ioaddr addr high low w)) = addr"
proof -
  note nz = addr_bits_rw_nz [OF assms(3)]
  let ?hi = "(push_bit 8 (ucast (addr ! 5)) OR ucast (addr ! 4)) OR GMAC_HI_REG_AE :: u32"
  let ?w1 = "writel e ?hi (ioaddr + high) w"
  let ?w = "stmmac_set_mac_addr e ioaddr addr high low w"
  have sm: "0xffff AND M (ioaddr + high) = 0xffff" "M (ioaddr + low) = - 1"
    using assms(3) by (simp_all add: addr_bits_rw_def)
  have "peek e (ioaddr + high) ?w AND M (ioaddr + high) = ?hi AND M (ioaddr + high)"
    using rw_write_other [OF assms(1) conjunct2 [OF nz]] rw_write_same [OF assms(1)] assms(4)
    by (simp add: stmmac_set_mac_addr_def)
  from and_submask [OF this sm(1)]
  have hi: "peek e (ioaddr + high) ?w AND 0xffff = ?hi AND 0xffff" .
  have "peek e (ioaddr + low) (after_read e (ioaddr + high) ?w) AND - 1 = peek e (ioaddr + low) ?w AND - 1"
    using rw_read [OF assms(1) conjunct1 [OF nz], of "ioaddr + low" ?w] sm(2) by simp
  moreover have "peek e (ioaddr + low) ?w =
      push_bit 24 (ucast (addr ! 3)) OR push_bit 16 (ucast (addr ! 2)) OR
      push_bit 8 (ucast (addr ! 1)) OR ucast (addr ! 0)"
    using rw_write_same [OF assms(1), of "ioaddr + low"] sm(2) by (simp add: stmmac_set_mac_addr_def)
  ultimately have lo: "peek e (ioaddr + low) (after_read e (ioaddr + high) ?w) =
      push_bit 24 (ucast (addr ! 3)) OR push_bit 16 (ucast (addr ! 2)) OR
      push_bit 8 (ucast (addr ! 1)) OR ucast (addr ! 0)" by simp
  show ?thesis
    by (subst list6 [OF assms(2)])
      (simp only: stmmac_get_mac_addr_def readl_eq Let_def prod.case fst_conv lo addr_bytes
        addr_hi_bytes [OF hi])
qed

lemma set_mac_addr_frame:
  assumes "rw_regs e M" and "addr_bits_rw M ioaddr high low" and "a \<noteq> ioaddr + high" and "a \<noteq> ioaddr + low"
  shows "peek e a (stmmac_set_mac_addr e ioaddr addr high low w) AND M a = peek e a w AND M a"
  using assms addr_bits_rw_nz [OF assms(2)] by (simp add: stmmac_set_mac_addr_def rw_write_other)

text \<open>
  What the driver expects of the routines that set and get the unicast address of slot \<open>reg_n\<close>:
  the address set is the address got, and no other register is disturbed.
\<close>

locale umac_regs =
  fixes set_umac :: "'w env \<Rightarrow> u32 \<Rightarrow> u8 list \<Rightarrow> u32 \<Rightarrow> 'w \<Rightarrow> 'w"
    and get_umac :: "'w env \<Rightarrow> u32 \<Rightarrow> u32 \<Rightarrow> 'w \<Rightarrow> u8 list \<times> 'w"
    and hi lo :: "u32 \<Rightarrow> u32"
  assumes get_set: "rw_regs e M \<Longrightarrow> length addr = 6 \<Longrightarrow> addr_bits_rw M ioaddr (hi n) (lo n) \<Longrightarrow>
      fst (get_umac e ioaddr n (set_umac e ioaddr addr n w)) = addr"
    and set_frame: "rw_regs e M \<Longrightarrow> addr_bits_rw M ioaddr (hi n) (lo n) \<Longrightarrow>
      a \<noteq> ioaddr + hi n \<Longrightarrow> a \<noteq> ioaddr + lo n \<Longrightarrow>
      peek e a (set_umac e ioaddr addr n w) AND M a = peek e a w AND M a"
    and get_peek: "rw_regs e M \<Longrightarrow> addr_bits_rw M ioaddr (hi n) (lo n) \<Longrightarrow>
      peek e (ioaddr + hi n) w AND 0xffff = peek e (ioaddr + hi n) w' AND 0xffff \<Longrightarrow>
      peek e (ioaddr + lo n) w = peek e (ioaddr + lo n) w' \<Longrightarrow>
      fst (get_umac e ioaddr n w) = fst (get_umac e ioaddr n w')"
begin

text \<open>A later set of another slot does not change what a get of this slot returns.\<close>

lemma get_set_other:
  assumes "rw_regs e M" and "addr_bits_rw M ioaddr (hi n) (lo n)" and "addr_bits_rw M ioaddr (hi m) (lo m)"
    and "hi n \<noteq> hi m" and "hi n \<noteq> lo m" and "lo n \<noteq> hi m" and "lo n \<noteq> lo m"
  shows "fst (get_umac e ioaddr n (set_umac e ioaddr addr m w)) = fst (get_umac e ioaddr n w)"
proof (rule get_peek [OF assms(1, 2)])
  have h: "peek e (ioaddr + hi n) (set_umac e ioaddr addr m w) AND M (ioaddr + hi n) =
      peek e (ioaddr + hi n) w AND M (ioaddr + hi n)"
    using assms by (intro set_frame [OF assms(1, 3)]) simp_all
  show "peek e (ioaddr + hi n) (set_umac e ioaddr addr m w) AND 0xffff = peek e (ioaddr + hi n) w AND 0xffff"
    using and_submask [OF h, of "0xffff"] assms(2) by (simp add: addr_bits_rw_def)
  have "peek e (ioaddr + lo n) (set_umac e ioaddr addr m w) AND M (ioaddr + lo n) =
      peek e (ioaddr + lo n) w AND M (ioaddr + lo n)"
    using assms by (intro set_frame [OF assms(1, 3)]) simp_all
  then show "peek e (ioaddr + lo n) (set_umac e ioaddr addr m w) = peek e (ioaddr + lo n) w"
    using assms(2) by (simp add: addr_bits_rw_def)
qed

end

lemma and_and_ff:
  "x AND 0xff = (x AND 0xffff) AND (0xff :: u32)"
  "drop_bit 8 x AND 0xff = drop_bit 8 (x AND 0xffff) AND (0xff :: u32)"
proof -
  have m: "(0xff :: u32) = mask 8" "(0xffff :: u32) = mask 16" by (simp_all add: mask_numeral)
  show "x AND 0xff = (x AND 0xffff) AND (0xff :: u32)"
    "drop_bit 8 x AND 0xff = drop_bit 8 (x AND 0xffff) AND (0xff :: u32)"
    unfolding m by (rule bit_eqI; auto simp: bit_simps; fail)+
qed

lemma get_mac_addr_peek:
  assumes "rw_regs e M" and "addr_bits_rw M ioaddr high low"
    and "peek e (ioaddr + high) w AND 0xffff = peek e (ioaddr + high) w' AND 0xffff"
    and "peek e (ioaddr + low) w = peek e (ioaddr + low) w'"
  shows "fst (stmmac_get_mac_addr e ioaddr high low w) = fst (stmmac_get_mac_addr e ioaddr high low w')"
proof -
  have lo: "peek e (ioaddr + low) (after_read e (ioaddr + high) v) = peek e (ioaddr + low) v" for v
    using rw_read [OF assms(1), of "ioaddr + high" "ioaddr + low" v] addr_bits_rw_nz [OF assms(2)] assms(2)
    by (simp add: addr_bits_rw_def)
  have "peek e (ioaddr + high) w AND 0xff = peek e (ioaddr + high) w' AND 0xff"
    "drop_bit 8 (peek e (ioaddr + high) w) AND 0xff = drop_bit 8 (peek e (ioaddr + high) w') AND 0xff"
    by (simp_all only: and_and_ff [of "peek e (ioaddr + high) _"] assms(3))
  then show ?thesis
    by (simp only: stmmac_get_mac_addr_def readl_eq Let_def prod.case fst_conv lo assms(4))
qed

text \<open>Routines that use the shared ones on two offsets fulfil the contract.\<close>

lemma umac_regsI:
  assumes "\<And>e ioaddr addr n w. set_umac e ioaddr addr n w = stmmac_set_mac_addr e ioaddr addr (hi n) (lo n) w"
    and "\<And>e ioaddr n w. get_umac e ioaddr n w = stmmac_get_mac_addr e ioaddr (hi n) (lo n) w"
    and "\<And>n. hi n \<noteq> lo n"
  shows "umac_regs set_umac get_umac hi lo"
proof
  show "fst (get_umac e ioaddr n (set_umac e ioaddr addr n w)) = addr"
    if "rw_regs e M" "length addr = 6" "addr_bits_rw M ioaddr (hi n) (lo n)" for e M addr ioaddr n w
    using mac_addr_get_set [OF that] assms(3) by (simp add: assms(1, 2))
  show "peek e a (set_umac e ioaddr addr n w) AND M a = peek e a w AND M a"
    if "rw_regs e M" "addr_bits_rw M ioaddr (hi n) (lo n)" "a \<noteq> ioaddr + hi n" "a \<noteq> ioaddr + lo n"
    for e M ioaddr n a addr w
    using set_mac_addr_frame [OF that] by (simp add: assms(1))
  show "fst (get_umac e ioaddr n w) = fst (get_umac e ioaddr n w')"
    if "rw_regs e M" "addr_bits_rw M ioaddr (hi n) (lo n)"
      "peek e (ioaddr + hi n) w AND 0xffff = peek e (ioaddr + hi n) w' AND 0xffff"
      "peek e (ioaddr + lo n) w = peek e (ioaddr + lo n) w'" for e M ioaddr n w w'
    using get_mac_addr_peek [OF that] by (simp add: assms(2))
qed

section \<open>The control register under any sequence of commands\<close>

text \<open>Commands of the driver to the two directions of the DMA, in any order.\<close>

datatype dma_cmd = Tx bool | Rx bool

fun exec_cmd :: "'w env \<Rightarrow> u32 \<Rightarrow> dma_cmd \<Rightarrow> 'w \<Rightarrow> 'w" where
  "exec_cmd e ioaddr (Tx on) = (if on then dwmac_dma_start_tx e ioaddr else dwmac_dma_stop_tx e ioaddr)"
| "exec_cmd e ioaddr (Rx on) = (if on then dwmac_dma_start_rx e ioaddr else dwmac_dma_stop_rx e ioaddr)"

fun tx_flag_after :: "bool \<Rightarrow> dma_cmd \<Rightarrow> bool" where
  "tx_flag_after b (Tx on) = on"
| "tx_flag_after b (Rx on) = b"

fun rx_flag_after :: "bool \<Rightarrow> dma_cmd \<Rightarrow> bool" where
  "rx_flag_after b (Tx on) = b"
| "rx_flag_after b (Rx on) = on"

lemma exec_cmd_switch:
  "exec_cmd e ioaddr (Tx on) w = tx_dma.switch e ioaddr on w"
  "exec_cmd e ioaddr (Rx on) w = rx_dma.switch e ioaddr on w"
  by (simp_all add: tx_dma.switch_def rx_dma.switch_def)

lemma dma_flags_disjoint: "DMA_CONTROL_ST AND DMA_CONTROL_SR = 0" "DMA_CONTROL_SR AND DMA_CONTROL_ST = 0"
  by (simp_all add: hw_consts)

lemma exec_cmd_step:
  assumes "rw_regs e M" and "(DMA_CONTROL_ST OR DMA_CONTROL_SR) AND M (ioaddr + DMA_CONTROL) = DMA_CONTROL_ST OR DMA_CONTROL_SR"
  shows "tst (peek e (ioaddr + DMA_CONTROL) (exec_cmd e ioaddr c w)) DMA_CONTROL_ST =
      tx_flag_after (tst (peek e (ioaddr + DMA_CONTROL) w) DMA_CONTROL_ST) c"
    and "tst (peek e (ioaddr + DMA_CONTROL) (exec_cmd e ioaddr c w)) DMA_CONTROL_SR =
      rx_flag_after (tst (peek e (ioaddr + DMA_CONTROL) w) DMA_CONTROL_SR) c"
proof -
  have a: "k AND M (ioaddr + DMA_CONTROL) = k" if "k AND (DMA_CONTROL_ST OR DMA_CONTROL_SR) = k" for k
    using assms(2) that by (metis and.assoc)
  have m: "DMA_CONTROL_ST AND M (ioaddr + DMA_CONTROL) = DMA_CONTROL_ST"
    "DMA_CONTROL_SR AND M (ioaddr + DMA_CONTROL) = DMA_CONTROL_SR"
    by (rule a, simp add: hw_consts)+
  show "tst (peek e (ioaddr + DMA_CONTROL) (exec_cmd e ioaddr c w)) DMA_CONTROL_ST =
      tx_flag_after (tst (peek e (ioaddr + DMA_CONTROL) w) DMA_CONTROL_ST) c"
    using assms(1) m dma_flags_disjoint
    by (cases c) (simp_all add: exec_cmd_switch tx_dma.switch_flag rx_dma.switch_frame del: exec_cmd.simps)
  show "tst (peek e (ioaddr + DMA_CONTROL) (exec_cmd e ioaddr c w)) DMA_CONTROL_SR =
      rx_flag_after (tst (peek e (ioaddr + DMA_CONTROL) w) DMA_CONTROL_SR) c"
    using assms(1) m dma_flags_disjoint
    by (cases c) (simp_all add: exec_cmd_switch rx_dma.switch_flag tx_dma.switch_frame del: exec_cmd.simps)
qed

text \<open>
  Property C24. The two directions of the DMA are independent: after any sequence of start and
  stop commands to either, the start bit of each is the one its own last command left, and the
  initial one when there was none, provided the device keeps the two bits as written.
\<close>

theorem dma_commands_independent:
  assumes "rw_regs e M"
    and "(DMA_CONTROL_ST OR DMA_CONTROL_SR) AND M (ioaddr + DMA_CONTROL) = DMA_CONTROL_ST OR DMA_CONTROL_SR"
  shows "tst (peek e (ioaddr + DMA_CONTROL) (fold (exec_cmd e ioaddr) cs w)) DMA_CONTROL_ST =
           foldl tx_flag_after (tst (peek e (ioaddr + DMA_CONTROL) w) DMA_CONTROL_ST) cs
       \<and> tst (peek e (ioaddr + DMA_CONTROL) (fold (exec_cmd e ioaddr) cs w)) DMA_CONTROL_SR =
           foldl rx_flag_after (tst (peek e (ioaddr + DMA_CONTROL) w) DMA_CONTROL_SR) cs"
  using exec_cmd_step [OF assms] by (induction cs arbitrary: w) simp_all

theorem dma_commands_independent_witness:
  "tst (peek (bench_env (\<lambda>_. 0)) (0x1000 + DMA_CONTROL)
     (fold (exec_cmd (bench_env (\<lambda>_. 0)) 0x1000) [Tx True, Rx True, Tx False] bench0)) DMA_CONTROL_SR"
  using dma_commands_independent [of "bench_env (\<lambda>_. 0)" "\<lambda>_. - 1" "0x1000" "[Tx True, Rx True, Tx False]" bench0]
  by (simp add: bench_rw_regs)

section \<open>The DMA interrupt\<close>

lemma dma_abnormal_ret:
  "fst (dma_abnormal_irq s x) =
     (if tst s DMA_STATUS_TPS \<or> tst s DMA_STATUS_FBI then tx_hard_error
      else if tst s DMA_STATUS_UNF then tx_hard_error_bump_tc else 0)"
  by (simp add: dma_abnormal_irq_def Let_def)

lemma dma_interrupt_status:
  "fst (dwmac_dma_interrupt e ioaddr x w) =
     (let s = peek e (ioaddr + DMA_STATUS) w;
          v = peek e (ioaddr + DMA_INTR_ENA) (after_read e (ioaddr + DMA_STATUS) w)
      in (if \<not> tst s DMA_STATUS_AIS then 0
          else if tst s DMA_STATUS_TPS \<or> tst s DMA_STATUS_FBI then tx_hard_error
          else if tst s DMA_STATUS_UNF then tx_hard_error_bump_tc else 0)
         OR (if tst s DMA_STATUS_NIS \<and> tst s DMA_STATUS_RI \<and> tst v DMA_INTR_ENA_RIE then handle_rx else 0)
         OR (if tst s DMA_STATUS_NIS \<and> tst s DMA_STATUS_TI then handle_tx else 0))"
proof -
  let ?s = "peek e (ioaddr + DMA_STATUS) w"
  obtain r y where ab: "dma_abnormal_irq ?s x = (r, y)" by fastforce
  have "r = (if tst ?s DMA_STATUS_TPS \<or> tst ?s DMA_STATUS_FBI then tx_hard_error
      else if tst ?s DMA_STATUS_UNF then tx_hard_error_bump_tc else 0)"
    using dma_abnormal_ret [of ?s x] ab by simp
  then show ?thesis
    by (simp add: dwmac_dma_interrupt_def dma_normal_irq_def readl_eq Let_def ab or.assoc)
qed

text \<open>
  Property C25. What the DMA interrupt reports, from the status register and, for a received
  frame, the interrupt enable register: a stopped transmitter or a bus error is a hard error and
  hides an underflow; an underflow alone asks for a bigger threshold; the two normal events are
  added as further bits, the receive one only while its interrupt is enabled.
\<close>

theorem dma_interrupt_ret:
  "fst (dwmac_dma_interrupt e ioaddr x w) =
     (let s = peek e (ioaddr + DMA_STATUS) w;
          v = peek e (ioaddr + DMA_INTR_ENA) (after_read e (ioaddr + DMA_STATUS) w)
      in (if \<not> tst s DMA_STATUS_AIS then 0
          else if tst s DMA_STATUS_TPS \<or> tst s DMA_STATUS_FBI then tx_hard_error
          else if tst s DMA_STATUS_UNF then tx_hard_error_bump_tc else 0)
         OR (if tst s DMA_STATUS_NIS \<and> tst s DMA_STATUS_RI \<and> tst v DMA_INTR_ENA_RIE then handle_rx else 0)
         OR (if tst s DMA_STATUS_NIS \<and> tst s DMA_STATUS_TI then handle_tx else 0))"
  by (rule dma_interrupt_status)

text \<open>
  Each event of an abnormal interrupt is counted once in its own counter, whatever
  other events came with it.
\<close>

theorem dma_abnormal_counters:
  "(let y = snd (dma_abnormal_irq s x) in
      tx_undeflow_irq y = tx_undeflow_irq x + of_bool (tst s DMA_STATUS_UNF)
    \<and> tx_jabber_irq y = tx_jabber_irq x + of_bool (tst s DMA_STATUS_TJT)
    \<and> rx_overflow_irq y = rx_overflow_irq x + of_bool (tst s DMA_STATUS_OVF)
    \<and> rx_buf_unav_irq y = rx_buf_unav_irq x + of_bool (tst s DMA_STATUS_RU)
    \<and> rx_process_stopped_irq y = rx_process_stopped_irq x + of_bool (tst s DMA_STATUS_RPS)
    \<and> rx_watchdog_irq y = rx_watchdog_irq x + of_bool (tst s DMA_STATUS_RWT)
    \<and> tx_early_irq y = tx_early_irq x + of_bool (tst s DMA_STATUS_ETI)
    \<and> tx_process_stopped_irq y = tx_process_stopped_irq x + of_bool (tst s DMA_STATUS_TPS)
    \<and> fatal_bus_error_irq y = fatal_bus_error_irq x + of_bool (tst s DMA_STATUS_FBI)
    \<and> normal_irq_n y = normal_irq_n x)"
  unfolding dma_abnormal_irq_def Let_def snd_conv
  by (intro conjI) (simp_all add: doif_def)

definition w1c :: "'w env \<Rightarrow> u32 \<Rightarrow> u32 \<Rightarrow> bool" where
  "w1c e a m \<longleftrightarrow> (\<forall>v w. peek e a (writel e v a w) AND m = peek e a w AND m AND NOT v)"

lemma dma_interrupt_world:
  "snd (snd (dwmac_dma_interrupt e ioaddr x w)) =
     (let s = peek e (ioaddr + DMA_STATUS) w; w1 = after_read e (ioaddr + DMA_STATUS) w
      in writel e (s AND 0x1ffff) (ioaddr + DMA_STATUS)
           (if tst s DMA_STATUS_NIS \<and> tst s DMA_STATUS_RI then after_read e (ioaddr + DMA_INTR_ENA) w1 else w1))"
proof -
  obtain r y where ab: "dma_abnormal_irq (peek e (ioaddr + DMA_STATUS) w) x = (r, y)" by fastforce
  show ?thesis
    by (simp add: dwmac_dma_interrupt_def dma_normal_irq_def readl_eq Let_def ab)
qed

text \<open>
  Where the status register clears the bits written as one, the interrupt routine
  leaves none of the sixteen event bits and the summary it saw pending.
\<close>

theorem dma_interrupt_acknowledges:
  assumes "w1c e (ioaddr + DMA_STATUS) 0x1ffff"
    and "\<And>b w. peek e (ioaddr + DMA_STATUS) (after_read e b w) = peek e (ioaddr + DMA_STATUS) w"
  shows "peek e (ioaddr + DMA_STATUS) (snd (snd (dwmac_dma_interrupt e ioaddr x w))) AND 0x1ffff = 0"
proof -
  let ?a = "ioaddr + DMA_STATUS"
  let ?s = "peek e ?a w"
  let ?w = "if tst ?s DMA_STATUS_NIS \<and> tst ?s DMA_STATUS_RI
    then after_read e (ioaddr + DMA_INTR_ENA) (after_read e ?a w) else after_read e ?a w"
  have z: "x AND m AND NOT (x AND m) = (0 :: u32)" for x m
    by (rule bit_eqI) (auto simp: bit_simps)
  have "peek e ?a ?w = ?s" by (simp add: assms(2))
  then have "peek e ?a (writel e (?s AND 0x1ffff) ?a ?w) AND 0x1ffff = ?s AND 0x1ffff AND NOT (?s AND 0x1ffff)"
    using assms(1) unfolding w1c_def by metis
  from trans [OF this z] show ?thesis unfolding dma_interrupt_world Let_def .
qed

theorem dma_interrupt_acknowledges_witness:
  "peek (bench_w1c_env 0x1014) (0 + DMA_STATUS)
     (snd (snd (dwmac_dma_interrupt (bench_w1c_env 0x1014) 0 zero_xstats
        (bench0\<lparr>b_regs := (\<lambda>_. 0x10041)\<rparr>)))) AND 0x1ffff = 0"
  by (rule dma_interrupt_acknowledges)
    (auto simp: w1c_def bench_w1c_env_def bench_env_def peek_def readl_def writel_def after_read_def hw_consts
      and.commute and.left_commute)

section \<open>Polling loops\<close>

definition reset_wait :: "'w env \<Rightarrow> u32 \<Rightarrow> 'w \<Rightarrow> 'w" where
  "reset_wait e ioaddr w = kdo e ''mdelay'' [I 10] (after_read e (ioaddr + DMA_BUS_MODE) w)"

lemma ex_less_Suc_shift: "(\<exists>n<Suc k. P n) \<longleftrightarrow> P 0 \<or> (\<exists>n<k. P (Suc n))"
  using Ex_less_Suc2 by blast

text \<open>
  The software reset is awaited for a bounded time: the poll reports success exactly
  when the reset bit is clear at one of its \<open>limit\<close> readings, 10 ms apart.
\<close>

lemma dma_reset_poll_iff:
  "fst (dma_reset_poll e ioaddr limit w) =
     (\<exists>n<limit. \<not> tst (peek e (ioaddr + DMA_BUS_MODE) ((reset_wait e ioaddr ^^ n) w)) DMA_BUS_MODE_SFT_RESET)"
proof (induction limit arbitrary: w)
  case (Suc limit)
  then show ?case
    by (simp add: readl_eq ex_less_Suc_shift funpow_swap1 reset_wait_def [symmetric])
qed simp

lemma wait_ftf_clear_upto:
  "\<not> tst (peek e (ioaddr + DMA_CONTROL) ((after_read e (ioaddr + DMA_CONTROL) ^^ n) w)) DMA_CONTROL_FTF
     \<Longrightarrow> \<exists>w'. wait_ftf_clear e ioaddr w = Some w'"
proof (induction n arbitrary: w)
  case 0
  then show ?case by (subst wait_ftf_clear.simps) (simp add: readl_eq)
next
  case (Suc n)
  then show ?case
    by (subst wait_ftf_clear.simps) (simp add: readl_eq funpow_swap1)
qed

lemma wait_ftf_clear_Some:
  assumes "wait_ftf_clear e ioaddr w = Some w'"
  shows "\<exists>n. \<not> tst (peek e (ioaddr + DMA_CONTROL) ((after_read e (ioaddr + DMA_CONTROL) ^^ n) w)) DMA_CONTROL_FTF"
proof (rule wait_ftf_clear.raw_induct [OF _ assms])
  fix f :: "'a env \<Rightarrow> u32 \<Rightarrow> 'a \<Rightarrow> 'a option" and e ioaddr w w'
  assume ih: "\<And>e ioaddr w w'. f e ioaddr w = Some w' \<Longrightarrow>
      \<exists>n. \<not> tst (peek e (ioaddr + DMA_CONTROL) ((after_read e (ioaddr + DMA_CONTROL) ^^ n) w)) DMA_CONTROL_FTF"
    and step: "(let (v, w) = readl e (ioaddr + DMA_CONTROL) w
      in if tst v DMA_CONTROL_FTF then f e ioaddr w else Some w) = Some w'"
  show "\<exists>n. \<not> tst (peek e (ioaddr + DMA_CONTROL) ((after_read e (ioaddr + DMA_CONTROL) ^^ n) w)) DMA_CONTROL_FTF"
  proof (cases "tst (peek e (ioaddr + DMA_CONTROL) w) DMA_CONTROL_FTF")
    case True
    then have "f e ioaddr (after_read e (ioaddr + DMA_CONTROL) w) = Some w'"
      using step by (simp add: readl_eq)
    from ih [OF this] obtain n where
      "\<not> tst (peek e (ioaddr + DMA_CONTROL) ((after_read e (ioaddr + DMA_CONTROL) ^^ Suc n) w)) DMA_CONTROL_FTF"
      by (auto simp: funpow_swap1)
    then show ?thesis by blast
  next
    case False
    then show ?thesis by (intro exI [of _ 0]) simp
  qed
qed

text \<open>
  Flushing the transmit FIFO returns exactly when the device clears the flush bit
  after finitely many readings; the loop has no other way out.
\<close>

theorem flush_tx_fifo_returns_iff:
  "(dwmac_dma_flush_tx_fifo e ioaddr w \<noteq> None) =
     (\<exists>n. \<not> tst (peek e (ioaddr + DMA_CONTROL)
        ((after_read e (ioaddr + DMA_CONTROL) ^^ n)
           (rmw e (ioaddr + DMA_CONTROL) (\<lambda>csr6. csr6 OR DMA_CONTROL_FTF) w))) DMA_CONTROL_FTF)"
  unfolding dwmac_dma_flush_tx_fifo_def not_None_eq by (blast dest: wait_ftf_clear_upto wait_ftf_clear_Some)

end
