(* ===== verification/Desc.thy ===== *)
theory Desc
  imports Drv_Prelude
begin

text \<open>
  The DMA descriptors of \<open>descs.h\<close> and the ring/chain helpers of \<open>descs_com.h\<close>. A descriptor
  is four 32-bit words; the union \<open>des01\<close> gives its first two words four overlapping bit-field
  layouts (\<open>rx\<close>, \<open>erx\<close>, \<open>tx\<close>, \<open>etx\<close>), which are lists of field names and widths in the
  order of the header. The position of a field is computed from its layout, as the compiler
  does it: fields are packed from the least significant bit of each 32-bit unit.
\<close>

section \<open>Bit-field layouts\<close>

type_synonym layout = "(string \<times> nat) list"

text \<open>\<open>BF i off wd\<close>: \<open>wd\<close> bits from bit \<open>off\<close> of word \<open>i\<close> of the descriptor.\<close>

datatype bfield = BF nat nat nat

fun place :: "nat \<Rightarrow> layout \<Rightarrow> (string \<times> bfield) list" where
  "place pos [] = []"
| "place pos ((f, wd) # fs) = (f, BF (pos div 32) (pos mod 32) wd) # place (pos + wd) fs"

definition bitfield :: "layout \<Rightarrow> string \<Rightarrow> bfield" where
  "bitfield l f = (case map_of (place 0 l) f of Some b \<Rightarrow> b | None \<Rightarrow> BF 0 0 0)"

text \<open>\<open>struct { ... } rx\<close>, \<open>erx\<close>, \<open>tx\<close> and \<open>etx\<close> of the union.\<close>

definition rx_layout :: layout where
  "rx_layout = [
    (''payload_csum_error'', 1), (''crc_error'', 1), (''dribbling'', 1), (''mii_error'', 1),
    (''receive_watchdog'', 1), (''frame_type'', 1), (''collision'', 1), (''ipc_csum_error'', 1),
    (''last_descriptor'', 1), (''first_descriptor'', 1), (''vlan_tag'', 1),
    (''overflow_error'', 1), (''length_error'', 1), (''sa_filter_fail'', 1),
    (''descriptor_error'', 1), (''error_summary'', 1), (''frame_length'', 14),
    (''da_filter_fail'', 1), (''own'', 1),
    (''buffer1_size'', 11), (''buffer2_size'', 11), (''reserved1'', 2),
    (''second_address_chained'', 1), (''end_ring'', 1), (''reserved2'', 5), (''disable_ic'', 1)]"

definition erx_layout :: layout where
  "erx_layout = [
    (''rx_mac_addr'', 1), (''crc_error'', 1), (''dribbling'', 1), (''error_gmii'', 1),
    (''receive_watchdog'', 1), (''frame_type'', 1), (''late_collision'', 1),
    (''ipc_csum_error'', 1), (''last_descriptor'', 1), (''first_descriptor'', 1),
    (''vlan_tag'', 1), (''overflow_error'', 1), (''length_error'', 1), (''sa_filter_fail'', 1),
    (''descriptor_error'', 1), (''error_summary'', 1), (''frame_length'', 14),
    (''da_filter_fail'', 1), (''own'', 1),
    (''buffer1_size'', 13), (''reserved1'', 1), (''second_address_chained'', 1),
    (''end_ring'', 1), (''buffer2_size'', 13), (''reserved2'', 2), (''disable_ic'', 1)]"

definition tx_layout :: layout where
  "tx_layout = [
    (''deferred'', 1), (''underflow_error'', 1), (''excessive_deferral'', 1),
    (''collision_count'', 4), (''vlan_frame'', 1), (''excessive_collisions'', 1),
    (''late_collision'', 1), (''no_carrier'', 1), (''loss_carrier'', 1), (''payload_error'', 1),
    (''frame_flushed'', 1), (''jabber_timeout'', 1), (''error_summary'', 1),
    (''ip_header_error'', 1), (''time_stamp_status'', 1), (''reserved1'', 13), (''own'', 1),
    (''buffer1_size'', 11), (''buffer2_size'', 11), (''time_stamp_enable'', 1),
    (''disable_padding'', 1), (''second_address_chained'', 1), (''end_ring'', 1),
    (''crc_disable'', 1), (''checksum_insertion'', 2), (''first_segment'', 1),
    (''last_segment'', 1), (''interrupt'', 1)]"

definition etx_layout :: layout where
  "etx_layout = [
    (''deferred'', 1), (''underflow_error'', 1), (''excessive_deferral'', 1),
    (''collision_count'', 4), (''vlan_frame'', 1), (''excessive_collisions'', 1),
    (''late_collision'', 1), (''no_carrier'', 1), (''loss_carrier'', 1), (''payload_error'', 1),
    (''frame_flushed'', 1), (''jabber_timeout'', 1), (''error_summary'', 1),
    (''ip_header_error'', 1), (''time_stamp_status'', 1), (''reserved1'', 2),
    (''second_address_chained'', 1), (''end_ring'', 1), (''checksum_insertion'', 2),
    (''reserved2'', 1), (''time_stamp_enable'', 1), (''disable_padding'', 1),
    (''crc_disable'', 1), (''first_segment'', 1), (''last_segment'', 1), (''interrupt'', 1),
    (''own'', 1),
    (''buffer1_size'', 13), (''reserved3'', 3), (''buffer2_size'', 13), (''reserved4'', 3)]"

text \<open>Every layout fills exactly the two words of the union, and no field straddles a word.\<close>

definition layout_ok :: "layout \<Rightarrow> bool" where
  "layout_ok l \<longleftrightarrow> sum_list (map snd l) = 64 \<and> distinct (map fst l) \<and>
     list_all (\<lambda>(f, b). case b of BF i off wd \<Rightarrow> i < 2 \<and> off + wd \<le> 32) (place 0 l)"

lemma layouts_ok: "layout_ok rx_layout" "layout_ok erx_layout" "layout_ok tx_layout" "layout_ok etx_layout"
  by (simp_all add: layout_ok_def rx_layout_def erx_layout_def tx_layout_def etx_layout_def)

lemma rx_bitfields [bf_simps]:
  "bitfield rx_layout ''payload_csum_error'' = BF 0 0 1"
  "bitfield rx_layout ''crc_error'' = BF 0 1 1"
  "bitfield rx_layout ''dribbling'' = BF 0 2 1"
  "bitfield rx_layout ''mii_error'' = BF 0 3 1"
  "bitfield rx_layout ''receive_watchdog'' = BF 0 4 1"
  "bitfield rx_layout ''frame_type'' = BF 0 5 1"
  "bitfield rx_layout ''collision'' = BF 0 6 1"
  "bitfield rx_layout ''ipc_csum_error'' = BF 0 7 1"
  "bitfield rx_layout ''last_descriptor'' = BF 0 8 1"
  "bitfield rx_layout ''first_descriptor'' = BF 0 9 1"
  "bitfield rx_layout ''vlan_tag'' = BF 0 10 1"
  "bitfield rx_layout ''overflow_error'' = BF 0 11 1"
  "bitfield rx_layout ''length_error'' = BF 0 12 1"
  "bitfield rx_layout ''sa_filter_fail'' = BF 0 13 1"
  "bitfield rx_layout ''descriptor_error'' = BF 0 14 1"
  "bitfield rx_layout ''error_summary'' = BF 0 15 1"
  "bitfield rx_layout ''frame_length'' = BF 0 16 14"
  "bitfield rx_layout ''da_filter_fail'' = BF 0 30 1"
  "bitfield rx_layout ''own'' = BF 0 31 1"
  "bitfield rx_layout ''buffer1_size'' = BF 1 0 11"
  "bitfield rx_layout ''buffer2_size'' = BF 1 11 11"
  "bitfield rx_layout ''second_address_chained'' = BF 1 24 1"
  "bitfield rx_layout ''end_ring'' = BF 1 25 1"
  "bitfield rx_layout ''disable_ic'' = BF 1 31 1"
  by (simp_all add: bitfield_def rx_layout_def)

lemma erx_bitfields [bf_simps]:
  "bitfield erx_layout ''rx_mac_addr'' = BF 0 0 1"
  "bitfield erx_layout ''crc_error'' = BF 0 1 1"
  "bitfield erx_layout ''dribbling'' = BF 0 2 1"
  "bitfield erx_layout ''error_gmii'' = BF 0 3 1"
  "bitfield erx_layout ''receive_watchdog'' = BF 0 4 1"
  "bitfield erx_layout ''frame_type'' = BF 0 5 1"
  "bitfield erx_layout ''late_collision'' = BF 0 6 1"
  "bitfield erx_layout ''ipc_csum_error'' = BF 0 7 1"
  "bitfield erx_layout ''last_descriptor'' = BF 0 8 1"
  "bitfield erx_layout ''first_descriptor'' = BF 0 9 1"
  "bitfield erx_layout ''vlan_tag'' = BF 0 10 1"
  "bitfield erx_layout ''overflow_error'' = BF 0 11 1"
  "bitfield erx_layout ''length_error'' = BF 0 12 1"
  "bitfield erx_layout ''sa_filter_fail'' = BF 0 13 1"
  "bitfield erx_layout ''descriptor_error'' = BF 0 14 1"
  "bitfield erx_layout ''error_summary'' = BF 0 15 1"
  "bitfield erx_layout ''frame_length'' = BF 0 16 14"
  "bitfield erx_layout ''da_filter_fail'' = BF 0 30 1"
  "bitfield erx_layout ''own'' = BF 0 31 1"
  "bitfield erx_layout ''buffer1_size'' = BF 1 0 13"
  "bitfield erx_layout ''second_address_chained'' = BF 1 14 1"
  "bitfield erx_layout ''end_ring'' = BF 1 15 1"
  "bitfield erx_layout ''buffer2_size'' = BF 1 16 13"
  "bitfield erx_layout ''disable_ic'' = BF 1 31 1"
  by (simp_all add: bitfield_def erx_layout_def)

lemma tx_bitfields [bf_simps]:
  "bitfield tx_layout ''deferred'' = BF 0 0 1"
  "bitfield tx_layout ''underflow_error'' = BF 0 1 1"
  "bitfield tx_layout ''excessive_deferral'' = BF 0 2 1"
  "bitfield tx_layout ''collision_count'' = BF 0 3 4"
  "bitfield tx_layout ''vlan_frame'' = BF 0 7 1"
  "bitfield tx_layout ''excessive_collisions'' = BF 0 8 1"
  "bitfield tx_layout ''late_collision'' = BF 0 9 1"
  "bitfield tx_layout ''no_carrier'' = BF 0 10 1"
  "bitfield tx_layout ''loss_carrier'' = BF 0 11 1"
  "bitfield tx_layout ''payload_error'' = BF 0 12 1"
  "bitfield tx_layout ''frame_flushed'' = BF 0 13 1"
  "bitfield tx_layout ''jabber_timeout'' = BF 0 14 1"
  "bitfield tx_layout ''error_summary'' = BF 0 15 1"
  "bitfield tx_layout ''ip_header_error'' = BF 0 16 1"
  "bitfield tx_layout ''time_stamp_status'' = BF 0 17 1"
  "bitfield tx_layout ''own'' = BF 0 31 1"
  "bitfield tx_layout ''buffer1_size'' = BF 1 0 11"
  "bitfield tx_layout ''buffer2_size'' = BF 1 11 11"
  "bitfield tx_layout ''time_stamp_enable'' = BF 1 22 1"
  "bitfield tx_layout ''disable_padding'' = BF 1 23 1"
  "bitfield tx_layout ''second_address_chained'' = BF 1 24 1"
  "bitfield tx_layout ''end_ring'' = BF 1 25 1"
  "bitfield tx_layout ''crc_disable'' = BF 1 26 1"
  "bitfield tx_layout ''checksum_insertion'' = BF 1 27 2"
  "bitfield tx_layout ''first_segment'' = BF 1 29 1"
  "bitfield tx_layout ''last_segment'' = BF 1 30 1"
  "bitfield tx_layout ''interrupt'' = BF 1 31 1"
  by (simp_all add: bitfield_def tx_layout_def)

lemma etx_bitfields [bf_simps]:
  "bitfield etx_layout ''deferred'' = BF 0 0 1"
  "bitfield etx_layout ''underflow_error'' = BF 0 1 1"
  "bitfield etx_layout ''excessive_deferral'' = BF 0 2 1"
  "bitfield etx_layout ''collision_count'' = BF 0 3 4"
  "bitfield etx_layout ''vlan_frame'' = BF 0 7 1"
  "bitfield etx_layout ''excessive_collisions'' = BF 0 8 1"
  "bitfield etx_layout ''late_collision'' = BF 0 9 1"
  "bitfield etx_layout ''no_carrier'' = BF 0 10 1"
  "bitfield etx_layout ''loss_carrier'' = BF 0 11 1"
  "bitfield etx_layout ''payload_error'' = BF 0 12 1"
  "bitfield etx_layout ''frame_flushed'' = BF 0 13 1"
  "bitfield etx_layout ''jabber_timeout'' = BF 0 14 1"
  "bitfield etx_layout ''error_summary'' = BF 0 15 1"
  "bitfield etx_layout ''ip_header_error'' = BF 0 16 1"
  "bitfield etx_layout ''time_stamp_status'' = BF 0 17 1"
  "bitfield etx_layout ''second_address_chained'' = BF 0 20 1"
  "bitfield etx_layout ''end_ring'' = BF 0 21 1"
  "bitfield etx_layout ''checksum_insertion'' = BF 0 22 2"
  "bitfield etx_layout ''time_stamp_enable'' = BF 0 25 1"
  "bitfield etx_layout ''disable_padding'' = BF 0 26 1"
  "bitfield etx_layout ''crc_disable'' = BF 0 27 1"
  "bitfield etx_layout ''first_segment'' = BF 0 28 1"
  "bitfield etx_layout ''last_segment'' = BF 0 29 1"
  "bitfield etx_layout ''interrupt'' = BF 0 30 1"
  "bitfield etx_layout ''own'' = BF 0 31 1"
  "bitfield etx_layout ''buffer1_size'' = BF 1 0 13"
  "bitfield etx_layout ''buffer2_size'' = BF 1 16 13"
  by (simp_all add: bitfield_def etx_layout_def)

section \<open>Descriptors\<close>

text \<open>\<open>struct dma_desc\<close>: the two words of the union, then \<open>des2\<close> and \<open>des3\<close>.\<close>

record dma_desc =
  des0 :: u32
  des1 :: u32
  des2 :: u32
  des3 :: u32

text \<open>Extended descriptors put four more words after a basic one (\<open>descs.h\<close>).\<close>

record dma_extended_desc =
  basic :: dma_desc
  des4 :: u32
  des5 :: u32
  des6 :: u32
  des7 :: u32

definition zero_desc :: dma_desc where
  "zero_desc = \<lparr>des0 = 0, des1 = 0, des2 = 0, des3 = 0\<rparr>"

fun fld_get :: "bfield \<Rightarrow> dma_desc \<Rightarrow> u32" where
  "fld_get (BF i off wd) p = wf_get off wd (if i = 0 then des0 p else des1 p)"

fun fld_set :: "bfield \<Rightarrow> u32 \<Rightarrow> dma_desc \<Rightarrow> dma_desc" where
  "fld_set (BF i off wd) v p =
     (if i = 0 then p\<lparr>des0 := wf_set off wd v (des0 p)\<rparr>
      else p\<lparr>des1 := wf_set off wd v (des1 p)\<rparr>)"

declare fld_get.simps [simp del] fld_set.simps [simp del]

text \<open>\<open>p->des01.rx.f\<close> and its assignment, for each member of the union.\<close>

definition rx_get :: "dma_desc \<Rightarrow> string \<Rightarrow> u32" where
  "rx_get p f = fld_get (bitfield rx_layout f) p"

definition erx_get :: "dma_desc \<Rightarrow> string \<Rightarrow> u32" where
  "erx_get p f = fld_get (bitfield erx_layout f) p"

definition tx_get :: "dma_desc \<Rightarrow> string \<Rightarrow> u32" where
  "tx_get p f = fld_get (bitfield tx_layout f) p"

definition etx_get :: "dma_desc \<Rightarrow> string \<Rightarrow> u32" where
  "etx_get p f = fld_get (bitfield etx_layout f) p"

definition rx_set :: "string \<Rightarrow> u32 \<Rightarrow> dma_desc \<Rightarrow> dma_desc" where
  "rx_set f v p = fld_set (bitfield rx_layout f) v p"

definition erx_set :: "string \<Rightarrow> u32 \<Rightarrow> dma_desc \<Rightarrow> dma_desc" where
  "erx_set f v p = fld_set (bitfield erx_layout f) v p"

definition tx_set :: "string \<Rightarrow> u32 \<Rightarrow> dma_desc \<Rightarrow> dma_desc" where
  "tx_set f v p = fld_set (bitfield tx_layout f) v p"

definition etx_set :: "string \<Rightarrow> u32 \<Rightarrow> dma_desc \<Rightarrow> dma_desc" where
  "etx_set f v p = fld_set (bitfield etx_layout f) v p"

lemmas union_defs = rx_get_def erx_get_def tx_get_def etx_get_def
  rx_set_def erx_set_def tx_set_def etx_set_def

lemma fld_get_set_same [simp]:
  "off + wd \<le> 32 \<Longrightarrow> fld_get (BF i off wd) (fld_set (BF i off wd) v p) = take_bit wd v"
  by (simp add: fld_get.simps fld_set.simps wf_get_set_same)

lemma fld_get_set_other [simp]:
  "i \<noteq> j \<and> i < 2 \<and> j < 2 \<or> off + wd \<le> off' \<or> off' + wd' \<le> off \<Longrightarrow> off + wd \<le> 32 \<Longrightarrow>
     fld_get (BF i off wd) (fld_set (BF j off' wd') v p) = fld_get (BF i off wd) p"
  by (auto simp: fld_get.simps fld_set.simps wf_get_set_other)

lemma des23_fld_set [simp]: "des2 (fld_set b v p) = des2 p" "des3 (fld_set b v p) = des3 p"
  by (cases b; simp add: fld_set.simps)+

lemma fld_get_des23 [simp]:
  "fld_get b (p\<lparr>des2 := x\<rparr>) = fld_get b p" "fld_get b (p\<lparr>des3 := x\<rparr>) = fld_get b p"
  by (cases b; simp add: fld_get.simps)+

lemma des23_union_set [simp]:
  "des2 (rx_set f v p) = des2 p" "des3 (rx_set f v p) = des3 p"
  "des2 (erx_set f v p) = des2 p" "des3 (erx_set f v p) = des3 p"
  "des2 (tx_set f v p) = des2 p" "des3 (tx_set f v p) = des3 p"
  "des2 (etx_set f v p) = des2 p" "des3 (etx_set f v p) = des3 p"
  by (simp_all add: union_defs)

lemma union_get_des23 [simp]:
  "rx_get (p\<lparr>des2 := x\<rparr>) f = rx_get p f" "rx_get (p\<lparr>des3 := x\<rparr>) f = rx_get p f"
  "tx_get (p\<lparr>des2 := x\<rparr>) f = tx_get p f" "tx_get (p\<lparr>des3 := x\<rparr>) f = tx_get p f"
  by (simp_all add: union_defs)

text \<open>A one-bit field is \<open>0\<close> or \<open>1\<close>; every field is below its power of two.\<close>

lemma fld_get_bit: "fld_get (BF i off 1) p = 0 \<or> fld_get (BF i off 1) p = 1"
  unfolding fld_get.simps by (rule wf_get_bool)

lemma fld_get_bound: "unat (fld_get (BF i off wd) p) < 2 ^ wd"
  unfolding fld_get.simps by (rule wf_get_bound)

section \<open>The fields of a layout do not overlap\<close>

lemma place_position:
  "(f, b) \<in> set (place pos l) \<Longrightarrow> \<exists>q wd. b = BF (q div 32) (q mod 32) wd \<and> pos \<le> q \<and> (f, wd) \<in> set l"
proof (induction l arbitrary: pos)
  case (Cons a l)
  obtain g wd where a: "a = (g, wd)" by fastforce
  show ?case
  proof (cases "(f, b) \<in> set (place (pos + wd) l)")
    case True
    then show ?thesis using Cons.IH [of "pos + wd"] a by fastforce
  next
    case False
    then show ?thesis using Cons.prems a by (intro exI [of _ pos] exI [of _ wd]) simp
  qed
qed simp

lemma place_keys: "map fst (place pos l) = map fst l"
  by (induction pos l rule: place.induct) simp_all

lemma place_disjoint:
  "(f, BF i off wd) \<in> set (place pos l) \<Longrightarrow> (g, BF j off' wd') \<in> set (place pos l) \<Longrightarrow> f \<noteq> g \<Longrightarrow>
     i \<noteq> j \<or> off + wd \<le> off' \<or> off' + wd' \<le> off"
proof (induction l arbitrary: pos)
  case (Cons a l)
  obtain h w where a: "a = (h, w)" by fastforce
  have apart: "pos div 32 \<noteq> i' \<or> pos mod 32 + w \<le> off''" if m: "(x, BF i' off'' w') \<in> set (place (pos + w) l)" for x i' off'' w'
  proof -
    obtain q where q: "i' = q div 32" "off'' = q mod 32" "pos + w \<le> q" using place_position [OF m] by auto
    show ?thesis
    proof (cases "pos div 32 = q div 32")
      case True
      then have "q mod 32 = pos mod 32 + (q - pos)"
        using q(3) div_mult_mod_eq [of q 32] div_mult_mod_eq [of pos 32] by linarith
      with q show ?thesis by linarith
    qed (use q in simp)
  qed
  show ?case
    using Cons.prems Cons.IH [of "pos + w"] apart a by (simp, blast)
qed simp

lemma bitfield_place:
  assumes "layout_ok l" and "(f, wd) \<in> set l"
  shows "\<exists>i off. bitfield l f = BF i off wd \<and> (f, BF i off wd) \<in> set (place 0 l) \<and> i < 2 \<and> off + wd \<le> 32"
proof -
  have d: "distinct (map fst l)" "distinct (map fst (place 0 l))" using assms(1) by (simp_all add: layout_ok_def place_keys)
  have "f \<in> fst ` set (place 0 l)" using assms(2) place_keys [of 0 l] by (metis fst_conv image_eqI list.set_map)
  then obtain b where b: "(f, b) \<in> set (place 0 l)" by fastforce
  obtain q w where q: "b = BF (q div 32) (q mod 32) w" "(f, w) \<in> set l" using place_position [OF b] by blast
  have "w = wd" using d(1) q(2) assms(2) by (metis eq_key_imp_eq_value)
  moreover have "bitfield l f = b" using b d(2) by (simp add: bitfield_def)
  ultimately show ?thesis using b q(1) assms(1) by (auto simp: layout_ok_def list_all_iff)
qed

lemma layout_get_set:
  assumes "layout_ok l" and "(f, wd) \<in> set l" and "(g, wd') \<in> set l"
  shows "fld_get (bitfield l g) (fld_set (bitfield l f) v p) = (if g = f then take_bit wd v else fld_get (bitfield l g) p)"
    "unat (fld_get (bitfield l f) p) < 2 ^ wd"
proof -
  obtain i off where f: "bitfield l f = BF i off wd" "(f, BF i off wd) \<in> set (place 0 l)" "i < 2" "off + wd \<le> 32"
    using bitfield_place [OF assms(1, 2)] by blast
  obtain j off' where g: "bitfield l g = BF j off' wd'" "(g, BF j off' wd') \<in> set (place 0 l)" "j < 2" "off' + wd' \<le> 32"
    using bitfield_place [OF assms(1, 3)] by blast
  show "unat (fld_get (bitfield l f) p) < 2 ^ wd" unfolding f(1) by (rule fld_get_bound)
  show "fld_get (bitfield l g) (fld_set (bitfield l f) v p) = (if g = f then take_bit wd v else fld_get (bitfield l g) p)"
  proof (cases "g = f")
    case False
    then show ?thesis
      using place_disjoint [OF g(2) f(2)] f(3) g(3, 4) by (simp add: f(1) g(1) fld_get_set_other)
  qed (use f(4) in \<open>simp add: f(1)\<close>)
qed



end
