(* ===== verification/Norm_Desc.thy ===== *)
theory Norm_Desc
  imports Desc Stats
begin

text \<open>
  The helpers of \<open>descs_com.h\<close> for ring and chain mode, the handlers of normal descriptors of
  \<open>norm_desc.c\<close>, the table \<open>struct stmmac_desc_ops\<close> through which the driver calls them, and
  the contract the driver relies on as the locale \<open>desc_contract\<close>, interpreted on
  \<open>ndesc_ops\<close> in both modes. Enhanced descriptors (\<open>enh_desc.c\<close>) are not in the repository:
  only their helpers of \<open>descs_com.h\<close> are modelled.
\<close>

section \<open>Constants\<close>

definition BUF_SIZE_16KiB :: int where [hw_consts]: "BUF_SIZE_16KiB = 16384"
definition BUF_SIZE_8KiB :: int where [hw_consts]: "BUF_SIZE_8KiB = 8192"
definition BUF_SIZE_4KiB :: int where [hw_consts]: "BUF_SIZE_4KiB = 4096"
definition BUF_SIZE_2KiB :: int where [hw_consts]: "BUF_SIZE_2KiB = 2048"

definition STMMAC_CHAIN_MODE :: u32 where [hw_consts]: "STMMAC_CHAIN_MODE = 0x1"
definition STMMAC_RING_MODE :: u32 where [hw_consts]: "STMMAC_RING_MODE = 0x2"

text \<open>\<open>enum rx_frame_status\<close> and \<open>enum tdes_csum_insertion\<close>.\<close>

definition good_frame :: int where [hw_consts]: "good_frame = 0"
definition discard_frame :: int where [hw_consts]: "discard_frame = 1"
definition csum_none :: int where [hw_consts]: "csum_none = 2"
definition llc_snap :: int where [hw_consts]: "llc_snap = 4"

definition cic_disabled :: u32 where [hw_consts]: "cic_disabled = 0"
definition cic_only_ip :: u32 where [hw_consts]: "cic_only_ip = 1"
definition cic_no_pseudoheader :: u32 where [hw_consts]: "cic_no_pseudoheader = 2"
definition cic_full :: u32 where [hw_consts]: "cic_full = 3"

text \<open>The types of receive checksum engines of \<open>linux/stmmac.h\<close>.\<close>

definition STMMAC_RX_COE_NONE :: int where [hw_consts]: "STMMAC_RX_COE_NONE = 0"
definition STMMAC_RX_COE_TYPE1 :: int where [hw_consts]: "STMMAC_RX_COE_TYPE1 = 1"
definition STMMAC_RX_COE_TYPE2 :: int where [hw_consts]: "STMMAC_RX_COE_TYPE2 = 2"

section \<open>Ring mode helpers\<close>

definition ehn_desc_rx_set_on_ring :: "dma_desc \<Rightarrow> bool \<Rightarrow> dma_desc" where
  "ehn_desc_rx_set_on_ring p is_end =
     (let p = erx_set ''buffer2_size'' (word_of_int (BUF_SIZE_8KiB - 1)) p
      in doif is_end (erx_set ''end_ring'' 1) p)"

definition ehn_desc_tx_set_on_ring :: "dma_desc \<Rightarrow> bool \<Rightarrow> dma_desc" where
  "ehn_desc_tx_set_on_ring p is_end = doif is_end (etx_set ''end_ring'' 1) p"

definition enh_desc_end_tx_desc_on_ring :: "dma_desc \<Rightarrow> u32 \<Rightarrow> dma_desc" where
  "enh_desc_end_tx_desc_on_ring p ter = etx_set ''end_ring'' ter p"

definition enh_set_tx_desc_len_on_ring :: "dma_desc \<Rightarrow> int \<Rightarrow> dma_desc" where
  "enh_set_tx_desc_len_on_ring p len =
     (if len > BUF_SIZE_4KiB
      then (let p = etx_set ''buffer1_size'' (word_of_int BUF_SIZE_4KiB) p
            in etx_set ''buffer2_size'' (word_of_int (len - BUF_SIZE_4KiB)) p)
      else etx_set ''buffer1_size'' (word_of_int len) p)"

definition ndesc_rx_set_on_ring :: "dma_desc \<Rightarrow> bool \<Rightarrow> dma_desc" where
  "ndesc_rx_set_on_ring p is_end =
     (let p = rx_set ''buffer2_size'' (word_of_int (BUF_SIZE_2KiB - 1)) p
      in doif is_end (rx_set ''end_ring'' 1) p)"

definition ndesc_tx_set_on_ring :: "dma_desc \<Rightarrow> bool \<Rightarrow> dma_desc" where
  "ndesc_tx_set_on_ring p is_end = doif is_end (tx_set ''end_ring'' 1) p"

definition ndesc_end_tx_desc_on_ring :: "dma_desc \<Rightarrow> u32 \<Rightarrow> dma_desc" where
  "ndesc_end_tx_desc_on_ring p ter = tx_set ''end_ring'' ter p"

text \<open>The branch for long buffers assigns through the layout \<open>etx\<close>, as the source does.\<close>

definition norm_set_tx_desc_len_on_ring :: "dma_desc \<Rightarrow> int \<Rightarrow> dma_desc" where
  "norm_set_tx_desc_len_on_ring p len =
     (if len > BUF_SIZE_2KiB
      then (let p = etx_set ''buffer1_size'' (word_of_int (BUF_SIZE_2KiB - 1)) p
            in etx_set ''buffer2_size'' (word_of_int (len - uint (etx_get p ''buffer1_size''))) p)
      else tx_set ''buffer1_size'' (word_of_int len) p)"

section \<open>Chain mode helpers\<close>

definition ehn_desc_rx_set_on_chain :: "dma_desc \<Rightarrow> bool \<Rightarrow> dma_desc" where
  "ehn_desc_rx_set_on_chain p is_end = erx_set ''second_address_chained'' 1 p"

definition ehn_desc_tx_set_on_chain :: "dma_desc \<Rightarrow> bool \<Rightarrow> dma_desc" where
  "ehn_desc_tx_set_on_chain p is_end = etx_set ''second_address_chained'' 1 p"

definition enh_desc_end_tx_desc_on_chain :: "dma_desc \<Rightarrow> u32 \<Rightarrow> dma_desc" where
  "enh_desc_end_tx_desc_on_chain p ter = etx_set ''second_address_chained'' 1 p"

definition enh_set_tx_desc_len_on_chain :: "dma_desc \<Rightarrow> int \<Rightarrow> dma_desc" where
  "enh_set_tx_desc_len_on_chain p len = etx_set ''buffer1_size'' (word_of_int len) p"

definition ndesc_rx_set_on_chain :: "dma_desc \<Rightarrow> bool \<Rightarrow> dma_desc" where
  "ndesc_rx_set_on_chain p is_end = rx_set ''second_address_chained'' 1 p"

definition ndesc_tx_set_on_chain :: "dma_desc \<Rightarrow> bool \<Rightarrow> dma_desc" where
  "ndesc_tx_set_on_chain p ring_size = tx_set ''second_address_chained'' 1 p"

definition ndesc_end_tx_desc_on_chain :: "dma_desc \<Rightarrow> u32 \<Rightarrow> dma_desc" where
  "ndesc_end_tx_desc_on_chain p ter = tx_set ''second_address_chained'' 1 p"

definition norm_set_tx_desc_len_on_chain :: "dma_desc \<Rightarrow> int \<Rightarrow> dma_desc" where
  "norm_set_tx_desc_len_on_chain p len = tx_set ''buffer1_size'' (word_of_int len) p"

lemmas ring_chain_defs =
  ehn_desc_rx_set_on_ring_def ehn_desc_tx_set_on_ring_def enh_desc_end_tx_desc_on_ring_def
  enh_set_tx_desc_len_on_ring_def ndesc_rx_set_on_ring_def ndesc_tx_set_on_ring_def
  ndesc_end_tx_desc_on_ring_def norm_set_tx_desc_len_on_ring_def
  ehn_desc_rx_set_on_chain_def ehn_desc_tx_set_on_chain_def enh_desc_end_tx_desc_on_chain_def
  enh_set_tx_desc_len_on_chain_def ndesc_rx_set_on_chain_def ndesc_tx_set_on_chain_def
  ndesc_end_tx_desc_on_chain_def norm_set_tx_desc_len_on_chain_def

section \<open>Handlers of normal descriptors\<close>

definition ndesc_get_tx_status ::
    "net_device_stats \<Rightarrow> stmmac_extra_stats \<Rightarrow> dma_desc \<Rightarrow>
     int \<times> net_device_stats \<times> stmmac_extra_stats" where
  "ndesc_get_tx_status stats x p =
     (let (ret, stats, x) =
        (if tx_get p ''error_summary'' \<noteq> 0 then
           (let underflow = tx_get p ''underflow_error'' \<noteq> 0;
                x = doif underflow (tx_underflow_update inc) x;
                stats = doif underflow (tx_fifo_errors_update inc) stats;
                no_carrier = tx_get p ''no_carrier'' \<noteq> 0;
                x = doif no_carrier (tx_carrier_update inc) x;
                stats = doif no_carrier (tx_carrier_errors_update inc) stats;
                loss = tx_get p ''loss_carrier'' \<noteq> 0;
                x = doif loss (tx_losscarrier_update inc) x;
                stats = doif loss (tx_carrier_errors_update inc) stats;
                stats = doif (tx_get p ''excessive_deferral'' \<noteq> 0 \<or>
                              tx_get p ''excessive_collisions'' \<noteq> 0 \<or>
                              tx_get p ''late_collision'' \<noteq> 0)
                         (collisions_update (\<lambda>n. n + tx_get p ''collision_count'')) stats
            in (-1, stats, x))
         else (0, stats, x));
          x = doif (etx_get p ''vlan_frame'' \<noteq> 0) (tx_vlan_update inc) x;
          x = doif (tx_get p ''deferred'' \<noteq> 0) (tx_deferred_update inc) x
      in (ret, stats, x))"

definition ndesc_get_tx_len :: "dma_desc \<Rightarrow> int" where
  "ndesc_get_tx_len p = uint (tx_get p ''buffer1_size'')"

text \<open>
  The block under \<open>STMMAC_VLAN_TAG_USED\<close> is compiled in only with VLAN support in the kernel:
  the parameter \<open>vlan\<close> says whether it is.
\<close>

definition ndesc_get_rx_status ::
    "bool \<Rightarrow> net_device_stats \<Rightarrow> stmmac_extra_stats \<Rightarrow> dma_desc \<Rightarrow>
     int \<times> net_device_stats \<times> stmmac_extra_stats" where
  "ndesc_get_rx_status vlan stats x p =
     (if rx_get p ''last_descriptor'' = 0
      then (discard_frame, rx_length_errors_update inc stats, x)
      else
        (let (ret, stats, x) =
           (if rx_get p ''error_summary'' \<noteq> 0 then
              (let x = doif (rx_get p ''descriptor_error'' \<noteq> 0) (rx_desc_update inc) x;
                   x = doif (rx_get p ''sa_filter_fail'' \<noteq> 0) (sa_filter_fail_update inc) x;
                   x = doif (rx_get p ''overflow_error'' \<noteq> 0) (overflow_error_update inc) x;
                   x = doif (rx_get p ''ipc_csum_error'' \<noteq> 0) (ipc_csum_error_update inc) x;
                   coll = rx_get p ''collision'' \<noteq> 0;
                   x = doif coll (rx_collision_update inc) x;
                   stats = doif coll (collisions_update inc) stats;
                   crc = rx_get p ''crc_error'' \<noteq> 0;
                   x = doif crc (rx_crc_update inc) x;
                   stats = doif crc (rx_crc_errors_update inc) stats
               in (discard_frame, stats, x))
            else (good_frame, stats, x));
             x = doif (rx_get p ''dribbling'' \<noteq> 0) (dribbling_bit_update inc) x;
             len_err = rx_get p ''length_error'' \<noteq> 0;
             x = doif len_err (rx_length_update inc) x;
             ret = (if len_err then discard_frame else ret);
             mii_err = rx_get p ''mii_error'' \<noteq> 0;
             x = doif mii_err (rx_mii_update inc) x;
             ret = (if mii_err then discard_frame else ret);
             x = doif (vlan \<and> rx_get p ''vlan_tag'' \<noteq> 0) (vlan_tag_update inc) x
         in (ret, stats, x)))"

definition ndesc_init_rx_desc :: "dma_desc \<Rightarrow> bool \<Rightarrow> u32 \<Rightarrow> bool \<Rightarrow> dma_desc" where
  "ndesc_init_rx_desc p disable_rx_ic mode is_end =
     (let p = rx_set ''own'' 1 p;
          p = rx_set ''buffer1_size'' (word_of_int (BUF_SIZE_2KiB - 1)) p;
          p = (if mode = STMMAC_CHAIN_MODE then ndesc_rx_set_on_chain p is_end
               else ndesc_rx_set_on_ring p is_end)
      in doif disable_rx_ic (rx_set ''disable_ic'' 1) p)"

definition ndesc_init_tx_desc :: "dma_desc \<Rightarrow> u32 \<Rightarrow> bool \<Rightarrow> dma_desc" where
  "ndesc_init_tx_desc p mode is_end =
     (let p = tx_set ''own'' 0 p
      in if mode = STMMAC_CHAIN_MODE then ndesc_tx_set_on_chain p is_end
         else ndesc_tx_set_on_ring p is_end)"

definition ndesc_get_tx_owner :: "dma_desc \<Rightarrow> int" where
  "ndesc_get_tx_owner p = uint (tx_get p ''own'')"

definition ndesc_get_rx_owner :: "dma_desc \<Rightarrow> int" where
  "ndesc_get_rx_owner p = uint (rx_get p ''own'')"

definition ndesc_set_tx_owner :: "dma_desc \<Rightarrow> dma_desc" where
  "ndesc_set_tx_owner p = tx_set ''own'' 1 p"

definition ndesc_set_rx_owner :: "dma_desc \<Rightarrow> dma_desc" where
  "ndesc_set_rx_owner p = rx_set ''own'' 1 p"

definition ndesc_get_tx_ls :: "dma_desc \<Rightarrow> int" where
  "ndesc_get_tx_ls p = uint (tx_get p ''last_segment'')"

definition ndesc_release_tx_desc :: "dma_desc \<Rightarrow> u32 \<Rightarrow> dma_desc" where
  "ndesc_release_tx_desc p mode =
     (let ter = tx_get p ''end_ring'';
          p = p\<lparr>des0 := 0, des1 := 0\<rparr>
      in if mode = STMMAC_CHAIN_MODE then ndesc_end_tx_desc_on_chain p ter
         else ndesc_end_tx_desc_on_ring p ter)"

definition ndesc_prepare_tx_desc :: "dma_desc \<Rightarrow> u32 \<Rightarrow> int \<Rightarrow> bool \<Rightarrow> u32 \<Rightarrow> dma_desc" where
  "ndesc_prepare_tx_desc p is_fs len csum_flag mode =
     (let p = tx_set ''first_segment'' is_fs p;
          p = (if mode = STMMAC_CHAIN_MODE then norm_set_tx_desc_len_on_chain p len
               else norm_set_tx_desc_len_on_ring p len)
      in doif csum_flag (tx_set ''checksum_insertion'' cic_full) p)"

definition ndesc_clear_tx_ic :: "dma_desc \<Rightarrow> dma_desc" where
  "ndesc_clear_tx_ic p = tx_set ''interrupt'' 0 p"

definition ndesc_close_tx_desc :: "dma_desc \<Rightarrow> dma_desc" where
  "ndesc_close_tx_desc p = tx_set ''interrupt'' 1 (tx_set ''last_segment'' 1 p)"

definition ndesc_get_rx_frame_len :: "dma_desc \<Rightarrow> int \<Rightarrow> int" where
  "ndesc_get_rx_frame_len p rx_coe_type =
     (if rx_coe_type = STMMAC_RX_COE_TYPE1 then uint (rx_get p ''frame_length'') - 2
      else uint (rx_get p ''frame_length''))"

definition ndesc_enable_tx_timestamp :: "dma_desc \<Rightarrow> dma_desc" where
  "ndesc_enable_tx_timestamp p = tx_set ''time_stamp_enable'' 1 p"

definition ndesc_get_tx_timestamp_status :: "dma_desc \<Rightarrow> int" where
  "ndesc_get_tx_timestamp_status p = uint (tx_get p ''time_stamp_status'')"

definition ndesc_get_timestamp :: "dma_desc \<Rightarrow> u32 \<Rightarrow> u64" where
  "ndesc_get_timestamp p ats = ucast (des2 p) + ucast (des3 p) * 1000000000"

definition ndesc_get_rx_timestamp_status :: "dma_desc \<Rightarrow> u32 \<Rightarrow> int" where
  "ndesc_get_rx_timestamp_status p ats =
     (if des2 p = 0xffffffff \<and> des3 p = 0xffffffff then 0 else 1)"

lemmas ndesc_defs =
  ndesc_init_rx_desc_def ndesc_init_tx_desc_def ndesc_get_tx_owner_def ndesc_get_rx_owner_def
  ndesc_set_tx_owner_def ndesc_set_rx_owner_def ndesc_get_tx_ls_def ndesc_release_tx_desc_def
  ndesc_prepare_tx_desc_def ndesc_clear_tx_ic_def ndesc_close_tx_desc_def ndesc_get_tx_len_def
  ndesc_get_rx_frame_len_def ndesc_enable_tx_timestamp_def ndesc_get_tx_timestamp_status_def

section \<open>The table of descriptor operations\<close>

record stmmac_desc_ops =
  init_rx_desc :: "dma_desc \<Rightarrow> bool \<Rightarrow> u32 \<Rightarrow> bool \<Rightarrow> dma_desc"
  init_tx_desc :: "dma_desc \<Rightarrow> u32 \<Rightarrow> bool \<Rightarrow> dma_desc"
  prepare_tx_desc :: "dma_desc \<Rightarrow> u32 \<Rightarrow> int \<Rightarrow> bool \<Rightarrow> u32 \<Rightarrow> dma_desc"
  set_tx_owner :: "dma_desc \<Rightarrow> dma_desc"
  get_tx_owner :: "dma_desc \<Rightarrow> int"
  close_tx_desc :: "dma_desc \<Rightarrow> dma_desc"
  release_tx_desc :: "dma_desc \<Rightarrow> u32 \<Rightarrow> dma_desc"
  clear_tx_ic :: "dma_desc \<Rightarrow> dma_desc"
  get_tx_ls :: "dma_desc \<Rightarrow> int"
  tx_status :: "net_device_stats \<Rightarrow> stmmac_extra_stats \<Rightarrow> dma_desc \<Rightarrow>
    int \<times> net_device_stats \<times> stmmac_extra_stats"
  get_tx_len :: "dma_desc \<Rightarrow> int"
  get_rx_owner :: "dma_desc \<Rightarrow> int"
  set_rx_owner :: "dma_desc \<Rightarrow> dma_desc"
  get_rx_frame_len :: "dma_desc \<Rightarrow> int \<Rightarrow> int"
  rx_status :: "net_device_stats \<Rightarrow> stmmac_extra_stats \<Rightarrow> dma_desc \<Rightarrow>
    int \<times> net_device_stats \<times> stmmac_extra_stats"
  rx_extended_status :: "(net_device_stats \<Rightarrow> stmmac_extra_stats \<Rightarrow> dma_extended_desc \<Rightarrow>
    net_device_stats \<times> stmmac_extra_stats) option"
  enable_tx_timestamp :: "dma_desc \<Rightarrow> dma_desc"
  get_tx_timestamp_status :: "dma_desc \<Rightarrow> int"
  get_timestamp :: "dma_desc \<Rightarrow> u32 \<Rightarrow> u64"
  get_rx_timestamp_status :: "dma_desc \<Rightarrow> u32 \<Rightarrow> int"

definition ndesc_ops :: "bool \<Rightarrow> stmmac_desc_ops" where
  [ops_simps]: "ndesc_ops vlan = \<lparr>
     init_rx_desc = ndesc_init_rx_desc,
     init_tx_desc = ndesc_init_tx_desc,
     prepare_tx_desc = ndesc_prepare_tx_desc,
     set_tx_owner = ndesc_set_tx_owner,
     get_tx_owner = ndesc_get_tx_owner,
     close_tx_desc = ndesc_close_tx_desc,
     release_tx_desc = ndesc_release_tx_desc,
     clear_tx_ic = ndesc_clear_tx_ic,
     get_tx_ls = ndesc_get_tx_ls,
     tx_status = ndesc_get_tx_status,
     get_tx_len = ndesc_get_tx_len,
     get_rx_owner = ndesc_get_rx_owner,
     set_rx_owner = ndesc_set_rx_owner,
     get_rx_frame_len = ndesc_get_rx_frame_len,
     rx_status = ndesc_get_rx_status vlan,
     rx_extended_status = None,
     enable_tx_timestamp = ndesc_enable_tx_timestamp,
     get_tx_timestamp_status = ndesc_get_tx_timestamp_status,
     get_timestamp = ndesc_get_timestamp,
     get_rx_timestamp_status = ndesc_get_rx_timestamp_status\<rparr>"

section \<open>The contract of the descriptor operations\<close>

text \<open>
  What the transmit and receive paths rely on, whatever the kind of descriptor: the owner bit
  is set and cleared only by the operations meant to, a released or freshly initialised
  transmit descriptor belongs to the driver, the length given to \<open>prepare_tx_desc\<close> is what
  \<open>get_tx_len\<close> returns for the lengths \<open>len_ok\<close>, and the buffer addresses are never touched.
\<close>

locale desc_contract =
  fixes ops :: stmmac_desc_ops
    and mode :: u32
    and len_ok :: "int \<Rightarrow> bool"
  assumes owner_set: "get_tx_owner ops (set_tx_owner ops p) \<noteq> 0"
    and owner_release: "get_tx_owner ops (release_tx_desc ops p mode) = 0"
    and owner_init: "get_tx_owner ops (init_tx_desc ops p mode e) = 0"
    and owner_prepare: "get_tx_owner ops (prepare_tx_desc ops p fs len csum mode) = get_tx_owner ops p"
    and owner_close: "get_tx_owner ops (close_tx_desc ops p) = get_tx_owner ops p"
    and owner_clear_ic: "get_tx_owner ops (clear_tx_ic ops p) = get_tx_owner ops p"
    and owner_timestamp: "get_tx_owner ops (enable_tx_timestamp ops p) = get_tx_owner ops p"
    and owner_des2: "get_tx_owner ops (p\<lparr>des2 := a\<rparr>) = get_tx_owner ops p"
    and len_prepare: "len_ok len \<Longrightarrow> get_tx_len ops (prepare_tx_desc ops p fs len csum mode) = len"
    and len_close: "get_tx_len ops (close_tx_desc ops p) = get_tx_len ops p"
    and len_clear_ic: "get_tx_len ops (clear_tx_ic ops p) = get_tx_len ops p"
    and len_set_owner: "get_tx_len ops (set_tx_owner ops p) = get_tx_len ops p"
    and ls_close: "get_tx_ls ops (close_tx_desc ops p) \<noteq> 0"
    and ls_clear_ic: "get_tx_ls ops (clear_tx_ic ops p) = get_tx_ls ops p"
    and ls_set_owner: "get_tx_ls ops (set_tx_owner ops p) = get_tx_ls ops p"
    and rx_owner_set: "get_rx_owner ops (set_rx_owner ops p) \<noteq> 0"
    and rx_owner_init: "get_rx_owner ops (init_rx_desc ops p d mode e) \<noteq> 0"
    and rx_owner_des2: "get_rx_owner ops (p\<lparr>des2 := a\<rparr>) = get_rx_owner ops p"
    and des2_tx: "des2 (prepare_tx_desc ops p fs len csum mode) = des2 p"
      "des2 (close_tx_desc ops p) = des2 p" "des2 (clear_tx_ic ops p) = des2 p"
      "des2 (set_tx_owner ops p) = des2 p" "des2 (release_tx_desc ops p mode) = des2 p"
      "des2 (init_tx_desc ops p mode e) = des2 p"
    and des2_rx: "des2 (set_rx_owner ops p) = des2 p" "des2 (init_rx_desc ops p d mode e) = des2 p"
begin

text \<open>The three steps that end the transmission of a frame keep what the hardware will report.\<close>

lemma finished_desc:
  "get_tx_owner ops (set_tx_owner ops (clear_tx_ic ops (close_tx_desc ops p))) \<noteq> 0"
  "get_tx_ls ops (set_tx_owner ops (clear_tx_ic ops (close_tx_desc ops p))) \<noteq> 0"
  "get_tx_len ops (set_tx_owner ops (clear_tx_ic ops (close_tx_desc ops p))) = get_tx_len ops p"
  by (simp_all add: owner_set ls_set_owner ls_clear_ic ls_close len_set_owner len_clear_ic len_close)

lemma prepared_frame:
  "len_ok len \<Longrightarrow>
     get_tx_len ops (set_tx_owner ops (close_tx_desc ops (prepare_tx_desc ops p fs len csum mode))) = len"
  by (simp add: len_set_owner len_close len_prepare)

end

text \<open>Normal descriptors keep the contract, in ring and in chain mode, for lengths below 2048.\<close>

lemma take_bit_len:
  assumes "0 \<le> len" and "len < 2 ^ wd" and "wd \<le> 32"
  shows "uint (take_bit wd (word_of_int len :: u32)) = len"
proof -
  have "(2 :: int) ^ wd \<le> 2 ^ 32" using assms(3) by (intro power_increasing) auto
  then have "len < 4294967296" using assms(2) by simp
  with assms show ?thesis
    by (simp add: unsigned_take_bit_eq uint_word_of_int take_bit_int_eq_self)
qed

lemma des0_des1_cleared [simp]:
  "fld_get (BF i off wd) (p\<lparr>des0 := 0, des1 := 0\<rparr>) = 0"
  by (simp add: fld_get.simps)

lemma norm_len_owner:
  "fld_get (BF 0 31 (Suc 0)) (norm_set_tx_desc_len_on_ring p len) = fld_get (BF 0 31 (Suc 0)) p"
  by (simp add: norm_set_tx_desc_len_on_ring_def union_defs bf_simps Let_def)

lemma norm_len_short:
  "len \<le> BUF_SIZE_2KiB \<Longrightarrow> norm_set_tx_desc_len_on_ring p len = tx_set ''buffer1_size'' (word_of_int len) p"
  by (simp add: norm_set_tx_desc_len_on_ring_def)

lemma norm_len_des2 [simp]: "des2 (norm_set_tx_desc_len_on_ring p len) = des2 p"
  by (simp add: norm_set_tx_desc_len_on_ring_def Let_def)

lemmas ndesc_simps = ndesc_defs ops_simps bf_simps union_defs Let_def doif_distrib

interpretation nd_ring: desc_contract "ndesc_ops vlan" STMMAC_RING_MODE "\<lambda>len. 0 \<le> len \<and> len < 2048"
  for vlan
  by unfold_locales
    (simp_all add: ndesc_simps hw_consts ndesc_tx_set_on_ring_def ndesc_end_tx_desc_on_ring_def
      ndesc_rx_set_on_ring_def norm_len_owner norm_len_short [unfolded hw_consts] take_bit_len)

interpretation nd_chain: desc_contract "ndesc_ops vlan" STMMAC_CHAIN_MODE "\<lambda>len. 0 \<le> len \<and> len < 2048"
  for vlan
  by unfold_locales
    (simp_all add: ndesc_simps hw_consts ndesc_tx_set_on_chain_def ndesc_end_tx_desc_on_chain_def
      ndesc_rx_set_on_chain_def norm_set_tx_desc_len_on_chain_def take_bit_len)

section \<open>Properties of normal descriptors\<close>

lemma fld_get_1_cases: "fld_get (BF i off (Suc 0)) p = 0 \<or> fld_get (BF i off (Suc 0)) p = 1"
  using fld_get_bit [of i off p] by simp

text \<open>
  Property C27. The length programmed into a transmit descriptor reads back unchanged for every
  buffer shorter than 2048 bytes, whatever the descriptor held before, in chain and in ring mode.
\<close>

theorem ndesc_tx_len_roundtrip:
  assumes "0 \<le> len" and "len < 2048"
  shows "ndesc_get_tx_len (ndesc_prepare_tx_desc p fs len csum mode) = len"
proof (cases "mode = STMMAC_CHAIN_MODE")
  case True
  then show ?thesis using nd_chain.len_prepare [of len] assms by (simp add: ops_simps)
next
  case False
  then have "ndesc_prepare_tx_desc p fs len csum mode =
      ndesc_prepare_tx_desc p fs len csum STMMAC_RING_MODE"
    by (simp add: ndesc_prepare_tx_desc_def hw_consts)
  then show ?thesis using nd_ring.len_prepare [of len] assms by (simp add: ops_simps)
qed

theorem ndesc_tx_len_roundtrip_witness:
  "(0 :: int) \<le> 1514 \<and> (1514 :: int) < 2048 \<and>
     ndesc_get_tx_len (ndesc_prepare_tx_desc zero_desc 1 1514 True STMMAC_RING_MODE) = 1514"
  using ndesc_tx_len_roundtrip [of 1514 zero_desc 1 True STMMAC_RING_MODE] by simp

text \<open>
  A buffer of exactly 2048 bytes, which the test \<open>len > BUF_SIZE_2KiB\<close> sends to the
  short branch, is stored into the 11-bit field as length 0, in ring and in chain mode.
\<close>

theorem ndesc_tx_len_2048_lost:
  "ndesc_get_tx_len (ndesc_prepare_tx_desc p fs 2048 csum mode) = 0"
proof -
  have z: "take_bit 11 (2048 :: u32) = 0" by (simp add: take_bit_eq_mod)
  show ?thesis
    by (simp add: ndesc_simps norm_set_tx_desc_len_on_chain_def norm_len_short [unfolded hw_consts] z)
qed

lemma fld_get_bit_of_set:
  "i \<noteq> 0 \<Longrightarrow> off' \<le> off \<Longrightarrow> off < off' + wd' \<Longrightarrow> off < 32 \<Longrightarrow>
     fld_get (BF i off (Suc 0)) (fld_set (BF i off' wd') v p) = of_bool (bit v (off - off'))"
  by (rule bit_eqI) (auto simp: fld_get.simps fld_set.simps bit_wf_get bit_wf_set bit_simps)

text \<open>
  In ring mode a buffer longer than 2048 bytes is programmed through the enhanced
  layout, so the control bits of the normal descriptor are overwritten by bits of the second
  length, \<open>len - 2047\<close>: the end-of-ring mark becomes its bit 9, the chain bit its bit 8 and the
  timestamp request its bit 6, whatever the descriptor held before.
\<close>

theorem ndesc_long_buffer_overwrites_control:
  assumes "2048 < len"
  shows "tx_get (ndesc_prepare_tx_desc p fs len csum STMMAC_RING_MODE) ''end_ring'' = of_bool (bit (len - 2047) 9)
       \<and> tx_get (ndesc_prepare_tx_desc p fs len csum STMMAC_RING_MODE) ''second_address_chained'' =
           of_bool (bit (len - 2047) 8)
       \<and> tx_get (ndesc_prepare_tx_desc p fs len csum STMMAC_RING_MODE) ''time_stamp_enable'' =
           of_bool (bit (len - 2047) 6)"
proof -
  have z: "uint (take_bit 13 (2047 :: u32)) = 2047" by (simp add: take_bit_eq_mod)
  have b: "bit (word_of_int (len - 2047) :: u32) n = bit (len - 2047) n" if "n < 32" for n
    by (subst bit_word_of_int_iff) (simp add: that)
  then have b': "bit (word_of_int len - 2047 :: u32) n = bit (len - 2047) n" if "n < 32" for n
    using that by simp
  show ?thesis using assms
    by (simp add: ndesc_simps norm_set_tx_desc_len_on_ring_def hw_consts z fld_get_bit_of_set b')
qed

theorem ndesc_long_buffer_overwrites_control_witness:
  "(2048 :: int) < 2100 \<and>
     tx_get (ndesc_prepare_tx_desc (tx_set ''end_ring'' 1 zero_desc) 1 2100 False STMMAC_RING_MODE) ''end_ring'' = 0"
  using ndesc_long_buffer_overwrites_control [of 2100 "tx_set ''end_ring'' 1 zero_desc" 1 False]
  by (simp add: bit_iff_odd)

text \<open>
  Releasing a transmit descriptor in ring mode clears both status words but for the
  end-of-ring mark, which survives, and leaves the two address words alone; the descriptor
  belongs to the driver again.
\<close>

theorem ndesc_release_ring:
  "des0 (ndesc_release_tx_desc p STMMAC_RING_MODE) = 0
     \<and> des1 (ndesc_release_tx_desc p STMMAC_RING_MODE) = push_bit 25 (tx_get p ''end_ring'')
     \<and> tx_get (ndesc_release_tx_desc p STMMAC_RING_MODE) ''end_ring'' = tx_get p ''end_ring''
     \<and> ndesc_get_tx_owner (ndesc_release_tx_desc p STMMAC_RING_MODE) = 0
     \<and> des2 (ndesc_release_tx_desc p STMMAC_RING_MODE) = des2 p
     \<and> des3 (ndesc_release_tx_desc p STMMAC_RING_MODE) = des3 p"
proof -
  let ?q = "ndesc_release_tx_desc p STMMAC_RING_MODE"
  have t: "fld_get (BF (Suc 0) 25 (Suc 0)) p mod 2 = fld_get (BF (Suc 0) 25 (Suc 0)) p"
    using fld_get_1_cases [of "Suc 0" 25 p] by auto
  have d: "des0 ?q = 0" "des1 ?q = push_bit 25 (tx_get p ''end_ring'')"
    by (simp_all add: ndesc_simps ndesc_end_tx_desc_on_ring_def hw_consts fld_set.simps wf_set_def t)
  show ?thesis using d t
    by (simp add: ndesc_simps ndesc_end_tx_desc_on_ring_def hw_consts)
qed

text \<open>
  A received frame is accepted exactly when it ends in this descriptor and the
  hardware reports no summary, length or MII error; otherwise the status is \<open>discard_frame\<close>.
  No other status is ever returned for normal descriptors.
\<close>

theorem ndesc_rx_status_good_iff:
  "fst (ndesc_get_rx_status vlan stats x p) =
     (if rx_get p ''last_descriptor'' \<noteq> 0 \<and> rx_get p ''error_summary'' = 0 \<and>
         rx_get p ''length_error'' = 0 \<and> rx_get p ''mii_error'' = 0
      then good_frame else discard_frame)"
  by (simp add: ndesc_get_rx_status_def Let_def)

text \<open>
  The transmit status is an error exactly when the summary bit is set; then, and
  only then, the interface counts are touched: one FIFO error for an underflow, one carrier
  error for each of the two carrier bits, and the collision count for a frame given up.
\<close>

theorem ndesc_tx_status_counts:
  "ndesc_get_tx_status stats x p =
     (if tx_get p ''error_summary'' = 0 then (0, stats, snd (snd (ndesc_get_tx_status stats x p)))
      else (-1, stats
        \<lparr> tx_fifo_errors := tx_fifo_errors stats + of_bool (tx_get p ''underflow_error'' \<noteq> 0),
          tx_carrier_errors := tx_carrier_errors stats + of_bool (tx_get p ''no_carrier'' \<noteq> 0)
             + of_bool (tx_get p ''loss_carrier'' \<noteq> 0),
          collisions := collisions stats +
             (if tx_get p ''excessive_deferral'' = 0 \<and> tx_get p ''excessive_collisions'' = 0 \<and>
                 tx_get p ''late_collision'' = 0
              then 0 else tx_get p ''collision_count'') \<rparr>,
        snd (snd (ndesc_get_tx_status stats x p))))"
  by (simp add: ndesc_get_tx_status_def Let_def doif_def)

text \<open>
  The time stamp of a descriptor, seconds in \<open>des3\<close> and nanoseconds in \<open>des2\<close>, is
  converted to nanoseconds without overflow of the 64-bit result, for every content.
\<close>

theorem ndesc_timestamp_exact:
  "unat (ndesc_get_timestamp p ats) = unat (des2 p) + unat (des3 p) * 1000000000"
proof -
  have a: "unat (des2 p) < 2 ^ 32" and b: "unat (des3 p) < 2 ^ 32"
    using unsigned_less [of "des2 p"] unsigned_less [of "des3 p"] by simp_all
  then have m: "unat (des3 p) * 1000000000 < 2 ^ 64" and
    s: "unat (des2 p) + unat (des3 p) * 1000000000 < 2 ^ 64" by simp_all
  show ?thesis using a b
    by (simp add: ndesc_get_timestamp_def unat_word_ariths unsigned_ucast_eq
        take_bit_nat_eq_self mod_less m [simplified] s [simplified])
qed

end
