(* ===== verification/Mac_Ops.thy ===== *)
theory Mac_Ops
  imports Dwmac_Lib Norm_Desc
begin

text \<open>
  The tables through which the driver reaches a core, of \<open>common.h\<close>: \<open>struct stmmac_ops\<close>,
  \<open>struct stmmac_dma_ops\<close> and \<open>struct mac_device_info\<close>, with the values the kernel headers give
  them (error codes, interface flags, speeds), and the hash filter of multicast addresses, which
  both cores build the same way. A member that a table may leave \<open>NULL\<close> is an option. The members
  of \<open>struct net_device\<close> are those the driver reads; the two address lists it walks with
  \<open>netdev_for_each_mc_addr\<close> and \<open>netdev_for_each_uc_addr\<close> are lists of six-byte lists.
\<close>

section \<open>Values of the kernel headers\<close>

definition EIO :: int where [hw_consts]: "EIO = 5"
definition ENXIO :: int where [hw_consts]: "ENXIO = 6"
definition ENOMEM :: int where [hw_consts]: "ENOMEM = 12"
definition EFAULT :: int where [hw_consts]: "EFAULT = 14"
definition EBUSY :: int where [hw_consts]: "EBUSY = 16"
definition ENODEV :: int where [hw_consts]: "ENODEV = 19"
definition EINVAL :: int where [hw_consts]: "EINVAL = 22"
definition ERANGE :: int where [hw_consts]: "ERANGE = 34"
definition EOPNOTSUPP :: int where [hw_consts]: "EOPNOTSUPP = 95"

definition IFF_PROMISC :: u32 where [hw_consts]: "IFF_PROMISC = 0x100"
definition IFF_ALLMULTI :: u32 where [hw_consts]: "IFF_ALLMULTI = 0x200"

definition WAKE_UCAST :: u32 where [hw_consts]: "WAKE_UCAST = 0x2"
definition WAKE_MAGIC :: u32 where [hw_consts]: "WAKE_MAGIC = 0x20"

definition PHY_INTERFACE_MODE_MII :: u32 where [hw_consts]: "PHY_INTERFACE_MODE_MII = 1"
definition PHY_INTERFACE_MODE_RGMII :: u32 where [hw_consts]: "PHY_INTERFACE_MODE_RGMII = 6"
definition PHY_INTERFACE_MODE_RGMII_ID :: u32 where [hw_consts]: "PHY_INTERFACE_MODE_RGMII_ID = 7"
definition PHY_INTERFACE_MODE_RGMII_RXID :: u32 where [hw_consts]: "PHY_INTERFACE_MODE_RGMII_RXID = 8"
definition PHY_INTERFACE_MODE_RGMII_TXID :: u32 where [hw_consts]: "PHY_INTERFACE_MODE_RGMII_TXID = 9"
definition PHY_INTERFACE_MODE_RMII :: u32 where [hw_consts]: "PHY_INTERFACE_MODE_RMII = 5"
definition PHY_INTERFACE_MODE_SGMII :: u32 where [hw_consts]: "PHY_INTERFACE_MODE_SGMII = 3"
definition SPEED_10 :: u32 where [hw_consts]: "SPEED_10 = 10"
definition SPEED_100 :: u32 where [hw_consts]: "SPEED_100 = 100"
definition SPEED_1000 :: u32 where [hw_consts]: "SPEED_1000 = 1000"
definition DUPLEX_HALF :: u32 where [hw_consts]: "DUPLEX_HALF = 0"
definition DUPLEX_FULL :: u32 where [hw_consts]: "DUPLEX_FULL = 1"

section \<open>The tables\<close>

record net_device =
  base_addr :: u32
  nd_flags :: u32
  nd_mc :: "u8 list list"
  nd_uc :: "u8 list list"

text \<open>The functions of \<open>linux/crc32.h\<close> and \<open>linux/bitrev.h\<close>, which the driver only calls.\<close>

record crc_lib =
  crc32_le :: "u32 \<Rightarrow> u8 list \<Rightarrow> u32"
  bitrev32 :: "u32 \<Rightarrow> u32"
  ether_crc :: "u8 list \<Rightarrow> u32"

text \<open>A concrete library, for the instances of the properties.\<close>

definition bench_crc :: crc_lib where
  "bench_crc = \<lparr>crc32_le = (\<lambda>s bs. fold (\<lambda>b a. 31 * a + ucast b) bs s), bitrev32 = (\<lambda>x. x),
     ether_crc = (\<lambda>bs. fold (\<lambda>b a. 31 * a + ucast b) bs 0)\<rparr>"

record rgmii_adv =
  adv_pause :: u32
  adv_duplex :: u32
  adv_lp_pause :: u32
  adv_lp_duplex :: u32

record mac_link =
  link_port :: u32
  link_duplex :: u32
  link_speed :: u32

record mii_regs =
  mii_addr :: u32
  mii_data :: u32

record 'w stmmac_dma_ops =
  dma_init :: "'w env \<Rightarrow> u32 \<Rightarrow> u32 \<Rightarrow> u32 \<Rightarrow> u32 \<Rightarrow> u32 \<Rightarrow> u32 \<Rightarrow> u32 \<Rightarrow> u32 \<Rightarrow> 'w \<Rightarrow> int \<times> 'w"
  dma_dump_regs :: "'w env \<Rightarrow> u32 \<Rightarrow> 'w \<Rightarrow> 'w"
  dma_mode :: "'w env \<Rightarrow> u32 \<Rightarrow> int \<Rightarrow> int \<Rightarrow> 'w \<Rightarrow> 'w"
  dma_diagnostic_fr :: "('w env \<Rightarrow> net_device_stats \<Rightarrow> stmmac_extra_stats \<Rightarrow> u32 \<Rightarrow> 'w \<Rightarrow>
      net_device_stats \<times> stmmac_extra_stats \<times> 'w) option"
  enable_dma_transmission :: "'w env \<Rightarrow> u32 \<Rightarrow> 'w \<Rightarrow> 'w"
  enable_dma_irq :: "'w env \<Rightarrow> u32 \<Rightarrow> 'w \<Rightarrow> 'w"
  disable_dma_irq :: "'w env \<Rightarrow> u32 \<Rightarrow> 'w \<Rightarrow> 'w"
  start_tx :: "'w env \<Rightarrow> u32 \<Rightarrow> 'w \<Rightarrow> 'w"
  stop_tx :: "'w env \<Rightarrow> u32 \<Rightarrow> 'w \<Rightarrow> 'w"
  start_rx :: "'w env \<Rightarrow> u32 \<Rightarrow> 'w \<Rightarrow> 'w"
  stop_rx :: "'w env \<Rightarrow> u32 \<Rightarrow> 'w \<Rightarrow> 'w"
  dma_interrupt :: "'w env \<Rightarrow> u32 \<Rightarrow> stmmac_extra_stats \<Rightarrow> 'w \<Rightarrow> u32 \<times> stmmac_extra_stats \<times> 'w"
  get_hw_feature :: "('w env \<Rightarrow> u32 \<Rightarrow> 'w \<Rightarrow> u32 \<times> 'w) option"
  rx_watchdog :: "('w env \<Rightarrow> u32 \<Rightarrow> u32 \<Rightarrow> 'w \<Rightarrow> 'w) option"

record 'w stmmac_ops =
  core_init :: "'w env \<Rightarrow> u32 \<Rightarrow> 'w \<Rightarrow> 'w"
  rx_ipc :: "'w env \<Rightarrow> u32 \<Rightarrow> 'w \<Rightarrow> u32 \<times> 'w"
  mac_dump_regs :: "'w env \<Rightarrow> u32 \<Rightarrow> 'w \<Rightarrow> 'w"
  host_irq_status :: "'w env \<Rightarrow> u32 \<Rightarrow> stmmac_extra_stats \<Rightarrow> 'w \<Rightarrow> u32 \<times> stmmac_extra_stats \<times> 'w"
  set_filter :: "'w env \<Rightarrow> net_device \<Rightarrow> u32 \<Rightarrow> 'w \<Rightarrow> 'w"
  flow_ctrl :: "'w env \<Rightarrow> u32 \<Rightarrow> u32 \<Rightarrow> u32 \<Rightarrow> u32 \<Rightarrow> 'w \<Rightarrow> 'w"
  pmt :: "'w env \<Rightarrow> u32 \<Rightarrow> u32 \<Rightarrow> 'w \<Rightarrow> 'w"
  set_umac_addr :: "'w env \<Rightarrow> u32 \<Rightarrow> u8 list \<Rightarrow> u32 \<Rightarrow> 'w \<Rightarrow> 'w"
  get_umac_addr :: "'w env \<Rightarrow> u32 \<Rightarrow> u32 \<Rightarrow> 'w \<Rightarrow> u8 list \<times> 'w"
  set_eee_mode :: "('w env \<Rightarrow> u32 \<Rightarrow> 'w \<Rightarrow> 'w) option"
  reset_eee_mode :: "('w env \<Rightarrow> u32 \<Rightarrow> 'w \<Rightarrow> 'w) option"
  set_eee_timer :: "('w env \<Rightarrow> u32 \<Rightarrow> u32 \<Rightarrow> u32 \<Rightarrow> 'w \<Rightarrow> 'w) option"
  set_eee_pls :: "('w env \<Rightarrow> u32 \<Rightarrow> bool \<Rightarrow> 'w \<Rightarrow> 'w) option"
  ctrl_ane :: "('w env \<Rightarrow> u32 \<Rightarrow> bool \<Rightarrow> 'w \<Rightarrow> 'w) option"
  get_adv :: "('w env \<Rightarrow> u32 \<Rightarrow> rgmii_adv \<Rightarrow> 'w \<Rightarrow> rgmii_adv \<times> 'w) option"

text \<open>
  The tables of ring mode, chain mode and time stamping are in files the repository does not
  have: of these three pointers only whether they are set is kept.
\<close>

record 'w mac_device_info =
  hw_mac :: "'w stmmac_ops"
  hw_desc :: "stmmac_desc_ops option"
  hw_dma :: "'w stmmac_dma_ops"
  hw_ring :: bool
  hw_chain :: bool
  hw_ptp :: bool
  hw_mii :: mii_regs
  hw_link :: mac_link
  synopsys_uid :: u32

section \<open>The multicast hash table\<close>

text \<open>
  \<open>mc_filter[bit_nr >> 5] |= 1 << (bit_nr & 31)\<close>, where \<open>bit_nr\<close> is the upper six bits of a
  32-bit checksum, so the array of two words is never left.
\<close>

definition mc_filter_add :: "u32 \<Rightarrow> u32 list \<Rightarrow> u32 list" where
  "mc_filter_add crc mc_filter =
     (let bit_nr = drop_bit 26 crc; i = unat (drop_bit 5 bit_nr)
      in mc_filter[i := mc_filter ! i OR push_bit (unat (bit_nr AND 31)) 1])"

definition mc_filter_table :: "(u8 list \<Rightarrow> u32) \<Rightarrow> u8 list list \<Rightarrow> u32 list" where
  "mc_filter_table crc mcs = fold (\<lambda>ha. mc_filter_add (crc ha)) mcs [0, 0]"

text \<open>The position of a checksum in the table read as 64 bits.\<close>

definition table_bit :: "u32 list \<Rightarrow> nat \<Rightarrow> bool" where
  "table_bit t n = bit (t ! (n div 32)) (n mod 32)"

lemma unat_drop_26: "unat (drop_bit 26 (crc :: u32)) < 64"
proof -
  have "unat crc < 2 ^ 32" using unsigned_less [of crc] by simp
  then have "unat crc div 2 ^ 26 < 64" by (simp add: less_mult_imp_div_less)
  then show ?thesis by (simp add: drop_bit_eq_div unat_div_distrib)
qed

lemma mc_filter_add_len [simp]: "length (mc_filter_add crc t) = length t"
  by (simp add: mc_filter_add_def Let_def)

lemma mc_filter_add_bit:
  assumes "length t = 2" and "n < 64"
  shows "table_bit (mc_filter_add crc t) n \<longleftrightarrow> table_bit t n \<or> unat (drop_bit 26 crc) = n"
proof -
  define b where "b = unat (drop_bit 26 crc)"
  have b: "b < 64" unfolding b_def by (rule unat_drop_26)
  have i: "unat (drop_bit 5 (drop_bit 26 crc)) = b div 32"
    by (simp add: b_def drop_bit_eq_div unat_div_distrib)
  have m: "(31 :: u32) = mask 5" by (simp add: mask_numeral)
  have j: "unat (drop_bit 26 crc AND 31) = b mod 32"
    unfolding m by (simp add: b_def take_bit_eq_mask [symmetric] take_bit_eq_mod unat_mod_distrib)
  have eq: "n = b \<longleftrightarrow> n div 32 = b div 32 \<and> n mod 32 = b mod 32"
    by (metis div_mult_mod_eq)
  have nd: "n div 32 < 2" "b div 32 < 2" "n mod 32 < 32" "b mod 32 < 32" using assms(2) b by auto
  show ?thesis
    unfolding table_bit_def mc_filter_add_def Let_def i j b_def [symmetric] using nd eq assms(1)
    by (cases "n div 32 = b div 32") (auto simp: bit_simps nth_list_update)
qed

lemma mc_filter_fold_bit:
  "length t = 2 \<Longrightarrow> n < 64 \<Longrightarrow>
     table_bit (fold (\<lambda>ha. mc_filter_add (crc ha)) mcs t) n \<longleftrightarrow>
       table_bit t n \<or> (\<exists>ha\<in>set mcs. unat (drop_bit 26 (crc ha)) = n)"
  by (induction mcs arbitrary: t) (auto simp: mc_filter_add_bit)

text \<open>
  Property C28. The 64-bit hash table holds exactly the bits the multicast addresses hash to: a
  bit is set when one of the addresses has it as the upper six bits of its checksum, and only
  then.
\<close>

theorem mc_filter_table_bit:
  assumes "n < 64"
  shows "table_bit (mc_filter_table crc mcs) n \<longleftrightarrow> (\<exists>ha\<in>set mcs. unat (drop_bit 26 (crc ha)) = n)"
  using assms unfolding mc_filter_table_def
  by (subst mc_filter_fold_bit) (auto simp: table_bit_def less_Suc_eq nth_Cons')

theorem mc_filter_table_bit_witness:
  "table_bit (mc_filter_table (\<lambda>_. 0x98000000) [[1, 0, 0x5e, 0, 0, 1]]) 38"
  by (subst mc_filter_table_bit) (simp_all add: drop_bit_eq_div)

end
