(* ===== verification/Dwmac1000.thy ===== *)
theory Dwmac1000
  imports Mac_Ops
begin

text \<open>
  The GMAC core: the handlers of \<open>dwmac1000_core.c\<close> and \<open>dwmac1000_dma.c\<close>, their tables
  and \<open>dwmac1000_setup\<close>. The build modelled leaves the optional switches of these files off
  (\<open>CHIP_DEBUG_PRINT\<close>, \<open>FRAME_FILTER_DEBUG\<close>, \<open>CONFIG_GMAC_DA\<close>), and \<open>STMMAC_VLAN_TAG_USED\<close> in
  \<open>dwmac1000_core_init\<close>, whose branch does not compile. The contract \<open>umac_regs\<close> is interpreted
  on the address slots of this core.
\<close>

section \<open>The MAC core\<close>

definition dwmac1000_core_init :: "'w env \<Rightarrow> u32 \<Rightarrow> 'w \<Rightarrow> 'w" where
  "dwmac1000_core_init e ioaddr w =
     (let w = rmw e (ioaddr + GMAC_CONTROL) (\<lambda>value. value OR GMAC_CORE_INIT) w
      in writel e 0x207 (ioaddr + GMAC_INT_MASK) w)"

definition dwmac1000_rx_ipc_enable :: "'w env \<Rightarrow> u32 \<Rightarrow> 'w \<Rightarrow> u32 \<times> 'w" where
  "dwmac1000_rx_ipc_enable e ioaddr w =
     (let w = rmw e (ioaddr + GMAC_CONTROL) (\<lambda>value. value OR GMAC_CONTROL_IPC) w;
          (value, w) = readl e (ioaddr + GMAC_CONTROL) w
      in (of_bool (tst value GMAC_CONTROL_IPC), w))"

text \<open>The dump routines read the registers and print them: their effect is that of the reads.\<close>

definition dwmac1000_dump_regs :: "'w env \<Rightarrow> u32 \<Rightarrow> 'w \<Rightarrow> 'w" where
  "dwmac1000_dump_regs e ioaddr w =
     fold (\<lambda>i w. after_read e (ioaddr + of_nat i * 4) w) [0..<55] w"

definition dwmac1000_set_umac_addr :: "'w env \<Rightarrow> u32 \<Rightarrow> u8 list \<Rightarrow> u32 \<Rightarrow> 'w \<Rightarrow> 'w" where
  "dwmac1000_set_umac_addr e ioaddr addr reg_n w =
     stmmac_set_mac_addr e ioaddr addr (GMAC_ADDR_HIGH reg_n) (GMAC_ADDR_LOW reg_n) w"

definition dwmac1000_get_umac_addr :: "'w env \<Rightarrow> u32 \<Rightarrow> u32 \<Rightarrow> 'w \<Rightarrow> u8 list \<times> 'w" where
  "dwmac1000_get_umac_addr e ioaddr reg_n w =
     stmmac_get_mac_addr e ioaddr (GMAC_ADDR_HIGH reg_n) (GMAC_ADDR_LOW reg_n) w"

text \<open>The loop over the unicast addresses, from slot \<open>reg\<close> on.\<close>

primrec dwmac1000_uc_loop :: "'w env \<Rightarrow> u32 \<Rightarrow> u8 list list \<Rightarrow> u32 \<Rightarrow> 'w \<Rightarrow> 'w" where
  "dwmac1000_uc_loop e ioaddr [] reg w = w"
| "dwmac1000_uc_loop e ioaddr (ha # uc) reg w =
     dwmac1000_uc_loop e ioaddr uc (reg + 1) (dwmac1000_set_umac_addr e ioaddr ha reg w)"

definition dwmac1000_set_filter :: "crc_lib \<Rightarrow> 'w env \<Rightarrow> net_device \<Rightarrow> u32 \<Rightarrow> 'w \<Rightarrow> 'w" where
  "dwmac1000_set_filter kl e dev core_id w =
     (let ioaddr = base_addr dev;
          (value, w) =
            (if tst (nd_flags dev) IFF_PROMISC then (GMAC_FRAME_FILTER_PR, w)
             else if length (nd_mc dev) > unat HASH_TABLE_SIZE \<or> tst (nd_flags dev) IFF_ALLMULTI then
               (let w = writel e 0xffffffff (ioaddr + GMAC_HASH_HIGH) w;
                    w = writel e 0xffffffff (ioaddr + GMAC_HASH_LOW) w
                in (GMAC_FRAME_FILTER_PM, w))
             else if nd_mc dev \<noteq> [] then
               (let mc_filter = mc_filter_table (\<lambda>a. bitrev32 kl (NOT (crc32_le kl (NOT 0) a))) (nd_mc dev);
                    w = writel e (mc_filter ! 0) (ioaddr + GMAC_HASH_LOW) w;
                    w = writel e (mc_filter ! 1) (ioaddr + GMAC_HASH_HIGH) w
                in (GMAC_FRAME_FILTER_HMC, w))
             else (0, w));
          perfect_addr_number =
            (if sint core_id > uint DWMAC_CORE_3_40 then unat GMAC_MAX_PERFECT_ADDRESSES
             else unat GMAC_MAX_PERFECT_ADDRESSES div 2);
          (value, w) =
            (if length (nd_uc dev) > perfect_addr_number then (value OR GMAC_FRAME_FILTER_PR, w)
             else (value, dwmac1000_uc_loop e ioaddr (nd_uc dev) 1 w))
      in writel e value (ioaddr + GMAC_FRAME_FILTER) w)"

definition dwmac1000_flow_ctrl :: "'w env \<Rightarrow> u32 \<Rightarrow> u32 \<Rightarrow> u32 \<Rightarrow> u32 \<Rightarrow> 'w \<Rightarrow> 'w" where
  "dwmac1000_flow_ctrl e ioaddr duplex fc pause_time w =
     (let flow = doif (tst fc FLOW_RX) (\<lambda>f. f OR GMAC_FLOW_CTRL_RFE) 0;
          flow = doif (tst fc FLOW_TX) (\<lambda>f. f OR GMAC_FLOW_CTRL_TFE) flow;
          flow = doif (duplex \<noteq> 0) (\<lambda>f. f OR push_bit (unat GMAC_FLOW_CTRL_PT_SHIFT) pause_time) flow
      in writel e flow (ioaddr + GMAC_FLOW_CTRL) w)"

definition dwmac1000_pmt :: "'w env \<Rightarrow> u32 \<Rightarrow> u32 \<Rightarrow> 'w \<Rightarrow> 'w" where
  "dwmac1000_pmt e ioaddr mode w =
     (let pm = doif (tst mode WAKE_MAGIC) (\<lambda>p. p OR (power_down OR magic_pkt_en)) 0;
          pm = doif (tst mode WAKE_UCAST) (\<lambda>p. p OR global_unicast) pm
      in writel e pm (ioaddr + GMAC_PMT) w)"

section \<open>The core interrupt\<close>

definition dwmac1000_lpi_irq ::
    "'w env \<Rightarrow> u32 \<Rightarrow> stmmac_extra_stats \<Rightarrow> 'w \<Rightarrow> u32 \<times> stmmac_extra_stats \<times> 'w" where
  "dwmac1000_lpi_irq e ioaddr x w =
     (let (ret, w) = readl e (ioaddr + LPI_CTRL_STATUS) w;
          x = doif (tst ret LPI_CTRL_STATUS_TLPIEN) (irq_tx_path_in_lpi_mode_n_update inc) x;
          x = doif (tst ret LPI_CTRL_STATUS_TLPIEX) (irq_tx_path_exit_lpi_mode_n_update inc) x;
          x = doif (tst ret LPI_CTRL_STATUS_RLPIEN) (irq_rx_path_in_lpi_mode_n_update inc) x;
          x = doif (tst ret LPI_CTRL_STATUS_RLPIEX) (irq_rx_path_exit_lpi_mode_n_update inc) x
      in (ret, x, w))"

definition dwmac1000_rgmii_irq ::
    "'w env \<Rightarrow> u32 \<Rightarrow> stmmac_extra_stats \<Rightarrow> 'w \<Rightarrow> stmmac_extra_stats \<times> 'w" where
  "dwmac1000_rgmii_irq e ioaddr x w =
     (let (status, w) = readl e (ioaddr + GMAC_S_R_GMII) w;
          x = irq_rgmii_n_update inc x
      in (if tst status GMAC_S_R_GMII_LINK then
            (let speed_value = drop_bit (unat GMAC_S_R_GMII_SPEED_SHIFT) (status AND GMAC_S_R_GMII_SPEED);
                 x = x\<lparr>pcs_duplex := status AND GMAC_S_R_GMII_MODE\<rparr>;
                 x = x\<lparr>pcs_speed := (if speed_value = GMAC_S_R_GMII_SPEED_125 then SPEED_1000
                                     else if speed_value = GMAC_S_R_GMII_SPEED_25 then SPEED_100
                                     else SPEED_10)\<rparr>
             in (x\<lparr>pcs_link := 1\<rparr>, w))
          else (x\<lparr>pcs_link := 0\<rparr>, w)))"

definition dwmac1000_irq_status ::
    "'w env \<Rightarrow> u32 \<Rightarrow> stmmac_extra_stats \<Rightarrow> 'w \<Rightarrow> u32 \<times> stmmac_extra_stats \<times> 'w" where
  "dwmac1000_irq_status e ioaddr x w =
     (let (intr_status, w) = readl e (ioaddr + GMAC_INT_STATUS) w;
          x = doif (tst intr_status mmc_tx_irq) (mmc_tx_irq_n_update inc) x;
          x = doif (tst intr_status mmc_rx_irq) (mmc_rx_irq_n_update inc) x;
          x = doif (tst intr_status mmc_rx_csum_offload_irq) (mmc_rx_csum_offload_irq_n_update inc) x;
          w = doif (tst intr_status pmt_irq) (after_read e (ioaddr + GMAC_PMT)) w;
          x = doif (tst intr_status pmt_irq) (irq_receive_pmt_irq_n_update inc) x;
          (ret, x, w) = (if tst intr_status lpiis_irq then dwmac1000_lpi_irq e ioaddr x w else (0, x, w));
          pcs = tst intr_status pcs_ane_irq \<or> tst intr_status pcs_link_irq;
          w = doif pcs (after_read e (ioaddr + GMAC_AN_STATUS)) w;
          x = doif pcs (irq_pcs_ane_n_update inc) x;
          (x, w) = (if tst intr_status rgmii_irq then dwmac1000_rgmii_irq e ioaddr x w else (x, w))
      in (ret, x, w))"

section \<open>Energy efficient Ethernet, auto-negotiation\<close>

definition dwmac1000_set_eee_mode :: "'w env \<Rightarrow> u32 \<Rightarrow> 'w \<Rightarrow> 'w" where
  "dwmac1000_set_eee_mode e ioaddr w =
     rmw e (ioaddr + LPI_CTRL_STATUS)
       (\<lambda>value. value OR (LPI_CTRL_STATUS_LPIEN OR LPI_CTRL_STATUS_LPITXA)) w"

definition dwmac1000_reset_eee_mode :: "'w env \<Rightarrow> u32 \<Rightarrow> 'w \<Rightarrow> 'w" where
  "dwmac1000_reset_eee_mode e ioaddr w =
     rmw e (ioaddr + LPI_CTRL_STATUS)
       (\<lambda>value. value AND NOT (LPI_CTRL_STATUS_LPIEN OR LPI_CTRL_STATUS_LPITXA)) w"

definition dwmac1000_set_eee_pls :: "'w env \<Rightarrow> u32 \<Rightarrow> bool \<Rightarrow> 'w \<Rightarrow> 'w" where
  "dwmac1000_set_eee_pls e ioaddr link w =
     rmw e (ioaddr + LPI_CTRL_STATUS)
       (\<lambda>value. if link then value OR LPI_CTRL_STATUS_PLS else value AND NOT LPI_CTRL_STATUS_PLS) w"

definition dwmac1000_set_eee_timer :: "'w env \<Rightarrow> u32 \<Rightarrow> u32 \<Rightarrow> u32 \<Rightarrow> 'w \<Rightarrow> 'w" where
  "dwmac1000_set_eee_timer e ioaddr ls tw w =
     writel e ((tw AND 0xffff) OR push_bit 16 (ls AND 0x7ff)) (ioaddr + LPI_TIMER_CTRL) w"

definition dwmac1000_ctrl_ane :: "'w env \<Rightarrow> u32 \<Rightarrow> bool \<Rightarrow> 'w \<Rightarrow> 'w" where
  "dwmac1000_ctrl_ane e ioaddr restart w =
     (let (value, w) = readl e (ioaddr + GMAC_AN_CTRL) w;
          value = GMAC_AN_CTRL_ANE OR GMAC_AN_CTRL_ELE;
          value = doif restart (\<lambda>v. v OR GMAC_AN_CTRL_RAN) value
      in writel e value (ioaddr + GMAC_AN_CTRL) w)"

definition dwmac1000_get_adv :: "'w env \<Rightarrow> u32 \<Rightarrow> rgmii_adv \<Rightarrow> 'w \<Rightarrow> rgmii_adv \<times> 'w" where
  "dwmac1000_get_adv e ioaddr adv w =
     (let (value, w) = readl e (ioaddr + GMAC_ANE_ADV) w;
          adv = doif (tst value GMAC_ANE_FD) (adv_duplex_update (\<lambda>_. DUPLEX_FULL)) adv;
          adv = doif (tst value GMAC_ANE_HD) (adv_duplex_update (\<lambda>d. d OR DUPLEX_HALF)) adv;
          adv = adv\<lparr>adv_pause := drop_bit (unat GMAC_ANE_PSE_SHIFT) (value AND GMAC_ANE_PSE)\<rparr>;
          (value, w) = readl e (ioaddr + GMAC_ANE_LPA) w;
          adv = doif (tst value GMAC_ANE_FD) (adv_lp_duplex_update (\<lambda>_. DUPLEX_FULL)) adv;
          adv = doif (tst value GMAC_ANE_HD) (adv_lp_duplex_update (\<lambda>_. DUPLEX_HALF)) adv;
          adv = adv\<lparr>adv_lp_pause := drop_bit (unat GMAC_ANE_PSE_SHIFT) (value AND GMAC_ANE_PSE)\<rparr>
      in (adv, w))"

section \<open>The DMA engine\<close>

definition dwmac1000_dma_init ::
    "'w env \<Rightarrow> u32 \<Rightarrow> u32 \<Rightarrow> u32 \<Rightarrow> u32 \<Rightarrow> u32 \<Rightarrow> u32 \<Rightarrow> u32 \<Rightarrow> u32 \<Rightarrow> 'w \<Rightarrow> int \<times> 'w" where
  "dwmac1000_dma_init e ioaddr pbl fb mb burst_len dma_tx dma_rx atds w =
     (let w = rmw e (ioaddr + DMA_BUS_MODE) (\<lambda>value. value OR DMA_BUS_MODE_SFT_RESET) w;
          (reset_done, w) = dma_reset_poll e ioaddr 10 w
      in if \<not> reset_done then (- EBUSY, w)
         else
           (let value = DMA_BUS_MODE_PBL OR (push_bit (unat DMA_BUS_MODE_PBL_SHIFT) pbl OR
                                            push_bit (unat DMA_BUS_MODE_RPBL_SHIFT) pbl);
                value = doif (fb \<noteq> 0) (\<lambda>v. v OR DMA_BUS_MODE_FB) value;
                value = doif (mb \<noteq> 0) (\<lambda>v. v OR DMA_BUS_MODE_MB) value;
                value = doif (atds \<noteq> 0) (\<lambda>v. v OR DMA_BUS_MODE_ATDS) value;
                w = writel e value (ioaddr + DMA_BUS_MODE) w;
                w = writel e burst_len (ioaddr + DMA_AXI_BUS_MODE) w;
                w = writel e DMA_INTR_DEFAULT_MASK (ioaddr + DMA_INTR_ENA) w;
                w = writel e dma_tx (ioaddr + DMA_TX_BASE_ADDR) w;
                w = writel e dma_rx (ioaddr + DMA_RCV_BASE_ADDR) w
            in (0, w)))"

definition csr6_tx_mode :: "int \<Rightarrow> u32 \<Rightarrow> u32" where
  "csr6_tx_mode txmode csr6 =
     (if txmode = uint SF_DMA_MODE then (csr6 OR DMA_CONTROL_TSF) OR DMA_CONTROL_OSF
      else (csr6 AND NOT DMA_CONTROL_TSF AND DMA_CONTROL_TC_TX_MASK) OR
           (if txmode \<le> 32 then DMA_CONTROL_TTC_32
            else if txmode \<le> 64 then DMA_CONTROL_TTC_64
            else if txmode \<le> 128 then DMA_CONTROL_TTC_128
            else if txmode \<le> 192 then DMA_CONTROL_TTC_192
            else DMA_CONTROL_TTC_256))"

definition csr6_rx_mode :: "int \<Rightarrow> u32 \<Rightarrow> u32" where
  "csr6_rx_mode rxmode csr6 =
     (if rxmode = uint SF_DMA_MODE then csr6 OR DMA_CONTROL_RSF
      else (csr6 AND NOT DMA_CONTROL_RSF AND DMA_CONTROL_TC_RX_MASK) OR
           (if rxmode \<le> 32 then DMA_CONTROL_RTC_32
            else if rxmode \<le> 64 then DMA_CONTROL_RTC_64
            else if rxmode \<le> 96 then DMA_CONTROL_RTC_96
            else DMA_CONTROL_RTC_128))"

definition dwmac1000_dma_operation_mode :: "'w env \<Rightarrow> u32 \<Rightarrow> int \<Rightarrow> int \<Rightarrow> 'w \<Rightarrow> 'w" where
  "dwmac1000_dma_operation_mode e ioaddr txmode rxmode w =
     rmw e (ioaddr + DMA_CONTROL) (\<lambda>csr6. csr6_rx_mode rxmode (csr6_tx_mode txmode csr6)) w"

definition dwmac1000_dump_dma_regs :: "'w env \<Rightarrow> u32 \<Rightarrow> 'w \<Rightarrow> 'w" where
  "dwmac1000_dump_dma_regs e ioaddr w =
     fold (\<lambda>i w. if i < 9 \<or> i > 17 then after_read e (ioaddr + DMA_BUS_MODE + of_nat i * 4) w else w)
       [0..<22] w"

definition dwmac1000_get_hw_feature :: "'w env \<Rightarrow> u32 \<Rightarrow> 'w \<Rightarrow> u32 \<times> 'w" where
  "dwmac1000_get_hw_feature e ioaddr w = readl e (ioaddr + DMA_HW_FEATURE) w"

definition dwmac1000_rx_watchdog :: "'w env \<Rightarrow> u32 \<Rightarrow> u32 \<Rightarrow> 'w \<Rightarrow> 'w" where
  "dwmac1000_rx_watchdog e ioaddr riwt w = writel e riwt (ioaddr + DMA_RX_WATCHDOG) w"

section \<open>The tables and the setup\<close>

definition dwmac1000_dma_ops :: "'w stmmac_dma_ops" where
  [ops_simps]: "dwmac1000_dma_ops = \<lparr>
     dma_init = dwmac1000_dma_init,
     dma_dump_regs = dwmac1000_dump_dma_regs,
     dma_mode = dwmac1000_dma_operation_mode,
     dma_diagnostic_fr = None,
     enable_dma_transmission = dwmac_enable_dma_transmission,
     enable_dma_irq = dwmac_enable_dma_irq,
     disable_dma_irq = dwmac_disable_dma_irq,
     start_tx = dwmac_dma_start_tx,
     stop_tx = dwmac_dma_stop_tx,
     start_rx = dwmac_dma_start_rx,
     stop_rx = dwmac_dma_stop_rx,
     dma_interrupt = dwmac_dma_interrupt,
     get_hw_feature = Some dwmac1000_get_hw_feature,
     rx_watchdog = Some dwmac1000_rx_watchdog\<rparr>"

definition dwmac1000_ops :: "crc_lib \<Rightarrow> 'w stmmac_ops" where
  [ops_simps]: "dwmac1000_ops kl = \<lparr>
     core_init = dwmac1000_core_init,
     rx_ipc = dwmac1000_rx_ipc_enable,
     mac_dump_regs = dwmac1000_dump_regs,
     host_irq_status = dwmac1000_irq_status,
     set_filter = dwmac1000_set_filter kl,
     flow_ctrl = dwmac1000_flow_ctrl,
     pmt = dwmac1000_pmt,
     set_umac_addr = dwmac1000_set_umac_addr,
     get_umac_addr = dwmac1000_get_umac_addr,
     set_eee_mode = Some dwmac1000_set_eee_mode,
     reset_eee_mode = Some dwmac1000_reset_eee_mode,
     set_eee_timer = Some dwmac1000_set_eee_timer,
     set_eee_pls = Some dwmac1000_set_eee_pls,
     ctrl_ane = Some dwmac1000_ctrl_ane,
     get_adv = Some dwmac1000_get_adv\<rparr>"

definition dwmac1000_setup :: "crc_lib \<Rightarrow> 'w env \<Rightarrow> u32 \<Rightarrow> 'w \<Rightarrow> 'w mac_device_info option \<times> 'w" where
  "dwmac1000_setup kl e ioaddr w =
     (let (hwid, w) = readl e (ioaddr + GMAC_VERSION) w;
          (mac, w) = kcall e ''kzalloc'' [S ''mac_device_info''] w
      in if mac = 0 then (None, w)
         else (Some \<lparr>hw_mac = dwmac1000_ops kl, hw_desc = None, hw_dma = dwmac1000_dma_ops,
                 hw_ring = False, hw_chain = False, hw_ptp = False,
                 hw_mii = \<lparr>mii_addr = GMAC_MII_ADDR, mii_data = GMAC_MII_DATA\<rparr>,
                 hw_link = \<lparr>link_port = GMAC_CONTROL_PS, link_duplex = GMAC_CONTROL_DM,
                            link_speed = GMAC_CONTROL_FES\<rparr>,
                 synopsys_uid = hwid\<rparr>, w))"

section \<open>The address slots\<close>

interpretation gmac_umac: umac_regs dwmac1000_set_umac_addr dwmac1000_get_umac_addr
  GMAC_ADDR_HIGH GMAC_ADDR_LOW
  by (rule umac_regsI)
    (simp_all add: dwmac1000_set_umac_addr_def dwmac1000_get_umac_addr_def GMAC_ADDR_HIGH_def GMAC_ADDR_LOW_def)

lemma GMAC_ADDR_HIGH_nat: "k \<le> 32 \<Longrightarrow> GMAC_ADDR_HIGH (of_nat k) = of_nat ((if k > 15 then 0x800 else 0x40) + 8 * k)"
  and GMAC_ADDR_LOW_nat: "k \<le> 32 \<Longrightarrow> GMAC_ADDR_LOW (of_nat k) = of_nat ((if k > 15 then 0x804 else 0x44) + 8 * k)"
proof -
  assume k: "k \<le> 32"
  have "(of_nat k > (15 :: u32)) = (k > 15)"
    using k by (simp add: word_less_nat_alt unat_of_nat)
  then show "GMAC_ADDR_HIGH (of_nat k) = of_nat ((if k > 15 then 0x800 else 0x40) + 8 * k)"
    "GMAC_ADDR_LOW (of_nat k) = of_nat ((if k > 15 then 0x804 else 0x44) + 8 * k)"
    by (simp_all add: GMAC_ADDR_HIGH_def GMAC_ADDR_LOW_def)
qed

lemma of_nat_u32_eq: "a < 2 ^ 32 \<Longrightarrow> b < 2 ^ 32 \<Longrightarrow> (of_nat a :: u32) = of_nat b \<longleftrightarrow> a = b"
  by (simp add: word_unat_eq_iff unsigned_of_nat take_bit_nat_eq_self)

text \<open>The slots of the first 33 addresses are pairwise different registers.\<close>

lemma gmac_slots_distinct:
  assumes "n \<le> 32" and "m \<le> 32" and "n \<noteq> m"
  shows "GMAC_ADDR_HIGH (of_nat n) \<noteq> GMAC_ADDR_HIGH (of_nat m)"
    "GMAC_ADDR_HIGH (of_nat n) \<noteq> GMAC_ADDR_LOW (of_nat m)"
    "GMAC_ADDR_LOW (of_nat n) \<noteq> GMAC_ADDR_HIGH (of_nat m)"
    "GMAC_ADDR_LOW (of_nat n) \<noteq> GMAC_ADDR_LOW (of_nat m)"
  unfolding GMAC_ADDR_HIGH_nat [OF assms(1)] GMAC_ADDR_HIGH_nat [OF assms(2)]
    GMAC_ADDR_LOW_nat [OF assms(1)] GMAC_ADDR_LOW_nat [OF assms(2)]
  using assms by (subst of_nat_u32_eq; auto; presburger)+

lemma uc_loop_earlier_slot:
  assumes "rw_regs e M" and "\<forall>n\<le>32. addr_bits_rw M ioaddr (GMAC_ADDR_HIGH (of_nat n)) (GMAC_ADDR_LOW (of_nat n))"
    and "k + length uc \<le> 33" and "n < k"
  shows "fst (dwmac1000_get_umac_addr e ioaddr (of_nat n) (dwmac1000_uc_loop e ioaddr uc (of_nat k) w)) =
         fst (dwmac1000_get_umac_addr e ioaddr (of_nat n) w)"
  using assms(3, 4)
proof (induction uc arbitrary: k w)
  case (Cons a uc)
  have k: "k \<le> 32" "n \<le> 32" "n \<noteq> k" "Suc k + length uc \<le> 33" "n < Suc k" using Cons.prems by auto
  have "fst (dwmac1000_get_umac_addr e ioaddr (of_nat n) (dwmac1000_set_umac_addr e ioaddr a (of_nat k) w)) =
        fst (dwmac1000_get_umac_addr e ioaddr (of_nat n) w)"
    using assms(1, 2) k gmac_slots_distinct [of n k] by (intro gmac_umac.get_set_other) auto
  then show ?case using Cons.IH [OF k(4, 5)] by (simp add: ac_simps)
qed simp

lemma uc_loop_slots:
  assumes "rw_regs e M" and "\<forall>n\<le>32. addr_bits_rw M ioaddr (GMAC_ADDR_HIGH (of_nat n)) (GMAC_ADDR_LOW (of_nat n))"
    and "k + length uc \<le> 33" and "\<forall>a\<in>set uc. length a = 6" and "i < length uc"
  shows "fst (dwmac1000_get_umac_addr e ioaddr (of_nat (k + i)) (dwmac1000_uc_loop e ioaddr uc (of_nat k) w)) = uc ! i"
  using assms(3-)
proof (induction uc arbitrary: k i w)
  case (Cons a uc)
  let ?w = "dwmac1000_set_umac_addr e ioaddr a (of_nat k) w"
  have suc: "dwmac1000_uc_loop e ioaddr (a # uc) (of_nat k) w = dwmac1000_uc_loop e ioaddr uc (of_nat (Suc k)) ?w"
    by (simp add: ac_simps)
  show ?case
  proof (cases i)
    case 0
    have "fst (dwmac1000_get_umac_addr e ioaddr (of_nat k) (dwmac1000_uc_loop e ioaddr uc (of_nat (Suc k)) ?w)) =
          fst (dwmac1000_get_umac_addr e ioaddr (of_nat k) ?w)"
      using Cons.prems by (intro uc_loop_earlier_slot [OF assms(1, 2)]) auto
    also have "\<dots> = a"
      using Cons.prems assms(1, 2) by (intro gmac_umac.get_set) auto
    finally show ?thesis using 0 suc by simp
  next
    case (Suc j)
    then show ?thesis using Cons.IH [of "Suc k" j ?w] Cons.prems suc by simp
  qed
qed simp

text \<open>
  Property C26. Perfect filtering of unicast addresses: when the driver walks a list of at most
  32 addresses, every one of them is read back from its own slot afterwards, the \<open>i\<close>-th from slot
  \<open>i + 1\<close>; none is overwritten by a later one.
\<close>

theorem gmac_unicast_slots:
  assumes "rw_regs e M" and "\<forall>n\<le>32. addr_bits_rw M ioaddr (GMAC_ADDR_HIGH (of_nat n)) (GMAC_ADDR_LOW (of_nat n))"
    and "length uc \<le> 32" and "\<forall>a\<in>set uc. length a = 6" and "i < length uc"
  shows "fst (dwmac1000_get_umac_addr e ioaddr (of_nat (i + 1)) (dwmac1000_uc_loop e ioaddr uc 1 w)) = uc ! i"
  using uc_loop_slots [OF assms(1, 2), of 1 uc i w] assms(3-) by simp

theorem gmac_unicast_slots_witness:
  "fst (dwmac1000_get_umac_addr (bench_env (\<lambda>_. 0)) 0x1000 (of_nat (1 + 1))
     (dwmac1000_uc_loop (bench_env (\<lambda>_. 0)) 0x1000 [[2,0,0,0,0,1], [2,0,0,0,0,2]] 1 bench0)) = [2,0,0,0,0,2]"
  using gmac_unicast_slots [of "bench_env (\<lambda>_. 0)" "\<lambda>_. - 1" "0x1000" "[[2,0,0,0,0,1], [2,0,0,0,0,2]]" 1 bench0]
  by (simp add: bench_rw_regs addr_bits_rw_def)

section \<open>The frame filter\<close>

text \<open>The value of the last write of \<open>dwmac1000_set_filter\<close>, in closed form.\<close>

definition filter_value :: "net_device \<Rightarrow> u32 \<Rightarrow> u32" where
  "filter_value dev core_id =
     (if tst (nd_flags dev) IFF_PROMISC then GMAC_FRAME_FILTER_PR
      else if length (nd_mc dev) > 64 \<or> tst (nd_flags dev) IFF_ALLMULTI then GMAC_FRAME_FILTER_PM
      else if nd_mc dev \<noteq> [] then GMAC_FRAME_FILTER_HMC else 0)
     OR (if length (nd_uc dev) > (if sint core_id > 0x34 then 32 else 16) then GMAC_FRAME_FILTER_PR else 0)"

lemma set_filter_last_write:
  "\<exists>w'. dwmac1000_set_filter kl e dev core_id w =
     writel e
       (filter_value dev core_id) (base_addr dev + GMAC_FRAME_FILTER) w'"
  by (auto simp: dwmac1000_set_filter_def filter_value_def Let_def HASH_TABLE_SIZE_def DWMAC_CORE_3_40_def
      GMAC_MAX_PERFECT_ADDRESSES_def split: prod.splits)

text \<open>
  The mode of the frame filter: promiscuous exactly when asked for or when there
  are more unicast addresses than slots (16, or 32 on cores after 3.40); all multicast exactly
  when not promiscuous by request and there are more than 64 multicast addresses or all are asked
  for; hashed multicast in the remaining case of a nonempty list.
\<close>

theorem gmac_filter_mode:
  assumes "rw_regs e M" and "M (base_addr dev + GMAC_FRAME_FILTER) = - 1"
  shows "(let promisc = tst (nd_flags dev) IFF_PROMISC;
              many = length (nd_mc dev) > 64 \<or> tst (nd_flags dev) IFF_ALLMULTI;
              value = peek e (base_addr dev + GMAC_FRAME_FILTER) (dwmac1000_set_filter kl e dev core_id w)
          in (tst value GMAC_FRAME_FILTER_PR \<longleftrightarrow>
                promisc \<or> length (nd_uc dev) > (if sint core_id > 0x34 then 32 else 16))
           \<and> (tst value GMAC_FRAME_FILTER_PM \<longleftrightarrow> \<not> promisc \<and> many)
           \<and> (tst value GMAC_FRAME_FILTER_HMC \<longleftrightarrow> \<not> promisc \<and> \<not> many \<and> nd_mc dev \<noteq> []))"
proof -
  obtain w' where w': "dwmac1000_set_filter kl e dev core_id w = writel e
       (filter_value dev core_id) (base_addr dev + GMAC_FRAME_FILTER) w'" using set_filter_last_write [of kl e dev core_id w] by blast
  have f: "tst GMAC_FRAME_FILTER_PR GMAC_FRAME_FILTER_PR" "\<not> tst GMAC_FRAME_FILTER_PR GMAC_FRAME_FILTER_PM"
    "\<not> tst GMAC_FRAME_FILTER_PR GMAC_FRAME_FILTER_HMC" "\<not> tst GMAC_FRAME_FILTER_PM GMAC_FRAME_FILTER_PR"
    "tst GMAC_FRAME_FILTER_PM GMAC_FRAME_FILTER_PM" "\<not> tst GMAC_FRAME_FILTER_PM GMAC_FRAME_FILTER_HMC"
    "\<not> tst GMAC_FRAME_FILTER_HMC GMAC_FRAME_FILTER_PR" "\<not> tst GMAC_FRAME_FILTER_HMC GMAC_FRAME_FILTER_PM"
    "tst GMAC_FRAME_FILTER_HMC GMAC_FRAME_FILTER_HMC"
    by (simp_all add: tst_def hw_consts)
  have v: "peek e (base_addr dev + GMAC_FRAME_FILTER) (writel e v (base_addr dev + GMAC_FRAME_FILTER) w') = v" for v
    using rw_write_same [OF assms(1), of "base_addr dev + GMAC_FRAME_FILTER"] assms(2) by simp
  show ?thesis unfolding w' v Let_def by (simp add: filter_value_def tst_or_val f)
qed

theorem gmac_filter_mode_witness:
  "(let dev = \<lparr>base_addr = 0, nd_flags = 0, nd_mc = [[1,0,0,0,0,1]], nd_uc = []\<rparr>
    in tst (peek (bench_env (\<lambda>_. 0)) (base_addr dev + GMAC_FRAME_FILTER)
         (dwmac1000_set_filter \<lparr>crc32_le = (\<lambda>s _. s), bitrev32 = (\<lambda>x. x), ether_crc = (\<lambda>_. 0)\<rparr> (bench_env (\<lambda>_. 0)) dev 0x36 bench0)) GMAC_FRAME_FILTER_HMC)"
  using gmac_filter_mode [of "bench_env (\<lambda>_. 0)" "\<lambda>_. - 1"
      "\<lparr>base_addr = 0, nd_flags = 0, nd_mc = [[1,0,0,0,0,1]], nd_uc = []\<rparr>" "\<lparr>crc32_le = (\<lambda>s _. s), bitrev32 = (\<lambda>x. x), ether_crc = (\<lambda>_. 0)\<rparr>" "0x36" bench0]
  by (simp add: bench_rw_regs Let_def)

text \<open>
  On cores up to 3.40, which have the address slots 0 to 15, a list of 16 unicast
  addresses is not sent to promiscuous mode, and its last address is written to slot 16, the first
  of the registers only later cores have.
\<close>

theorem gmac_old_core_slot_16:
  assumes "length uc = 15"
  shows "\<exists>w'. dwmac1000_uc_loop e ioaddr (uc @ [a]) 1 w = dwmac1000_set_umac_addr e ioaddr a 16 w'
            \<and> GMAC_ADDR_HIGH 16 = 0x880 \<and> GMAC_ADDR_HIGH 15 = 0xb8"
proof -
  have "dwmac1000_uc_loop e ioaddr (xs @ [a]) k w =
      dwmac1000_set_umac_addr e ioaddr a (k + of_nat (length xs)) (dwmac1000_uc_loop e ioaddr xs k w)" for xs k w
    by (induction xs arbitrary: k w) (simp_all add: ac_simps)
  from this [of uc 1 w] show ?thesis using assms by (auto simp: GMAC_ADDR_HIGH_def)
qed

theorem gmac_old_core_slot_16_witness:
  "\<exists>w'. dwmac1000_uc_loop (bench_env (\<lambda>_. 0)) 0 (replicate 15 [2,0,0,0,0,1] @ [[2,0,0,0,0,2]]) 1 bench0 =
     dwmac1000_set_umac_addr (bench_env (\<lambda>_. 0)) 0 [2,0,0,0,0,2] 16 w'"
  using gmac_old_core_slot_16 [of "replicate 15 [2,0,0,0,0,1]" "bench_env (\<lambda>_. 0)" 0 "[2,0,0,0,0,2]" bench0]
  by auto

section \<open>The low-power interrupt\<close>

lemma lpi_irq_fields:
  "irq_tx_path_in_lpi_mode_n (fst (snd (dwmac1000_lpi_irq e ioaddr x w))) = irq_tx_path_in_lpi_mode_n x +
     of_bool (tst (fst (dwmac1000_lpi_irq e ioaddr x w)) LPI_CTRL_STATUS_TLPIEN)"
  "irq_tx_path_exit_lpi_mode_n (fst (snd (dwmac1000_lpi_irq e ioaddr x w))) = irq_tx_path_exit_lpi_mode_n x +
     of_bool (tst (fst (dwmac1000_lpi_irq e ioaddr x w)) LPI_CTRL_STATUS_TLPIEX)"
  "irq_rx_path_in_lpi_mode_n (fst (snd (dwmac1000_lpi_irq e ioaddr x w))) = irq_rx_path_in_lpi_mode_n x +
     of_bool (tst (fst (dwmac1000_lpi_irq e ioaddr x w)) LPI_CTRL_STATUS_RLPIEN)"
  by (simp_all add: dwmac1000_lpi_irq_def readl_eq Let_def doif_def)

lemma rgmii_irq_keeps:
  "irq_tx_path_in_lpi_mode_n (fst (dwmac1000_rgmii_irq e ioaddr x w)) = irq_tx_path_in_lpi_mode_n x"
  "irq_tx_path_exit_lpi_mode_n (fst (dwmac1000_rgmii_irq e ioaddr x w)) = irq_tx_path_exit_lpi_mode_n x"
  "irq_rx_path_in_lpi_mode_n (fst (dwmac1000_rgmii_irq e ioaddr x w)) = irq_rx_path_in_lpi_mode_n x"
  by (simp_all add: dwmac1000_rgmii_irq_def readl_eq Let_def)

text \<open>The shape of the interrupt: what precedes and follows the low-power part keeps its counters.\<close>

lemma irq_status_lpi:
  "\<exists>x' w' keep. fst (dwmac1000_irq_status e ioaddr x w) =
       (if tst (peek e (ioaddr + GMAC_INT_STATUS) w) lpiis_irq then fst (dwmac1000_lpi_irq e ioaddr x' w') else 0)
     \<and> fst (snd (dwmac1000_irq_status e ioaddr x w)) =
       keep (if tst (peek e (ioaddr + GMAC_INT_STATUS) w) lpiis_irq
             then fst (snd (dwmac1000_lpi_irq e ioaddr x' w')) else x')
     \<and> irq_tx_path_in_lpi_mode_n x' = irq_tx_path_in_lpi_mode_n x
     \<and> irq_tx_path_exit_lpi_mode_n x' = irq_tx_path_exit_lpi_mode_n x
     \<and> irq_rx_path_in_lpi_mode_n x' = irq_rx_path_in_lpi_mode_n x
     \<and> (\<forall>y. irq_tx_path_in_lpi_mode_n (keep y) = irq_tx_path_in_lpi_mode_n y)
     \<and> (\<forall>y. irq_tx_path_exit_lpi_mode_n (keep y) = irq_tx_path_exit_lpi_mode_n y)
     \<and> (\<forall>y. irq_rx_path_in_lpi_mode_n (keep y) = irq_rx_path_in_lpi_mode_n y)"
proof -
  let ?s = "peek e (ioaddr + GMAC_INT_STATUS) w"
  let ?x1 = "doif (tst ?s pmt_irq) (irq_receive_pmt_irq_n_update inc)
     (doif (tst ?s mmc_rx_csum_offload_irq) (mmc_rx_csum_offload_irq_n_update inc)
       (doif (tst ?s mmc_rx_irq) (mmc_rx_irq_n_update inc) (doif (tst ?s mmc_tx_irq) (mmc_tx_irq_n_update inc) x)))"
  let ?w1 = "doif (tst ?s pmt_irq) (after_read e (ioaddr + GMAC_PMT)) (after_read e (ioaddr + GMAC_INT_STATUS) w)"
  let ?pcs = "tst ?s pcs_ane_irq \<or> tst ?s pcs_link_irq"
  define w2 where "w2 = doif ?pcs (after_read e (ioaddr + GMAC_AN_STATUS))
     (if tst ?s lpiis_irq then snd (snd (dwmac1000_lpi_irq e ioaddr ?x1 ?w1)) else ?w1)"
  let ?keep = "\<lambda>y. if tst ?s rgmii_irq then fst (dwmac1000_rgmii_irq e ioaddr (doif ?pcs (irq_pcs_ane_n_update inc) y) w2)
     else doif ?pcs (irq_pcs_ane_n_update inc) y"
  show ?thesis
    by (rule exI [of _ ?x1], rule exI [of _ ?w1], rule exI [of _ ?keep])
      (simp add: dwmac1000_irq_status_def readl_eq Let_def case_prod_unfold w2_def rgmii_irq_keeps
        doif_id [where sel = irq_tx_path_in_lpi_mode_n] doif_id [where sel = irq_tx_path_exit_lpi_mode_n]
        doif_id [where sel = irq_rx_path_in_lpi_mode_n])
qed

lemma irq_lpi_flags:
  "(let (ret, y, w') = dwmac1000_irq_status e ioaddr x w
    in (tst ret CORE_IRQ_TX_PATH_IN_LPI_MODE \<longleftrightarrow> irq_tx_path_exit_lpi_mode_n y \<noteq> irq_tx_path_exit_lpi_mode_n x)
     \<and> (tst ret CORE_IRQ_TX_PATH_EXIT_LPI_MODE \<longleftrightarrow> irq_rx_path_in_lpi_mode_n y \<noteq> irq_rx_path_in_lpi_mode_n x)
     \<and> (tst ret 1 \<longleftrightarrow> irq_tx_path_in_lpi_mode_n y \<noteq> irq_tx_path_in_lpi_mode_n x))"
proof -
  obtain ret y w' where r: "dwmac1000_irq_status e ioaddr x w = (ret, y, w')" by (cases "dwmac1000_irq_status e ioaddr x w")
  have c: "CORE_IRQ_TX_PATH_IN_LPI_MODE = LPI_CTRL_STATUS_TLPIEX" "CORE_IRQ_TX_PATH_EXIT_LPI_MODE = LPI_CTRL_STATUS_RLPIEN"
    "1 = LPI_CTRL_STATUS_TLPIEN"
    by (simp_all add: hw_consts)
  show ?thesis
    using irq_status_lpi [of e ioaddr x w] unfolding c
    by (cases "tst (peek e (ioaddr + GMAC_INT_STATUS) w) lpiis_irq") (auto simp: r lpi_irq_fields)
qed

text \<open>
  The core interrupt returns the raw low-power status register, whose events are
  numbered from bit 0, while the flags its caller tests start at bit 1: what the caller takes for
  the entry of the transmit path into low power is raised exactly when its \<^emph>\<open>exit\<close> was counted,
  and what it takes for the exit exactly when the entry of the \<^emph>\<open>receive\<close> path was counted; the
  counted entry of the transmit path is in bit 0, which the caller does not test.
\<close>

theorem gmac_lpi_flags_shifted:
  "(let (ret, y, w') = dwmac1000_irq_status e ioaddr x w
    in (tst ret CORE_IRQ_TX_PATH_IN_LPI_MODE \<longleftrightarrow> irq_tx_path_exit_lpi_mode_n y \<noteq> irq_tx_path_exit_lpi_mode_n x)
     \<and> (tst ret CORE_IRQ_TX_PATH_EXIT_LPI_MODE \<longleftrightarrow> irq_rx_path_in_lpi_mode_n y \<noteq> irq_rx_path_in_lpi_mode_n x)
     \<and> (tst ret 1 \<longleftrightarrow> irq_tx_path_in_lpi_mode_n y \<noteq> irq_tx_path_in_lpi_mode_n x))"
  by (rule irq_lpi_flags)

section \<open>Energy efficient Ethernet\<close>

text \<open>The same contract as for the DMA: enabling and disabling the low-power state of the transmitter.\<close>

interpretation eee_sw: reg_switch dwmac1000_set_eee_mode dwmac1000_reset_eee_mode LPI_CTRL_STATUS
  "LPI_CTRL_STATUS_LPIEN OR LPI_CTRL_STATUS_LPITXA"
  by (rule reg_switchI) (simp_all add: dwmac1000_set_eee_mode_def dwmac1000_reset_eee_mode_def hw_consts)

interpretation pls_sw: reg_switch "\<lambda>e ioaddr. dwmac1000_set_eee_pls e ioaddr True"
  "\<lambda>e ioaddr. dwmac1000_set_eee_pls e ioaddr False" LPI_CTRL_STATUS LPI_CTRL_STATUS_PLS
  by (rule reg_switchI) (simp_all add: dwmac1000_set_eee_pls_def hw_consts)

text \<open>
  Reporting the link state to the low-power logic and switching its mode do not
  interfere: after the link is reported, the mode bits are as before, and after the mode is
  switched, the link bit is as before, while each operation sets its own bits.
\<close>

theorem gmac_eee_link_independent:
  assumes "rw_regs e M" and "M (ioaddr + LPI_CTRL_STATUS) = - 1"
  shows "tst (peek e (ioaddr + LPI_CTRL_STATUS) (dwmac1000_set_eee_pls e ioaddr link w)) LPI_CTRL_STATUS_PLS = link
       \<and> tst (peek e (ioaddr + LPI_CTRL_STATUS) (dwmac1000_set_eee_pls e ioaddr link w)) LPI_CTRL_STATUS_LPIEN =
           tst (peek e (ioaddr + LPI_CTRL_STATUS) w) LPI_CTRL_STATUS_LPIEN
       \<and> tst (peek e (ioaddr + LPI_CTRL_STATUS) (dwmac1000_set_eee_mode e ioaddr w)) LPI_CTRL_STATUS_PLS =
           tst (peek e (ioaddr + LPI_CTRL_STATUS) w) LPI_CTRL_STATUS_PLS
       \<and> \<not> tst (peek e (ioaddr + LPI_CTRL_STATUS) (dwmac1000_reset_eee_mode e ioaddr w)) LPI_CTRL_STATUS_LPIEN"
proof -
  have d: "LPI_CTRL_STATUS_PLS AND LPI_CTRL_STATUS_LPIEN = 0"
    "(LPI_CTRL_STATUS_LPIEN OR LPI_CTRL_STATUS_LPITXA) AND LPI_CTRL_STATUS_PLS = 0"
    by (simp_all add: hw_consts)
  have sub: "\<not> tst v (LPI_CTRL_STATUS_LPIEN OR LPI_CTRL_STATUS_LPITXA) \<Longrightarrow> \<not> tst v LPI_CTRL_STATUS_LPIEN" for v
    by (simp add: tst_or_arg)
  have p: "tst (peek e (ioaddr + LPI_CTRL_STATUS) (dwmac1000_set_eee_pls e ioaddr link w)) LPI_CTRL_STATUS_PLS = link"
    using pls_sw.switch_flag [OF assms(1), of ioaddr link w] assms(2)
    by (cases link) (simp_all add: pls_sw.switch_def)
  have l: "tst (peek e (ioaddr + LPI_CTRL_STATUS) (dwmac1000_set_eee_pls e ioaddr link w)) LPI_CTRL_STATUS_LPIEN =
      tst (peek e (ioaddr + LPI_CTRL_STATUS) w) LPI_CTRL_STATUS_LPIEN"
    using pls_sw.switch_frame [OF assms(1), of ioaddr LPI_CTRL_STATUS_LPIEN "ioaddr + LPI_CTRL_STATUS" link w] assms(2) d
    by (cases link) (simp_all add: pls_sw.switch_def)
  have s: "tst (peek e (ioaddr + LPI_CTRL_STATUS) (dwmac1000_set_eee_mode e ioaddr w)) LPI_CTRL_STATUS_PLS =
      tst (peek e (ioaddr + LPI_CTRL_STATUS) w) LPI_CTRL_STATUS_PLS"
    using eee_sw.start_frame [OF assms(1)] assms(2) d by simp
  have r: "\<not> tst (peek e (ioaddr + LPI_CTRL_STATUS) (dwmac1000_reset_eee_mode e ioaddr w)) LPI_CTRL_STATUS_LPIEN"
    using eee_sw.stop_off [OF assms(1), of ioaddr w] assms(2) by (intro sub) simp
  show ?thesis using p l s r by simp
qed

theorem gmac_eee_link_independent_witness:
  "tst (peek (bench_env (\<lambda>_. 0)) (0 + LPI_CTRL_STATUS) (dwmac1000_set_eee_pls (bench_env (\<lambda>_. 0)) 0 True bench0))
     LPI_CTRL_STATUS_PLS"
  using gmac_eee_link_independent [of "bench_env (\<lambda>_. 0)" "\<lambda>_. - 1" 0 True bench0]
  by (simp add: bench_rw_regs)

section \<open>The DMA engine\<close>

lemma dma_init_fail_iff:
  "fst (dwmac1000_dma_init e ioaddr pbl fb mb burst_len dma_tx dma_rx atds w) =
     (if fst (dma_reset_poll e ioaddr 10
           (rmw e (ioaddr + DMA_BUS_MODE) (\<lambda>value. value OR DMA_BUS_MODE_SFT_RESET) w)) then 0 else - EBUSY)"
  by (auto simp: dwmac1000_dma_init_def Let_def split: prod.splits)

text \<open>
  Property C29. The initialisation of the DMA engine ends in a bounded time with success or
  \<open>-EBUSY\<close>: the latter exactly when the reset bit is still set at all of ten readings.
\<close>

theorem gmac_dma_init_result:
  "fst (dwmac1000_dma_init e ioaddr pbl fb mb burst_len dma_tx dma_rx atds w) =
     (if \<forall>n<10. tst (peek e (ioaddr + DMA_BUS_MODE) ((reset_wait e ioaddr ^^ n)
            (rmw e (ioaddr + DMA_BUS_MODE) (\<lambda>value. value OR DMA_BUS_MODE_SFT_RESET) w))) DMA_BUS_MODE_SFT_RESET
      then - EBUSY else 0)"
  by (simp only: dma_init_fail_iff dma_reset_poll_iff) auto

theorem gmac_dma_init_result_witness:
  "fst (dwmac1000_dma_init (bench_selfclear_env (\<lambda>_. 0)) 0 32 0 0 0 0x4000 0x8000 0 bench0) = 0"
  by (subst gmac_dma_init_result)
    (auto intro!: exI [of _ 0] simp: rmw_unfold hw_consts tst_def bench0_def)

text \<open>
  When the initialisation succeeds, the two list addresses, the burst length and the
  default interrupt mask have been programmed.
\<close>

theorem gmac_dma_init_programs:
  assumes "rw_regs e M" and "M (ioaddr + DMA_TX_BASE_ADDR) = - 1" and "M (ioaddr + DMA_RCV_BASE_ADDR) = - 1"
    and "M (ioaddr + DMA_INTR_ENA) = - 1" and "M (ioaddr + DMA_AXI_BUS_MODE) = - 1"
    and "dwmac1000_dma_init e ioaddr pbl fb mb burst_len dma_tx dma_rx atds w = (0, w')"
  shows "peek e (ioaddr + DMA_TX_BASE_ADDR) w' = dma_tx \<and> peek e (ioaddr + DMA_RCV_BASE_ADDR) w' = dma_rx
       \<and> peek e (ioaddr + DMA_INTR_ENA) w' = DMA_INTR_DEFAULT_MASK
       \<and> peek e (ioaddr + DMA_AXI_BUS_MODE) w' = burst_len"
proof -
  have ne: "ioaddr + DMA_TX_BASE_ADDR \<noteq> ioaddr + DMA_RCV_BASE_ADDR" "ioaddr + DMA_INTR_ENA \<noteq> ioaddr + DMA_RCV_BASE_ADDR"
    "ioaddr + DMA_INTR_ENA \<noteq> ioaddr + DMA_TX_BASE_ADDR" "ioaddr + DMA_AXI_BUS_MODE \<noteq> ioaddr + DMA_RCV_BASE_ADDR"
    "ioaddr + DMA_AXI_BUS_MODE \<noteq> ioaddr + DMA_TX_BASE_ADDR" "ioaddr + DMA_AXI_BUS_MODE \<noteq> ioaddr + DMA_INTR_ENA"
    by (simp_all add: hw_consts)
  have same: "peek e a (writel e v a u) = v" if "M a = - 1" for a v u
    using rw_write_same [OF assms(1), of a v u] that by simp
  have other: "peek e a (writel e v b u) = peek e a u" if "M a = - 1" "M b = - 1" "a \<noteq> b" for a b v u
    using rw_write_other [OF assms(1), of b a v u] that by simp
  obtain u where "w' = writel e dma_rx (ioaddr + DMA_RCV_BASE_ADDR)
      (writel e dma_tx (ioaddr + DMA_TX_BASE_ADDR) (writel e DMA_INTR_DEFAULT_MASK (ioaddr + DMA_INTR_ENA)
        (writel e burst_len (ioaddr + DMA_AXI_BUS_MODE) u)))"
    using assms(6) by (auto simp: dwmac1000_dma_init_def Let_def EBUSY_def split: prod.splits if_splits)
  then show ?thesis using assms(2-5) ne by (simp only: same other simp_thms)
qed

theorem gmac_dma_init_programs_witness:
  "fst (dwmac1000_dma_init (bench_selfclear_env (\<lambda>_. 0)) 0 8 0 0 7 0x4000 0x8000 0 bench0) = 0
     \<and> peek (bench_selfclear_env (\<lambda>_. 0)) (0 + DMA_TX_BASE_ADDR)
         (snd (dwmac1000_dma_init (bench_selfclear_env (\<lambda>_. 0)) 0 8 0 0 7 0x4000 0x8000 0 bench0)) = 0x4000"
proof -
  let ?r = "dwmac1000_dma_init (bench_selfclear_env (\<lambda>_. 0)) 0 8 0 0 7 0x4000 0x8000 0 bench0"
  have z: "fst ?r = 0"
    by (simp add: dma_init_fail_iff rmw_unfold eval_nat_numeral readl_eq tst_def hw_consts bench0_def)
  then have "?r = (0, snd ?r)" by (metis prod.collapse)
  from gmac_dma_init_programs [OF bench_selfclear_rw _ _ _ _ this] z
  show ?thesis by (simp add: hw_consts)
qed

lemma clear_set_field:
  "(c AND a AND b) AND k = c AND (a AND b AND (k :: u32))"
  "(c OR x) AND k = (c AND k) OR (x AND (k :: u32))"
  by (rule bit_eqI, auto simp: bit_simps)+

lemma ttc_codes:
  "DMA_CONTROL_TTC_32 AND 0x0001c000 = DMA_CONTROL_TTC_32" "DMA_CONTROL_TTC_64 AND 0x0001c000 = DMA_CONTROL_TTC_64"
  "DMA_CONTROL_TTC_128 AND 0x0001c000 = DMA_CONTROL_TTC_128" "DMA_CONTROL_TTC_192 AND 0x0001c000 = DMA_CONTROL_TTC_192"
  "DMA_CONTROL_TTC_256 AND 0x0001c000 = DMA_CONTROL_TTC_256"
  "NOT DMA_CONTROL_TSF AND DMA_CONTROL_TC_TX_MASK AND 0x0001c000 = 0"
  by (simp_all add: hw_consts)

lemma rtc_codes:
  "DMA_CONTROL_RTC_32 AND 0x00000018 = DMA_CONTROL_RTC_32" "DMA_CONTROL_RTC_64 AND 0x00000018 = DMA_CONTROL_RTC_64"
  "DMA_CONTROL_RTC_96 AND 0x00000018 = DMA_CONTROL_RTC_96" "DMA_CONTROL_RTC_128 AND 0x00000018 = DMA_CONTROL_RTC_128"
  "NOT DMA_CONTROL_RSF AND DMA_CONTROL_TC_RX_MASK AND 0x00000018 = 0"
  by (simp_all add: hw_consts)

text \<open>A flag outside the two fields is not touched by the codes of the fields.\<close>

lemma codes_frame:
  assumes "k \<in> {DMA_CONTROL_ST, DMA_CONTROL_SR}"
  shows "DMA_CONTROL_TTC_32 AND k = 0" "DMA_CONTROL_TTC_64 AND k = 0" "DMA_CONTROL_TTC_128 AND k = 0"
    "DMA_CONTROL_TTC_192 AND k = 0" "DMA_CONTROL_TTC_256 AND k = 0" "DMA_CONTROL_TSF AND k = 0"
    "DMA_CONTROL_OSF AND k = 0" "NOT DMA_CONTROL_TSF AND DMA_CONTROL_TC_TX_MASK AND k = k"
    "DMA_CONTROL_RTC_32 AND k = 0" "DMA_CONTROL_RTC_64 AND k = 0" "DMA_CONTROL_RTC_96 AND k = 0"
    "DMA_CONTROL_RTC_128 AND k = 0" "DMA_CONTROL_RSF AND k = 0"
    "NOT DMA_CONTROL_RSF AND DMA_CONTROL_TC_RX_MASK AND k = k"
  using assms by (auto simp: hw_consts)

lemma codes_sf:
  "DMA_CONTROL_TTC_32 AND DMA_CONTROL_TSF = 0" "DMA_CONTROL_TTC_64 AND DMA_CONTROL_TSF = 0"
  "DMA_CONTROL_TTC_128 AND DMA_CONTROL_TSF = 0" "DMA_CONTROL_TTC_192 AND DMA_CONTROL_TSF = 0"
  "DMA_CONTROL_TTC_256 AND DMA_CONTROL_TSF = 0" "DMA_CONTROL_OSF AND DMA_CONTROL_TSF = 0"
  "NOT DMA_CONTROL_TSF AND DMA_CONTROL_TC_TX_MASK AND DMA_CONTROL_TSF = 0"
  "DMA_CONTROL_RTC_32 AND DMA_CONTROL_RSF = 0" "DMA_CONTROL_RTC_64 AND DMA_CONTROL_RSF = 0"
  "DMA_CONTROL_RTC_96 AND DMA_CONTROL_RSF = 0" "DMA_CONTROL_RTC_128 AND DMA_CONTROL_RSF = 0"
  "NOT DMA_CONTROL_RSF AND DMA_CONTROL_TC_RX_MASK AND DMA_CONTROL_RSF = 0"
  "DMA_CONTROL_TSF \<noteq> 0" "DMA_CONTROL_RSF \<noteq> 0"
  by (simp_all add: hw_consts)

lemma rx_codes_tx:
  assumes "k = 0x0001c000 \<or> k = DMA_CONTROL_TSF"
  shows "DMA_CONTROL_RTC_32 AND k = 0" "DMA_CONTROL_RTC_64 AND k = 0" "DMA_CONTROL_RTC_96 AND k = 0"
    "DMA_CONTROL_RTC_128 AND k = 0" "DMA_CONTROL_RSF AND k = 0"
    "NOT DMA_CONTROL_RSF AND DMA_CONTROL_TC_RX_MASK AND k = k"
  using assms by (auto simp: hw_consts)

lemma csr6_rx_mode_tx:
  "k = 0x0001c000 \<or> k = DMA_CONTROL_TSF \<Longrightarrow> csr6_rx_mode rxmode c AND k = c AND k"
  by (simp add: csr6_rx_mode_def clear_set_field rx_codes_tx)

lemma csr6_modes_frame:
  "k \<in> {DMA_CONTROL_ST, DMA_CONTROL_SR} \<Longrightarrow> csr6_rx_mode rxmode c AND k = c AND k"
  "k \<in> {DMA_CONTROL_ST, DMA_CONTROL_SR} \<Longrightarrow> csr6_tx_mode txmode c AND k = c AND k"
  by (simp_all add: csr6_rx_mode_def csr6_tx_mode_def clear_set_field codes_frame del: insert_iff)

lemma csr6_rx_mode_own:
  "tst (csr6_rx_mode rxmode c) DMA_CONTROL_RSF \<longleftrightarrow> rxmode = 1"
  "rxmode \<noteq> 1 \<Longrightarrow> csr6_rx_mode rxmode c AND 0x00000018 =
     (if rxmode \<le> 32 then DMA_CONTROL_RTC_32 else if rxmode \<le> 64 then DMA_CONTROL_RTC_64
      else if rxmode \<le> 96 then DMA_CONTROL_RTC_96 else DMA_CONTROL_RTC_128)"
  by (simp_all add: csr6_rx_mode_def tst_def SF_DMA_MODE_def clear_set_field codes_sf rtc_codes)

lemma csr6_tx_mode_own:
  "tst (csr6_tx_mode txmode c) DMA_CONTROL_TSF \<longleftrightarrow> txmode = 1"
  "txmode \<noteq> 1 \<Longrightarrow> csr6_tx_mode txmode c AND 0x0001c000 =
     (if txmode \<le> 32 then DMA_CONTROL_TTC_32 else if txmode \<le> 64 then DMA_CONTROL_TTC_64
      else if txmode \<le> 128 then DMA_CONTROL_TTC_128 else if txmode \<le> 192 then DMA_CONTROL_TTC_192
      else DMA_CONTROL_TTC_256)"
  by (simp_all add: csr6_tx_mode_def tst_def SF_DMA_MODE_def clear_set_field codes_sf ttc_codes)

lemma csr6_modes_flags:
  "tst (csr6_rx_mode rxmode c) DMA_CONTROL_TSF = tst c DMA_CONTROL_TSF"
  "tst (csr6_rx_mode rxmode (csr6_tx_mode txmode c)) DMA_CONTROL_ST = tst c DMA_CONTROL_ST"
  "tst (csr6_rx_mode rxmode (csr6_tx_mode txmode c)) DMA_CONTROL_SR = tst c DMA_CONTROL_SR"
  by (simp_all add: tst_def csr6_rx_mode_tx csr6_modes_frame)



section \<open>Auto-negotiation\<close>

text \<open>
  A partner that announces both duplex modes is recorded as half duplex, while for
  the own abilities full duplex wins: the second assignment overwrites where the first one adds.
\<close>

theorem gmac_get_adv_duplex:
  "(let a = fst (dwmac1000_get_adv e ioaddr adv w);
        own = peek e (ioaddr + GMAC_ANE_ADV) w;
        lpa = peek e (ioaddr + GMAC_ANE_LPA) (after_read e (ioaddr + GMAC_ANE_ADV) w)
    in adv_duplex a = (if tst own GMAC_ANE_FD then DUPLEX_FULL else adv_duplex adv)
     \<and> adv_lp_duplex a = (if tst lpa GMAC_ANE_HD then DUPLEX_HALF
          else if tst lpa GMAC_ANE_FD then DUPLEX_FULL else adv_lp_duplex adv)
     \<and> adv_pause a = drop_bit 7 own AND 3 \<and> adv_lp_pause a = drop_bit 7 lpa AND 3)"
proof -
  have p: "drop_bit 7 (v AND 0x180) = drop_bit 7 v AND (3 :: u32)" for v
    by simp
  show ?thesis
    by (simp add: dwmac1000_get_adv_def readl_eq Let_def doif_def DUPLEX_HALF_def DUPLEX_FULL_def
        GMAC_ANE_PSE_def GMAC_ANE_PSE_SHIFT_def p)
qed

end
