(* ===== verification/Dwmac100.thy ===== *)
theory Dwmac100
  imports Mac_Ops
begin

text \<open>
  The 10/100 core: the handlers of \<open>dwmac100_core.c\<close> and \<open>dwmac100_dma.c\<close>, their tables and
  \<open>dwmac100_setup\<close>. The VLAN register, which \<open>dwmac100_core_init\<close> writes when the kernel has VLAN
  support, is under the flag \<open>vlan\<close>. The contract \<open>umac_regs\<close> is interpreted on the single
  address register of this core.
\<close>

section \<open>The MAC core\<close>

definition ETH_P_8021Q :: u32 where [hw_consts]: "ETH_P_8021Q = 0x8100"

definition dwmac100_core_init :: "bool \<Rightarrow> 'w env \<Rightarrow> u32 \<Rightarrow> 'w \<Rightarrow> 'w" where
  "dwmac100_core_init vlan e ioaddr w =
     (let w = rmw e (ioaddr + MAC_CONTROL) (\<lambda>value. value OR MAC_CORE_INIT) w
      in doif vlan (writel e ETH_P_8021Q (ioaddr + MAC_VLAN1)) w)"

definition dwmac100_dump_mac_regs :: "'w env \<Rightarrow> u32 \<Rightarrow> 'w \<Rightarrow> 'w" where
  "dwmac100_dump_mac_regs e ioaddr w =
     fold (\<lambda>r w. after_read e (ioaddr + r) w)
       [MAC_CONTROL, MAC_ADDR_HIGH, MAC_ADDR_LOW, MAC_HASH_HIGH, MAC_HASH_LOW, MAC_FLOW_CTRL,
        MAC_VLAN1, MAC_VLAN2] w"

definition dwmac100_rx_ipc_enable :: "'w env \<Rightarrow> u32 \<Rightarrow> 'w \<Rightarrow> u32 \<times> 'w" where
  "dwmac100_rx_ipc_enable e ioaddr w = (0, w)"

definition dwmac100_irq_status ::
    "'w env \<Rightarrow> u32 \<Rightarrow> stmmac_extra_stats \<Rightarrow> 'w \<Rightarrow> u32 \<times> stmmac_extra_stats \<times> 'w" where
  "dwmac100_irq_status e ioaddr x w = (0, x, w)"

definition dwmac100_set_umac_addr :: "'w env \<Rightarrow> u32 \<Rightarrow> u8 list \<Rightarrow> u32 \<Rightarrow> 'w \<Rightarrow> 'w" where
  "dwmac100_set_umac_addr e ioaddr addr reg_n w =
     stmmac_set_mac_addr e ioaddr addr MAC_ADDR_HIGH MAC_ADDR_LOW w"

definition dwmac100_get_umac_addr :: "'w env \<Rightarrow> u32 \<Rightarrow> u32 \<Rightarrow> 'w \<Rightarrow> u8 list \<times> 'w" where
  "dwmac100_get_umac_addr e ioaddr reg_n w =
     stmmac_get_mac_addr e ioaddr MAC_ADDR_HIGH MAC_ADDR_LOW w"

definition dwmac100_set_filter :: "crc_lib \<Rightarrow> 'w env \<Rightarrow> net_device \<Rightarrow> u32 \<Rightarrow> 'w \<Rightarrow> 'w" where
  "dwmac100_set_filter kl e dev core_id w =
     (let ioaddr = base_addr dev;
          (value, w) = readl e (ioaddr + MAC_CONTROL) w;
          (value, w) =
            (if tst (nd_flags dev) IFF_PROMISC then
               ((value OR MAC_CONTROL_PR) AND
                  NOT (MAC_CONTROL_PM OR MAC_CONTROL_IF OR MAC_CONTROL_HO OR MAC_CONTROL_HP), w)
             else if length (nd_mc dev) > unat HASH_TABLE_SIZE \<or> tst (nd_flags dev) IFF_ALLMULTI then
               (let w = writel e 0xffffffff (ioaddr + MAC_HASH_HIGH) w;
                    w = writel e 0xffffffff (ioaddr + MAC_HASH_LOW) w
                in ((value OR MAC_CONTROL_PM) AND
                      NOT (MAC_CONTROL_PR OR MAC_CONTROL_IF OR MAC_CONTROL_HO), w))
             else if nd_mc dev = [] then
               (value AND NOT (MAC_CONTROL_PM OR MAC_CONTROL_PR OR MAC_CONTROL_IF OR MAC_CONTROL_HO OR
                  MAC_CONTROL_HP), w)
             else
               (let value = (value OR MAC_CONTROL_HP) AND
                      NOT (MAC_CONTROL_PM OR MAC_CONTROL_PR OR MAC_CONTROL_IF OR MAC_CONTROL_HO);
                    mc_filter = mc_filter_table (ether_crc kl) (nd_mc dev);
                    w = writel e (mc_filter ! 0) (ioaddr + MAC_HASH_LOW) w;
                    w = writel e (mc_filter ! 1) (ioaddr + MAC_HASH_HIGH) w
                in (value, w)))
      in writel e value (ioaddr + MAC_CONTROL) w)"

definition dwmac100_flow_ctrl :: "'w env \<Rightarrow> u32 \<Rightarrow> u32 \<Rightarrow> u32 \<Rightarrow> u32 \<Rightarrow> 'w \<Rightarrow> 'w" where
  "dwmac100_flow_ctrl e ioaddr duplex fc pause_time w =
     (let flow = doif (duplex \<noteq> 0) (\<lambda>f. f OR push_bit (unat MAC_FLOW_CTRL_PT_SHIFT) pause_time)
                   MAC_FLOW_CTRL_ENABLE
      in writel e flow (ioaddr + MAC_FLOW_CTRL) w)"

definition dwmac100_pmt :: "'w env \<Rightarrow> u32 \<Rightarrow> u32 \<Rightarrow> 'w \<Rightarrow> 'w" where
  "dwmac100_pmt e ioaddr mode w = w"

section \<open>The DMA engine\<close>

definition dwmac100_dma_init ::
    "'w env \<Rightarrow> u32 \<Rightarrow> u32 \<Rightarrow> u32 \<Rightarrow> u32 \<Rightarrow> u32 \<Rightarrow> u32 \<Rightarrow> u32 \<Rightarrow> u32 \<Rightarrow> 'w \<Rightarrow> int \<times> 'w" where
  "dwmac100_dma_init e ioaddr pbl fb mb burst_len dma_tx dma_rx atds w =
     (let w = rmw e (ioaddr + DMA_BUS_MODE) (\<lambda>value. value OR DMA_BUS_MODE_SFT_RESET) w;
          (reset_done, w) = dma_reset_poll e ioaddr 10 w
      in if \<not> reset_done then (- EBUSY, w)
         else
           (let w = writel e (DMA_BUS_MODE_DEFAULT OR push_bit (unat DMA_BUS_MODE_PBL_SHIFT) pbl)
                      (ioaddr + DMA_BUS_MODE) w;
                w = writel e DMA_INTR_DEFAULT_MASK (ioaddr + DMA_INTR_ENA) w;
                w = writel e dma_tx (ioaddr + DMA_TX_BASE_ADDR) w;
                w = writel e dma_rx (ioaddr + DMA_RCV_BASE_ADDR) w
            in (0, w)))"

definition dwmac100_dma_operation_mode :: "'w env \<Rightarrow> u32 \<Rightarrow> int \<Rightarrow> int \<Rightarrow> 'w \<Rightarrow> 'w" where
  "dwmac100_dma_operation_mode e ioaddr txmode rxmode w =
     rmw e (ioaddr + DMA_CONTROL)
       (\<lambda>csr6. csr6 OR (if txmode \<le> 32 then DMA_CONTROL_TTC_32_100
                        else if txmode \<le> 64 then DMA_CONTROL_TTC_64_100
                        else DMA_CONTROL_TTC_128_100)) w"

text \<open>Of the dump only the loop is unconditional; the two later messages are debug output.\<close>

definition dwmac100_dump_dma_regs :: "'w env \<Rightarrow> u32 \<Rightarrow> 'w \<Rightarrow> 'w" where
  "dwmac100_dump_dma_regs e ioaddr w =
     fold (\<lambda>i w. after_read e (ioaddr + DMA_BUS_MODE + of_nat i * 4) w) [0..<9] w"

definition dwmac100_dma_diagnostic_fr ::
    "'w env \<Rightarrow> net_device_stats \<Rightarrow> stmmac_extra_stats \<Rightarrow> u32 \<Rightarrow> 'w \<Rightarrow>
     net_device_stats \<times> stmmac_extra_stats \<times> 'w" where
  "dwmac100_dma_diagnostic_fr e stats x ioaddr w =
     (let (csr8, w) = readl e (ioaddr + DMA_MISSED_FRAME_CTR) w
      in if csr8 = 0 then (stats, x, w)
         else
           (let ove_cntr = (if tst csr8 DMA_MISSED_FRAME_OVE then 0x800
                            else drop_bit 17 (csr8 AND DMA_MISSED_FRAME_OVE_CNTR));
                stats = stats\<lparr>rx_over_errors := rx_over_errors stats + ove_cntr\<rparr>;
                x = x\<lparr>rx_overflow_cntr := rx_overflow_cntr x + ove_cntr\<rparr>;
                miss_f = (if tst csr8 DMA_MISSED_FRAME_OVE_M then 0xffff
                          else csr8 AND DMA_MISSED_FRAME_M_CNTR);
                stats = stats\<lparr>rx_missed_errors := rx_missed_errors stats + miss_f\<rparr>;
                x = x\<lparr>rx_missed_cntr := rx_missed_cntr x + miss_f\<rparr>
            in (stats, x, w)))"

section \<open>The tables and the setup\<close>

definition dwmac100_dma_ops :: "'w stmmac_dma_ops" where
  [ops_simps]: "dwmac100_dma_ops = \<lparr>
     dma_init = dwmac100_dma_init,
     dma_dump_regs = dwmac100_dump_dma_regs,
     dma_mode = dwmac100_dma_operation_mode,
     dma_diagnostic_fr = Some dwmac100_dma_diagnostic_fr,
     enable_dma_transmission = dwmac_enable_dma_transmission,
     enable_dma_irq = dwmac_enable_dma_irq,
     disable_dma_irq = dwmac_disable_dma_irq,
     start_tx = dwmac_dma_start_tx,
     stop_tx = dwmac_dma_stop_tx,
     start_rx = dwmac_dma_start_rx,
     stop_rx = dwmac_dma_stop_rx,
     dma_interrupt = dwmac_dma_interrupt,
     get_hw_feature = None,
     rx_watchdog = None\<rparr>"

definition dwmac100_ops :: "crc_lib \<Rightarrow> bool \<Rightarrow> 'w stmmac_ops" where
  [ops_simps]: "dwmac100_ops kl vlan = \<lparr>
     core_init = dwmac100_core_init vlan,
     rx_ipc = dwmac100_rx_ipc_enable,
     mac_dump_regs = dwmac100_dump_mac_regs,
     host_irq_status = dwmac100_irq_status,
     set_filter = dwmac100_set_filter kl,
     flow_ctrl = dwmac100_flow_ctrl,
     pmt = dwmac100_pmt,
     set_umac_addr = dwmac100_set_umac_addr,
     get_umac_addr = dwmac100_get_umac_addr,
     set_eee_mode = None,
     reset_eee_mode = None,
     set_eee_timer = None,
     set_eee_pls = None,
     ctrl_ane = None,
     get_adv = None\<rparr>"

definition dwmac100_setup :: "crc_lib \<Rightarrow> bool \<Rightarrow> 'w env \<Rightarrow> u32 \<Rightarrow> 'w \<Rightarrow> 'w mac_device_info option \<times> 'w" where
  "dwmac100_setup kl vlan e ioaddr w =
     (let (mac, w) = kcall e ''kzalloc'' [S ''mac_device_info''] w
      in if mac = 0 then (None, w)
         else (Some \<lparr>hw_mac = dwmac100_ops kl vlan, hw_desc = None, hw_dma = dwmac100_dma_ops,
                 hw_ring = False, hw_chain = False, hw_ptp = False,
                 hw_mii = \<lparr>mii_addr = MAC_MII_ADDR, mii_data = MAC_MII_DATA\<rparr>,
                 hw_link = \<lparr>link_port = MAC_CONTROL_PS, link_duplex = MAC_CONTROL_F, link_speed = 0\<rparr>,
                 synopsys_uid = 0\<rparr>, w))"

interpretation mac100_umac: umac_regs dwmac100_set_umac_addr dwmac100_get_umac_addr
  "\<lambda>_. MAC_ADDR_HIGH" "\<lambda>_. MAC_ADDR_LOW"
  by (rule umac_regsI)
    (simp_all add: dwmac100_set_umac_addr_def dwmac100_get_umac_addr_def MAC_ADDR_HIGH_def MAC_ADDR_LOW_def)

section \<open>Properties\<close>

text \<open>
  The 10/100 core has one address register whatever slot is named: the address set
  through any slot is the one read back through any other.
\<close>

theorem mac100_address_roundtrip:
  assumes "rw_regs e M" and "length addr = 6" and "addr_bits_rw M ioaddr MAC_ADDR_HIGH MAC_ADDR_LOW"
  shows "fst (dwmac100_get_umac_addr e ioaddr n (dwmac100_set_umac_addr e ioaddr addr m w)) = addr"
  using mac100_umac.get_set [OF assms, of n w]
  by (simp add: dwmac100_get_umac_addr_def dwmac100_set_umac_addr_def)

theorem mac100_address_roundtrip_witness:
  "fst (dwmac100_get_umac_addr (bench_env (\<lambda>_. 0)) 0 7
     (dwmac100_set_umac_addr (bench_env (\<lambda>_. 0)) 0 [2,0,0,0,0,1] 3 bench0)) = [2,0,0,0,0,1]"
  by (rule mac100_address_roundtrip [where M = "\<lambda>_. - 1"])
    (simp_all add: bench_rw_regs addr_bits_rw_def)

text \<open>
  Unlike on the GMAC, the transmit threshold of the 10/100 core is added to what the
  field held: after asking for 64 and then for 128, the field holds the code of 256.
\<close>

theorem mac100_threshold_accumulates:
  assumes "rw_regs e M" and "M (ioaddr + DMA_CONTROL) = - 1"
    and "peek e (ioaddr + DMA_CONTROL) w AND 0x0040c000 = 0"
  shows "peek e (ioaddr + DMA_CONTROL)
      (dwmac100_dma_operation_mode e ioaddr 128 rx (dwmac100_dma_operation_mode e ioaddr 64 rx w)) AND 0x0040c000
      = DMA_CONTROL_TTC_256"
proof -
  have s: "peek e (ioaddr + DMA_CONTROL) (rmw e (ioaddr + DMA_CONTROL) f u) = f (peek e (ioaddr + DMA_CONTROL) u)" for f u
    using rw_rmw_same [OF assms(1), of "ioaddr + DMA_CONTROL"] assms(2) by simp
  have d: "(v OR a) AND k = (v AND k) OR (a AND k)" for v a k :: u32
    by (rule bit_eqI) (auto simp: bit_simps)
  show ?thesis using assms(3)
    by (simp add: dwmac100_dma_operation_mode_def s d or.assoc DMA_CONTROL_TTC_64_100_def
        DMA_CONTROL_TTC_128_100_def DMA_CONTROL_TTC_256_def)
qed

theorem mac100_threshold_accumulates_witness:
  "peek (bench_env (\<lambda>_. 0)) (0 + DMA_CONTROL)
      (dwmac100_dma_operation_mode (bench_env (\<lambda>_. 0)) 0 128 1
         (dwmac100_dma_operation_mode (bench_env (\<lambda>_. 0)) 0 64 1 bench0)) AND 0x0040c000 = DMA_CONTROL_TTC_256"
  by (rule mac100_threshold_accumulates [where M = "\<lambda>_. - 1"]) (simp_all add: bench_rw_regs bench0_def)

lemma and_mask_le: "unat (v AND m) \<le> unat (m :: u32)"
proof -
  have "v AND m \<le> m" by (rule word_and_le1)
  then show ?thesis by (simp add: word_le_nat_alt)
qed

text \<open>
  The diagnostic counters of the 10/100 core: the interface statistics and the extra
  ones grow by the same amounts, at most 0x800 overflows and 0xffff missed frames for each reading;
  nothing changes when the register reads zero.
\<close>

theorem mac100_diagnostic_counts:
  "\<exists>ove miss. unat ove \<le> 0x800 \<and> unat miss \<le> 0xffff
     \<and> fst (dwmac100_dma_diagnostic_fr e stats x ioaddr w) =
         stats\<lparr>rx_over_errors := rx_over_errors stats + ove, rx_missed_errors := rx_missed_errors stats + miss\<rparr>
     \<and> fst (snd (dwmac100_dma_diagnostic_fr e stats x ioaddr w)) =
         x\<lparr>rx_overflow_cntr := rx_overflow_cntr x + ove, rx_missed_cntr := rx_missed_cntr x + miss\<rparr>
     \<and> (if peek e (ioaddr + DMA_MISSED_FRAME_CTR) w = 0 then ove = 0 \<and> miss = 0 else True)"
proof -
  let ?c = "peek e (ioaddr + DMA_MISSED_FRAME_CTR) w"
  let ?ove = "if ?c = 0 then 0 else if tst ?c DMA_MISSED_FRAME_OVE then 0x800
    else drop_bit 17 (?c AND DMA_MISSED_FRAME_OVE_CNTR)"
  let ?miss = "if ?c = 0 then 0 else if tst ?c DMA_MISSED_FRAME_OVE_M then 0xffff else ?c AND DMA_MISSED_FRAME_M_CNTR"
  have "unat (drop_bit 17 (?c AND DMA_MISSED_FRAME_OVE_CNTR)) \<le> 0x7ff"
    using and_mask_le [of ?c DMA_MISSED_FRAME_OVE_CNTR]
    by (simp add: drop_bit_eq_div unat_div_distrib DMA_MISSED_FRAME_OVE_CNTR_def)
  then have o: "unat ?ove \<le> 0x800" by simp
  have m: "unat ?miss \<le> 0xffff"
    using and_mask_le [of ?c DMA_MISSED_FRAME_M_CNTR] by (simp add: DMA_MISSED_FRAME_M_CNTR_def)
  show ?thesis
    by (rule exI [of _ ?ove], rule exI [of _ ?miss], intro conjI, rule o, rule m)
      (simp_all add: dwmac100_dma_diagnostic_fr_def readl_eq Let_def)
qed

end
