(* ===== verification/Mmc.thy ===== *)
theory Mmc
  imports Drv_Prelude
begin

text \<open>
  The MAC management counters of \<open>mmc.h\<close>: the bits of the control register and \<open>struct stmmac_counters\<close>,
  member by member. The functions that read the counters are in a file the repository does not have.
\<close>

definition MMC_CNTRL_COUNTER_RESET :: u32 where [hw_consts]: "MMC_CNTRL_COUNTER_RESET = 0x1"
definition MMC_CNTRL_COUNTER_STOP_ROLLOVER :: u32 where [hw_consts]: "MMC_CNTRL_COUNTER_STOP_ROLLOVER = 0x2"
definition MMC_CNTRL_RESET_ON_READ :: u32 where [hw_consts]: "MMC_CNTRL_RESET_ON_READ = 0x4"
definition MMC_CNTRL_COUNTER_FREEZER :: u32 where [hw_consts]: "MMC_CNTRL_COUNTER_FREEZER = 0x8"
definition MMC_CNTRL_PRESET :: u32 where [hw_consts]: "MMC_CNTRL_PRESET = 0x10"
definition MMC_CNTRL_FULL_HALF_PRESET :: u32 where [hw_consts]: "MMC_CNTRL_FULL_HALF_PRESET = 0x20"

record stmmac_counters =
  mmc_tx_octetcount_gb :: u32
  mmc_tx_framecount_gb :: u32
  mmc_tx_broadcastframe_g :: u32
  mmc_tx_multicastframe_g :: u32
  mmc_tx_64_octets_gb :: u32
  mmc_tx_65_to_127_octets_gb :: u32
  mmc_tx_128_to_255_octets_gb :: u32
  mmc_tx_256_to_511_octets_gb :: u32
  mmc_tx_512_to_1023_octets_gb :: u32
  mmc_tx_1024_to_max_octets_gb :: u32
  mmc_tx_unicast_gb :: u32
  mmc_tx_multicast_gb :: u32
  mmc_tx_broadcast_gb :: u32
  mmc_tx_underflow_error :: u32
  mmc_tx_singlecol_g :: u32
  mmc_tx_multicol_g :: u32
  mmc_tx_deferred :: u32
  mmc_tx_latecol :: u32
  mmc_tx_exesscol :: u32
  mmc_tx_carrier_error :: u32
  mmc_tx_octetcount_g :: u32
  mmc_tx_framecount_g :: u32
  mmc_tx_excessdef :: u32
  mmc_tx_pause_frame :: u32
  mmc_tx_vlan_frame_g :: u32
  mmc_rx_framecount_gb :: u32
  mmc_rx_octetcount_gb :: u32
  mmc_rx_octetcount_g :: u32
  mmc_rx_broadcastframe_g :: u32
  mmc_rx_multicastframe_g :: u32
  mmc_rx_crc_errror :: u32
  mmc_rx_align_error :: u32
  mmc_rx_run_error :: u32
  mmc_rx_jabber_error :: u32
  mmc_rx_undersize_g :: u32
  mmc_rx_oversize_g :: u32
  mmc_rx_64_octets_gb :: u32
  mmc_rx_65_to_127_octets_gb :: u32
  mmc_rx_128_to_255_octets_gb :: u32
  mmc_rx_256_to_511_octets_gb :: u32
  mmc_rx_512_to_1023_octets_gb :: u32
  mmc_rx_1024_to_max_octets_gb :: u32
  mmc_rx_unicast_g :: u32
  mmc_rx_length_error :: u32
  mmc_rx_autofrangetype :: u32
  mmc_rx_pause_frames :: u32
  mmc_rx_fifo_overflow :: u32
  mmc_rx_vlan_frames_gb :: u32
  mmc_rx_watchdog_error :: u32
  mmc_rx_ipc_intr_mask :: u32
  mmc_rx_ipc_intr :: u32
  mmc_rx_ipv4_gd :: u32
  mmc_rx_ipv4_hderr :: u32
  mmc_rx_ipv4_nopay :: u32
  mmc_rx_ipv4_frag :: u32
  mmc_rx_ipv4_udsbl :: u32
  mmc_rx_ipv4_gd_octets :: u32
  mmc_rx_ipv4_hderr_octets :: u32
  mmc_rx_ipv4_nopay_octets :: u32
  mmc_rx_ipv4_frag_octets :: u32
  mmc_rx_ipv4_udsbl_octets :: u32
  mmc_rx_ipv6_gd_octets :: u32
  mmc_rx_ipv6_hderr_octets :: u32
  mmc_rx_ipv6_nopay_octets :: u32
  mmc_rx_ipv6_gd :: u32
  mmc_rx_ipv6_hderr :: u32
  mmc_rx_ipv6_nopay :: u32
  mmc_rx_udp_gd :: u32
  mmc_rx_udp_err :: u32
  mmc_rx_tcp_gd :: u32
  mmc_rx_tcp_err :: u32
  mmc_rx_icmp_gd :: u32
  mmc_rx_icmp_err :: u32
  mmc_rx_udp_gd_octets :: u32
  mmc_rx_udp_err_octets :: u32
  mmc_rx_tcp_gd_octets :: u32
  mmc_rx_tcp_err_octets :: u32
  mmc_rx_icmp_gd_octets :: u32
  mmc_rx_icmp_err_octets :: u32

text \<open>All counters cleared, as \<open>memset(&priv->mmc, 0, ...)\<close> leaves them.\<close>

definition zero_counters :: stmmac_counters where
  "zero_counters = \<lparr>mmc_tx_octetcount_gb = 0, mmc_tx_framecount_gb = 0, mmc_tx_broadcastframe_g = 0,
     mmc_tx_multicastframe_g = 0, mmc_tx_64_octets_gb = 0, mmc_tx_65_to_127_octets_gb = 0,
     mmc_tx_128_to_255_octets_gb = 0, mmc_tx_256_to_511_octets_gb = 0, mmc_tx_512_to_1023_octets_gb
     = 0, mmc_tx_1024_to_max_octets_gb = 0, mmc_tx_unicast_gb = 0, mmc_tx_multicast_gb = 0,
     mmc_tx_broadcast_gb = 0, mmc_tx_underflow_error = 0, mmc_tx_singlecol_g = 0, mmc_tx_multicol_g
     = 0, mmc_tx_deferred = 0, mmc_tx_latecol = 0, mmc_tx_exesscol = 0, mmc_tx_carrier_error = 0,
     mmc_tx_octetcount_g = 0, mmc_tx_framecount_g = 0, mmc_tx_excessdef = 0, mmc_tx_pause_frame = 0,
     mmc_tx_vlan_frame_g = 0, mmc_rx_framecount_gb = 0, mmc_rx_octetcount_gb = 0,
     mmc_rx_octetcount_g = 0, mmc_rx_broadcastframe_g = 0, mmc_rx_multicastframe_g = 0,
     mmc_rx_crc_errror = 0, mmc_rx_align_error = 0, mmc_rx_run_error = 0, mmc_rx_jabber_error = 0,
     mmc_rx_undersize_g = 0, mmc_rx_oversize_g = 0, mmc_rx_64_octets_gb = 0,
     mmc_rx_65_to_127_octets_gb = 0, mmc_rx_128_to_255_octets_gb = 0, mmc_rx_256_to_511_octets_gb =
     0, mmc_rx_512_to_1023_octets_gb = 0, mmc_rx_1024_to_max_octets_gb = 0, mmc_rx_unicast_g = 0,
     mmc_rx_length_error = 0, mmc_rx_autofrangetype = 0, mmc_rx_pause_frames = 0,
     mmc_rx_fifo_overflow = 0, mmc_rx_vlan_frames_gb = 0, mmc_rx_watchdog_error = 0,
     mmc_rx_ipc_intr_mask = 0, mmc_rx_ipc_intr = 0, mmc_rx_ipv4_gd = 0, mmc_rx_ipv4_hderr = 0,
     mmc_rx_ipv4_nopay = 0, mmc_rx_ipv4_frag = 0, mmc_rx_ipv4_udsbl = 0, mmc_rx_ipv4_gd_octets = 0,
     mmc_rx_ipv4_hderr_octets = 0, mmc_rx_ipv4_nopay_octets = 0, mmc_rx_ipv4_frag_octets = 0,
     mmc_rx_ipv4_udsbl_octets = 0, mmc_rx_ipv6_gd_octets = 0, mmc_rx_ipv6_hderr_octets = 0,
     mmc_rx_ipv6_nopay_octets = 0, mmc_rx_ipv6_gd = 0, mmc_rx_ipv6_hderr = 0, mmc_rx_ipv6_nopay = 0,
     mmc_rx_udp_gd = 0, mmc_rx_udp_err = 0, mmc_rx_tcp_gd = 0, mmc_rx_tcp_err = 0, mmc_rx_icmp_gd =
     0, mmc_rx_icmp_err = 0, mmc_rx_udp_gd_octets = 0, mmc_rx_udp_err_octets = 0,
     mmc_rx_tcp_gd_octets = 0, mmc_rx_tcp_err_octets = 0, mmc_rx_icmp_gd_octets = 0,
     mmc_rx_icmp_err_octets = 0\<rparr>"

end
