(* ===== verification/Stmmac_Priv.thy ===== *)
theory Stmmac_Priv
  imports Dwmac1000 Dwmac100 Mmc
begin

text \<open>
  The state of the driver of \<open>stmmac_main.c\<close> and its functions that touch neither the rings
  nor the life cycle: the module parameters, \<open>struct stmmac_priv\<close> with the device and the
  platform data it points to, the check of the parameters, the clock divider, the free slots of
  the transmit ring, the capability register, energy efficient Ethernet, the descriptor mode and
  the adjustment of the link. One record holds what the source reaches from \<open>priv\<close>: the network
  device (\<open>priv->dev\<close>), the platform data (\<open>priv->plat\<close>), the core (\<open>priv->hw\<close>) and the static
  variables of the file. Locks are not modelled: every function runs without being interrupted,
  as the source has them do under \<open>tx_lock\<close> and \<open>lock\<close>. A function that may dereference a \<open>NULL\<close>
  pointer returns an option, \<open>None\<close> being the crash.
\<close>

section \<open>Data\<close>

text \<open>The static variables behind the module parameters.\<close>

record module_params =
  m_watchdog :: int
  m_debug :: int
  m_dma_txsize :: int
  m_dma_rxsize :: int
  m_flow_ctrl :: int
  m_pause :: int
  m_tc :: int
  m_buf_sz :: int
  m_eee_timer :: int
  m_phyaddr :: int
  m_chain_mode :: int

definition TX_TIMEO :: int where [hw_consts]: "TX_TIMEO = 5000"
definition JUMBO_LEN :: int where [hw_consts]: "JUMBO_LEN = 9000"
definition DMA_TX_SIZE :: int where [hw_consts]: "DMA_TX_SIZE = 5"
definition DMA_RX_SIZE :: int where [hw_consts]: "DMA_RX_SIZE = 5"
definition TC_DEFAULT :: int where [hw_consts]: "TC_DEFAULT = 64"
definition DMA_BUFFER_SIZE :: int where [hw_consts]: "DMA_BUFFER_SIZE = BUF_SIZE_2KiB"
definition STMMAC_DEFAULT_LPI_TIMER :: int where [hw_consts]: "STMMAC_DEFAULT_LPI_TIMER = 1000"

definition default_params :: module_params where
  "default_params = \<lparr>m_watchdog = TX_TIMEO, m_debug = -1, m_dma_txsize = DMA_TX_SIZE, m_dma_rxsize = DMA_RX_SIZE,
     m_flow_ctrl = uint FLOW_OFF, m_pause = uint PAUSE_TIME, m_tc = TC_DEFAULT, m_buf_sz = DMA_BUFFER_SIZE,
     m_eee_timer = STMMAC_DEFAULT_LPI_TIMER, m_phyaddr = -1, m_chain_mode = 0\<rparr>"

record dma_features =
  mbps_10_100 :: u32
  mbps_1000 :: u32
  half_duplex :: u32
  hash_filter :: u32
  multi_addr :: u32
  cap_pcs :: u32
  sma_mdio :: u32
  pmt_remote_wake_up :: u32
  pmt_magic_frame :: u32
  rmon :: u32
  time_stamp :: u32
  atime_stamp :: u32
  cap_eee :: u32
  cap_av :: u32
  cap_tx_coe :: u32
  rx_coe_type1 :: u32
  rx_coe_type2 :: u32
  rxfifo_over_2048 :: u32
  number_rx_channel :: u32
  number_tx_channel :: u32
  cap_enh_desc :: u32

text \<open>
  The platform data of \<open>linux/stmmac.h\<close> and the board data behind \<open>bsp_priv\<close>, as far as the driver
  reads them; their callbacks, which the platform part fills in, are functions on the world.
\<close>

record dma_cfg =
  cfg_pbl :: u32
  cfg_fixed_burst :: u32
  cfg_mixed_burst :: u32
  cfg_burst_len :: u32

record 'w bsp =
  phy_power_on :: "(bool \<Rightarrow> 'w \<Rightarrow> 'w) option"
  gmac_clk_enable :: "(bool \<Rightarrow> 'w \<Rightarrow> 'w) option"
  bsp_clk_mac :: ptr

record 'w plat =
  pl_phy_bus_name :: "string option"
  pl_bus_id :: int
  pl_phy_addr :: int
  pl_interface :: u32
  pl_has_gmac :: bool
  pl_enh_desc :: u32
  pl_tx_coe :: u32
  pl_rx_coe :: int
  pl_bugged_jumbo :: bool
  pl_pmt :: u32
  pl_force_sf_dma_mode :: bool
  pl_riwt_off :: bool
  pl_clk_csr :: int
  pl_dma_cfg :: "dma_cfg option"
  pl_bsp :: "'w bsp option"
  pl_fix_mac_speed :: "(u32 \<Rightarrow> 'w \<Rightarrow> 'w) option"
  pl_bus_setup :: "(u32 \<Rightarrow> 'w \<Rightarrow> 'w) option"

record phy_device =
  phy_link :: bool
  phy_duplex :: int
  phy_speed :: int
  phy_pause :: bool
  phy_handle :: ptr

record netdev = net_device +
  nd_mtu :: int
  nd_dev_addr :: "u8 list"
  nd_irq :: int
  nd_stats :: net_device_stats
  nd_priv_flags :: u32
  nd_features :: u64
  nd_hw_features :: u64
  nd_watchdog_timeo :: int

text \<open>
  \<open>struct stmmac_priv\<close>. A ring of descriptors, socket buffers or bus addresses is a list; before
  its allocation it is empty.
\<close>

record 'w priv =
  glob :: module_params
  dev :: netdev
  dma_etx :: "dma_extended_desc list"
  dma_tx :: "dma_desc list"
  tx_skbuff :: "ptr list"
  cur_tx :: u32
  dirty_tx :: u32
  dma_tx_size :: u32
  tx_count_frames :: u32
  tx_coal_frames :: u32
  tx_coal_timer :: u32
  tx_skbuff_dma :: "u32 list"
  dma_tx_phy :: u32
  hwts_tx_en :: bool
  tx_path_in_lpi_mode :: bool
  dma_rx :: "dma_desc list"
  dma_erx :: "dma_extended_desc list"
  rx_skbuff :: "ptr list"
  cur_rx :: u32
  dirty_rx :: u32
  dma_rx_size :: u32
  dma_buf_sz :: u32
  rx_riwt :: u32
  hwts_rx_en :: bool
  rx_skbuff_dma :: "u32 list"
  dma_rx_phy :: u32
  ioaddr :: u32
  hw :: "'w mac_device_info"
  no_csum_insertion :: bool
  phydev :: "phy_device option"
  oldlink :: bool
  p_speed :: int
  oldduplex :: int
  p_flow_ctrl :: u32
  p_pause :: u32
  xstats :: stmmac_extra_stats
  plat :: "'w plat"
  dma_cap :: dma_features
  mmc :: stmmac_counters
  hw_cap_support :: u32
  synopsys_id :: u32
  msg_enable :: u32
  wolopts :: u32
  wol_irq :: int
  stmmac_clk :: ptr
  p_clk_csr :: int
  lpi_irq :: int
  eee_enabled :: bool
  eee_active :: bool
  tx_lpi_timer :: u32
  pcs :: u32
  mode :: u32
  extend_desc :: bool
  default_addend :: u32
  adv_ts :: u32
  use_riwt :: bool
  mdio_registered :: bool

section \<open>Module parameters\<close>

definition verify_params :: "module_params \<Rightarrow> module_params" where
  "verify_params g =
     (let g = doif (m_watchdog g < 0) (m_watchdog_update (\<lambda>_. TX_TIMEO)) g;
          g = doif (m_dma_rxsize g < 0) (m_dma_rxsize_update (\<lambda>_. DMA_RX_SIZE)) g;
          g = doif (m_dma_txsize g < 0) (m_dma_txsize_update (\<lambda>_. DMA_TX_SIZE)) g;
          g = doif (m_buf_sz g < DMA_BUFFER_SIZE \<or> m_buf_sz g > BUF_SIZE_16KiB)
                (m_buf_sz_update (\<lambda>_. DMA_BUFFER_SIZE)) g;
          g = (if m_flow_ctrl g > 1 then g\<lparr>m_flow_ctrl := uint FLOW_AUTO\<rparr>
               else if m_flow_ctrl g < 0 then g\<lparr>m_flow_ctrl := uint FLOW_OFF\<rparr> else g);
          g = doif (m_pause g < 0 \<or> m_pause g > 0xffff) (m_pause_update (\<lambda>_. uint PAUSE_TIME)) g
      in doif (m_eee_timer g < 0) (m_eee_timer_update (\<lambda>_. STMMAC_DEFAULT_LPI_TIMER)) g)"

definition stmmac_verify_args :: "'w priv \<Rightarrow> 'w priv" where
  "stmmac_verify_args p = p\<lparr>glob := verify_params (glob p)\<rparr>"

text \<open>
  After the check every parameter is in its range, a parameter that was in range is
  unchanged, and checking twice changes nothing more. The ring sizes are only made non-negative:
  a size of 0 passes.
\<close>

theorem verify_args_ranges:
  "(let g' = verify_params g
    in 0 \<le> m_watchdog g' \<and> 0 \<le> m_dma_rxsize g' \<and> 0 \<le> m_dma_txsize g'
     \<and> BUF_SIZE_2KiB \<le> m_buf_sz g' \<and> m_buf_sz g' \<le> BUF_SIZE_16KiB
     \<and> m_flow_ctrl g' \<in> {0, 1, 3} \<and> 0 \<le> m_pause g' \<and> m_pause g' \<le> 0xffff \<and> 0 \<le> m_eee_timer g'
     \<and> verify_params default_params = default_params
     \<and> (m_dma_txsize g = 0) = (m_dma_txsize g' = 0)
     \<and> m_tc g' = m_tc g \<and> m_phyaddr g' = m_phyaddr g)"
  unfolding Let_def
  by (intro conjI) (auto simp: verify_params_def default_params_def Let_def doif_def hw_consts)

section \<open>Small functions\<close>

text \<open>The codes of the clock ranges, of \<open>linux/stmmac.h\<close>.\<close>

definition STMMAC_CSR_60_100M :: int where [hw_consts]: "STMMAC_CSR_60_100M = 0"
definition STMMAC_CSR_100_150M :: int where [hw_consts]: "STMMAC_CSR_100_150M = 1"
definition STMMAC_CSR_20_35M :: int where [hw_consts]: "STMMAC_CSR_20_35M = 2"
definition STMMAC_CSR_35_60M :: int where [hw_consts]: "STMMAC_CSR_35_60M = 3"
definition STMMAC_CSR_150_250M :: int where [hw_consts]: "STMMAC_CSR_150_250M = 4"
definition STMMAC_CSR_250_300M :: int where [hw_consts]: "STMMAC_CSR_250_300M = 5"

definition clk_csr_for :: "u32 \<Rightarrow> int \<Rightarrow> int" where
  "clk_csr_for clk_rate csr =
     (if (word_of_int csr :: u32) AND MAC_CSR_H_FRQ_MASK \<noteq> 0 then csr
      else if clk_rate < CSR_F_35M then STMMAC_CSR_20_35M
      else if clk_rate \<ge> CSR_F_35M \<and> clk_rate < CSR_F_60M then STMMAC_CSR_35_60M
      else if clk_rate \<ge> CSR_F_60M \<and> clk_rate < CSR_F_100M then STMMAC_CSR_60_100M
      else if clk_rate \<ge> CSR_F_100M \<and> clk_rate < CSR_F_150M then STMMAC_CSR_100_150M
      else if clk_rate \<ge> CSR_F_150M \<and> clk_rate < CSR_F_250M then STMMAC_CSR_150_250M
      else if clk_rate \<ge> CSR_F_250M \<and> clk_rate < CSR_F_300M then STMMAC_CSR_250_300M
      else csr)"

definition stmmac_clk_csr_set :: "'w env \<Rightarrow> 'w priv \<Rightarrow> 'w \<Rightarrow> 'w priv \<times> 'w" where
  "stmmac_clk_csr_set e p w =
     (let (clk_rate, w) = kcall e ''clk_get_rate'' [I (stmmac_clk p)] w
      in (p\<lparr>p_clk_csr := clk_csr_for (word_of_int clk_rate) (p_clk_csr p)\<rparr>, w))"

definition STMMAC_TX_THRESH :: "'w priv \<Rightarrow> u32" where
  "STMMAC_TX_THRESH p = dma_tx_size p div 4"

definition stmmac_tx_avail :: "'w priv \<Rightarrow> u32" where
  "stmmac_tx_avail p = dirty_tx p + dma_tx_size p - cur_tx p - 1"

definition stmmac_hw_fix_mac_speed :: "'w priv \<Rightarrow> phy_device \<Rightarrow> 'w \<Rightarrow> 'w" where
  "stmmac_hw_fix_mac_speed p phy w =
     (case pl_fix_mac_speed (plat p) of None \<Rightarrow> w | Some f \<Rightarrow> f (word_of_int (phy_speed phy)) w)"

section \<open>Energy efficient Ethernet\<close>

definition stmmac_enable_eee_mode :: "'w env \<Rightarrow> 'w priv \<Rightarrow> 'w \<Rightarrow> 'w option" where
  "stmmac_enable_eee_mode e p w =
     (if dirty_tx p = cur_tx p \<and> \<not> tx_path_in_lpi_mode p
      then (case set_eee_mode (hw_mac (hw p)) of None \<Rightarrow> None | Some f \<Rightarrow> Some (f e (ioaddr p) w))
      else Some w)"

definition stmmac_disable_eee_mode :: "'w env \<Rightarrow> 'w priv \<Rightarrow> 'w \<Rightarrow> ('w priv \<times> 'w) option" where
  "stmmac_disable_eee_mode e p w =
     (case reset_eee_mode (hw_mac (hw p)) of None \<Rightarrow> None
      | Some f \<Rightarrow>
          (let w = f e (ioaddr p) w;
               w = kdo e ''del_timer_sync'' [S ''eee_ctrl_timer''] w
           in Some (p\<lparr>tx_path_in_lpi_mode := False\<rparr>, w)))"

definition mod_eee_timer :: "'w env \<Rightarrow> 'w priv \<Rightarrow> 'w \<Rightarrow> 'w" where
  "mod_eee_timer e p w =
     (let (t, w) = kcall e ''STMMAC_LPI_T'' [I (m_eee_timer (glob p))] w
      in kdo e ''mod_timer'' [S ''eee_ctrl_timer'', I t] w)"

definition stmmac_eee_ctrl_timer :: "'w env \<Rightarrow> 'w priv \<Rightarrow> 'w \<Rightarrow> 'w option" where
  "stmmac_eee_ctrl_timer e p w = map_option (mod_eee_timer e p) (stmmac_enable_eee_mode e p w)"

definition stmmac_eee_init :: "'w env \<Rightarrow> 'w priv \<Rightarrow> 'w \<Rightarrow> (bool \<times> 'w priv \<times> 'w) option" where
  "stmmac_eee_init e p w =
     (if pcs p = STMMAC_PCS_RGMII \<or> pcs p = STMMAC_PCS_TBI \<or> pcs p = STMMAC_PCS_RTBI then Some (False, p, w)
      else if cap_eee (dma_cap p) \<noteq> 0 then
        (let (r, w) = kcall e ''phy_init_eee'' [I (case phydev p of None \<Rightarrow> 0 | Some d \<Rightarrow> phy_handle d), I 1] w
         in if r \<noteq> 0 then Some (False, p, w)
            else if \<not> eee_active p then
              (let p = p\<lparr>eee_active := True\<rparr>;
                   w = kdo e ''init_timer'' [S ''eee_ctrl_timer''] w;
                   (t, w) = kcall e ''STMMAC_LPI_T'' [I (m_eee_timer (glob p))] w;
                   w = kdo e ''add_timer'' [S ''eee_ctrl_timer'', I t] w
               in case set_eee_timer (hw_mac (hw p)) of None \<Rightarrow> None
                  | Some f \<Rightarrow> Some (True, p, f e (ioaddr p) STMMAC_DEFAULT_LIT_LS (tx_lpi_timer p) w))
            else
              (case (set_eee_pls (hw_mac (hw p)), phydev p) of
                 (Some f, Some d) \<Rightarrow> Some (True, p, f e (ioaddr p) (phy_link d) w)
               | _ \<Rightarrow> None))
      else Some (False, p, w))"

section \<open>Link\<close>

definition link_ctrl_speed :: "'w priv \<Rightarrow> phy_device \<Rightarrow> u32 \<Rightarrow> 'w \<Rightarrow> u32 \<times> 'w" where
  "link_ctrl_speed p phy ctrl w =
     (let port = link_port (hw_link (hw p)); sp = link_speed (hw_link (hw p))
      in if phy_speed phy = 1000 then
           (doif (pl_has_gmac (plat p)) (\<lambda>c. c AND NOT port) ctrl, stmmac_hw_fix_mac_speed p phy w)
         else if phy_speed phy = 100 \<or> phy_speed phy = 10 then
           (if pl_has_gmac (plat p)
            then (if phy_speed phy = 100 then (ctrl OR port) OR sp else (ctrl OR port) AND NOT sp)
            else ctrl AND NOT port,
            stmmac_hw_fix_mac_speed p phy w)
         else (ctrl, w))"

definition stmmac_adjust_link :: "'w env \<Rightarrow> 'w priv \<Rightarrow> 'w \<Rightarrow> ('w priv \<times> 'w) option" where
  "stmmac_adjust_link e p w =
     (case phydev p of None \<Rightarrow> Some (p, w)
      | Some phy \<Rightarrow>
          (let (p, w) =
             (if phy_link phy then
                (let (ctrl, w) = readl e (ioaddr p + MAC_CTRL_REG) w;
                     dup = link_duplex (hw_link (hw p));
                     (ctrl, p) =
                       (if phy_duplex phy \<noteq> oldduplex p
                        then (if phy_duplex phy = 0 then ctrl AND NOT dup else ctrl OR dup,
                              p\<lparr>oldduplex := phy_duplex phy\<rparr>)
                        else (ctrl, p));
                     w = doif (phy_pause phy)
                           (flow_ctrl (hw_mac (hw p)) e (ioaddr p) (word_of_int (phy_duplex phy))
                              (p_flow_ctrl p) (p_pause p)) w;
                     (ctrl, p, w) =
                       (if phy_speed phy \<noteq> p_speed p
                        then (let (ctrl, w) = link_ctrl_speed p phy ctrl w
                              in (ctrl, p\<lparr>p_speed := phy_speed phy\<rparr>, w))
                        else (ctrl, p, w));
                     w = writel e ctrl (ioaddr p + MAC_CTRL_REG) w
                 in (p\<lparr>oldlink := True\<rparr>, w))
              else if oldlink p then (p\<lparr>oldlink := False, p_speed := 0, oldduplex := -1\<rparr>, w)
              else (p, w))
           in case stmmac_eee_init e p w of None \<Rightarrow> None
              | Some (r, p, w) \<Rightarrow> Some (p\<lparr>eee_enabled := r\<rparr>, w)))"

text \<open>The codes of \<open>phy_interface_t\<close> of \<open>linux/phy.h\<close>: an enumeration, not a set of flags.\<close>


definition stmmac_check_pcs_mode :: "'w priv \<Rightarrow> 'w priv" where
  "stmmac_check_pcs_mode p =
     (let interface = pl_interface (plat p)
      in if cap_pcs (dma_cap p) \<noteq> 0 then
           (if tst interface PHY_INTERFACE_MODE_RGMII \<or> tst interface PHY_INTERFACE_MODE_RGMII_ID \<or>
               tst interface PHY_INTERFACE_MODE_RGMII_RXID \<or> tst interface PHY_INTERFACE_MODE_RGMII_TXID
            then p\<lparr>pcs := STMMAC_PCS_RGMII\<rparr>
            else if tst interface PHY_INTERFACE_MODE_SGMII then p\<lparr>pcs := STMMAC_PCS_SGMII\<rparr>
            else p)
         else p)"

section \<open>Capabilities and descriptor mode\<close>

definition decode_hw_cap :: "u32 \<Rightarrow> dma_features" where
  "decode_hw_cap hw_cap = \<lparr>
     mbps_10_100 = hw_cap AND DMA_HW_FEAT_MIISEL,
     mbps_1000 = drop_bit 1 (hw_cap AND DMA_HW_FEAT_GMIISEL),
     half_duplex = drop_bit 2 (hw_cap AND DMA_HW_FEAT_HDSEL),
     hash_filter = drop_bit 4 (hw_cap AND DMA_HW_FEAT_HASHSEL),
     multi_addr = drop_bit 5 (hw_cap AND DMA_HW_FEAT_ADDMAC),
     cap_pcs = drop_bit 6 (hw_cap AND DMA_HW_FEAT_PCSSEL),
     sma_mdio = drop_bit 8 (hw_cap AND DMA_HW_FEAT_SMASEL),
     pmt_remote_wake_up = drop_bit 9 (hw_cap AND DMA_HW_FEAT_RWKSEL),
     pmt_magic_frame = drop_bit 10 (hw_cap AND DMA_HW_FEAT_MGKSEL),
     rmon = drop_bit 11 (hw_cap AND DMA_HW_FEAT_MMCSEL),
     time_stamp = drop_bit 12 (hw_cap AND DMA_HW_FEAT_TSVER1SEL),
     atime_stamp = drop_bit 13 (hw_cap AND DMA_HW_FEAT_TSVER2SEL),
     cap_eee = drop_bit 14 (hw_cap AND DMA_HW_FEAT_EEESEL),
     cap_av = drop_bit 15 (hw_cap AND DMA_HW_FEAT_AVSEL),
     cap_tx_coe = drop_bit 16 (hw_cap AND DMA_HW_FEAT_TXCOESEL),
     rx_coe_type1 = drop_bit 17 (hw_cap AND DMA_HW_FEAT_RXTYP1COE),
     rx_coe_type2 = drop_bit 18 (hw_cap AND DMA_HW_FEAT_RXTYP2COE),
     rxfifo_over_2048 = drop_bit 19 (hw_cap AND DMA_HW_FEAT_RXFIFOSIZE),
     number_rx_channel = drop_bit 20 (hw_cap AND DMA_HW_FEAT_RXCHCNT),
     number_tx_channel = drop_bit 22 (hw_cap AND DMA_HW_FEAT_TXCHCNT),
     cap_enh_desc = drop_bit 24 (hw_cap AND DMA_HW_FEAT_ENHDESSEL)\<rparr>"

definition stmmac_get_hw_features :: "'w env \<Rightarrow> 'w priv \<Rightarrow> 'w \<Rightarrow> u32 \<times> 'w priv \<times> 'w" where
  "stmmac_get_hw_features e p w =
     (case get_hw_feature (hw_dma (hw p)) of None \<Rightarrow> (0, p, w)
      | Some f \<Rightarrow> (let (hw_cap, w) = f e (ioaddr p) w
                  in (hw_cap, p\<lparr>dma_cap := decode_hw_cap hw_cap\<rparr>, w)))"

definition stmmac_get_synopsys_id :: "'w priv \<Rightarrow> u32" where
  "stmmac_get_synopsys_id p =
     (let hwid = synopsys_uid (hw p) in if hwid \<noteq> 0 then hwid AND 0x000000ff else 0)"

text \<open>The table of enhanced descriptors is in a file the repository does not have: a parameter.\<close>

definition stmmac_selec_desc_mode :: "stmmac_desc_ops \<Rightarrow> bool \<Rightarrow> 'w priv \<Rightarrow> 'w priv" where
  "stmmac_selec_desc_mode enh_desc_ops vlan p =
     (if pl_enh_desc (plat p) \<noteq> 0 then
        (let p = doif (synopsys_id p \<ge> DWMAC_CORE_3_50) (extend_desc_update (\<lambda>_. True)) p
         in p\<lparr>hw := (hw p)\<lparr>hw_desc := Some enh_desc_ops\<rparr>\<rparr>)
      else p\<lparr>hw := (hw p)\<lparr>hw_desc := Some (ndesc_ops vlan)\<rparr>\<rparr>)"

definition stmmac_set_bfsize :: "int \<Rightarrow> int \<Rightarrow> int" where
  "stmmac_set_bfsize mtu bufsize =
     (if mtu \<ge> BUF_SIZE_4KiB then BUF_SIZE_8KiB
      else if mtu \<ge> BUF_SIZE_2KiB then BUF_SIZE_4KiB
      else if mtu \<ge> DMA_BUFFER_SIZE then BUF_SIZE_2KiB
      else DMA_BUFFER_SIZE)"

definition stmmac_dma_operation_mode :: "'w env \<Rightarrow> 'w priv \<Rightarrow> 'w \<Rightarrow> 'w priv \<times> 'w" where
  "stmmac_dma_operation_mode e p w =
     (if pl_force_sf_dma_mode (plat p) \<or> (pl_tx_coe (plat p) \<noteq> 0 \<and> \<not> no_csum_insertion p)
      then (p\<lparr>glob := (glob p)\<lparr>m_tc := uint SF_DMA_MODE\<rparr>\<rparr>,
            dma_mode (hw_dma (hw p)) e (ioaddr p) (uint SF_DMA_MODE) (uint SF_DMA_MODE) w)
      else (p, dma_mode (hw_dma (hw p)) e (ioaddr p) (m_tc (glob p)) (uint SF_DMA_MODE) w))"

definition stmmac_init_dma_engine :: "'w env \<Rightarrow> 'w priv \<Rightarrow> 'w \<Rightarrow> int \<times> 'w" where
  "stmmac_init_dma_engine e p w =
     (let (pbl, fixed_burst, mixed_burst, burst_len) =
        (case pl_dma_cfg (plat p) of None \<Rightarrow> (DEFAULT_DMA_PBL, 0, 0, 0)
         | Some c \<Rightarrow> (cfg_pbl c, cfg_fixed_burst c, cfg_mixed_burst c, cfg_burst_len c));
          atds = (if extend_desc p \<and> mode p = STMMAC_RING_MODE then 1 else 0)
      in dma_init (hw_dma (hw p)) e (ioaddr p) pbl fixed_burst mixed_burst burst_len
           (dma_tx_phy p) (dma_rx_phy p) atds w)"

end
