(* ===== verification/Stmmac_Ring.thy ===== *)
theory Stmmac_Ring
  imports Stmmac_Priv "HOL-Library.Monad_Syntax"
begin

text \<open>
  The descriptor rings of \<open>stmmac_main.c\<close>: their allocation, clearing and release, the transmit
  routines \<open>stmmac_xmit\<close> and \<open>rtl8211_xmit\<close>, the reclaiming of sent frames \<open>stmmac_tx_clean\<close>, the
  recovery \<open>stmmac_tx_err\<close>, the receive routine \<open>stmmac_rx\<close> with the refill of its buffers, and the
  polled receive \<open>stmmac_peek_packet\<close>. A socket buffer is its address; what the kernel does with
  it is a call. The functions of ring and chain mode and the table of enhanced descriptors are in
  files the repository does not have: the record \<open>ext\<close> of parameters. \<open>None\<close> is a crash (a \<open>NULL\<close>
  table or ring, a ring of size 0) or, for the loops that may run forever, no return.
\<close>

section \<open>What is outside the repository\<close>

record sk_buff =
  skb_ptr :: ptr
  skb_len :: u32
  skb_headlen :: u32
  skb_frags :: "(ptr \<times> u32) list"
  skb_csum_partial :: bool
  skb_hw_tstamp :: bool

record 'w ext =
  ring_is_jumbo_frm :: "u32 \<Rightarrow> u32 \<Rightarrow> bool"
  ring_jumbo_frm :: "'w env \<Rightarrow> 'w priv \<Rightarrow> sk_buff \<Rightarrow> bool \<Rightarrow> 'w \<Rightarrow> 'w priv \<times> 'w"
  ring_refill_desc3 :: "'w priv \<Rightarrow> dma_desc \<Rightarrow> dma_desc"
  ring_init_desc3 :: "dma_desc \<Rightarrow> dma_desc"
  ring_clean_desc3 :: "'w priv \<Rightarrow> dma_desc \<Rightarrow> dma_desc"
  ring_set_16kib_bfsize :: "int \<Rightarrow> int"
  chain_init :: "dma_desc list \<Rightarrow> u32 \<Rightarrow> dma_desc list"
  chain_init_extended :: "dma_extended_desc list \<Rightarrow> u32 \<Rightarrow> dma_extended_desc list"
  chain_is_jumbo_frm :: "u32 \<Rightarrow> u32 \<Rightarrow> bool"
  chain_jumbo_frm :: "'w env \<Rightarrow> 'w priv \<Rightarrow> sk_buff \<Rightarrow> bool \<Rightarrow> 'w \<Rightarrow> 'w priv \<times> 'w"
  max_skb_frags :: u32
  l1_cache_bytes :: u32
  enh_desc_ops :: stmmac_desc_ops
  vlan_tag_used :: bool

definition NETDEV_TX_OK :: int where [hw_consts]: "NETDEV_TX_OK = 0"
definition NETDEV_TX_BUSY :: int where [hw_consts]: "NETDEV_TX_BUSY = 16"
definition ETH_FCS_LEN :: int where [hw_consts]: "ETH_FCS_LEN = 4"
definition NET_IP_ALIGN :: int where [hw_consts]: "NET_IP_ALIGN = 2"

section \<open>Descriptors by index\<close>

text \<open>\<open>i % n\<close>, as an index into an array of \<open>len\<close> elements: \<open>None\<close> where C divides by zero or leaves it.\<close>

definition ring_index :: "nat \<Rightarrow> u32 \<Rightarrow> u32 \<Rightarrow> nat option" where
  "ring_index len i n = (if n = 0 \<or> unat (i mod n) \<ge> len then None else Some (unat (i mod n)))"

definition tx_desc :: "'w priv \<Rightarrow> nat \<Rightarrow> dma_desc" where
  "tx_desc p i = (if extend_desc p then basic (dma_etx p ! i) else dma_tx p ! i)"

definition set_tx_desc :: "nat \<Rightarrow> dma_desc \<Rightarrow> 'w priv \<Rightarrow> 'w priv" where
  "set_tx_desc i d p =
     (if extend_desc p then p\<lparr>dma_etx := (dma_etx p)[i := (dma_etx p ! i)\<lparr>basic := d\<rparr>]\<rparr>
      else p\<lparr>dma_tx := (dma_tx p)[i := d]\<rparr>)"

definition tx_ring_len :: "'w priv \<Rightarrow> nat" where
  "tx_ring_len p = (if extend_desc p then length (dma_etx p) else length (dma_tx p))"

definition rx_desc :: "'w priv \<Rightarrow> nat \<Rightarrow> dma_desc" where
  "rx_desc p i = (if extend_desc p then basic (dma_erx p ! i) else dma_rx p ! i)"

definition set_rx_desc :: "nat \<Rightarrow> dma_desc \<Rightarrow> 'w priv \<Rightarrow> 'w priv" where
  "set_rx_desc i d p =
     (if extend_desc p then p\<lparr>dma_erx := (dma_erx p)[i := (dma_erx p ! i)\<lparr>basic := d\<rparr>]\<rparr>
      else p\<lparr>dma_rx := (dma_rx p)[i := d]\<rparr>)"

definition rx_ring_len :: "'w priv \<Rightarrow> nat" where
  "rx_ring_len p = (if extend_desc p then length (dma_erx p) else length (dma_rx p))"

definition upd_stats :: "(net_device_stats \<Rightarrow> net_device_stats) \<Rightarrow> 'w priv \<Rightarrow> 'w priv" where
  "upd_stats f p = p\<lparr>dev := (dev p)\<lparr>nd_stats := f (nd_stats (dev p))\<rparr>\<rparr>"

definition upd_xstats :: "(stmmac_extra_stats \<Rightarrow> stmmac_extra_stats) \<Rightarrow> 'w priv \<Rightarrow> 'w priv" where
  "upd_xstats f p = p\<lparr>xstats := f (xstats p)\<rparr>"

section \<open>Clearing and releasing\<close>

definition clear_tx_descriptors :: "stmmac_desc_ops \<Rightarrow> 'w priv \<Rightarrow> 'w priv" where
  "clear_tx_descriptors ops p =
     fold (\<lambda>i q. set_tx_desc i (init_tx_desc ops (tx_desc q i) (mode p) (Suc i = unat (dma_tx_size p))) q)
       [0..<unat (dma_tx_size p)] p"

definition clear_rx_descriptors :: "stmmac_desc_ops \<Rightarrow> 'w priv \<Rightarrow> 'w priv" where
  "clear_rx_descriptors ops p =
     fold (\<lambda>i q. set_rx_desc i (init_rx_desc ops (rx_desc q i) (use_riwt p) (mode p)
                   (Suc i = unat (dma_rx_size p))) q)
       [0..<unat (dma_rx_size p)] p"

definition stmmac_clear_descriptors :: "stmmac_desc_ops \<Rightarrow> 'w priv \<Rightarrow> 'w priv" where
  "stmmac_clear_descriptors ops p = clear_tx_descriptors ops (clear_rx_descriptors ops p)"

text \<open>The arrays of buffers and addresses may be missing or, for a ring that was not set up, short.\<close>

definition dma_free_rx_skbufs :: "'w env \<Rightarrow> 'w priv \<Rightarrow> 'w \<Rightarrow> ('w priv \<times> 'w) option" where
  "dma_free_rx_skbufs e p w =
     (if unat (dma_rx_size p) > min (length (rx_skbuff p)) (length (rx_skbuff_dma p)) then None
      else Some (fold (\<lambda>i (q, w).
        (let skb = rx_skbuff q ! i;
             w = doif (skb \<noteq> 0)
               (\<lambda>w. kdo e ''dev_kfree_skb_any'' [I skb]
                 (kdo e ''dma_unmap_single'' [I (uint (rx_skbuff_dma q ! i)), I (uint (dma_buf_sz q))] w)) w
         in (q\<lparr>rx_skbuff := (rx_skbuff q)[i := 0]\<rparr>, w)))
       [0..<unat (dma_rx_size p)] (p, w)))"

definition free_tx_skbuf :: "'w env \<Rightarrow> stmmac_desc_ops \<Rightarrow> nat \<Rightarrow> 'w priv \<times> 'w \<Rightarrow> 'w priv \<times> 'w" where
  "free_tx_skbuf e ops i = (\<lambda>(q, w).
     (let skb = tx_skbuff q ! i; a = tx_skbuff_dma q ! i
      in if skb \<noteq> 0 then
           (let w = doif (a \<noteq> 0) (kdo e ''dma_unmap_single'' [I (uint a), I (get_tx_len ops (tx_desc q i))]) w;
                w = kdo e ''dev_kfree_skb_any'' [I skb] w
            in (q\<lparr>tx_skbuff := (tx_skbuff q)[i := 0], tx_skbuff_dma := (tx_skbuff_dma q)[i := 0]\<rparr>, w))
         else (q, w)))"

definition dma_free_tx_skbufs :: "'w env \<Rightarrow> stmmac_desc_ops \<Rightarrow> 'w priv \<Rightarrow> 'w \<Rightarrow> ('w priv \<times> 'w) option" where
  "dma_free_tx_skbufs e ops p w =
     (if unat (dma_tx_size p) > min (length (tx_skbuff p)) (length (tx_skbuff_dma p)) then None
      else Some (fold (free_tx_skbuf e ops) [0..<unat (dma_tx_size p)] (p, w)))"

definition free_dma_desc_resources :: "'w env \<Rightarrow> stmmac_desc_ops \<Rightarrow> 'w priv \<Rightarrow> 'w \<Rightarrow> ('w priv \<times> 'w) option" where
  "free_dma_desc_resources e ops p w = do {
     (p, w) \<leftarrow> dma_free_rx_skbufs e p w;
     (p, w) \<leftarrow> dma_free_tx_skbufs e ops p w;
     let w = kdo e ''dma_free_coherent'' [S (if extend_desc p then ''dma_etx'' else ''dma_tx''), I (uint (dma_tx_phy p))] w;
     let w = kdo e ''dma_free_coherent'' [S (if extend_desc p then ''dma_erx'' else ''dma_rx''), I (uint (dma_rx_phy p))] w;
     let w = kdo e ''kfree'' [S ''rx_skbuff_dma''] w;
     let w = kdo e ''kfree'' [S ''rx_skbuff''] w;
     let w = kdo e ''kfree'' [S ''tx_skbuff_dma''] w;
     let w = kdo e ''kfree'' [S ''tx_skbuff''] w;
     Some (p, w) }"

section \<open>Allocation\<close>

text \<open>One receive buffer; the flag says the allocation succeeded.\<close>

definition stmmac_init_rx_buffers ::
    "'w ext \<Rightarrow> 'w env \<Rightarrow> nat \<Rightarrow> 'w priv \<Rightarrow> 'w \<Rightarrow> (bool \<times> 'w priv \<times> 'w) option" where
  "stmmac_init_rx_buffers x e i p w =
     (let (skb, w) = kcall e ''__netdev_alloc_skb'' [I (uint (dma_buf_sz p) + NET_IP_ALIGN)] w
      in if skb = 0 then Some (False, p, w)
         else if i \<ge> length (rx_skbuff p) \<or> i \<ge> length (rx_skbuff_dma p) then None
         else
           (let w = kdo e ''skb_reserve'' [I skb, I NET_IP_ALIGN] w;
                p = p\<lparr>rx_skbuff := (rx_skbuff p)[i := skb]\<rparr>;
                (a, w) = kcall e ''dma_map_single'' [I skb, I (uint (dma_buf_sz p))] w;
                p = p\<lparr>rx_skbuff_dma := (rx_skbuff_dma p)[i := word_of_int a]\<rparr>;
                d = (rx_desc p i)\<lparr>des2 := word_of_int a\<rparr>
            in if mode p = STMMAC_RING_MODE \<and> uint (dma_buf_sz p) = BUF_SIZE_16KiB
               then (if hw_ring (hw p) then Some (True, set_rx_desc i (ring_init_desc3 x d) p, w) else None)
               else Some (True, set_rx_desc i d p, w)))"

text \<open>The loop over the receive ring stops at the first failure and returns how far it came.\<close>

primrec init_rx_loop ::
    "'w ext \<Rightarrow> 'w env \<Rightarrow> nat \<Rightarrow> nat \<Rightarrow> 'w priv \<Rightarrow> 'w \<Rightarrow> (nat \<times> 'w priv \<times> 'w) option" where
  "init_rx_loop x e i 0 p w = Some (i, p, w)"
| "init_rx_loop x e i (Suc n) p w = do {
     (ok, p, w) \<leftarrow> stmmac_init_rx_buffers x e i p w;
     if ok then init_rx_loop x e (Suc i) n p w else Some (i, p, w) }"

text \<open>
  Fresh memory: \<open>dma_alloc_coherent\<close> returns zeroed descriptors, \<open>kmalloc_array\<close> does not clear, so
  the world says what an element holds.
\<close>

definition fresh_ptrs :: "'w env \<Rightarrow> string \<Rightarrow> u32 \<Rightarrow> 'w \<Rightarrow> ptr list \<times> 'w" where
  "fresh_ptrs e name n w =
     (let (a, w) = kcall e ''kmalloc_array'' [S name, I (uint n)] w
      in (if a = 0 then [] else map (\<lambda>i. kval e ''uninitialised'' [S name, I (int i)] w) [0..<unat n], w))"

definition alloc_desc_ring :: "'w env \<Rightarrow> string \<Rightarrow> u32 \<Rightarrow> 'd \<Rightarrow> 'w \<Rightarrow> bool \<times> 'd list \<times> u32 \<times> 'w" where
  "alloc_desc_ring e name n z w =
     (let (a, w) = kcall e ''dma_alloc_coherent'' [S name, I (uint n)] w;
          (phy, w) = kcall e ''dma_handle'' [S name] w
      in (a \<noteq> 0, if a = 0 then [] else replicate (unat n) z, word_of_int phy, w))"

definition zero_extended_desc :: dma_extended_desc where
  "zero_extended_desc = \<lparr>basic = zero_desc, des4 = 0, des5 = 0, des6 = 0, des7 = 0\<rparr>"

text \<open>Both descriptor arrays; the flag says both are there.\<close>

definition alloc_rings :: "'w env \<Rightarrow> 'w priv \<Rightarrow> 'w \<Rightarrow> bool \<times> 'w priv \<times> 'w" where
  "alloc_rings e p w =
     (if extend_desc p then
        (let (rok, rx, rphy, w) = alloc_desc_ring e ''dma_erx'' (dma_rx_size p) zero_extended_desc w;
             (tok, tx, tphy, w) = alloc_desc_ring e ''dma_etx'' (dma_tx_size p) zero_extended_desc w
         in (rok \<and> tok,
             p\<lparr>dma_erx := rx, dma_rx_phy := rphy, dma_etx := tx, dma_tx_phy := tphy\<rparr>, w))
      else
        (let (rok, rx, rphy, w) = alloc_desc_ring e ''dma_rx'' (dma_rx_size p) zero_desc w;
             (tok, tx, tphy, w) = alloc_desc_ring e ''dma_tx'' (dma_tx_size p) zero_desc w
         in (rok \<and> tok,
             p\<lparr>dma_rx := rx, dma_rx_phy := rphy, dma_tx := tx, dma_tx_phy := tphy\<rparr>, w)))"

definition chain_rings :: "'w ext \<Rightarrow> 'w priv \<Rightarrow> 'w priv option" where
  "chain_rings x p =
     (if mode p \<noteq> STMMAC_CHAIN_MODE then Some p
      else if \<not> hw_chain (hw p) then None
      else if extend_desc p
      then Some (p\<lparr>dma_erx := chain_init_extended x (dma_erx p) (dma_rx_phy p),
                  dma_etx := chain_init_extended x (dma_etx p) (dma_tx_phy p)\<rparr>)
      else Some (p\<lparr>dma_rx := chain_init x (dma_rx p) (dma_rx_phy p),
                  dma_tx := chain_init x (dma_tx p) (dma_tx_phy p)\<rparr>))"

definition init_tx_loop :: "'w priv \<Rightarrow> 'w priv option" where
  "init_tx_loop p =
     (let n = unat (dma_tx_size p)
      in if length (tx_skbuff p) < n \<or> length (tx_skbuff_dma p) < n then None
         else Some (fold (\<lambda>i q. (set_tx_desc i ((tx_desc q i)\<lparr>des2 := 0\<rparr>) q)
                \<lparr>tx_skbuff_dma := (tx_skbuff_dma q)[i := 0], tx_skbuff := (tx_skbuff q)[i := 0]\<rparr>)
              [0..<n] p))"

definition init_dma_desc_rings :: "'w ext \<Rightarrow> 'w env \<Rightarrow> 'w priv \<Rightarrow> 'w \<Rightarrow> ('w priv \<times> 'w) option" where
  "init_dma_desc_rings x e p w = do {
     ops \<leftarrow> hw_desc (hw p);
     bfsize \<leftarrow> (if mode p = STMMAC_RING_MODE
        then (if hw_ring (hw p) then Some (ring_set_16kib_bfsize x (nd_mtu (dev p))) else None)
        else Some 0);
     let bfsize = (if bfsize < BUF_SIZE_16KiB
        then stmmac_set_bfsize (nd_mtu (dev p)) (uint (dma_buf_sz p)) else bfsize);
     let (ok, p, w) = alloc_rings e p w;
     if \<not> ok then Some (p, w)
     else do {
       let (rda, w) = fresh_ptrs e ''rx_skbuff_dma'' (dma_rx_size p) w;
       let (rsk, w) = fresh_ptrs e ''rx_skbuff'' (dma_rx_size p) w;
       let (tda, w) = fresh_ptrs e ''tx_skbuff_dma'' (dma_tx_size p) w;
       let (tsk, w) = fresh_ptrs e ''tx_skbuff'' (dma_tx_size p) w;
       let p = p\<lparr>rx_skbuff_dma := map word_of_int rda, rx_skbuff := rsk,
                 tx_skbuff_dma := map word_of_int tda, tx_skbuff := tsk\<rparr>;
       (i, p, w) \<leftarrow> init_rx_loop x e 0 (unat (dma_rx_size p)) p w;
       let p = p\<lparr>cur_rx := 0, dirty_rx := of_nat i - dma_rx_size p, dma_buf_sz := word_of_int bfsize,
                 glob := (glob p)\<lparr>m_buf_sz := bfsize\<rparr>\<rparr>;
       p \<leftarrow> chain_rings x p;
       p \<leftarrow> init_tx_loop p;
       let p = p\<lparr>dirty_tx := 0, cur_tx := 0\<rparr>;
       Some (stmmac_clear_descriptors ops p, w) } }"

section \<open>Reclaiming sent frames\<close>

text \<open>
  \<open>skb_shinfo(skb)\<close> of a \<open>NULL\<close> buffer crashes: the last segment of a fragmented frame has none.
\<close>

definition SKBTX_IN_PROGRESS :: int where [hw_consts]: "SKBTX_IN_PROGRESS = 4"

definition stmmac_get_tx_hwtstamp ::
    "'w env \<Rightarrow> stmmac_desc_ops \<Rightarrow> 'w priv \<Rightarrow> nat \<Rightarrow> ptr \<Rightarrow> 'w \<Rightarrow> 'w option" where
  "stmmac_get_tx_hwtstamp e ops p entry skb w =
     (if \<not> hwts_tx_en p then Some w
      else if skb = 0 then None
      else
        (let (flags, w) = kcall e ''skb_shinfo_tx_flags'' [I skb] w
         in if flags AND SKBTX_IN_PROGRESS = 0 then Some w
            else
              (let d = (if adv_ts p \<noteq> 0 then basic (dma_etx p ! entry) else dma_tx p ! entry)
               in if get_tx_timestamp_status ops d = 0 then Some w
                  else Some (kdo e ''skb_tstamp_tx'' [I skb, I (uint (get_timestamp ops d (adv_ts p)))] w))))"

definition tx_account :: "stmmac_desc_ops \<Rightarrow> dma_desc \<Rightarrow> 'w priv \<Rightarrow> 'w priv" where
  "tx_account ops d p =
     (let (tx_error, st, xs) = tx_status ops (nd_stats (dev p)) (xstats p) d;
          p = upd_xstats (\<lambda>_. xs) (upd_stats (\<lambda>_. st) p)
      in if tx_error = 0 then upd_xstats (tx_pkt_n_update inc) (upd_stats (tx_packets_update inc) p)
         else upd_stats (tx_errors_update inc) p)"

text \<open>One turn of the loop, after the ownership test, on the descriptor \<open>entry\<close>.\<close>

definition tx_clean_entry ::
    "'w ext \<Rightarrow> 'w env \<Rightarrow> stmmac_desc_ops \<Rightarrow> nat \<Rightarrow> 'w priv \<Rightarrow> 'w \<Rightarrow> ('w priv \<times> 'w) option" where
  "tx_clean_entry x e ops entry p w = do {
     let skb = tx_skbuff p ! entry;
     let d = tx_desc p entry;
     (p, w) \<leftarrow> (if get_tx_ls ops d \<noteq> 0
        then (let p = tx_account ops d p
              in map_option (Pair p) (stmmac_get_tx_hwtstamp e ops p entry skb w))
        else Some (p, w));
     let a = tx_skbuff_dma p ! entry;
     let (p, w) = (if a \<noteq> 0
        then (p\<lparr>tx_skbuff_dma := (tx_skbuff_dma p)[entry := 0]\<rparr>,
              kdo e ''dma_unmap_single'' [I (uint a), I (get_tx_len ops d)] w)
        else (p, w));
     if \<not> hw_ring (hw p) then None
     else do {
       let d = ring_clean_desc3 x p d;
       let (p, w) = (if skb \<noteq> 0
          then (p\<lparr>tx_skbuff := (tx_skbuff p)[entry := 0]\<rparr>, kdo e ''dev_kfree_skb'' [I skb] w)
          else (p, w));
       let p = set_tx_desc entry (release_tx_desc ops d (mode p)) p;
       Some (p\<lparr>dirty_tx := dirty_tx p + 1\<rparr>, w) } }"

lemma tx_account_sel [simp]:
  "cur_tx (tx_account ops d p) = cur_tx p" "dirty_tx (tx_account ops d p) = dirty_tx p"
  "dma_tx_size (tx_account ops d p) = dma_tx_size p" "tx_skbuff (tx_account ops d p) = tx_skbuff p"
  "tx_skbuff_dma (tx_account ops d p) = tx_skbuff_dma p" "dma_tx (tx_account ops d p) = dma_tx p"
  "dma_etx (tx_account ops d p) = dma_etx p" "extend_desc (tx_account ops d p) = extend_desc p"
  "hw (tx_account ops d p) = hw p" "mode (tx_account ops d p) = mode p"
  "hwts_tx_en (tx_account ops d p) = hwts_tx_en p" "adv_ts (tx_account ops d p) = adv_ts p"
  by (simp_all add: tx_account_def upd_stats_def upd_xstats_def Let_def split: prod.splits)

lemma set_tx_desc_sel [simp]:
  "cur_tx (set_tx_desc i d p) = cur_tx p" "dirty_tx (set_tx_desc i d p) = dirty_tx p"
  "dma_tx_size (set_tx_desc i d p) = dma_tx_size p" "tx_skbuff (set_tx_desc i d p) = tx_skbuff p"
  "tx_skbuff_dma (set_tx_desc i d p) = tx_skbuff_dma p" "extend_desc (set_tx_desc i d p) = extend_desc p"
  "hw (set_tx_desc i d p) = hw p" "mode (set_tx_desc i d p) = mode p"
  "hwts_tx_en (set_tx_desc i d p) = hwts_tx_en p" "rx_skbuff (set_tx_desc i d p) = rx_skbuff p"
  "tx_ring_len (set_tx_desc i d p) = tx_ring_len p"
  by (simp_all add: set_tx_desc_def tx_ring_len_def)

lemma tx_clean_entry_index:
  assumes "tx_clean_entry x e ops entry p w = Some (p', w')"
  shows "cur_tx p' = cur_tx p" "dirty_tx p' = dirty_tx p + 1" "dma_tx_size p' = dma_tx_size p"
  using assms by (auto simp: tx_clean_entry_def Let_def bind_eq_Some_conv split: if_splits)

lemma unat_diff_dec: "c \<noteq> d \<Longrightarrow> unat (c - (d + 1)) < unat (c - (d :: u32))"
proof -
  assume "c \<noteq> d"
  then have "c - d \<noteq> 0" by simp
  then have "unat (c - d - 1) < unat (c - d)" by (simp add: measure_unat)
  then show ?thesis by (simp add: diff_diff_eq)
qed

text \<open>
  \<open>while (priv->dirty_tx != priv->cur_tx)\<close>: every turn advances \<open>dirty_tx\<close> by one and leaves \<open>cur_tx\<close>,
  so the distance between the two, modulo \<open>2 ^ 32\<close>, is the measure.
\<close>

function tx_clean_loop ::
    "'w ext \<Rightarrow> 'w env \<Rightarrow> stmmac_desc_ops \<Rightarrow> 'w priv \<Rightarrow> 'w \<Rightarrow> ('w priv \<times> 'w) option" where
  "tx_clean_loop x e ops p w =
     (if dirty_tx p = cur_tx p then Some (p, w)
      else
        (case ring_index (tx_ring_len p) (dirty_tx p) (dma_tx_size p) of None \<Rightarrow> None
         | Some entry \<Rightarrow>
             if get_tx_owner ops (tx_desc p entry) \<noteq> 0 then Some (p, w)
             else
               (case tx_clean_entry x e ops entry p w of None \<Rightarrow> None
                | Some (p', w') \<Rightarrow> tx_clean_loop x e ops p' w')))"
  by pat_completeness auto

termination
  by (relation "measure (\<lambda>(x, e, ops, p, w). unat (cur_tx p - dirty_tx p))")
    (auto simp: tx_clean_entry_index unat_diff_dec)

definition wake_tx_queue :: "'w env \<Rightarrow> 'w priv \<Rightarrow> 'w \<Rightarrow> 'w" where
  "wake_tx_queue e p w =
     (let (stopped, w) = kcall e ''netif_queue_stopped'' [] w
      in if stopped \<noteq> 0 \<and> stmmac_tx_avail p > STMMAC_TX_THRESH p then
           (let w = kdo e ''netif_tx_lock'' [] w;
                (stopped, w) = kcall e ''netif_queue_stopped'' [] w;
                w = doif (stopped \<noteq> 0 \<and> stmmac_tx_avail p > STMMAC_TX_THRESH p) (kdo e ''netif_wake_queue'' []) w
            in kdo e ''netif_tx_unlock'' [] w)
         else w)"

definition stmmac_tx_clean :: "'w ext \<Rightarrow> 'w env \<Rightarrow> 'w priv \<Rightarrow> 'w \<Rightarrow> ('w priv \<times> 'w) option" where
  "stmmac_tx_clean x e p w = do {
     ops \<leftarrow> hw_desc (hw p);
     let p = upd_xstats (tx_clean_update inc) p;
     (p, w) \<leftarrow> tx_clean_loop x e ops p w;
     let w = wake_tx_queue e p w;
     if eee_enabled p \<and> \<not> tx_path_in_lpi_mode p
     then do { w \<leftarrow> stmmac_enable_eee_mode e p w; Some (p, mod_eee_timer e p w) }
     else Some (p, w) }"

definition stmmac_tx_err :: "'w env \<Rightarrow> 'w priv \<Rightarrow> 'w \<Rightarrow> ('w priv \<times> 'w) option" where
  "stmmac_tx_err e p w = do {
     ops \<leftarrow> hw_desc (hw p);
     let w = kdo e ''netif_stop_queue'' [] w;
     let w = stop_tx (hw_dma (hw p)) e (ioaddr p) w;
     (p, w) \<leftarrow> dma_free_tx_skbufs e ops p w;
     let p = clear_tx_descriptors ops p;
     let p = p\<lparr>dirty_tx := 0, cur_tx := 0\<rparr>;
     let w = start_tx (hw_dma (hw p)) e (ioaddr p) w;
     let p = upd_stats (tx_errors_update inc) p;
     Some (p, kdo e ''netif_wake_queue'' [] w) }"

section \<open>Transmission\<close>

text \<open>
  Both transmit routines share the tail: the interrupt on completion is asked for only every
  \<open>tx_coal_frames\<close> descriptors, otherwise a timer reclaims. \<open>n\<close> is the number of descriptors used,
  \<open>i\<close> the last of them.
\<close>

definition xmit_coalesce :: "'w env \<Rightarrow> stmmac_desc_ops \<Rightarrow> u32 \<Rightarrow> nat \<Rightarrow> 'w priv \<Rightarrow> 'w \<Rightarrow> 'w priv \<times> 'w" where
  "xmit_coalesce e ops n i p w =
     (let p = p\<lparr>tx_count_frames := tx_count_frames p + n\<rparr>
      in if tx_coal_frames p > tx_count_frames p then
           (let p = set_tx_desc i (clear_tx_ic ops (tx_desc p i)) p;
                p = upd_xstats (tx_reset_ic_bit_update inc) p;
                (t, w) = kcall e ''STMMAC_COAL_TIMER'' [I (uint (tx_coal_timer p))] w
            in (p, kdo e ''mod_timer'' [S ''txtimer'', I t] w))
         else (p\<lparr>tx_count_frames := 0\<rparr>, w))"

text \<open>
  The first segment: a jumbo frame is left to the function of the mode, any other frame is mapped
  and prepared in the descriptor \<open>i\<close>.
\<close>

definition xmit_first ::
    "'w ext \<Rightarrow> 'w env \<Rightarrow> stmmac_desc_ops \<Rightarrow> sk_buff \<Rightarrow> nat \<Rightarrow> 'w priv \<Rightarrow> 'w \<Rightarrow> ('w priv \<times> 'w) option" where
  "xmit_first x e ops skb i p w =
     (let ring = (mode p = STMMAC_RING_MODE)
      in if \<not> (if ring then hw_ring (hw p) else hw_chain (hw p)) then None
         else if (if ring then ring_is_jumbo_frm x (skb_len skb) (pl_enh_desc (plat p))
                  else chain_is_jumbo_frm x (skb_len skb) (pl_enh_desc (plat p)))
         then Some (if ring then ring_jumbo_frm x e p skb (skb_csum_partial skb) w
                    else chain_jumbo_frm x e p skb (skb_csum_partial skb) w)
         else
           (let (a, w) = kcall e ''dma_map_single'' [I (skb_ptr skb), I (uint (skb_headlen skb))] w;
                d = (tx_desc p i)\<lparr>des2 := word_of_int a\<rparr>;
                p = p\<lparr>tx_skbuff_dma := (tx_skbuff_dma p)[i := word_of_int a]\<rparr>;
                d = prepare_tx_desc ops d 1 (uint (skb_headlen skb)) (skb_csum_partial skb) (mode p)
            in Some (set_tx_desc i d p, w)))"

text \<open>One fragment, in the next descriptor, which becomes the current one.\<close>

definition xmit_frag ::
    "'w env \<Rightarrow> stmmac_desc_ops \<Rightarrow> bool \<Rightarrow> ptr \<times> u32 \<Rightarrow> nat \<Rightarrow> 'w priv \<Rightarrow> 'w \<Rightarrow> (nat \<times> 'w priv \<times> 'w) option" where
  "xmit_frag e ops csum frag i p w = do {
     let p = p\<lparr>cur_tx := cur_tx p + 1\<rparr>;
     i \<leftarrow> ring_index (tx_ring_len p) (cur_tx p) (dma_tx_size p);
     let (a, w) = kcall e ''skb_frag_dma_map'' [I (fst frag), I (uint (snd frag))] w;
     let d = (tx_desc p i)\<lparr>des2 := word_of_int a\<rparr>;
     let p = p\<lparr>tx_skbuff_dma := (tx_skbuff_dma p)[i := word_of_int a], tx_skbuff := (tx_skbuff p)[i := 0]\<rparr>;
     let d = set_tx_owner ops (prepare_tx_desc ops d 0 (uint (snd frag)) csum (mode p));
     Some (i, set_tx_desc i d p, w) }"

primrec xmit_frags ::
    "'w env \<Rightarrow> stmmac_desc_ops \<Rightarrow> bool \<Rightarrow> (ptr \<times> u32) list \<Rightarrow> nat \<Rightarrow> 'w priv \<Rightarrow> 'w \<Rightarrow> (nat \<times> 'w priv \<times> 'w) option" where
  "xmit_frags e ops csum [] i p w = Some (i, p, w)"
| "xmit_frags e ops csum (f # fs) i p w = do {
     (i, p, w) \<leftarrow> xmit_frag e ops csum f i p w;
     xmit_frags e ops csum fs i p w }"

text \<open>
  Before it takes the lock, \<open>stmmac_xmit\<close> spins while the timer of the cyclic task is about to
  fire or that task is sending; the device \<open>g_Device\<close> belongs to a file the repository does not have.
\<close>

partial_function (option) wait_cyclic_task :: "'w env \<Rightarrow> 'w \<Rightarrow> 'w option" where
  [code]: "wait_cyclic_task e w =
     (let (regs, w) = kcall e ''regs_timer0'' [] w
      in if regs = 0 then Some w
         else
           (let (v, w) = kcall e ''readl_relaxed'' [I (regs + 0x18)] w
            in if v = 0 then
                 (let (l, w) = kcall e ''atomic_read_m_Tx_Lock'' [] w
                  in if l = 0 then Some w else wait_cyclic_task e w)
               else wait_cyclic_task e w))"

definition xmit_finish ::
    "'w ext \<Rightarrow> 'w env \<Rightarrow> stmmac_desc_ops \<Rightarrow> sk_buff \<Rightarrow> nat \<Rightarrow> 'w priv \<Rightarrow> 'w \<Rightarrow> 'w priv \<times> 'w" where
  "xmit_finish x e ops skb fst_i p w =
     (let p = set_tx_desc fst_i (set_tx_owner ops (tx_desc p fst_i)) p;
          p = p\<lparr>cur_tx := cur_tx p + 1\<rparr>;
          w = doif (stmmac_tx_avail p \<le> max_skb_frags x + 1) (kdo e ''netif_stop_queue'' []) w;
          p = upd_stats (tx_bytes_update (\<lambda>n. n + skb_len skb)) p;
          (p, w) = (if skb_hw_tstamp skb \<and> hwts_tx_en p
             then (set_tx_desc fst_i (enable_tx_timestamp ops (tx_desc p fst_i)) p,
                   kdo e ''skb_shinfo_set_tx_flags'' [I (skb_ptr skb), I SKBTX_IN_PROGRESS] w)
             else (p, w));
          w = doif (\<not> hwts_tx_en p) (kdo e ''skb_tx_timestamp'' [I (skb_ptr skb)]) w;
          w = enable_dma_transmission (hw_dma (hw p)) e (ioaddr p) w
      in (p, kdo e ''enable_irq'' [I 98] w))"

definition stmmac_xmit :: "'w ext \<Rightarrow> 'w env \<Rightarrow> sk_buff \<Rightarrow> 'w priv \<Rightarrow> 'w \<Rightarrow> (int \<times> 'w priv \<times> 'w) option" where
  "stmmac_xmit x e skb p w =
     (let nfrags = of_nat (length (skb_frags skb))
      in if stmmac_tx_avail p < nfrags + 1 then
           (let (stopped, w) = kcall e ''netif_queue_stopped'' [] w
            in Some (NETDEV_TX_BUSY, p, doif (stopped = 0) (kdo e ''netif_stop_queue'' []) w))
         else do {
           ops \<leftarrow> hw_desc (hw p);
           w \<leftarrow> wait_cyclic_task e w;
           let w = kdo e ''disable_irq'' [I 98] w;
           (p, w) \<leftarrow> (if tx_path_in_lpi_mode p then stmmac_disable_eee_mode e p w else Some (p, w));
           first \<leftarrow> ring_index (tx_ring_len p) (cur_tx p) (dma_tx_size p);
           let p = p\<lparr>tx_skbuff := (tx_skbuff p)[first := skb_ptr skb]\<rparr>;
           (p, w) \<leftarrow> xmit_first x e ops skb first p w;
           (i, p, w) \<leftarrow> xmit_frags e ops (skb_csum_partial skb) (skb_frags skb) first p w;
           let p = set_tx_desc i (close_tx_desc ops (tx_desc p i)) p;
           let (p, w) = xmit_coalesce e ops (nfrags + 1) i p w;
           let (p, w) = xmit_finish x e ops skb first p w;
           Some (NETDEV_TX_OK, p, w) })"

text \<open>
  The transmit routine of the cyclic task: no buffer is recorded, no free descriptor is asked for,
  and the length is returned as an \<open>unsigned short\<close>.
\<close>

definition rtl8211_xmit :: "'w ext \<Rightarrow> 'w env \<Rightarrow> ptr \<Rightarrow> u32 \<Rightarrow> 'w priv \<Rightarrow> 'w \<Rightarrow> (u16 \<times> 'w priv \<times> 'w) option" where
  "rtl8211_xmit x e pbData len p w = do {
     let skb = \<lparr>skb_ptr = pbData, skb_len = len, skb_headlen = len, skb_frags = [],
                skb_csum_partial = False, skb_hw_tstamp = False\<rparr>;
     ops \<leftarrow> hw_desc (hw p);
     let w = kdo e ''atomic_set_m_Tx_Lock'' [I 1] w;
     first \<leftarrow> ring_index (tx_ring_len p) (cur_tx p) (dma_tx_size p);
     (p, w) \<leftarrow> xmit_first x e ops skb first p w;
     let p = set_tx_desc first (close_tx_desc ops (tx_desc p first)) p;
     let (p, w) = xmit_coalesce e ops 1 first p w;
     let p = set_tx_desc first (set_tx_owner ops (tx_desc p first)) p;
     let p = p\<lparr>cur_tx := cur_tx p + 1\<rparr>;
     let p = upd_stats (tx_bytes_update (\<lambda>n. n + len)) p;
     let w = enable_dma_transmission (hw_dma (hw p)) e (ioaddr p) w;
     let w = kdo e ''atomic_set_m_Tx_Lock'' [I 0] w;
     Some (ucast len, p, w) }"

section \<open>Reception\<close>

definition stmmac_get_rx_hwtstamp ::
    "'w env \<Rightarrow> stmmac_desc_ops \<Rightarrow> 'w priv \<Rightarrow> nat \<Rightarrow> ptr \<Rightarrow> 'w \<Rightarrow> 'w" where
  "stmmac_get_rx_hwtstamp e ops p entry skb w =
     (if \<not> hwts_rx_en p then w
      else
        (let d = (if adv_ts p \<noteq> 0 then basic (dma_erx p ! entry) else dma_rx p ! entry)
         in if get_rx_timestamp_status ops d (adv_ts p) = 0 then w
            else kdo e ''skb_hwtstamps_set'' [I skb, I (uint (get_timestamp ops d (adv_ts p)))] w))"

text \<open>One turn of the refill on \<open>entry\<close>; the flag says a buffer is there.\<close>

definition rx_refill_entry ::
    "'w ext \<Rightarrow> 'w env \<Rightarrow> stmmac_desc_ops \<Rightarrow> nat \<Rightarrow> 'w priv \<Rightarrow> 'w \<Rightarrow> (bool \<times> 'w priv \<times> 'w) option" where
  "rx_refill_entry x e ops entry p w = do {
     (ok, p, w) \<leftarrow> (if rx_skbuff p ! entry = 0 then
        (let (skb, w) = kcall e ''netdev_alloc_skb_ip_align'' [I (uint (dma_buf_sz p))] w
         in if skb = 0 then Some (False, p, w)
            else
              (let p = p\<lparr>rx_skbuff := (rx_skbuff p)[entry := skb]\<rparr>;
                   (a, w) = kcall e ''dma_map_single'' [I skb, I (uint (dma_buf_sz p))] w;
                   p = p\<lparr>rx_skbuff_dma := (rx_skbuff_dma p)[entry := word_of_int a]\<rparr>;
                   d = (rx_desc p entry)\<lparr>des2 := word_of_int a\<rparr>
               in if hw_ring (hw p) then Some (True, set_rx_desc entry (ring_refill_desc3 x p d) p, w)
                  else None))
        else Some (True, p, w));
     if ok then Some (True, (set_rx_desc entry (set_rx_owner ops (rx_desc p entry)) p)\<lparr>dirty_rx := dirty_rx p + 1\<rparr>, w)
     else Some (False, p, w) }"

lemma set_rx_desc_sel [simp]:
  "cur_rx (set_rx_desc i d p) = cur_rx p" "dirty_rx (set_rx_desc i d p) = dirty_rx p"
  "dma_rx_size (set_rx_desc i d p) = dma_rx_size p" "rx_skbuff (set_rx_desc i d p) = rx_skbuff p"
  "rx_skbuff_dma (set_rx_desc i d p) = rx_skbuff_dma p" "extend_desc (set_rx_desc i d p) = extend_desc p"
  "hw (set_rx_desc i d p) = hw p" "mode (set_rx_desc i d p) = mode p"
  "rx_ring_len (set_rx_desc i d p) = rx_ring_len p" "tx_skbuff (set_rx_desc i d p) = tx_skbuff p"
  by (simp_all add: set_rx_desc_def rx_ring_len_def)

lemma rx_refill_entry_index:
  assumes "rx_refill_entry x e ops entry p w = Some (ok, p', w')"
  shows "cur_rx p' = cur_rx p" "dirty_rx p' = (if ok then dirty_rx p + 1 else dirty_rx p)"
    "dma_rx_size p' = dma_rx_size p"
  using assms by (auto simp: rx_refill_entry_def Let_def bind_eq_Some_conv split: if_splits prod.splits)

function rx_refill_loop ::
    "'w ext \<Rightarrow> 'w env \<Rightarrow> stmmac_desc_ops \<Rightarrow> 'w priv \<Rightarrow> 'w \<Rightarrow> ('w priv \<times> 'w) option" where
  "rx_refill_loop x e ops p w =
     (if cur_rx p - dirty_rx p = 0 then Some (p, w)
      else
        (case ring_index (rx_ring_len p) (dirty_rx p) (dma_rx_size p) of None \<Rightarrow> None
         | Some entry \<Rightarrow>
             (case rx_refill_entry x e ops entry p w of None \<Rightarrow> None
              | Some (ok, p', w') \<Rightarrow> if ok then rx_refill_loop x e ops p' w' else Some (p', w'))))"
  by pat_completeness auto

termination
  by (relation "measure (\<lambda>(x, e, ops, p, w). unat (cur_rx p - dirty_rx p))")
    (auto simp: rx_refill_entry_index intro!: unat_diff_dec)

definition stmmac_rx_refill :: "'w ext \<Rightarrow> 'w env \<Rightarrow> 'w priv \<Rightarrow> 'w \<Rightarrow> ('w priv \<times> 'w) option" where
  "stmmac_rx_refill x e p w = do { ops \<leftarrow> hw_desc (hw p); rx_refill_loop x e ops p w }"

text \<open>Handing a good frame to the stack; the flag is \<open>False\<close> when the slot holds no buffer.\<close>

definition rx_deliver ::
    "'w env \<Rightarrow> stmmac_desc_ops \<Rightarrow> int \<Rightarrow> nat \<Rightarrow> dma_desc \<Rightarrow> 'w priv \<Rightarrow> 'w \<Rightarrow> bool \<times> 'w priv \<times> 'w" where
  "rx_deliver e ops status entry d p w =
     (let coe = pl_rx_coe (plat p);
          frame_len = get_rx_frame_len ops d coe;
          frame_len = (if status \<noteq> llc_snap then frame_len - ETH_FCS_LEN else frame_len);
          skb = rx_skbuff p ! entry
      in if skb = 0 then (False, upd_stats (rx_dropped_update inc) p, w)
         else
           (let p = p\<lparr>rx_skbuff := (rx_skbuff p)[entry := 0]\<rparr>;
                w = stmmac_get_rx_hwtstamp e ops p entry skb w;
                w = kdo e ''skb_put'' [I skb, I frame_len] w;
                w = kdo e ''dma_unmap_single'' [I (uint (rx_skbuff_dma p ! entry)), I (uint (dma_buf_sz p))] w;
                w = kdo e ''eth_type_trans'' [I skb] w;
                w = (if coe = 0 then kdo e ''skb_checksum_none_assert'' [I skb] w
                     else kdo e ''skb_set_ip_summed_unnecessary'' [I skb] w);
                w = kdo e ''napi_gro_receive'' [I skb] w;
                p = upd_stats (rx_packets_update inc) p;
                p = upd_stats (rx_bytes_update (\<lambda>n. n + word_of_int frame_len)) p
            in (True, p, w)))"

text \<open>
  One turn of the receive loop after the ownership test.
\<close>

definition rx_entry ::
    "'w env \<Rightarrow> stmmac_desc_ops \<Rightarrow> nat \<Rightarrow> 'w priv \<Rightarrow> 'w \<Rightarrow> bool \<times> 'w priv \<times> 'w" where
  "rx_entry e ops entry p w =
     (let d = rx_desc p entry;
          p = p\<lparr>cur_rx := cur_rx p + 1\<rparr>;
          (status, st, xs) = rx_status ops (nd_stats (dev p)) (xstats p) d;
          (st, xs) = (case rx_extended_status ops of
               Some f \<Rightarrow> if extend_desc p then f st xs (dma_erx p ! entry) else (st, xs)
             | None \<Rightarrow> (st, xs));
          p = upd_xstats (\<lambda>_. xs) (upd_stats (\<lambda>_. st) p)
      in if status = discard_frame then
           (let p = upd_stats (rx_errors_update inc) p
            in if hwts_rx_en p \<and> \<not> extend_desc p
               then (True, p\<lparr>rx_skbuff := (rx_skbuff p)[entry := 0]\<rparr>,
                     kdo e ''dma_unmap_single'' [I (uint (rx_skbuff_dma p ! entry)), I (uint (dma_buf_sz p))] w)
               else (True, p, w))
         else rx_deliver e ops status entry d p w)"

primrec rx_loop ::
    "'w env \<Rightarrow> stmmac_desc_ops \<Rightarrow> nat \<Rightarrow> nat \<Rightarrow> 'w priv \<Rightarrow> 'w \<Rightarrow> (nat \<times> 'w priv \<times> 'w) option" where
  "rx_loop e ops 0 count p w = Some (count, p, w)"
| "rx_loop e ops (Suc n) count p w =
     (case ring_index (rx_ring_len p) (cur_rx p) (dma_rx_size p) of None \<Rightarrow> None
      | Some entry \<Rightarrow>
          if get_rx_owner ops (rx_desc p entry) \<noteq> 0 then Some (count, p, w)
          else
            (let (more, p, w) = rx_entry e ops entry p w
             in if more then rx_loop e ops n (Suc count) p w else Some (Suc count, p, w)))"

definition stmmac_rx :: "'w ext \<Rightarrow> 'w env \<Rightarrow> nat \<Rightarrow> 'w priv \<Rightarrow> 'w \<Rightarrow> (nat \<times> 'w priv \<times> 'w) option" where
  "stmmac_rx x e limit p w = do {
     ops \<leftarrow> hw_desc (hw p);
     (count, p, w) \<leftarrow> rx_loop e ops limit 0 p w;
     (p, w) \<leftarrow> stmmac_rx_refill x e p w;
     Some (count, upd_xstats (rx_pkt_n_update (\<lambda>n. n + of_nat count)) p, w) }"

section \<open>The polled receive of the cyclic task\<close>

text \<open>
  \<open>do ... while (_start_time < _end_time)\<close>: wait for a receive interrupt, at most 200 us by the
  clock of the kernel.
\<close>

definition MAX_RX_DELAY_US :: int where [hw_consts]: "MAX_RX_DELAY_US = 200"

partial_function (option) peek_wait :: "'w env \<Rightarrow> u32 \<Rightarrow> int \<Rightarrow> 'w \<Rightarrow> 'w option" where
  [code]: "peek_wait e ioad end_time w =
     (let (dma_status, w) = readl e (ioad + DMA_STATUS) w;
          (seen, w) =
            (if tst dma_status DMA_STATUS_NIS \<and> tst dma_status DMA_STATUS_RI then
               (let (value, w) = readl e (ioad + DMA_INTR_ENA) w in (tst value DMA_INTR_ENA_RIE, w))
             else (False, w))
      in if seen then Some w
         else
           (let (start_time, w) = kcall e ''Stmmac_get_time'' [] w
            in if start_time < end_time then peek_wait e ioad end_time w else Some w))"

text \<open>
  A frame of the protocol 0xa488 from the source address that reads 2 is copied when it fits; the
  flag says it was one. A slot without a buffer ends the loop: \<open>None\<close>.
\<close>

definition peek_frame ::
    "'w env \<Rightarrow> stmmac_desc_ops \<Rightarrow> u32 \<Rightarrow> int \<Rightarrow> nat \<Rightarrow> dma_desc \<Rightarrow> 'w priv \<Rightarrow> 'w \<Rightarrow> (bool \<times> 'w) option" where
  "peek_frame e ops len status entry d p w =
     (let frame_len = get_rx_frame_len ops d (pl_rx_coe (plat p));
          frame_len = (if status \<noteq> llc_snap then frame_len - ETH_FCS_LEN else frame_len);
          skb = rx_skbuff p ! entry
      in if skb = 0 then None
         else
           (let w = kdo e ''skb_put'' [I skb, I frame_len] w;
                (protocol, w) = kcall e ''eth_type_trans'' [I skb] w;
                (source, w) = kcall e ''eth_hdr_h_source'' [I skb] w;
                hit = (protocol = 0xa488 \<and> source = 2)
            in Some (hit, doif (hit \<and> len \<ge> word_of_int (frame_len - 14))
                            (kdo e ''memcpy_pbData'' [I skb, I (frame_len - 14)]) w)))"

text \<open>
  The loop. It never advances \<open>cur_rx\<close>: after the first turn \<open>entry\<close> is \<open>(cur_rx + 1) % rxsize\<close> for
  good, and only a matching frame is counted.
\<close>

partial_function (option) peek_loop ::
    "'w env \<Rightarrow> stmmac_desc_ops \<Rightarrow> u32 \<Rightarrow> nat \<Rightarrow> nat \<Rightarrow> nat \<Rightarrow> 'w priv \<Rightarrow> 'w \<Rightarrow> (nat \<times> 'w priv \<times> 'w) option" where
  [code]: "peek_loop e ops len limit count entry p w =
     (if count \<ge> limit then Some (count, p, w)
      else if entry \<ge> rx_ring_len p then None
      else if get_rx_owner ops (rx_desc p entry) \<noteq> 0 then Some (count, p, w)
      else
        (let next_entry = unat ((cur_rx p + 1) mod dma_rx_size p);
             d = rx_desc p entry;
             (status, st, xs) = rx_status ops (nd_stats (dev p)) (xstats p) d;
             (st, xs) = (case rx_extended_status ops of
                  Some f \<Rightarrow> if extend_desc p then f st xs (dma_erx p ! entry) else (st, xs)
                | None \<Rightarrow> (st, xs));
             p = upd_xstats (\<lambda>_. xs) (upd_stats (\<lambda>_. st) p)
         in if status = discard_frame then peek_loop e ops len limit count next_entry p w
            else
              (case peek_frame e ops len status entry d p w of
                 None \<Rightarrow> Some (count, upd_stats (rx_dropped_update inc) p, w)
               | Some (hit, w) \<Rightarrow>
                   peek_loop e ops len limit (if hit then Suc count else count) next_entry p w)))"

definition stmmac_peek_packet ::
    "'w env \<Rightarrow> u32 \<Rightarrow> nat \<Rightarrow> 'w priv option \<Rightarrow> 'w \<Rightarrow> (nat \<times> 'w priv option \<times> 'w) option" where
  "stmmac_peek_packet e len limit ndev w =
     (case ndev of None \<Rightarrow> Some (0, None, w)
      | Some p \<Rightarrow> do {
          let (start_time, w) = kcall e ''Stmmac_get_time'' [] w;
          w \<leftarrow> peek_wait e (ioaddr p) (start_time + MAX_RX_DELAY_US) w;
          ops \<leftarrow> hw_desc (hw p);
          entry \<leftarrow> ring_index (rx_ring_len p) (cur_rx p) (dma_rx_size p);
          (count, p, w) \<leftarrow> peek_loop e ops len limit 0 entry p w;
          Some (count, Some p, w) })"

end
