(* ===== verification/Tx_Queue.thy ===== *)
theory Tx_Queue
  imports Stmmac_Ring
begin

text \<open>
  The contract of the transmit ring: read from \<open>dirty_tx\<close> to \<open>cur_tx\<close> it is a first-in first-out
  queue of frames in flight. \<open>tx_queue\<close> is the abstraction, \<open>tx_wf\<close> the invariant under which it
  is one; \<open>stmmac_xmit\<close> and \<open>rtl8211_xmit\<close> refine appending, \<open>stmmac_tx_clean\<close> refines dropping the
  frames the hardware has given back, and \<open>stmmac_tx_err\<close> refines emptying. The lemmas are proved
  for any table of descriptor operations that fulfils \<open>desc_contract\<close>, and used on the normal ones.
\<close>

section \<open>Slots\<close>

definition slot :: "'w priv \<Rightarrow> u32 \<Rightarrow> nat" where
  "slot p i = unat (i mod dma_tx_size p)"

definition used :: "'w priv \<Rightarrow> nat" where
  "used p = unat (cur_tx p - dirty_tx p)"

text \<open>
  The invariant: the arrays are there and have the size of the ring, and one slot at least stays
  free, so that a full ring and an empty one differ. The indices \<open>dirty_tx\<close> and \<open>cur_tx\<close> count up and
  wrap at \<open>2 ^ 32\<close>; the slot is the index modulo the size, so at the wrap it jumps, unless the size
  divides \<open>2 ^ 32\<close>. The invariant holds the indices on one side of a jump, and \<open>index_room p n\<close> says
  that \<open>n\<close> more frames do not reach it.
\<close>

definition ring_continuous :: "'w priv \<Rightarrow> bool" where
  "ring_continuous p \<longleftrightarrow> unat (dma_tx_size p) dvd 2 ^ 32"

definition index_room :: "'w priv \<Rightarrow> nat \<Rightarrow> bool" where
  "index_room p n \<longleftrightarrow> ring_continuous p \<or> unat (cur_tx p) + n < 2 ^ 32"

definition tx_wf :: "'w priv \<Rightarrow> bool" where
  "tx_wf p \<longleftrightarrow> dma_tx_size p \<noteq> 0 \<and> (ring_continuous p \<or> dirty_tx p \<le> cur_tx p)
     \<and> tx_ring_len p = unat (dma_tx_size p) \<and> length (tx_skbuff p) = unat (dma_tx_size p)
     \<and> length (tx_skbuff_dma p) = unat (dma_tx_size p) \<and> used p < unat (dma_tx_size p)"

lemma unat_u32_lt: "unat (x :: u32) < 4294967296"
  using unsigned_less [of x] by simp

lemma tx_wf_pos: "tx_wf p \<Longrightarrow> 0 < unat (dma_tx_size p)"
  by (simp add: tx_wf_def unat_gt_0)

lemma slot_less: "tx_wf p \<Longrightarrow> slot p i < unat (dma_tx_size p)"
  using tx_wf_pos [of p] by (simp add: slot_def unat_mod_distrib)

lemma slot_add:
  assumes "tx_wf p" and "ring_continuous p \<or> unat i + k < 2 ^ 32"
  shows "slot p (i + of_nat k) = (slot p i + k) mod unat (dma_tx_size p)"
proof -
  have "unat (i + of_nat k) = (unat i + k) mod 2 ^ 32"
    by (simp add: unat_word_ariths unsigned_of_nat take_bit_eq_mod mod_add_right_eq)
  moreover have "(unat i + k) mod 4294967296 mod unat (dma_tx_size p) = (unat i + k) mod unat (dma_tx_size p)"
    using assms(2) by (auto simp: ring_continuous_def mod_mod_cancel)
  ultimately show ?thesis
    by (simp add: slot_def unat_mod_distrib mod_add_left_eq)
qed

lemma mod_add_inj: "a < b \<Longrightarrow> b < n \<Longrightarrow> (s + a) mod n \<noteq> (s + b) mod (n :: nat)"
proof
  assume a: "a < b" "b < n" and e: "(s + a) mod n = (s + b) mod n"
  then have "n dvd (s + b) - (s + a)" by (metis mod_eq_dvd_iff_nat add_le_mono less_imp_le order_refl)
  then have "n dvd b - a" by simp
  with a show False by (auto dest: dvd_imp_le)
qed

lemma slot_neq:
  assumes "tx_wf p" and "a < unat (dma_tx_size p)" and "b < unat (dma_tx_size p)" and "a \<noteq> b"
    and "ring_continuous p \<or> unat i + a < 2 ^ 32 \<and> unat i + b < 2 ^ 32"
  shows "slot p (i + of_nat a) \<noteq> slot p (i + of_nat b)"
proof -
  have "slot p (i + of_nat a) = (slot p i + a) mod unat (dma_tx_size p)"
    "slot p (i + of_nat b) = (slot p i + b) mod unat (dma_tx_size p)"
    using slot_add [OF assms(1)] assms(5) by auto
  then show ?thesis
    using assms(2-4) mod_add_inj [of a b "unat (dma_tx_size p)" "slot p i"]
      mod_add_inj [of b a "unat (dma_tx_size p)" "slot p i"]
    by (auto simp: neq_iff)
qed

text \<open>Where the ring may jump, the distance of the indices is their difference.\<close>

lemma unat_cur: "dirty_tx p \<le> cur_tx p \<Longrightarrow> unat (cur_tx p) = unat (dirty_tx p) + used p"
  by (simp add: used_def unat_sub word_le_nat_alt)

lemma index_room_mono: "index_room p n \<Longrightarrow> m \<le> n \<Longrightarrow> index_room p m"
  by (auto simp: index_room_def)

lemma slot_neq_dirty:
  assumes "tx_wf p" and "index_room p n"
    and "a < unat (dma_tx_size p)" "b < unat (dma_tx_size p)" "a \<noteq> b" "a \<le> used p + n" "b \<le> used p + n"
  shows "slot p (dirty_tx p + of_nat a) \<noteq> slot p (dirty_tx p + of_nat b)"
  using assms unat_cur [of p] by (intro slot_neq) (auto simp: index_room_def tx_wf_def)

lemma slot_neq_cur:
  assumes "tx_wf p" and "index_room p n"
    and "a < unat (dma_tx_size p)" "b < unat (dma_tx_size p)" "a \<noteq> b" "a \<le> n" "b \<le> n"
  shows "slot p (cur_tx p + of_nat a) \<noteq> slot p (cur_tx p + of_nat b)"
  using assms by (intro slot_neq) (auto simp: index_room_def)

lemma index_room_0 [simp]: "index_room p 0"
  using unat_u32_lt [of "cur_tx p"] by (simp add: index_room_def)

lemma ring_index_slot:
  "tx_wf p \<Longrightarrow> ring_index (tx_ring_len p) i (dma_tx_size p) = Some (slot p i)"
  using slot_less [of p i] by (simp add: ring_index_def tx_wf_def slot_def)

text \<open>\<open>stmmac_tx_avail\<close> is the number of free slots the driver may use.\<close>

lemma tx_avail_free:
  assumes "tx_wf p"
  shows "unat (stmmac_tx_avail p) = unat (dma_tx_size p) - 1 - used p"
proof -
  have u: "used p < unat (dma_tx_size p)" using assms by (simp add: tx_wf_def)
  have "stmmac_tx_avail p = dma_tx_size p - (cur_tx p - dirty_tx p) - 1"
    by (simp add: stmmac_tx_avail_def)
  also have "\<dots> = of_nat (unat (dma_tx_size p) - 1 - used p)"
    using u by (simp add: used_def of_nat_diff Suc_le_eq less_imp_le)
  finally have "stmmac_tx_avail p = of_nat (unat (dma_tx_size p) - 1 - used p)" .
  moreover have "unat (dma_tx_size p) - 1 - used p < 2 ^ 32"
    using unat_u32_lt [of "dma_tx_size p"] by simp
  ultimately show ?thesis by (simp add: unsigned_of_nat take_bit_nat_eq_self)
qed

section \<open>Descriptors and slots\<close>

lemma tx_desc_set_tx_desc:
  "i < tx_ring_len p \<Longrightarrow> tx_desc (set_tx_desc i d p) j = (if i = j then d else tx_desc p j)"
  by (simp add: tx_desc_def set_tx_desc_def tx_ring_len_def split: if_splits)

lemma tx_desc_cong:
  "dma_tx p' = dma_tx p \<Longrightarrow> dma_etx p' = dma_etx p \<Longrightarrow> extend_desc p' = extend_desc p \<Longrightarrow>
     tx_desc p' j = tx_desc p j"
  by (simp add: tx_desc_def)

lemma tx_desc_upd [simp]:
  "tx_desc (p\<lparr>dirty_tx := a\<rparr>) j = tx_desc p j" "tx_desc (p\<lparr>cur_tx := a\<rparr>) j = tx_desc p j"
  "tx_desc (p\<lparr>tx_skbuff := s\<rparr>) j = tx_desc p j" "tx_desc (p\<lparr>tx_skbuff_dma := t\<rparr>) j = tx_desc p j"
  "tx_desc (p\<lparr>tx_count_frames := a\<rparr>) j = tx_desc p j" "tx_desc (p\<lparr>tx_path_in_lpi_mode := b\<rparr>) j = tx_desc p j"
  "tx_desc (p\<lparr>dev := v\<rparr>) j = tx_desc p j" "tx_desc (p\<lparr>xstats := y\<rparr>) j = tx_desc p j"
  by (simp_all add: tx_desc_def)

lemma tx_ring_len_upd [simp]:
  "tx_ring_len (p\<lparr>dirty_tx := a\<rparr>) = tx_ring_len p" "tx_ring_len (p\<lparr>cur_tx := a\<rparr>) = tx_ring_len p"
  "tx_ring_len (p\<lparr>tx_skbuff := s\<rparr>) = tx_ring_len p" "tx_ring_len (p\<lparr>tx_skbuff_dma := t\<rparr>) = tx_ring_len p"
  "tx_ring_len (p\<lparr>tx_count_frames := a\<rparr>) = tx_ring_len p"
  "tx_ring_len (p\<lparr>tx_path_in_lpi_mode := b\<rparr>) = tx_ring_len p"
  "tx_ring_len (p\<lparr>dev := v\<rparr>) = tx_ring_len p" "tx_ring_len (p\<lparr>xstats := y\<rparr>) = tx_ring_len p"
  by (simp_all add: tx_ring_len_def)

lemma tx_account_desc [simp]:
  "tx_desc (tx_account ops d p) j = tx_desc p j" "tx_ring_len (tx_account ops d p) = tx_ring_len p"
  by (simp_all add: tx_desc_def tx_ring_len_def)

section \<open>The queue\<close>

text \<open>A frame in flight: its buffer, its bus address, and whether the hardware owns it.\<close>

type_synonym flight = "ptr \<times> u32 \<times> bool"

definition tx_flight :: "stmmac_desc_ops \<Rightarrow> 'w priv \<Rightarrow> nat \<Rightarrow> flight" where
  "tx_flight ops p i = (tx_skbuff p ! i, tx_skbuff_dma p ! i, get_tx_owner ops (tx_desc p i) \<noteq> 0)"

definition tx_queue :: "stmmac_desc_ops \<Rightarrow> 'w priv \<Rightarrow> flight list" where
  "tx_queue ops p = map (\<lambda>k. tx_flight ops p (slot p (dirty_tx p + of_nat k))) [0..<used p]"

lemma tx_queue_empty: "tx_queue ops p = [] \<longleftrightarrow> dirty_tx p = cur_tx p"
proof -
  have "used p = 0 \<longleftrightarrow> dirty_tx p = cur_tx p" by (auto simp: used_def unat_eq_zero)
  then show ?thesis by (simp add: tx_queue_def)
qed

lemma tx_queue_Cons:
  assumes "dirty_tx p \<noteq> cur_tx p"
  shows "tx_queue ops p = tx_flight ops p (slot p (dirty_tx p)) #
    map (\<lambda>k. tx_flight ops p (slot p (dirty_tx p + 1 + of_nat k))) [0..<used p - 1]"
proof -
  have "used p \<noteq> 0" using assms by (auto simp: used_def unat_eq_zero)
  then obtain n where n: "used p = Suc n" by (cases "used p") auto
  have "[0..<Suc n] = 0 # map Suc [0..<n]" by (simp add: upt_conv_Cons map_Suc_upt del: upt_Suc)
  then show ?thesis by (simp add: tx_queue_def n add.assoc del: upt_Suc)
qed

text \<open>What is kept by every step on the ring.\<close>

definition tx_same_ring :: "'w priv \<Rightarrow> 'w priv \<Rightarrow> bool" where
  "tx_same_ring p p' \<longleftrightarrow> dma_tx_size p' = dma_tx_size p \<and> tx_ring_len p' = tx_ring_len p
     \<and> length (tx_skbuff p') = length (tx_skbuff p) \<and> length (tx_skbuff_dma p') = length (tx_skbuff_dma p)
     \<and> hw p' = hw p \<and> priv.mode p' = priv.mode p \<and> hwts_tx_en p' = hwts_tx_en p"

lemma tx_same_ring_refl [simp]: "tx_same_ring p p"
  by (simp add: tx_same_ring_def)

lemma tx_same_ring_trans: "tx_same_ring p q \<Longrightarrow> tx_same_ring q r \<Longrightarrow> tx_same_ring p r"
  by (simp add: tx_same_ring_def)

lemma tx_same_ring_slot: "tx_same_ring p p' \<Longrightarrow> slot p' i = slot p i"
  by (simp add: tx_same_ring_def slot_def)

lemma tx_same_ring_wf:
  "tx_same_ring p p' \<Longrightarrow> tx_wf p \<Longrightarrow> used p' < unat (dma_tx_size p) \<Longrightarrow>
     ring_continuous p \<or> dirty_tx p' \<le> cur_tx p' \<Longrightarrow> tx_wf p'"
  by (auto simp: tx_same_ring_def tx_wf_def ring_continuous_def)

lemma index_room_step:
  assumes "tx_same_ring p p'" and "cur_tx p' = cur_tx p + of_nat m" and "index_room p (m + n)"
  shows "index_room p' n"
proof (cases "ring_continuous p")
  case True
  then show ?thesis using assms(1) by (simp add: index_room_def ring_continuous_def tx_same_ring_def)
next
  case False
  then have "unat (cur_tx p) + m + n < 2 ^ 32" using assms(3) by (simp add: index_room_def)
  moreover from this have "unat (cur_tx p') = unat (cur_tx p) + m"
    by (simp add: assms(2) unat_word_ariths unsigned_of_nat take_bit_nat_eq_self)
  ultimately show ?thesis by (simp add: index_room_def)
qed

lemma ordered_step:
  assumes "tx_wf p" and "cur_tx p' = cur_tx p + of_nat m" and "dirty_tx p' = dirty_tx p" and "index_room p m"
  shows "ring_continuous p \<or> dirty_tx p' \<le> cur_tx p'"
proof (cases "ring_continuous p")
  case False
  then have "unat (cur_tx p) + m < 2 ^ 32" using assms(4) by (simp add: index_room_def)
  then have "unat (cur_tx p') = unat (cur_tx p) + m"
    by (simp add: assms(2) unat_word_ariths unsigned_of_nat take_bit_nat_eq_self)
  moreover have "dirty_tx p \<le> cur_tx p" using False assms(1) by (simp add: tx_wf_def)
  ultimately show ?thesis by (simp add: assms(3) word_le_nat_alt)
qed simp

section \<open>Reclaiming\<close>

lemma tx_clean_entry_flights:
  assumes "tx_wf p" and "tx_clean_entry x e ops (slot p i) p w = Some (p', w')"
  shows "tx_same_ring p p'" and "j \<noteq> slot p i \<Longrightarrow> tx_flight ops p' j = tx_flight ops p j"
proof -
  have l: "slot p i < tx_ring_len p" using assms(1) slot_less [of p i] by (simp add: tx_wf_def)
  show "tx_same_ring p p'"
    using assms(2)
    by (auto simp: tx_clean_entry_def tx_same_ring_def Let_def bind_eq_Some_conv split: if_splits)
  show "tx_flight ops p' j = tx_flight ops p j" if "j \<noteq> slot p i"
    using assms(2) that l
    by (auto simp: tx_clean_entry_def tx_flight_def Let_def bind_eq_Some_conv tx_desc_set_tx_desc split: if_splits)
qed

lemma used_Suc_dirty:
  "dirty_tx p \<noteq> cur_tx p \<Longrightarrow> unat (cur_tx p - (dirty_tx p + 1)) = used p - 1"
proof -
  assume "dirty_tx p \<noteq> cur_tx p"
  then have "1 \<le> cur_tx p - dirty_tx p" by (simp add: word_le_nat_alt Suc_le_eq unat_gt_0)
  then have "unat (cur_tx p - dirty_tx p - 1) = unat (cur_tx p - dirty_tx p) - 1" by (simp add: unat_sub)
  then show ?thesis by (simp add: used_def diff_diff_eq)
qed

lemma tx_clean_entry_queue:
  assumes "tx_wf p" and "dirty_tx p \<noteq> cur_tx p"
    and "tx_clean_entry x e ops (slot p (dirty_tx p)) p w = Some (p', w')"
  shows "tx_wf p'" and "tx_queue ops p' = tl (tx_queue ops p)"
proof -
  note same = tx_clean_entry_flights(1) [OF assms(1, 3)]
  note idx = tx_clean_entry_index [OF assms(3)]
  have u: "used p' = used p - 1" using used_Suc_dirty [OF assms(2)] idx by (simp add: used_def)
  have lt: "used p < unat (dma_tx_size p)" using assms(1) by (simp add: tx_wf_def)
  have "dirty_tx p \<le> cur_tx p \<Longrightarrow> dirty_tx p + 1 \<le> cur_tx p"
    using assms(2) by (metis inc_le order_le_less)
  then have "ring_continuous p \<or> dirty_tx p' \<le> cur_tx p'"
    using assms(1) by (auto simp: tx_wf_def idx)
  then show "tx_wf p'" using tx_same_ring_wf [OF same assms(1)] u lt by simp
  have "slot p (dirty_tx p + 1 + of_nat k) \<noteq> slot p (dirty_tx p)" if "k < used p - 1" for k
    using slot_neq_dirty [OF assms(1) index_room_0, of "Suc k" 0] that lt tx_wf_pos [OF assms(1)] by (simp add: ac_simps)
  then show "tx_queue ops p' = tl (tx_queue ops p)"
    unfolding tx_queue_Cons [OF assms(2)]
    by (simp add: tx_queue_def u idx tx_same_ring_slot [OF same] tx_clean_entry_flights(2) [OF assms(1, 3)])
qed

lemma tx_clean_loop_refines:
  "tx_clean_loop x e ops p w = Some (p', w') \<Longrightarrow> tx_wf p \<Longrightarrow>
     tx_wf p' \<and> tx_same_ring p p' \<and> cur_tx p' = cur_tx p \<and>
     tx_queue ops p' = dropWhile (\<lambda>(_, _, own). \<not> own) (tx_queue ops p)"
proof (induction x e ops p w arbitrary: p' w' rule: tx_clean_loop.induct)
  case (1 x e ops p w)
  show ?case
  proof (cases "dirty_tx p = cur_tx p")
    case True
    then have "p' = p" using 1(2) by (simp add: tx_clean_loop.simps)
    then show ?thesis using True 1(3) tx_queue_empty [of ops p] by simp
  next
    case False
    note idx = ring_index_slot [OF 1(3), of "dirty_tx p"]
    show ?thesis
    proof (cases "get_tx_owner ops (tx_desc p (slot p (dirty_tx p))) \<noteq> 0")
      case True
      then have "p' = p" using 1(2) False idx by (simp add: tx_clean_loop.simps)
      then show ?thesis using True 1(3) by (simp add: tx_queue_Cons [OF False] tx_flight_def)
    next
      case free: False
      then obtain q v where s: "tx_clean_entry x e ops (slot p (dirty_tx p)) p w = Some (q, v)"
        and r: "tx_clean_loop x e ops q v = Some (p', w')"
        using 1(2) False idx
        by (auto simp: tx_clean_loop.simps [of x e ops p w] split: option.splits)
      note step = tx_clean_entry_queue [OF 1(3) False s]
      have "tx_wf p' \<and> tx_same_ring q p' \<and> cur_tx p' = cur_tx q \<and>
          tx_queue ops p' = dropWhile (\<lambda>(_, _, own). \<not> own) (tx_queue ops q)"
        using 1(1) [OF False idx _ s _ r] free step(1) by simp
      moreover have "dropWhile (\<lambda>(_, _, own). \<not> own) (tx_queue ops p) =
          dropWhile (\<lambda>(_, _, own). \<not> own) (tl (tx_queue ops p))"
        using free by (simp add: tx_queue_Cons [OF False] tx_flight_def)
      ultimately show ?thesis
        using step(2) tx_clean_entry_flights(1) [OF 1(3) s] tx_clean_entry_index(1) [OF s]
        by (auto intro: tx_same_ring_trans)
    qed
  qed
qed

text \<open>In ring mode and without time stamps a reclaiming never crashes.\<close>

lemma tx_clean_entry_total:
  "hw_ring (hw p) \<Longrightarrow> \<not> hwts_tx_en p \<Longrightarrow> \<exists>p' w'. tx_clean_entry x e ops i p w = Some (p', w')"
  by (auto simp: tx_clean_entry_def stmmac_get_tx_hwtstamp_def Let_def bind_eq_Some_conv)

lemma tx_clean_loop_total:
  "tx_wf p \<Longrightarrow> hw_ring (hw p) \<Longrightarrow> \<not> hwts_tx_en p \<Longrightarrow> \<exists>p' w'. tx_clean_loop x e ops p w = Some (p', w')"
proof (induction x e ops p w rule: tx_clean_loop.induct)
  case (1 x e ops p w)
  show ?case
  proof (cases "dirty_tx p = cur_tx p \<or> get_tx_owner ops (tx_desc p (slot p (dirty_tx p))) \<noteq> 0")
    case True
    then show ?thesis
      using ring_index_slot [OF 1(2), of "dirty_tx p"] by (auto simp: tx_clean_loop.simps)
  next
    case False
    note idx = ring_index_slot [OF 1(2), of "dirty_tx p"]
    obtain q v where s: "tx_clean_entry x e ops (slot p (dirty_tx p)) p w = Some (q, v)"
      using tx_clean_entry_total [OF 1(3, 4)] by blast
    have "tx_wf q" "hw_ring (hw q)" "\<not> hwts_tx_en q"
      using tx_clean_entry_queue(1) [OF 1(2) _ s] tx_clean_entry_flights(1) [OF 1(2) s] False 1(3, 4)
      by (auto simp: tx_same_ring_def)
    then obtain p' w' where "tx_clean_loop x e ops q v = Some (p', w')"
      using 1(1) [OF _ idx _ s] False by auto
    then show ?thesis using False s idx by (simp add: tx_clean_loop.simps [of x e ops p w])
  qed
qed

section \<open>Appending\<close>

lemma dirty_plus_used: "dirty_tx p + of_nat (used p) = cur_tx p"
  by (simp add: used_def)

lemma used_plus:
  assumes "cur_tx p' = cur_tx p + of_nat n" and "dirty_tx p' = dirty_tx p" and "used p + n < 4294967296"
  shows "used p' = used p + n"
proof -
  have "cur_tx p' - dirty_tx p' = of_nat (used p + n)" using assms(1, 2) by (simp add: used_def)
  then have "used p' = unat (of_nat (used p + n) :: u32)" by (simp only: used_def [of p'])
  then show ?thesis using assms(3) by (simp only: unsigned_of_nat) (simp add: take_bit_nat_eq_self)
qed

lemma tx_queue_append:
  assumes "tx_wf p" and "tx_same_ring p p'" and "dirty_tx p' = dirty_tx p"
    and "cur_tx p' = cur_tx p + of_nat (length fs)" and "used p + length fs < unat (dma_tx_size p)"
    and "index_room p (length fs)"
    and new: "\<And>k. k < length fs \<Longrightarrow> tx_flight ops p' (slot p (cur_tx p + of_nat k)) = fs ! k"
    and old: "\<And>k. k < used p \<Longrightarrow> tx_flight ops p' (slot p (dirty_tx p + of_nat k)) =
      tx_flight ops p (slot p (dirty_tx p + of_nat k))"
  shows "tx_wf p'" and "tx_queue ops p' = tx_queue ops p @ fs"
proof -
  have lim: "used p + length fs < 4294967296"
    using assms(5) unat_u32_lt [of "dma_tx_size p"] by simp
  have u: "used p' = used p + length fs" by (rule used_plus [OF assms(4, 3) lim])
  show "tx_wf p'"
    using tx_same_ring_wf [OF assms(2, 1)] u assms(5) ordered_step [OF assms(1, 4, 3, 6)] by simp
  have c: "dirty_tx p + of_nat (used p + k) = cur_tx p + of_nat k" for k
    using dirty_plus_used [of p] by (simp add: add.assoc [symmetric])
  show "tx_queue ops p' = tx_queue ops p @ fs"
  proof (rule nth_equalityI)
    fix k assume "k < length (tx_queue ops p')"
    then have k: "k < used p + length fs" by (simp add: tx_queue_def u)
    show "tx_queue ops p' ! k = (tx_queue ops p @ fs) ! k"
    proof (cases "k < used p")
      case True
      then show ?thesis using k old
        by (simp add: tx_queue_def u assms(3) tx_same_ring_slot [OF assms(2)] nth_append)
    next
      case False
      then obtain j where j: "k = used p + j" by (metis le_add_diff_inverse not_less)
      have e: "dirty_tx p + of_nat k = cur_tx p + of_nat j" using c [of j] by (simp only: j)
      have d: "k - used p = j" "\<not> k < used p" "j < length fs" using j k by simp_all
      show ?thesis using k new [OF d(3)] d
        by (simp add: tx_queue_def u assms(3) tx_same_ring_slot [OF assms(2)] nth_append e)
    qed
  qed (simp add: tx_queue_def u)
qed

lemma flight_set_desc:
  "i < tx_ring_len p \<Longrightarrow> get_tx_owner ops d = get_tx_owner ops (tx_desc p i) \<Longrightarrow>
     tx_flight ops (set_tx_desc i d p) j = tx_flight ops p j"
  by (auto simp: tx_flight_def tx_desc_set_tx_desc)

lemma same_ring_set_desc [simp]: "tx_same_ring p (set_tx_desc i d p)"
  by (simp add: tx_same_ring_def)

lemma coalesce_keeps:
  assumes "i < tx_ring_len p" and "\<And>d. get_tx_owner ops (clear_tx_ic ops d) = get_tx_owner ops d"
  shows "tx_same_ring p (fst (xmit_coalesce e ops n i p w))"
    and "tx_flight ops (fst (xmit_coalesce e ops n i p w)) j = tx_flight ops p j"
    and "cur_tx (fst (xmit_coalesce e ops n i p w)) = cur_tx p"
    and "dirty_tx (fst (xmit_coalesce e ops n i p w)) = dirty_tx p"
  using assms
  by (auto simp: xmit_coalesce_def Let_def tx_same_ring_def upd_xstats_def tx_flight_def tx_desc_set_tx_desc
      split: prod.splits)

text \<open>A frame that the table of the mode, which is there, does not call jumbo.\<close>

definition plain_frame :: "'w ext \<Rightarrow> 'w priv \<Rightarrow> u32 \<Rightarrow> bool" where
  "plain_frame x p len \<longleftrightarrow>
     (if priv.mode p = STMMAC_RING_MODE
      then hw_ring (hw p) \<and> \<not> ring_is_jumbo_frm x len (pl_enh_desc (plat p))
      else hw_chain (hw p) \<and> \<not> chain_is_jumbo_frm x len (pl_enh_desc (plat p)))"

context desc_contract
begin

lemma xmit_frag_step:
  assumes wf: "tx_wf (p\<lparr>cur_tx := cur_tx p + 1\<rparr>)" and m: "priv.mode p = mode"
  shows "\<exists>a p' w'. xmit_frag e ops csum f i p w = Some (slot p (cur_tx p + 1), p', w')
    \<and> tx_same_ring p p' \<and> dirty_tx p' = dirty_tx p \<and> cur_tx p' = cur_tx p + 1
    \<and> tx_flight ops p' (slot p (cur_tx p + 1)) = (0, a, True)
    \<and> (\<forall>j. j \<noteq> slot p (cur_tx p + 1) \<longrightarrow> tx_flight ops p' j = tx_flight ops p j)"
proof -
  let ?p = "p\<lparr>cur_tx := cur_tx p + 1\<rparr>" and ?i = "slot p (cur_tx p + 1)"
  have s: "slot ?p j = slot p j" for j by (simp add: slot_def)
  have idx: "ring_index (tx_ring_len p) (cur_tx p + 1) (dma_tx_size p) = Some ?i"
    using ring_index_slot [OF wf, of "cur_tx p + 1"] s by simp
  have l: "?i < tx_ring_len p" "?i < length (tx_skbuff p)" "?i < length (tx_skbuff_dma p)"
    using slot_less [OF wf, of "cur_tx p + 1"] wf s by (simp_all add: tx_wf_def)
  show ?thesis
    using l m
    by (auto simp: xmit_frag_def idx kcall_eq tx_same_ring_def tx_flight_def tx_desc_set_tx_desc owner_set
        split: prod.splits)
qed

lemma xmit_frags_step:
  assumes "tx_wf p" and "priv.mode p = mode" and "used p + length fs < unat (dma_tx_size p)"
    and "index_room p (length fs)"
  shows "\<exists>as p' w'. xmit_frags e ops csum fs i p w = Some (if fs = [] then i else slot p (cur_tx p + of_nat (length fs)), p', w')
    \<and> length as = length fs \<and> tx_same_ring p p' \<and> dirty_tx p' = dirty_tx p
    \<and> cur_tx p' = cur_tx p + of_nat (length fs)
    \<and> (\<forall>k<length fs. tx_flight ops p' (slot p (cur_tx p + 1 + of_nat k)) = (0, as ! k, True))
    \<and> (\<forall>j. (\<forall>k<length fs. j \<noteq> slot p (cur_tx p + 1 + of_nat k)) \<longrightarrow> tx_flight ops p' j = tx_flight ops p j)"
  using assms
proof (induction fs arbitrary: i p w)
  case Nil
  then show ?case by (auto intro!: exI [of _ "[]"])
next
  case (Cons f fs)
  let ?p = "p\<lparr>cur_tx := cur_tx p + 1\<rparr>"
  have u: "used ?p = used p + 1"
    using used_plus [of ?p p 1] Cons.prems(3) unat_u32_lt [of "dma_tx_size p"] by simp
  have room1: "index_room p 1" using index_room_mono [OF Cons.prems(4)] by simp
  have wf1: "tx_wf ?p"
    using Cons.prems(1, 3) u ordered_step [OF Cons.prems(1) _ _ room1, of ?p] by (auto simp: tx_wf_def ring_continuous_def)
  obtain a q v where s: "xmit_frag e ops csum f i p w = Some (slot p (cur_tx p + 1), q, v)"
    and q: "tx_same_ring p q" "dirty_tx q = dirty_tx p" "cur_tx q = cur_tx p + 1"
    and qn: "tx_flight ops q (slot p (cur_tx p + 1)) = (0, a, True)"
    and qo: "\<forall>j. j \<noteq> slot p (cur_tx p + 1) \<longrightarrow> tx_flight ops q j = tx_flight ops p j"
    using xmit_frag_step [OF wf1 Cons.prems(2)] by blast
  have uq: "used q = used p + 1" using q u by (simp add: used_def)
  have sq: "slot q j = slot p j" for j by (rule tx_same_ring_slot [OF q(1)])
  have "tx_wf q"
    using tx_same_ring_wf [OF q(1) Cons.prems(1)] uq Cons.prems(3) ordered_step [OF Cons.prems(1) _ q(2) room1] q(3) by simp
  moreover have "index_room q (length fs)"
    using index_room_step [OF q(1), of 1 "length fs"] q(3) Cons.prems(4) by simp
  moreover have "priv.mode q = mode" "used q + length fs < unat (dma_tx_size q)"
    using q(1) Cons.prems(2, 3) uq by (simp_all add: tx_same_ring_def)
  ultimately obtain as p' w' where
    r: "xmit_frags e ops csum fs (slot p (cur_tx p + 1)) q v =
      Some (if fs = [] then slot p (cur_tx p + 1) else slot q (cur_tx q + of_nat (length fs)), p', w')"
    and p': "length as = length fs" "tx_same_ring q p'" "dirty_tx p' = dirty_tx q"
      "cur_tx p' = cur_tx q + of_nat (length fs)"
    and pn: "\<forall>k<length fs. tx_flight ops p' (slot q (cur_tx q + 1 + of_nat k)) = (0, as ! k, True)"
    and po: "\<forall>j. (\<forall>k<length fs. j \<noteq> slot q (cur_tx q + 1 + of_nat k)) \<longrightarrow> tx_flight ops p' j = tx_flight ops q j"
    using Cons.IH [of q "slot p (cur_tx p + 1)" v] by blast
  have next_slot: "slot q (cur_tx q + 1 + of_nat k) = slot p (cur_tx p + 1 + of_nat (Suc k))" for k
    by (simp add: sq q(3) ac_simps)
  have first: "tx_flight ops p' (slot p (cur_tx p + 1)) = (0, a, True)"
  proof -
    have "slot p (cur_tx p + 1) \<noteq> slot q (cur_tx q + 1 + of_nat k)" if "k < length fs" for k
      using slot_neq_cur [OF Cons.prems(1, 4), of 1 "Suc (Suc k)"] that Cons.prems(3)
      by (simp only: next_slot) (simp add: ac_simps)
    then show ?thesis using po qn by auto
  qed
  show ?case
  proof (intro exI [of _ "a # as"] exI [of _ p'] exI [of _ w'] conjI)
    show "xmit_frags e ops csum (f # fs) i p w =
      Some (if f # fs = [] then i else slot p (cur_tx p + of_nat (length (f # fs))), p', w')"
      using s r by (auto simp: sq q(3) ac_simps)
    show "\<forall>k<length (f # fs). tx_flight ops p' (slot p (cur_tx p + 1 + of_nat k)) = (0, (a # as) ! k, True)"
    proof (intro allI impI)
      fix k assume k: "k < length (f # fs)"
      show "tx_flight ops p' (slot p (cur_tx p + 1 + of_nat k)) = (0, (a # as) ! k, True)"
      proof (cases k)
        case 0
        then show ?thesis using first by simp
      next
        case (Suc j)
        then have "tx_flight ops p' (slot q (cur_tx q + 1 + of_nat j)) = (0, as ! j, True)"
          using pn k by simp
        then show ?thesis by (simp only: next_slot Suc nth_Cons_Suc)
      qed
    qed
    show "\<forall>j. (\<forall>k<length (f # fs). j \<noteq> slot p (cur_tx p + 1 + of_nat k)) \<longrightarrow> tx_flight ops p' j = tx_flight ops p j"
    proof (intro allI impI)
      fix j assume n: "\<forall>k<length (f # fs). j \<noteq> slot p (cur_tx p + 1 + of_nat k)"
      have "j \<noteq> slot p (cur_tx p + 1)" using n [rule_format, of 0] by simp
      moreover have "\<forall>k<length fs. j \<noteq> slot q (cur_tx q + 1 + of_nat k)"
        using n next_slot by (metis Suc_less_eq length_Cons)
      ultimately show "tx_flight ops p' j = tx_flight ops p j" using po qo by simp
    qed
  qed (use p' q tx_same_ring_trans [OF q(1) p'(2)] in \<open>simp_all add: ac_simps\<close>)
qed

text \<open>The end of a transmission hands the first descriptor to the hardware; nothing else changes hands.\<close>

lemma xmit_finish_step:
  assumes i: "i < tx_ring_len p"
  shows "tx_same_ring p (fst (xmit_finish x e ops skb i p w))"
    and "cur_tx (fst (xmit_finish x e ops skb i p w)) = cur_tx p + 1"
    and "dirty_tx (fst (xmit_finish x e ops skb i p w)) = dirty_tx p"
    and "tx_flight ops (fst (xmit_finish x e ops skb i p w)) j =
      (if j = i then (tx_skbuff p ! i, tx_skbuff_dma p ! i, True) else tx_flight ops p j)"
  using i
  by (auto simp: xmit_finish_def Let_def tx_same_ring_def upd_stats_def tx_flight_def tx_desc_set_tx_desc
      owner_set owner_timestamp split: prod.splits)

lemma xmit_first_step:
  assumes "plain_frame x p (skb_len skb)" and "priv.mode p = mode" and i: "i < tx_ring_len p"
    and "i < length (tx_skbuff_dma p)"
  shows "\<exists>a p' w'. xmit_first x e ops skb i p w = Some (p', w') \<and> tx_same_ring p p'
    \<and> cur_tx p' = cur_tx p \<and> dirty_tx p' = dirty_tx p \<and> tx_skbuff p' = tx_skbuff p \<and> tx_skbuff_dma p' ! i = a
    \<and> (\<forall>j. j \<noteq> i \<longrightarrow> tx_flight ops p' j = tx_flight ops p j)"
  using assms
  by (auto simp: xmit_first_def plain_frame_def kcall_eq tx_same_ring_def tx_flight_def tx_desc_set_tx_desc Let_def
      split: if_splits)

lemma xmit_refines:
  assumes wf: "tx_wf p" and ops: "hw_desc (hw p) = Some ops" and m: "priv.mode p = mode"
    and plain: "plain_frame x p (skb_len skb)" and lpi: "\<not> tx_path_in_lpi_mode p"
    and wait: "wait_cyclic_task e w = Some w0" and n: "length (skb_frags skb) < 2147483648"
    and room: "\<not> stmmac_tx_avail p < of_nat (length (skb_frags skb)) + 1"
    and idx: "index_room p (length (skb_frags skb) + 1)"
  shows "\<exists>a as p' w'. stmmac_xmit x e skb p w = Some (NETDEV_TX_OK, p', w') \<and> tx_wf p' \<and> tx_same_ring p p'
    \<and> length as = length (skb_frags skb)
    \<and> tx_queue ops p' = tx_queue ops p @ (skb_ptr skb, a, True) # map (\<lambda>b. (0, b, True)) as
    \<and> cur_tx p' = cur_tx p + of_nat (length as + 1) \<and> dirty_tx p' = dirty_tx p
    \<and> (\<forall>j. (\<forall>k\<le>length as. j \<noteq> slot p (cur_tx p + of_nat k)) \<longrightarrow> tx_flight ops p' j = tx_flight ops p j)"
proof -
  let ?n = "length (skb_frags skb)" and ?N = "unat (dma_tx_size p)" and ?i = "slot p (cur_tx p)"
  have "unat (of_nat ?n + 1 :: u32) = ?n + 1"
    using n by (simp add: unat_word_ariths unsigned_of_nat take_bit_nat_eq_self)
  then have "?n + 1 \<le> ?N - 1 - used p"
    using room tx_avail_free [OF wf] by (simp add: word_less_nat_alt)
  then have space: "used p + ?n + 1 < ?N" using wf by (simp add: tx_wf_def)
  let ?p = "p\<lparr>tx_skbuff := (tx_skbuff p)[?i := skb_ptr skb]\<rparr>"
  have l: "?i < tx_ring_len p" "?i < length (tx_skbuff p)" "?i < length (tx_skbuff_dma p)"
    using slot_less [OF wf, of "cur_tx p"] wf by (simp_all add: tx_wf_def)
  have p0: "tx_same_ring p ?p" by (simp add: tx_same_ring_def)
  have pl: "plain_frame x ?p (skb_len skb)" using plain by (simp add: plain_frame_def)
  obtain a q v where f: "xmit_first x e ops skb ?i ?p (kdo e ''disable_irq'' [I 98] w0) = Some (q, v)"
    and q: "tx_same_ring ?p q" "cur_tx q = cur_tx p" "dirty_tx q = dirty_tx p"
    and qi: "tx_skbuff q = (tx_skbuff p)[?i := skb_ptr skb]" "tx_skbuff_dma q ! ?i = a"
    and qo: "\<forall>j. j \<noteq> ?i \<longrightarrow> tx_flight ops q j = tx_flight ops ?p j"
    using xmit_first_step [OF pl, where i = ?i and e = e and w = "kdo e ''disable_irq'' [I 98] w0"] m l by auto
  have pq: "tx_same_ring p q" by (rule tx_same_ring_trans [OF p0 q(1)])
  have sq: "slot q j = slot p j" for j by (rule tx_same_ring_slot [OF pq])
  have uq: "used q = used p" using q by (simp add: used_def)
  have wfq: "tx_wf q" using tx_same_ring_wf [OF pq wf] uq space wf q(2, 3) by (simp add: tx_wf_def)
  have mq: "priv.mode q = mode" and Nq: "unat (dma_tx_size q) = ?N" using pq m by (simp_all add: tx_same_ring_def)
  obtain as r u where g: "xmit_frags e ops (skb_csum_partial skb) (skb_frags skb) ?i q v =
      Some (if skb_frags skb = [] then ?i else slot q (cur_tx q + of_nat ?n), r, u)"
    and r: "length as = ?n" "tx_same_ring q r" "dirty_tx r = dirty_tx q" "cur_tx r = cur_tx q + of_nat ?n"
    and rn: "\<forall>k<?n. tx_flight ops r (slot q (cur_tx q + 1 + of_nat k)) = (0, as ! k, True)"
    and ro: "\<forall>j. (\<forall>k<?n. j \<noteq> slot q (cur_tx q + 1 + of_nat k)) \<longrightarrow> tx_flight ops r j = tx_flight ops q j"
  proof -
    have "used q + length (skb_frags skb) < unat (dma_tx_size q)" using space uq Nq by simp
    moreover have "index_room q (length (skb_frags skb))"
      using index_room_step [OF pq, of 0] q(2) index_room_mono [OF idx] by simp
    ultimately have "used q + length (skb_frags skb) < unat (dma_tx_size q)" "index_room q (length (skb_frags skb))"
      by blast+
    from xmit_frags_step [OF wfq mq this, of e "skb_csum_partial skb" ?i v] that show thesis by blast
  qed
  define i where "i = (if skb_frags skb = [] then ?i else slot q (cur_tx q + of_nat ?n))"
  have pr: "tx_same_ring p r" by (rule tx_same_ring_trans [OF pq r(2)])
  have li: "i < tx_ring_len r" "?i < tx_ring_len r"
  proof -
    have "slot p j < tx_ring_len p" for j using slot_less [OF wf, of j] wf by (simp add: tx_wf_def)
    moreover have "tx_ring_len r = tx_ring_len p" using pr by (simp add: tx_same_ring_def)
    ultimately show "i < tx_ring_len r" "?i < tx_ring_len r" by (simp_all add: i_def sq)
  qed
  let ?r = "set_tx_desc i (close_tx_desc ops (tx_desc r i)) r"
  let ?c = "fst (xmit_coalesce e ops (of_nat ?n + 1) i ?r u)"
  have lr: "i < tx_ring_len ?r" "?i < tx_ring_len ?r" using li by simp_all
  note c = coalesce_keeps [OF lr(1) owner_clear_ic, of e "of_nat ?n + 1" u]
  have lc: "?i < tx_ring_len ?c" using c(1) lr(2) by (simp add: tx_same_ring_def)
  let ?d = "fst (xmit_finish x e ops skb ?i ?c (snd (xmit_coalesce e ops (of_nat ?n + 1) i ?r u)))"
  note d = xmit_finish_step [OF lc, of x e skb "snd (xmit_coalesce e ops (of_nat ?n + 1) i ?r u)"]
  have fl: "tx_flight ops ?c j = tx_flight ops r j" for j
    using flight_set_desc [OF li(1) owner_close] c(2) by simp
  have res: "stmmac_xmit x e skb p w = Some (NETDEV_TX_OK, ?d,
      snd (xmit_finish x e ops skb ?i ?c (snd (xmit_coalesce e ops (of_nat ?n + 1) i ?r u))))"
    using room lpi f g ring_index_slot [OF wf, of "cur_tx p"]
    by (simp add: stmmac_xmit_def ops wait Let_def i_def [symmetric] case_prod_unfold)
  have same: "tx_same_ring p ?d"
    using pr c(1) d(1) same_ring_set_desc by (blast intro: tx_same_ring_trans)
  have di: "dirty_tx ?d = dirty_tx p" "cur_tx ?d = cur_tx p + of_nat (Suc ?n)"
    using d(2, 3) c(3, 4) r(3, 4) q(2, 3) by simp_all
  let ?fs = "(skb_ptr skb, a, True) # map (\<lambda>b. (0, b, True)) as"
  have sfrag: "slot q (cur_tx q + 1 + of_nat k) = slot p (cur_tx p + of_nat (Suc k))" for k
    by (simp add: sq q(2) ac_simps)
  have first: "slot p (cur_tx p + of_nat k) \<noteq> ?i" if "0 < k" "k \<le> ?n" for k
    using slot_neq_cur [OF wf idx, of k 0] that space by simp
  have ri: "tx_flight ops r ?i = tx_flight ops q ?i"
    using ro first by (metis Suc_leI sfrag zero_less_Suc)
  have new: "tx_flight ops ?d (slot p (cur_tx p + of_nat k)) = ?fs ! k" if k: "k < length ?fs" for k
  proof (cases k)
    case 0
    then show ?thesis using d(4) [of ?i] fl [of ?i] ri qi l(2) by (simp add: tx_flight_def)
  next
    case (Suc j)
    then have j: "j < ?n" using k r(1) by simp
    then have "tx_flight ops r (slot p (cur_tx p + of_nat (Suc j))) = (0, as ! j, True)"
      using rn by (simp only: sfrag [symmetric])
    then show ?thesis using d(4) fl first [of "Suc j"] j Suc r(1) by simp
  qed
  have old: "tx_flight ops ?d (slot p (dirty_tx p + of_nat k)) = tx_flight ops p (slot p (dirty_tx p + of_nat k))"
    if k: "k < used p" for k
  proof -
    have ne: "slot p (dirty_tx p + of_nat k) \<noteq> slot p (cur_tx p + of_nat j)" if "j \<le> ?n" for j
      using slot_neq_dirty [OF wf idx, of k "used p + j"] k that space dirty_plus_used [of p]
      by (simp add: add.assoc [symmetric])
    have "tx_flight ops r (slot p (dirty_tx p + of_nat k)) = tx_flight ops q (slot p (dirty_tx p + of_nat k))"
      using ro ne by (metis Suc_leI sfrag)
    then show ?thesis using ne [of 0] d(4) fl qo by (simp add: tx_flight_def)
  qed
  note app = tx_queue_append [OF wf same di(1), of ?fs, OF _ _ _ new old]
  have "tx_wf ?d" "tx_queue ops ?d = tx_queue ops p @ ?fs"
    using app di(2) space r(1) idx by simp_all
  moreover have "tx_flight ops ?d j = tx_flight ops p j"
    if j: "\<forall>k\<le>length as. j \<noteq> slot p (cur_tx p + of_nat k)" for j
  proof -
    have ne: "j \<noteq> slot p (cur_tx p + of_nat k)" if "k \<le> ?n" for k using j that r(1) by simp
    have "tx_flight ops r j = tx_flight ops q j" using ro ne by (metis Suc_leI sfrag)
    then show ?thesis using ne [of 0] d(4) fl qo by (simp add: tx_flight_def)
  qed
  moreover have "cur_tx ?d = cur_tx p + of_nat (length as + 1)" using di(2) r(1) by simp
  ultimately show ?thesis using res same r(1) di(1) by blast
qed

end

section \<open>Recovery\<close>

lemma free_tx_skbuf_fold:
  "m \<le> length (tx_skbuff p) \<Longrightarrow> m \<le> length (tx_skbuff_dma p) \<Longrightarrow>
     fold (free_tx_skbuf e ops) [0..<m] (p, w) = (q, v) \<Longrightarrow>
     tx_same_ring p q \<and> cur_tx q = cur_tx p \<and> dirty_tx q = dirty_tx p \<and> (\<forall>j. tx_desc q j = tx_desc p j)
   \<and> (\<forall>j<length (tx_skbuff p). tx_skbuff q ! j = (if j < m then 0 else tx_skbuff p ! j))
   \<and> (\<forall>j<length (tx_skbuff_dma p). tx_skbuff_dma q ! j = (if j < m \<and> tx_skbuff p ! j \<noteq> 0 then 0 else tx_skbuff_dma p ! j))"
proof (induction m arbitrary: q v)
  case 0
  then show ?case by simp
next
  case (Suc m)
  obtain r u where r: "fold (free_tx_skbuf e ops) [0..<m] (p, w) = (r, u)" by fastforce
  note ih = Suc.IH [OF _ _ r]
  have q: "free_tx_skbuf e ops m (r, u) = (q, v)" using Suc.prems(3) r by simp
  have m: "m < length (tx_skbuff p)" "m < length (tx_skbuff_dma p)" using Suc.prems by auto
  have l: "length (tx_skbuff r) = length (tx_skbuff p)" "length (tx_skbuff_dma r) = length (tx_skbuff_dma p)"
    using ih m by (simp_all add: tx_same_ring_def)
  show ?case
  proof (cases "tx_skbuff r ! m = 0")
    case True
    then have "q = r" using q by (simp add: free_tx_skbuf_def Let_def)
    then show ?thesis using ih m True by (auto simp: less_Suc_eq)
  next
    case False
    then have "q = r\<lparr>tx_skbuff := (tx_skbuff r)[m := 0], tx_skbuff_dma := (tx_skbuff_dma r)[m := 0]\<rparr>"
      using q by (simp add: free_tx_skbuf_def Let_def split: if_splits)
    then show ?thesis using ih m l False by (auto simp: less_Suc_eq tx_same_ring_def nth_list_update tx_desc_def)
  qed
qed

lemma clear_tx_descriptors_fold:
  assumes "m \<le> tx_ring_len p"
  shows "tx_same_ring p (fold (\<lambda>i q. set_tx_desc i (f i (tx_desc q i)) q) [0..<m] p)
    \<and> cur_tx (fold (\<lambda>i q. set_tx_desc i (f i (tx_desc q i)) q) [0..<m] p) = cur_tx p
    \<and> tx_skbuff (fold (\<lambda>i q. set_tx_desc i (f i (tx_desc q i)) q) [0..<m] p) = tx_skbuff p
    \<and> tx_skbuff_dma (fold (\<lambda>i q. set_tx_desc i (f i (tx_desc q i)) q) [0..<m] p) = tx_skbuff_dma p
    \<and> (\<forall>j. tx_desc (fold (\<lambda>i q. set_tx_desc i (f i (tx_desc q i)) q) [0..<m] p) j =
         (if j < m then f j (tx_desc p j) else tx_desc p j))"
  using assms
proof (induction m)
  case (Suc m)
  let ?q = "fold (\<lambda>i q. set_tx_desc i (f i (tx_desc q i)) q) [0..<m] p"
  have l: "m < tx_ring_len ?q" using Suc by (simp add: tx_same_ring_def)
  show ?case using Suc l by (auto simp: tx_desc_set_tx_desc less_Suc_eq tx_same_ring_def)
qed simp

context desc_contract
begin

text \<open>After the recovery the ring is empty, no slot holds a buffer and every descriptor is the driver's.\<close>

lemma tx_err_empties:
  assumes wf: "tx_wf p" and ops: "hw_desc (hw p) = Some ops" and m: "priv.mode p = mode"
  shows "\<exists>p' w'. stmmac_tx_err e p w = Some (p', w') \<and> tx_wf p' \<and> tx_same_ring p p' \<and> tx_queue ops p' = []
    \<and> (\<forall>j<unat (dma_tx_size p). tx_skbuff p' ! j = 0 \<and> get_tx_owner ops (tx_desc p' j) = 0
         \<and> tx_skbuff_dma p' ! j = (if tx_skbuff p ! j \<noteq> 0 then 0 else tx_skbuff_dma p ! j))"
proof -
  let ?N = "unat (dma_tx_size p)"
  obtain q v where q: "dma_free_tx_skbufs e ops p
      (stop_tx (hw_dma (hw p)) e (ioaddr p) (kdo e ''netif_stop_queue'' [] w)) = Some (q, v)" and
    fold: "fold (free_tx_skbuf e ops) [0..<?N] (p, stop_tx (hw_dma (hw p)) e (ioaddr p)
      (kdo e ''netif_stop_queue'' [] w)) = (q, v)"
    using wf by (cases "fold (free_tx_skbuf e ops) [0..<?N] (p, stop_tx (hw_dma (hw p)) e (ioaddr p)
      (kdo e ''netif_stop_queue'' [] w))") (simp add: dma_free_tx_skbufs_def tx_wf_def)
  have len: "?N \<le> length (tx_skbuff p)" "?N \<le> length (tx_skbuff_dma p)" using wf by (simp_all add: tx_wf_def)
  note fr = free_tx_skbuf_fold [OF len fold]
  have sz: "dma_tx_size q = dma_tx_size p" "?N \<le> tx_ring_len q" "priv.mode q = mode" "hw q = hw p"
    using fr wf m by (simp_all add: tx_same_ring_def tx_wf_def)
  let ?c = "clear_tx_descriptors ops q"
  have cl: "tx_same_ring q ?c" "tx_skbuff ?c = tx_skbuff q" "tx_skbuff_dma ?c = tx_skbuff_dma q"
    "\<And>j. tx_desc ?c j = (if j < ?N then init_tx_desc ops (tx_desc q j) mode (Suc j = ?N) else tx_desc q j)"
    using clear_tx_descriptors_fold [OF sz(2), of "\<lambda>i d. init_tx_desc ops d mode (Suc i = ?N)"]
    by (simp_all add: clear_tx_descriptors_def sz)
  let ?p' = "upd_stats (tx_errors_update inc) (?c\<lparr>dirty_tx := 0, cur_tx := 0\<rparr>)"
  have res: "\<exists>w'. stmmac_tx_err e p w = Some (?p', w')"
    by (simp add: stmmac_tx_err_def ops q Let_def)
  have same: "tx_same_ring p ?p'"
    using fr cl(1) by (simp add: tx_same_ring_def upd_stats_def)
  have u: "used ?p' = 0" by (simp add: used_def upd_stats_def)
  have "tx_wf ?p'" using tx_same_ring_wf [OF same wf] u tx_wf_pos [OF wf] by (simp add: upd_stats_def)
  moreover have "tx_queue ops ?p' = []" by (simp add: tx_queue_def u)
  moreover have "\<forall>j<?N. tx_skbuff ?p' ! j = 0 \<and> get_tx_owner ops (tx_desc ?p' j) = 0
         \<and> tx_skbuff_dma ?p' ! j = (if tx_skbuff p ! j \<noteq> 0 then 0 else tx_skbuff_dma p ! j)"
    using fr len by (simp add: upd_stats_def cl owner_init)
  ultimately show ?thesis using res same by blast
qed

lemma rtl8211_steps:
  assumes wf: "tx_wf p" and ops: "hw_desc (hw p) = Some ops" and m: "priv.mode p = mode"
    and plain: "plain_frame x p len"
  shows "\<exists>a p' w'. rtl8211_xmit x e pb len p w = Some (ucast len, p', w') \<and> tx_same_ring p p'
    \<and> cur_tx p' = cur_tx p + 1 \<and> dirty_tx p' = dirty_tx p
    \<and> (\<forall>j. tx_flight ops p' j = (if j = slot p (cur_tx p) then (tx_skbuff p ! j, a, True) else tx_flight ops p j))"
proof -
  let ?i = "slot p (cur_tx p)"
  let ?skb = "\<lparr>skb_ptr = pb, skb_len = len, skb_headlen = len, skb_frags = [],
                skb_csum_partial = False, skb_hw_tstamp = False\<rparr>"
  have l: "?i < tx_ring_len p" "?i < length (tx_skbuff_dma p)"
    using slot_less [OF wf, of "cur_tx p"] wf by (simp_all add: tx_wf_def)
  have pl: "plain_frame x p (skb_len ?skb)" using plain by simp
  obtain a q v where f: "xmit_first x e ops ?skb ?i p (kdo e ''atomic_set_m_Tx_Lock'' [I 1] w) = Some (q, v)"
    and q: "tx_same_ring p q" "cur_tx q = cur_tx p" "dirty_tx q = dirty_tx p" "tx_skbuff q = tx_skbuff p"
      "tx_skbuff_dma q ! ?i = a"
    and qo: "\<forall>j. j \<noteq> ?i \<longrightarrow> tx_flight ops q j = tx_flight ops p j"
    using xmit_first_step [OF pl m l, of e "kdo e ''atomic_set_m_Tx_Lock'' [I 1] w"] by auto
  have lq: "?i < tx_ring_len q" using l q(1) by (simp add: tx_same_ring_def)
  let ?r = "set_tx_desc ?i (close_tx_desc ops (tx_desc q ?i)) q"
  let ?c = "fst (xmit_coalesce e ops 1 ?i ?r v)"
  have lr: "?i < tx_ring_len ?r" using lq by simp
  note c = coalesce_keeps [OF lr owner_clear_ic, of e 1 v]
  have lc: "?i < tx_ring_len ?c" using c(1) lr by (simp add: tx_same_ring_def)
  have fl: "tx_flight ops ?c j = tx_flight ops q j" for j
    using flight_set_desc [OF lq owner_close] c(2) by simp
  let ?d = "upd_stats (tx_bytes_update (\<lambda>n. n + len))
     ((set_tx_desc ?i (set_tx_owner ops (tx_desc ?c ?i)) ?c)\<lparr>cur_tx := cur_tx ?c + 1\<rparr>)"
  have res: "\<exists>w'. rtl8211_xmit x e pb len p w = Some (ucast len, ?d, w')"
    using f ring_index_slot [OF wf, of "cur_tx p"]
    by (simp add: rtl8211_xmit_def ops Let_def case_prod_unfold)
  have qi: "tx_flight ops q ?i = (tx_skbuff p ! ?i, a, get_tx_owner ops (tx_desc q ?i) \<noteq> 0)"
    using q by (simp add: tx_flight_def)
  have dfl: "tx_flight ops ?d j =
      (if j = ?i then (tx_skbuff p ! j, a, True) else tx_flight ops p j)" for j
  proof (cases "j = ?i")
    case True
    then show ?thesis using lc fl [of ?i] qi by (simp add: upd_stats_def tx_flight_def tx_desc_set_tx_desc owner_set)
  next
    case False
    then show ?thesis using lc fl [of j] qo by (simp add: upd_stats_def tx_flight_def tx_desc_set_tx_desc)
  qed
  have "tx_same_ring p ?d"
    using q(1) c(1) by (simp add: tx_same_ring_def upd_stats_def)
  then show ?thesis using res dfl q(2, 3) c(3, 4)
    by (intro exI [of _ a] exI [of _ ?d]) (auto simp: upd_stats_def)
qed

end

end
