(* ===== verification/Ring_Bench.thy ===== *)
theory Ring_Bench
  imports Tx_Queue
begin

text \<open>
  A concrete device for the closed instances of the properties: a GMAC core of version 3.7 on the
  register file of \<open>bench_env\<close>, with plain descriptors and no platform callbacks. \<open>bench_priv n m\<close> has
  rings of \<open>n\<close> descriptors in mode \<open>m\<close>, empty; \<open>bench_load\<close> puts frames in flight.
\<close>

definition bench_hw :: "bench mac_device_info" where
  "bench_hw = \<lparr>hw_mac = dwmac1000_ops bench_crc, hw_desc = Some (ndesc_ops False), hw_dma = dwmac1000_dma_ops,
     hw_ring = True, hw_chain = True, hw_ptp = False,
     hw_mii = \<lparr>mii_addr = GMAC_MII_ADDR, mii_data = GMAC_MII_DATA\<rparr>,
     hw_link = \<lparr>link_port = GMAC_CONTROL_PS, link_duplex = GMAC_CONTROL_DM, link_speed = GMAC_CONTROL_FES\<rparr>,
     synopsys_uid = 0x1037\<rparr>"

definition bench_dev :: netdev where
  "bench_dev = \<lparr>base_addr = 0x1000, nd_flags = 0, nd_mc = [], nd_uc = [], nd_mtu = 1500,
     nd_dev_addr = [2, 0, 0, 0, 0, 1], nd_irq = 98, nd_stats = zero_stats,
     nd_priv_flags = 0, nd_features = 0, nd_hw_features = 0, nd_watchdog_timeo = 0\<rparr>"

definition bench_plat :: "bench plat" where
  "bench_plat = \<lparr>pl_phy_bus_name = None, pl_bus_id = 0, pl_phy_addr = 0, pl_interface = 6, pl_has_gmac = True, pl_enh_desc = 0, pl_tx_coe = 0,
     pl_rx_coe = 0, pl_bugged_jumbo = False, pl_pmt = 0, pl_force_sf_dma_mode = False, pl_riwt_off = False,
     pl_clk_csr = 0, pl_dma_cfg = None, pl_bsp = None, pl_fix_mac_speed = None, pl_bus_setup = None\<rparr>"

definition bench_priv :: "nat \<Rightarrow> u32 \<Rightarrow> bench priv" where
  "bench_priv n m = \<lparr>glob = default_params, dev = bench_dev,
     dma_etx = [], dma_tx = replicate n zero_desc, tx_skbuff = replicate n 0, cur_tx = 0, dirty_tx = 0,
     dma_tx_size = of_nat n, tx_count_frames = 0, tx_coal_frames = 0, tx_coal_timer = 0,
     tx_skbuff_dma = replicate n 0, dma_tx_phy = 0, hwts_tx_en = False, tx_path_in_lpi_mode = False,
     dma_rx = replicate n zero_desc, dma_erx = [], rx_skbuff = replicate n 0, cur_rx = 0, dirty_rx = 0,
     dma_rx_size = of_nat n, dma_buf_sz = 2048, rx_riwt = 0, hwts_rx_en = False,
     rx_skbuff_dma = replicate n 0, dma_rx_phy = 0, ioaddr = 0x1000, hw = bench_hw,
     no_csum_insertion = False, phydev = None, oldlink = False, p_speed = 0, oldduplex = 0,
     p_flow_ctrl = 0, p_pause = 0, xstats = zero_xstats, plat = bench_plat, dma_cap = decode_hw_cap 0, mmc = zero_counters,
     hw_cap_support = 0, synopsys_id = 0x37, msg_enable = 0, wolopts = 0, wol_irq = 0, stmmac_clk = 0, p_clk_csr = 0, lpi_irq = 0,
     eee_enabled = False, eee_active = False, tx_lpi_timer = 0, pcs = 0, mode = m, extend_desc = False,
     default_addend = 0, adv_ts = 0, use_riwt = False, mdio_registered = False\<rparr>"

definition bench_ext :: "bench ext" where
  "bench_ext = \<lparr>ring_is_jumbo_frm = (\<lambda>_ _. False), ring_jumbo_frm = (\<lambda>e p skb b w. (p, w)),
     ring_refill_desc3 = (\<lambda>p d. d), ring_init_desc3 = (\<lambda>d. d), ring_clean_desc3 = (\<lambda>p d. d),
     ring_set_16kib_bfsize = (\<lambda>_. 0), chain_init = (\<lambda>ds _. ds), chain_init_extended = (\<lambda>ds _. ds),
     chain_is_jumbo_frm = (\<lambda>_ _. False), chain_jumbo_frm = (\<lambda>e p skb b w. (p, w)), max_skb_frags = 17,
     l1_cache_bytes = 64, enh_desc_ops = ndesc_ops False, vlan_tag_used = False\<rparr>"

definition bench_skb :: "(ptr \<times> u32) list \<Rightarrow> sk_buff" where
  "bench_skb frags = \<lparr>skb_ptr = 0xc0de, skb_len = 60, skb_headlen = 60, skb_frags = frags,
     skb_csum_partial = False, skb_hw_tstamp = False\<rparr>"

text \<open>Frames in flight from slot 0 on: for each its buffer and whether the hardware owns it.\<close>

definition bench_load :: "(ptr \<times> bool) list \<Rightarrow> bench priv \<Rightarrow> bench priv" where
  "bench_load fs p = p\<lparr>
     tx_skbuff := map fst fs @ drop (length fs) (tx_skbuff p),
     tx_skbuff_dma := map (\<lambda>_. 0x4000) fs @ drop (length fs) (tx_skbuff_dma p),
     dma_tx := map (\<lambda>f. if snd f then ndesc_set_tx_owner zero_desc else zero_desc) fs @ drop (length fs) (dma_tx p),
     cur_tx := cur_tx p + of_nat (length fs)\<rparr>"

lemmas bench_priv_simps =
  bench_priv_def bench_hw_def bench_dev_def bench_plat_def bench_ext_def bench_skb_def bench_load_def

text \<open>The members that the hypotheses of the properties read.\<close>

lemma bench_priv_sel [simp]:
  "hw (bench_priv n m) = bench_hw" "mode (bench_priv n m) = m" "dma_tx_size (bench_priv n m) = of_nat n"
  "cur_tx (bench_priv n m) = 0" "dirty_tx (bench_priv n m) = 0" "hwts_tx_en (bench_priv n m) = False"
  "tx_path_in_lpi_mode (bench_priv n m) = False" "eee_enabled (bench_priv n m) = False"
  "ioaddr (bench_priv n m) = 0x1000" "plat (bench_priv n m) = bench_plat"
  "tx_skbuff (bench_priv n m) = replicate n 0" "tx_skbuff_dma (bench_priv n m) = replicate n 0"
  "cur_rx (bench_priv n m) = 0" "dirty_rx (bench_priv n m) = 0" "dma_rx_size (bench_priv n m) = of_nat n"
  "extend_desc (bench_priv n m) = False" "hwts_rx_en (bench_priv n m) = False"
  "rx_skbuff (bench_priv n m) = replicate n 0" "dma_rx (bench_priv n m) = replicate n zero_desc"
  "dma_tx (bench_priv n m) = replicate n zero_desc" "dev (bench_priv n m) = bench_dev"
  "xstats (bench_priv n m) = zero_xstats" "rx_skbuff_dma (bench_priv n m) = replicate n 0"
  by (simp_all add: bench_priv_def)

lemma bench_load_sel [simp]:
  "hw (bench_load fs p) = hw p" "mode (bench_load fs p) = mode p" "dma_tx_size (bench_load fs p) = dma_tx_size p"
  "cur_tx (bench_load fs p) = cur_tx p + of_nat (length fs)" "dirty_tx (bench_load fs p) = dirty_tx p"
  "hwts_tx_en (bench_load fs p) = hwts_tx_en p" "eee_enabled (bench_load fs p) = eee_enabled p"
  "extend_desc (bench_load fs p) = extend_desc p" "ioaddr (bench_load fs p) = ioaddr p"
  "tx_path_in_lpi_mode (bench_load fs p) = tx_path_in_lpi_mode p" "plat (bench_load fs p) = plat p"
  by (simp_all add: bench_load_def)

lemma bench_hw_sel [simp]:
  "hw_desc bench_hw = Some (ndesc_ops False)" "hw_ring bench_hw = True" "hw_chain bench_hw = True"
  "hw_dma bench_hw = dwmac1000_dma_ops" "hw_mac bench_hw = dwmac1000_ops bench_crc" "hw_ptp bench_hw = False"
  by (simp_all add: bench_hw_def)

lemma bench_plain [simp]:
  "hw p = bench_hw \<Longrightarrow> plain_frame bench_ext p len"
  by (auto simp: plain_frame_def bench_ext_def)

lemma bench_skb_sel [simp]:
  "skb_frags (bench_skb fs) = fs" "skb_ptr (bench_skb fs) = 0xc0de" "skb_len (bench_skb fs) = 60"
  by (simp_all add: bench_skb_def)

lemma bench_priv_wf:
  assumes "0 < n" and "n < 2 ^ 32"
  shows "tx_wf (bench_priv n m)"
proof -
  have "unat (of_nat n :: u32) = n" using assms(2) by (simp add: unsigned_of_nat take_bit_nat_eq_self)
  moreover from this have "(of_nat n :: u32) \<noteq> 0" using assms(1) by (metis unat_0 less_irrefl)
  ultimately show ?thesis
    using assms(1) by (simp add: tx_wf_def bench_priv_def tx_ring_len_def used_def)
qed

lemma bench_load_wf:
  assumes "length fs < n" and "n < 2 ^ 32"
  shows "tx_wf (bench_load fs (bench_priv n m))"
proof -
  have "unat (of_nat n :: u32) = n" "unat (of_nat (length fs) :: u32) = length fs"
    using assms by (simp_all add: unsigned_of_nat take_bit_nat_eq_self)
  moreover from this have "(of_nat n :: u32) \<noteq> 0" using assms(1) by (metis unat_0 not_less_zero)
  ultimately show ?thesis
    using assms by (simp add: tx_wf_def bench_load_def bench_priv_def tx_ring_len_def used_def)
qed

lemma bench_owner:
  "get_tx_owner (ndesc_ops vlan) zero_desc = 0" "get_tx_owner (ndesc_ops vlan) (ndesc_set_tx_owner zero_desc) \<noteq> 0"
  using nd_ring.owner_set [of vlan zero_desc] by (simp_all add: ndesc_simps zero_desc_def fld_get.simps)

lemma bench_load_queue:
  assumes "length fs < n" and "n < 2 ^ 32"
  shows "tx_queue (ndesc_ops vlan) (bench_load fs (bench_priv n m)) = map (\<lambda>(s, own). (s, 0x4000, own)) fs"
proof (rule nth_equalityI)
  have n: "unat (of_nat n :: u32) = n" "unat (of_nat (length fs) :: u32) = length fs"
    using assms by (simp_all add: unsigned_of_nat take_bit_nat_eq_self)
  then have u: "used (bench_load fs (bench_priv n m)) = length fs" by (simp add: used_def)
  then show "length (tx_queue (ndesc_ops vlan) (bench_load fs (bench_priv n m))) =
      length (map (\<lambda>(s, own). (s, 0x4000 :: u32, own)) fs)"
    by (simp add: tx_queue_def)
  fix k assume "k < length (tx_queue (ndesc_ops vlan) (bench_load fs (bench_priv n m)))"
  then have k: "k < length fs" by (simp add: tx_queue_def u)
  have kn: "unat (of_nat k :: u32) = k"
    using k assms by (simp add: unsigned_of_nat take_bit_nat_eq_self)
  have s: "slot (bench_load fs (bench_priv n m)) (of_nat k) = k"
    using k assms by (simp add: slot_def unat_mod_distrib n kn)
  show "tx_queue (ndesc_ops vlan) (bench_load fs (bench_priv n m)) ! k =
      map (\<lambda>(s, own). (s, 0x4000, own)) fs ! k"
    using k by (simp add: tx_queue_def u s tx_flight_def tx_desc_def)
      (simp add: bench_load_def nth_append bench_owner split: prod.splits)
qed

lemma bench_wait: "ans (K ''regs_timer0'' []) = 0 \<Longrightarrow>
    wait_cyclic_task (bench_env ans) w = Some (w\<lparr>b_calls := K ''regs_timer0'' [] # b_calls w\<rparr>)"
  by (simp add: wait_cyclic_task.simps)

end
