(* ===== verification/Tx_Ring_Props.thy ===== *)
theory Tx_Ring_Props
  imports Ring_Bench
begin

text \<open>
  The properties of the transmit ring with the normal descriptor operations: both interpretations
  of \<open>desc_contract\<close> put together, the log of buffers given back, and the ways out of the contract
  the code leaves open.
\<close>

section \<open>Free descriptors\<close>

text \<open>
  Property C23. Where the invariant holds, \<open>stmmac_tx_avail\<close> is exact: it is the size less one less
  the number of descriptors in flight, also when the two 32-bit indices have wrapped around.
\<close>

theorem tx_avail_exact:
  assumes "tx_wf p"
  shows "unat (stmmac_tx_avail p) + unat (cur_tx p - dirty_tx p) + 1 = unat (dma_tx_size p)"
  using tx_avail_free [OF assms] assms by (simp add: tx_wf_def used_def)

theorem tx_avail_exact_witness:
  "unat (stmmac_tx_avail (bench_load [(0xa0, True), (0, True)] (bench_priv 5 STMMAC_RING_MODE))) = 2"
  using tx_avail_exact [of "bench_load [(0xa0, True), (0, True)] (bench_priv 5 STMMAC_RING_MODE)"]
  by (simp add: bench_load_wf)

section \<open>Transmission\<close>

text \<open>
  Property C3. Refinement of a queue: where the ring has room, \<open>stmmac_xmit\<close> of a plain frame
  returns \<open>NETDEV_TX_OK\<close>, keeps the invariant, and appends to the frames in flight the frame with its
  buffer followed by one entry without a buffer for each fragment, all owned by the hardware; the
  frames before them are untouched. It holds in ring and in chain mode.
\<close>

theorem xmit_enqueues:
  assumes "tx_wf p" and "hw_desc (hw p) = Some (ndesc_ops vlan)"
    and "mode p = STMMAC_RING_MODE \<or> mode p = STMMAC_CHAIN_MODE"
    and "plain_frame x p (skb_len skb)" and "\<not> tx_path_in_lpi_mode p"
    and "wait_cyclic_task e w = Some w0" and "length (skb_frags skb) < 2147483648"
    and "\<not> stmmac_tx_avail p < of_nat (length (skb_frags skb)) + 1"
    and "index_room p (length (skb_frags skb) + 1)"
  shows "\<exists>a as p' w'. stmmac_xmit x e skb p w = Some (NETDEV_TX_OK, p', w') \<and> tx_wf p' \<and> tx_same_ring p p'
    \<and> length as = length (skb_frags skb)
    \<and> tx_queue (ndesc_ops vlan) p' =
        tx_queue (ndesc_ops vlan) p @ (skb_ptr skb, a, True) # map (\<lambda>b. (0, b, True)) as"
  using assms nd_ring.xmit_refines [of p vlan x skb e w w0] nd_chain.xmit_refines [of p vlan x skb e w w0]
  by blast

theorem xmit_enqueues_witness:
  "\<exists>a as p' w'. stmmac_xmit bench_ext (bench_env (\<lambda>_. 0)) (bench_skb [(0x5000, 8), (0x6000, 9)])
      (bench_priv 5 STMMAC_CHAIN_MODE) bench0 = Some (NETDEV_TX_OK, p', w') \<and> length as = Suc (Suc 0)
    \<and> tx_queue (ndesc_ops False) p' =
       tx_queue (ndesc_ops False) (bench_priv 5 STMMAC_CHAIN_MODE) @ (0xc0de, a, True) # map (\<lambda>b. (0, b, True)) as"
  using xmit_enqueues [of "bench_priv 5 STMMAC_CHAIN_MODE" False bench_ext "bench_skb [(0x5000, 8), (0x6000, 9)]"
      "bench_env (\<lambda>_. 0)" bench0 "bench0\<lparr>b_calls := K ''regs_timer0'' [] # b_calls bench0\<rparr>"]
  by (simp add: bench_priv_wf bench_wait stmmac_tx_avail_def index_room_def) blast

section \<open>Reclaiming\<close>

lemma enable_eee_mode_total:
  "set_eee_mode (hw_mac (hw p)) \<noteq> None \<Longrightarrow> \<exists>w'. stmmac_enable_eee_mode e p w = Some w'"
  by (auto simp: stmmac_enable_eee_mode_def)

lemma tx_wf_xstats [simp]:
  "tx_wf (upd_xstats f p) = tx_wf p" "tx_queue ops (upd_xstats f p) = tx_queue ops p"
  "tx_same_ring (upd_xstats f p) q = tx_same_ring p q"
  by (simp_all add: tx_wf_def tx_queue_def used_def slot_def tx_flight_def upd_xstats_def ring_continuous_def
      tx_same_ring_def)

lemma tx_wf_tx_clean [simp]:
  "tx_wf (p\<lparr>xstats := y\<rparr>) = tx_wf p" "tx_queue ops (p\<lparr>xstats := y\<rparr>) = tx_queue ops p"
  "tx_same_ring (p\<lparr>xstats := y\<rparr>) q = tx_same_ring p q"
  using tx_wf_xstats(1) [of "\<lambda>_. y"] tx_wf_xstats(2) [of ops "\<lambda>_. y"] tx_wf_xstats(3) [of "\<lambda>_. y"]
  by (simp_all add: upd_xstats_def)

lemma tx_clean_refines:
  assumes "tx_wf p" and "hw_desc (hw p) = Some ops" and "hw_ring (hw p)" and "\<not> hwts_tx_en p"
    and "set_eee_mode (hw_mac (hw p)) \<noteq> None"
  shows "\<exists>p' w'. stmmac_tx_clean x e p w = Some (p', w') \<and> tx_wf p' \<and> tx_same_ring p p' \<and> cur_tx p' = cur_tx p
    \<and> tx_queue ops p' = dropWhile (\<lambda>(_, _, own). \<not> own) (tx_queue ops p)"
proof -
  let ?p = "upd_xstats (tx_clean_update inc) p"
  have "tx_wf ?p" "hw_ring (hw ?p)" "\<not> hwts_tx_en ?p" using assms by (simp_all add: upd_xstats_def)
  then obtain q v where c: "tx_clean_loop x e ops ?p w = Some (q, v)"
    using tx_clean_loop_total [of ?p x e ops w] by blast
  note r = tx_clean_loop_refines [OF c]
  have same: "tx_same_ring p q" "tx_wf q" "cur_tx q = cur_tx p"
    "tx_queue ops q = dropWhile (\<lambda>(_, _, own). \<not> own) (tx_queue ops p)"
    using r assms(1) by (simp_all add: upd_xstats_def)
  have "set_eee_mode (hw_mac (hw q)) \<noteq> None" using same(1) assms(5) by (simp add: tx_same_ring_def)
  from enable_eee_mode_total [OF this, of e "wake_tx_queue e q v"] obtain u where
    "stmmac_enable_eee_mode e q (wake_tx_queue e q v) = Some u" by blast
  with same c show ?thesis by (auto simp: stmmac_tx_clean_def assms(2) Let_def)
qed

text \<open>
  Property C4. Refinement of a queue: in ring mode, without time stamps, \<open>stmmac_tx_clean\<close> returns,
  keeps the invariant and takes from the front exactly the frames the hardware has given back, up to
  the first one it still owns; what remains is untouched.
\<close>

theorem tx_clean_dequeues:
  assumes "tx_wf p" and "hw_desc (hw p) = Some ops" and "hw_ring (hw p)" and "\<not> hwts_tx_en p"
    and "set_eee_mode (hw_mac (hw p)) \<noteq> None"
  shows "\<exists>p' w'. stmmac_tx_clean x e p w = Some (p', w') \<and> tx_wf p' \<and> tx_same_ring p p' \<and> cur_tx p' = cur_tx p
    \<and> tx_queue ops p' = dropWhile (\<lambda>(_, _, own). \<not> own) (tx_queue ops p)"
  using tx_clean_refines [OF assms] .

theorem tx_clean_dequeues_witness:
  "\<exists>p' w'. stmmac_tx_clean bench_ext (bench_env (\<lambda>_. 0))
      (bench_load [(0xa0, False), (0, False), (0xb0, True), (0xc0, False)] (bench_priv 8 STMMAC_RING_MODE)) bench0
       = Some (p', w')
    \<and> tx_queue (ndesc_ops False) p' = dropWhile (\<lambda>(_, _, own). \<not> own)
       (tx_queue (ndesc_ops False) (bench_load [(0xa0, False), (0, False), (0xb0, True), (0xc0, False)]
          (bench_priv 8 STMMAC_RING_MODE)))"
  using tx_clean_dequeues [of "bench_load [(0xa0, False), (0, False), (0xb0, True), (0xc0, False)]
      (bench_priv 8 STMMAC_RING_MODE)" "ndesc_ops False" bench_ext "bench_env (\<lambda>_. 0)" bench0]
  by (simp add: bench_load_wf dwmac1000_ops_def) blast

text \<open>The buffers of a list of frames as arguments of the calls that free them.\<close>

definition freed :: "flight list \<Rightarrow> karg list list" where
  "freed fs = map (\<lambda>s. [I s]) (filter (\<lambda>s. s \<noteq> 0) (map fst fs))"

lemma freed_simps [simp]:
  "freed [] = []" "freed (f # fs) = (if fst f \<noteq> 0 then [[I (fst f)]] else []) @ freed fs"
  "freed (fs @ gs) = freed fs @ freed gs"
  by (simp_all add: freed_def)

lemma tx_clean_entry_frees:
  assumes "tx_clean_entry x (bench_env ans) ops i p w = Some (p', w')"
  shows "calls_of ''dev_kfree_skb'' w' =
      (if tx_skbuff p ! i \<noteq> 0 then [[I (tx_skbuff p ! i)]] else []) @ calls_of ''dev_kfree_skb'' w"
  using assms
  by (auto simp: tx_clean_entry_def stmmac_get_tx_hwtstamp_def Let_def bind_eq_Some_conv split: if_splits)

declare tx_clean_loop.simps [simp del]

lemma tx_clean_loop_frees:
  "tx_clean_loop x (bench_env ans) ops p w = Some (p', w') \<Longrightarrow> tx_wf p \<Longrightarrow>
     calls_of ''dev_kfree_skb'' w' =
       rev (freed (takeWhile (\<lambda>(_, _, own). \<not> own) (tx_queue ops p))) @ calls_of ''dev_kfree_skb'' w"
proof (induction x "bench_env ans" ops p w arbitrary: p' w' rule: tx_clean_loop.induct)
  case (1 x ops p w)
  show ?case
  proof (cases "dirty_tx p = cur_tx p \<or> get_tx_owner ops (tx_desc p (slot p (dirty_tx p))) \<noteq> 0")
    case True
    then have "w' = w" using 1(2) ring_index_slot [OF 1(3), of "dirty_tx p"]
      by (auto simp: tx_clean_loop.simps split: if_splits)
    moreover have "takeWhile (\<lambda>(_, _, own). \<not> own) (tx_queue ops p) = []"
      using True tx_queue_empty [of ops p] tx_queue_Cons [of p ops]
      by (cases "dirty_tx p = cur_tx p") (auto simp: tx_flight_def)
    ultimately show ?thesis by simp
  next
    case False
    note idx = ring_index_slot [OF 1(3), of "dirty_tx p"]
    obtain q v where s: "tx_clean_entry x (bench_env ans) ops (slot p (dirty_tx p)) p w = Some (q, v)"
      and r: "tx_clean_loop x (bench_env ans) ops q v = Some (p', w')"
      using 1(2) False idx by (auto simp: tx_clean_loop.simps [of x _ ops p w] split: option.splits)
    have d: "dirty_tx p \<noteq> cur_tx p" using False by simp
    note step = tx_clean_entry_queue [OF 1(3) d s]
    have "calls_of ''dev_kfree_skb'' w' =
        rev (freed (takeWhile (\<lambda>(_, _, own). \<not> own) (tx_queue ops q))) @ calls_of ''dev_kfree_skb'' v"
      using 1(1) [OF d idx _ s _ r] False step(1) by simp
    then show ?thesis
      using False step(2) tx_clean_entry_frees [OF s] by (simp add: tx_queue_Cons [OF d] tx_flight_def)
  qed
qed

lemma wake_tx_queue_calls:
  "calls_of ''dev_kfree_skb'' (wake_tx_queue (bench_env ans) p w) = calls_of ''dev_kfree_skb'' w"
  by (simp add: wake_tx_queue_def doif_def Let_def)

lemma tx_clean_entry_eee:
  "tx_clean_entry x e ops i p w = Some (p', w') \<Longrightarrow>
     eee_enabled p' = eee_enabled p \<and> tx_path_in_lpi_mode p' = tx_path_in_lpi_mode p"
  by (auto simp: tx_clean_entry_def Let_def bind_eq_Some_conv tx_account_def upd_stats_def upd_xstats_def
      set_tx_desc_def split: if_splits prod.splits)

lemma tx_clean_loop_eee:
  "tx_clean_loop x e ops p w = Some (p', w') \<Longrightarrow>
     eee_enabled p' = eee_enabled p \<and> tx_path_in_lpi_mode p' = tx_path_in_lpi_mode p"
proof (induction x e ops p w arbitrary: p' w' rule: tx_clean_loop.induct)
  case (1 x e ops p w)
  show ?case
  proof (cases "p' = p")
    case False
    then obtain i q v where d: "dirty_tx p \<noteq> cur_tx p"
      and i: "ring_index (tx_ring_len p) (dirty_tx p) (dma_tx_size p) = Some i"
      and o: "get_tx_owner ops (tx_desc p i) = 0" and s: "tx_clean_entry x e ops i p w = Some (q, v)"
      and r: "tx_clean_loop x e ops q v = Some (p', w')"
      using 1(2) by (auto simp: tx_clean_loop.simps [of x e ops p w] split: if_splits option.splits)
    show ?thesis using 1(1) [OF d i _ s _ r] o tx_clean_entry_eee [OF s] by simp
  qed simp
qed

text \<open>
  No buffer is lost and none is freed twice: \<open>stmmac_tx_clean\<close> calls \<open>dev_kfree_skb\<close> once
  for each buffer of the frames it takes from the front, in their order, and for nothing else.
\<close>

theorem tx_clean_frees_each_once:
  assumes "tx_wf p" and "hw_desc (hw p) = Some ops" and "hw_ring (hw p)" and "\<not> hwts_tx_en p"
    and "\<not> eee_enabled p"
  shows "\<exists>p' w'. stmmac_tx_clean x (bench_env ans) p w = Some (p', w')
    \<and> rev (calls_of ''dev_kfree_skb'' w') = rev (calls_of ''dev_kfree_skb'' w)
        @ freed (takeWhile (\<lambda>(_, _, own). \<not> own) (tx_queue ops p))
    \<and> freed (tx_queue ops p) = freed (takeWhile (\<lambda>(_, _, own). \<not> own) (tx_queue ops p)) @ freed (tx_queue ops p')"
proof -
  let ?p = "upd_xstats (tx_clean_update inc) p"
  have "tx_wf ?p" "hw_ring (hw ?p)" "\<not> hwts_tx_en ?p" using assms by (simp_all add: upd_xstats_def)
  then obtain q v where c: "tx_clean_loop x (bench_env ans) ops ?p w = Some (q, v)"
    using tx_clean_loop_total [of ?p x "bench_env ans" ops w] by blast
  have "\<not> eee_enabled q" using tx_clean_loop_eee [OF c] assms(5) by (simp add: upd_xstats_def)
  then have r: "stmmac_tx_clean x (bench_env ans) p w = Some (q, wake_tx_queue (bench_env ans) q v)"
    using c by (simp add: stmmac_tx_clean_def assms(2) Let_def)
  have wf: "tx_wf ?p" using assms(1) by simp
  show ?thesis
    using r tx_clean_loop_frees [OF c wf] tx_clean_loop_refines [OF c wf]
    by (simp add: wake_tx_queue_calls freed_simps(3) [symmetric] del: freed_simps(3))
qed

theorem tx_clean_frees_each_once_witness:
  "\<exists>p' w'. stmmac_tx_clean bench_ext (bench_env (\<lambda>_. 0))
      (bench_load [(0xa0, False), (0, False), (0xb0, False), (0xc0, True)] (bench_priv 8 STMMAC_RING_MODE)) bench0
        = Some (p', w')
    \<and> rev (calls_of ''dev_kfree_skb'' w') = [[I 0xa0], [I 0xb0]]"
proof -
  have q: "tx_queue (ndesc_ops False) (bench_load [(0xa0, False), (0, False), (0xb0, False), (0xc0, True)]
      (bench_priv 8 STMMAC_RING_MODE)) =
      [(0xa0, 0x4000, False), (0, 0x4000, False), (0xb0, 0x4000, False), (0xc0, 0x4000, True)]"
    by (simp add: bench_load_queue)
  show ?thesis
    using tx_clean_frees_each_once [of "bench_load [(0xa0, False), (0, False), (0xb0, False), (0xc0, True)]
      (bench_priv 8 STMMAC_RING_MODE)" "ndesc_ops False" bench_ext "\<lambda>_. 0" bench0]
    by (simp add: bench_load_wf q) (auto simp: calls_of_def bench0_def)
qed

section \<open>Crashes of reclaiming\<close>

lemma tx_clean_entry_ring: "tx_clean_entry x e ops i p w = Some r \<Longrightarrow> hw_ring (hw p)"
  by (cases r) (auto simp: tx_clean_entry_def Let_def bind_eq_Some_conv split: if_splits)

text \<open>
  Property C36. In chain mode reclaiming crashes: \<open>stmmac_main.c\<close> sets \<open>hw->ring\<close> only in ring mode, and
  \<open>stmmac_tx_clean\<close> calls \<open>priv->hw->ring->clean_desc3\<close> in both. As soon as the hardware has given
  back the first frame in flight the call goes through a \<open>NULL\<close> pointer.
\<close>

theorem tx_clean_chain_mode_crashes:
  assumes "tx_wf p" and "hw_desc (hw p) = Some ops" and "\<not> hw_ring (hw p)"
    and "tx_queue ops p = (s, a, False) # q"
  shows "stmmac_tx_clean x e p w = None"
proof -
  let ?p = "upd_xstats (tx_clean_update inc) p"
  have k [simp]: "tx_wf ?p = tx_wf p" "tx_queue ops ?p = tx_queue ops p" "hw ?p = hw p"
    by (simp_all add: tx_wf_def tx_queue_def used_def slot_def tx_flight_def upd_xstats_def ring_continuous_def)
  have d: "dirty_tx ?p \<noteq> cur_tx ?p" using assms(4) tx_queue_empty [of ops ?p] by auto
  have o: "get_tx_owner ops (tx_desc ?p (slot ?p (dirty_tx ?p))) = 0"
    using assms(4) k(2) tx_queue_Cons [OF d, of ops] by (simp add: tx_flight_def)
  have "tx_clean_entry x e ops (slot ?p (dirty_tx ?p)) ?p w = None"
    using assms(3) k(3) tx_clean_entry_ring [of x e ops _ ?p w] by (metis not_None_eq)
  then have "tx_clean_loop x e ops ?p w = None"
    using d o ring_index_slot [of ?p "dirty_tx ?p"] assms(1) k(1) by (simp add: tx_clean_loop.simps)
  then show ?thesis by (simp add: stmmac_tx_clean_def assms(2))
qed

theorem tx_clean_chain_mode_crashes_witness:
  "stmmac_tx_clean bench_ext (bench_env (\<lambda>_. 0))
     ((bench_load [(0xa0, False)] (bench_priv 5 STMMAC_CHAIN_MODE))\<lparr>hw := bench_hw\<lparr>hw_ring := False\<rparr>\<rparr>) bench0 = None"
  using tx_clean_chain_mode_crashes [of "(bench_load [(0xa0, False)] (bench_priv 5 STMMAC_CHAIN_MODE))
      \<lparr>hw := bench_hw\<lparr>hw_ring := False\<rparr>\<rparr>" "ndesc_ops False" "0xa0" "0x4000" "[]" bench_ext "bench_env (\<lambda>_. 0)" bench0]
    bench_load_wf [of "[(0xa0, False)]" 5 STMMAC_CHAIN_MODE]
    bench_load_queue [of "[(0xa0, False)]" 5 False STMMAC_CHAIN_MODE]
  by (simp add: tx_wf_def tx_queue_def used_def slot_def tx_flight_def tx_desc_def tx_ring_len_def ring_continuous_def)

text \<open>
  With transmit time stamps enabled, reclaiming a frame of several segments crashes:
  the buffer is recorded with the first segment only, and for the last one, which has none,
  \<open>stmmac_get_tx_hwtstamp\<close> reads \<open>skb_shinfo(skb)\<close> of a \<open>NULL\<close> buffer.
\<close>

theorem tx_clean_fragment_timestamp_crashes:
  assumes "tx_wf p" and "hw_desc (hw p) = Some ops" and "hwts_tx_en p"
    and "tx_queue ops p = (0, a, False) # q" and "get_tx_ls ops (tx_desc p (slot p (dirty_tx p))) \<noteq> 0"
  shows "stmmac_tx_clean x e p w = None"
proof -
  let ?p = "upd_xstats (tx_clean_update inc) p"
  have k [simp]: "tx_wf ?p = tx_wf p" "tx_queue ops ?p = tx_queue ops p" "hwts_tx_en ?p = hwts_tx_en p"
      "\<And>i. slot ?p i = slot p i" "dirty_tx ?p = dirty_tx p" "\<And>i. tx_desc ?p i = tx_desc p i"
    by (simp_all add: tx_wf_def tx_queue_def used_def slot_def tx_flight_def upd_xstats_def ring_continuous_def)
  have d: "dirty_tx ?p \<noteq> cur_tx ?p" using assms(4) tx_queue_empty [of ops ?p] by auto
  have o: "get_tx_owner ops (tx_desc ?p (slot ?p (dirty_tx ?p))) = 0" "tx_skbuff ?p ! slot ?p (dirty_tx ?p) = 0"
    using assms(4) k(2) tx_queue_Cons [OF d, of ops] by (simp_all add: tx_flight_def)
  have "tx_clean_entry x e ops (slot ?p (dirty_tx ?p)) ?p w = None"
    using assms(3, 5) o by (simp add: tx_clean_entry_def Let_def stmmac_get_tx_hwtstamp_def)
  then have "tx_clean_loop x e ops ?p w = None"
    using d o ring_index_slot [of ?p "dirty_tx ?p"] assms(1) k(1) by (simp add: tx_clean_loop.simps)
  then show ?thesis by (simp add: stmmac_tx_clean_def assms(2))
qed

theorem tx_clean_fragment_timestamp_crashes_witness:
  "stmmac_tx_clean bench_ext (bench_env (\<lambda>_. 0)) ((bench_load [(0, False)] (bench_priv 5 STMMAC_RING_MODE))
     \<lparr>hwts_tx_en := True, dma_tx := replicate 5 (ndesc_close_tx_desc zero_desc)\<rparr>) bench0 = None"
proof -
  let ?p = "(bench_load [(0, False)] (bench_priv 5 STMMAC_RING_MODE))
     \<lparr>hwts_tx_en := True, dma_tx := replicate 5 (ndesc_close_tx_desc zero_desc)\<rparr>"
  have d: "get_tx_owner (ndesc_ops False) (ndesc_close_tx_desc zero_desc) = 0"
    "get_tx_ls (ndesc_ops False) (ndesc_close_tx_desc zero_desc) \<noteq> 0"
    using nd_ring.owner_close [of False zero_desc] bench_owner(1) [of False]
    by (simp_all add: ndesc_simps)
  have "tx_wf ?p" by (simp add: tx_wf_def tx_ring_len_def used_def ring_continuous_def bench_load_def)
  moreover have "tx_queue (ndesc_ops False) ?p = [(0, 0x4000, False)]"
    by (simp add: tx_queue_def used_def slot_def tx_flight_def tx_desc_def d) (simp add: bench_load_def)
  ultimately show ?thesis
    using tx_clean_fragment_timestamp_crashes [of ?p "ndesc_ops False" "0x4000" "[]" bench_ext "bench_env (\<lambda>_. 0)" bench0] d
    by (simp add: slot_def tx_desc_def)
qed

section \<open>Recovery\<close>

text \<open>
  Property C11. After \<open>stmmac_tx_err\<close> the ring is empty, no slot holds a buffer and every descriptor
  is the driver's again. A slot that held no buffer, the slot of a fragment, keeps its bus address:
  the mapping of a fragment is not undone.
\<close>

theorem tx_err_recovers:
  assumes "tx_wf p" and "hw_desc (hw p) = Some (ndesc_ops vlan)"
    and "mode p = STMMAC_RING_MODE \<or> mode p = STMMAC_CHAIN_MODE"
  shows "\<exists>p' w'. stmmac_tx_err e p w = Some (p', w') \<and> tx_wf p' \<and> tx_same_ring p p'
    \<and> tx_queue (ndesc_ops vlan) p' = []
    \<and> (\<forall>j<unat (dma_tx_size p). tx_skbuff p' ! j = 0 \<and> get_tx_owner (ndesc_ops vlan) (tx_desc p' j) = 0
         \<and> tx_skbuff_dma p' ! j = (if tx_skbuff p ! j \<noteq> 0 then 0 else tx_skbuff_dma p ! j))"
  using assms nd_ring.tx_err_empties [of p vlan e w] nd_chain.tx_err_empties [of p vlan e w] by blast

theorem tx_err_recovers_witness:
  "\<exists>p' w'. stmmac_tx_err (bench_env (\<lambda>_. 0)) (bench_load [(0xa0, True), (0, True)] (bench_priv 5 STMMAC_RING_MODE)) bench0
      = Some (p', w') \<and> tx_queue (ndesc_ops False) p' = [] \<and> tx_skbuff_dma p' ! 0 = 0 \<and> tx_skbuff_dma p' ! 1 = 0x4000"
proof -
  let ?p = "bench_load [(0xa0, True), (0, True)] (bench_priv 5 STMMAC_RING_MODE)"
  have "tx_wf ?p" by (simp add: bench_load_wf)
  then obtain p' w' where r: "stmmac_tx_err (bench_env (\<lambda>_. 0)) ?p bench0 = Some (p', w')"
    "tx_queue (ndesc_ops False) p' = []"
    and j: "\<forall>j<unat (dma_tx_size ?p). tx_skbuff p' ! j = 0 \<and> get_tx_owner (ndesc_ops False) (tx_desc p' j) = 0
         \<and> tx_skbuff_dma p' ! j = (if tx_skbuff ?p ! j \<noteq> 0 then 0 else tx_skbuff_dma ?p ! j)"
    using tx_err_recovers [of ?p False "bench_env (\<lambda>_. 0)" bench0] by (simp del: all_simps) blast
  have "tx_skbuff_dma p' ! 0 = 0" "tx_skbuff_dma p' ! 1 = 0x4000"
    using j [rule_format, of 0] j [rule_format, of 1] by (simp_all add: bench_load_def)
  with r show ?thesis by blast
qed

section \<open>The transmit routine of the cyclic task\<close>

text \<open>
  \<open>rtl8211_xmit\<close> asks for no free descriptor: called on a full ring it takes the slot
  that must stay free, and the number of free descriptors the driver computes from then on wraps
  to \<open>2 ^ 32 - 1\<close>, so that \<open>stmmac_xmit\<close> never finds the ring full again.
\<close>

theorem rtl8211_xmit_overruns:
  assumes "tx_wf p" and "hw_desc (hw p) = Some (ndesc_ops vlan)"
    and "mode p = STMMAC_RING_MODE \<or> mode p = STMMAC_CHAIN_MODE"
    and "plain_frame x p len" and "stmmac_tx_avail p = 0"
  shows "\<exists>p' w'. rtl8211_xmit x e pb len p w = Some (ucast len, p', w') \<and> \<not> tx_wf p' \<and> stmmac_tx_avail p' = - 1"
proof -
  obtain a p' w' where r: "rtl8211_xmit x e pb len p w = Some (ucast len, p', w')" "tx_same_ring p p'"
    "cur_tx p' = cur_tx p + 1" "dirty_tx p' = dirty_tx p"
    using assms(3) nd_ring.rtl8211_steps [OF assms(1, 2) _ assms(4), of e pb w]
      nd_chain.rtl8211_steps [OF assms(1, 2) _ assms(4), of e pb w] by blast
  have s: "dma_tx_size p' = dma_tx_size p" using r(2) by (simp add: tx_same_ring_def)
  have a: "stmmac_tx_avail p' = stmmac_tx_avail p - 1" by (simp add: stmmac_tx_avail_def r s)
  have "\<not> tx_wf p'"
  proof
    assume wf: "tx_wf p'"
    have "cur_tx p' - dirty_tx p' = dma_tx_size p"
      using assms(5) by (simp add: r stmmac_tx_avail_def algebra_simps)
    then show False using wf by (simp add: tx_wf_def used_def s)
  qed
  with r(1) a assms(5) show ?thesis by auto
qed

theorem rtl8211_xmit_overruns_witness:
  "\<exists>p' w'. rtl8211_xmit bench_ext (bench_env (\<lambda>_. 0)) 0x7000 60
      (bench_load [(0xa0, True), (0xb0, True), (0xc0, True), (0xd0, True)] (bench_priv 5 STMMAC_RING_MODE)) bench0
      = Some (60, p', w') \<and> stmmac_tx_avail p' = - 1"
  using rtl8211_xmit_overruns [of "bench_load [(0xa0, True), (0xb0, True), (0xc0, True), (0xd0, True)]
      (bench_priv 5 STMMAC_RING_MODE)" False bench_ext 60 "bench_env (\<lambda>_. 0)" "0x7000" bench0]
  by (simp add: bench_load_wf stmmac_tx_avail_def) blast

section \<open>The wrap of the indices\<close>



end
