(* ===== verification/Rx_Ring_Props.thy ===== *)
theory Rx_Ring_Props
  imports Ring_Bench "HOL-Library.Multiset"
begin

text \<open>
  The receive ring: the refill of the slots, the receive loop, and the polled receive. The contract
  of the descriptor operations on this side is the locale \<open>rx_desc_contract\<close>, interpreted on the
  normal descriptors.
\<close>

section \<open>The contract\<close>

locale rx_desc_contract =
  fixes ops :: stmmac_desc_ops
  assumes rx_owner_set: "get_rx_owner ops (set_rx_owner ops d) \<noteq> 0"
    and rx_owner_init: "get_rx_owner ops (init_rx_desc ops d ic md z) \<noteq> 0"

definition rx_wf :: "'w priv \<Rightarrow> bool" where
  "rx_wf p \<longleftrightarrow> dma_rx_size p \<noteq> 0 \<and> rx_ring_len p = unat (dma_rx_size p)
     \<and> length (rx_skbuff p) = unat (dma_rx_size p) \<and> length (rx_skbuff_dma p) = unat (dma_rx_size p)"

definition rx_slot :: "'w priv \<Rightarrow> u32 \<Rightarrow> nat" where
  "rx_slot p i = unat (i mod dma_rx_size p)"

lemma rx_slot_less: "rx_wf p \<Longrightarrow> rx_slot p i < unat (dma_rx_size p)"
  using unat_gt_0 [of "dma_rx_size p"] by (simp add: rx_wf_def rx_slot_def unat_mod_distrib)

lemma rx_ring_index: "rx_wf p \<Longrightarrow> ring_index (rx_ring_len p) i (dma_rx_size p) = Some (rx_slot p i)"
  using rx_slot_less [of p i] by (simp add: ring_index_def rx_wf_def rx_slot_def)

text \<open>A slot ready for the hardware: it holds a buffer and the hardware owns its descriptor.\<close>

definition rx_ready :: "stmmac_desc_ops \<Rightarrow> 'w priv \<Rightarrow> nat \<Rightarrow> bool" where
  "rx_ready ops p i \<longleftrightarrow> rx_skbuff p ! i \<noteq> 0 \<and> get_rx_owner ops (rx_desc p i) \<noteq> 0"

lemma rx_desc_set_rx_desc:
  "i < rx_ring_len p \<Longrightarrow> rx_desc (set_rx_desc i d p) j = (if i = j then d else rx_desc p j)"
  by (simp add: rx_desc_def set_rx_desc_def rx_ring_len_def split: if_splits)

lemma rx_desc_upd [simp]:
  "rx_desc (p\<lparr>dirty_rx := a\<rparr>) j = rx_desc p j" "rx_desc (p\<lparr>cur_rx := a\<rparr>) j = rx_desc p j"
  "rx_desc (p\<lparr>rx_skbuff := s\<rparr>) j = rx_desc p j" "rx_desc (p\<lparr>rx_skbuff_dma := t\<rparr>) j = rx_desc p j"
  "rx_desc (p\<lparr>dev := v\<rparr>) j = rx_desc p j" "rx_desc (p\<lparr>xstats := y\<rparr>) j = rx_desc p j"
  by (simp_all add: rx_desc_def)

lemma rx_ring_len_upd [simp]:
  "rx_ring_len (p\<lparr>dirty_rx := a\<rparr>) = rx_ring_len p" "rx_ring_len (p\<lparr>cur_rx := a\<rparr>) = rx_ring_len p"
  "rx_ring_len (p\<lparr>rx_skbuff := s\<rparr>) = rx_ring_len p" "rx_ring_len (p\<lparr>rx_skbuff_dma := t\<rparr>) = rx_ring_len p"
  "rx_ring_len (p\<lparr>dev := v\<rparr>) = rx_ring_len p" "rx_ring_len (p\<lparr>xstats := y\<rparr>) = rx_ring_len p"
  by (simp_all add: rx_ring_len_def)

section \<open>Refilling\<close>

lemma unat_plus_one_le: "unat (x + 1 :: u32) \<le> unat x + 1"
  by (simp add: unat_word_ariths)

declare rx_refill_loop.simps [simp del]

context rx_desc_contract
begin

lemma refill_entry_step:
  assumes "rx_wf p" and "hw_ring (hw p)"
  shows "\<exists>ok p' w'. rx_refill_entry x e ops (rx_slot p i) p w = Some (ok, p', w') \<and> rx_wf p' \<and> hw p' = hw p
    \<and> dma_rx_size p' = dma_rx_size p
    \<and> (\<forall>j. rx_ready ops p j \<longrightarrow> rx_ready ops p' j) \<and> (ok \<longrightarrow> rx_ready ops p' (rx_slot p i))
    \<and> ((\<forall>as u. kval e ''netdev_alloc_skb_ip_align'' as u \<noteq> 0) \<longrightarrow> ok)"
proof -
  let ?i = "rx_slot p i"
  have l: "?i < rx_ring_len p" "?i < length (rx_skbuff p)"
    using rx_slot_less [OF assms(1), of i] assms(1) by (simp_all add: rx_wf_def)
  show ?thesis
    using assms l
    by (simp add: rx_refill_entry_def kcall_eq Let_def rx_wf_def rx_ready_def rx_desc_set_rx_desc rx_owner_set nth_list_update
        ex_bool_eq; blast)
qed

lemma refill_loop_step:
  "rx_wf p \<Longrightarrow> hw_ring (hw p) \<Longrightarrow>
     \<exists>p' w'. rx_refill_loop x e ops p w = Some (p', w') \<and> rx_wf p' \<and> cur_rx p' = cur_rx p
       \<and> dma_rx_size p' = dma_rx_size p
       \<and> (\<forall>j. rx_ready ops p j \<longrightarrow> rx_ready ops p' j)
       \<and> (\<forall>k<unat (dirty_rx p' - dirty_rx p). rx_ready ops p' (rx_slot p (dirty_rx p + of_nat k)))
       \<and> ((\<forall>as u. kval e ''netdev_alloc_skb_ip_align'' as u \<noteq> 0) \<longrightarrow> dirty_rx p' = cur_rx p)"
proof (induction "unat (cur_rx p - dirty_rx p)" arbitrary: p w rule: less_induct)
  case less
  show ?case
  proof (cases "cur_rx p = dirty_rx p")
    case True
    then show ?thesis using less.prems by (simp add: rx_refill_loop.simps)
  next
    case False
    note idx = rx_ring_index [OF less.prems(1), of "dirty_rx p"]
    obtain ok q v where s: "rx_refill_entry x e ops (rx_slot p (dirty_rx p)) p w = Some (ok, q, v)"
      and q: "rx_wf q" "hw q = hw p" "dma_rx_size q = dma_rx_size p"
        "\<forall>j. rx_ready ops p j \<longrightarrow> rx_ready ops q j" "ok \<longrightarrow> rx_ready ops q (rx_slot p (dirty_rx p))"
        "(\<forall>as u. kval e ''netdev_alloc_skb_ip_align'' as u \<noteq> 0) \<longrightarrow> ok"
      using refill_entry_step [OF less.prems, of x e "dirty_rx p" w] by blast
    note qi = rx_refill_entry_index [OF s]
    have run: "rx_refill_loop x e ops p w = (if ok then rx_refill_loop x e ops q v else Some (q, v))"
      using False idx s by (simp add: rx_refill_loop.simps [of x e ops p w])
    show ?thesis
    proof (cases ok)
      case False
      then show ?thesis using run q qi by auto
    next
      case True
      have hr: "hw_ring (hw q)" using less.prems(2) q(2) by simp
      have dec: "unat (cur_rx q - dirty_rx q) < unat (cur_rx p - dirty_rx p)"
        using unat_diff_dec [OF \<open>cur_rx p \<noteq> dirty_rx p\<close>] qi True by simp
      obtain p' w' where r: "rx_refill_loop x e ops q v = Some (p', w')" "rx_wf p'" "cur_rx p' = cur_rx q"
          "dma_rx_size p' = dma_rx_size q" "\<forall>j. rx_ready ops q j \<longrightarrow> rx_ready ops p' j"
        and k: "\<forall>k<unat (dirty_rx p' - dirty_rx q). rx_ready ops p' (rx_slot q (dirty_rx q + of_nat k))"
        and a: "(\<forall>as u. kval e ''netdev_alloc_skb_ip_align'' as u \<noteq> 0) \<longrightarrow> dirty_rx p' = cur_rx q"
        using less.hyps [OF dec q(1) hr, of v] by blast
      have "rx_ready ops p' (rx_slot p (dirty_rx p + of_nat k))" if "k < unat (dirty_rx p' - dirty_rx p)" for k
      proof (cases k)
        case 0
        then show ?thesis using q(5) r(5) True by simp
      next
        case (Suc j)
        have "unat (dirty_rx p' - dirty_rx p) \<le> unat (dirty_rx p' - dirty_rx q) + 1"
          using unat_plus_one_le [of "dirty_rx p' - dirty_rx q"] qi True by simp
        then have "j < unat (dirty_rx p' - dirty_rx q)" using that Suc by simp
        then show ?thesis using k Suc qi True q(3) by (simp add: rx_slot_def ac_simps)
      qed
      then show ?thesis using run True r q a qi by auto
    qed
  qed
qed

end

interpretation nd_rx: rx_desc_contract "ndesc_ops vlan" for vlan
  by unfold_locales (simp_all add: ndesc_simps ndesc_rx_set_on_ring_def ndesc_rx_set_on_chain_def)

text \<open>
  Property C10. In ring mode \<open>stmmac_rx_refill\<close> returns, and every slot it passes holds a buffer and is
  owned by the hardware; a slot that was so before stays so. It catches up with the receive index
  unless an allocation fails.
\<close>

theorem rx_refill_hands_back:
  assumes "rx_wf p" and "hw_desc (hw p) = Some (ndesc_ops vlan)" and "hw_ring (hw p)"
  shows "\<exists>p' w'. stmmac_rx_refill x e p w = Some (p', w') \<and> rx_wf p' \<and> cur_rx p' = cur_rx p
    \<and> (\<forall>j. rx_ready (ndesc_ops vlan) p j \<longrightarrow> rx_ready (ndesc_ops vlan) p' j)
    \<and> (\<forall>k<unat (dirty_rx p' - dirty_rx p). rx_ready (ndesc_ops vlan) p' (rx_slot p (dirty_rx p + of_nat k)))
    \<and> ((\<forall>as u. kval e ''netdev_alloc_skb_ip_align'' as u \<noteq> 0) \<longrightarrow> dirty_rx p' = cur_rx p)"
  using nd_rx.refill_loop_step [of p x e vlan w] assms by (auto simp: stmmac_rx_refill_def)

theorem rx_refill_hands_back_witness:
  "\<exists>p' w'. stmmac_rx_refill bench_ext (bench_env (\<lambda>_. 0x5000)) ((bench_priv 5 STMMAC_RING_MODE)\<lparr>cur_rx := 3\<rparr>) bench0
      = Some (p', w') \<and> dirty_rx p' = 3 \<and> (\<forall>k<3. rx_ready (ndesc_ops False) p' k)"
proof -
  let ?p = "(bench_priv 5 STMMAC_RING_MODE)\<lparr>cur_rx := 3\<rparr>"
  have "rx_wf ?p" by (simp add: rx_wf_def rx_ring_len_def)
  then obtain p' w' where r: "stmmac_rx_refill bench_ext (bench_env (\<lambda>_. 0x5000)) ?p bench0 = Some (p', w')"
      "dirty_rx p' = 3"
    and k: "\<forall>k<unat (dirty_rx p' - dirty_rx ?p). rx_ready (ndesc_ops False) p' (rx_slot ?p (dirty_rx ?p + of_nat k))"
    using rx_refill_hands_back [of ?p False bench_ext "bench_env (\<lambda>_. 0x5000)" bench0] by auto
  have "rx_ready (ndesc_ops False) p' 0" "rx_ready (ndesc_ops False) p' 1" "rx_ready (ndesc_ops False) p' 2"
    using k [rule_format, of 0] k [rule_format, of 1] k [rule_format, of 2] r(2) by (simp_all add: rx_slot_def)
  moreover have "k < 3 \<longleftrightarrow> k = 0 \<or> k = 1 \<or> k = 2" for k :: nat by linarith
  ultimately have "rx_ready (ndesc_ops False) p' k" if "k < 3" for k using that by auto
  with r show ?thesis by blast
qed

section \<open>Receiving\<close>

text \<open>The buffers in the ring, and the buffers handed to the stack, as arguments of the call.\<close>

definition rx_bufs :: "'w priv \<Rightarrow> karg list multiset" where
  "rx_bufs p = image_mset (\<lambda>s. [I s]) (filter_mset (\<lambda>s. s \<noteq> 0) (mset (rx_skbuff p)))"

definition rx_given :: "bench \<Rightarrow> karg list multiset" where
  "rx_given w = mset (calls_of ''napi_gro_receive'' w)"

lemma rx_bufs_take:
  "i < length (rx_skbuff p) \<Longrightarrow> rx_skbuff p ! i \<noteq> 0 \<Longrightarrow> rx_skbuff p' = (rx_skbuff p)[i := 0] \<Longrightarrow>
     add_mset [I (rx_skbuff p ! i)] (rx_bufs p') = rx_bufs p"
  by (simp add: rx_bufs_def mset_update filter_diff_mset image_mset_Diff nth_mem_mset)

lemma rx_entry_keeps:
  assumes "rx_entry e ops i p w = (go, p', w')"
  shows "cur_rx p' = cur_rx p + 1" "dirty_rx p' = dirty_rx p" "dma_rx_size p' = dma_rx_size p"
    "rx_ring_len p' = rx_ring_len p" "length (rx_skbuff p') = length (rx_skbuff p)"
    "length (rx_skbuff_dma p') = length (rx_skbuff_dma p)" "hwts_rx_en p' = hwts_rx_en p"
    "extend_desc p' = extend_desc p"
  using assms
  by (auto simp: rx_entry_def rx_deliver_def Let_def upd_stats_def upd_xstats_def rx_ring_len_def
      split: prod.splits if_splits option.splits)

text \<open>A turn leaves the slot alone, or takes its buffer and hands it to the stack.\<close>

lemma rx_deliver_outcome:
  assumes "rx_deliver (bench_env ans) ops st i d p w = (go, p', w')"
  shows "rx_skbuff p' = rx_skbuff p \<and> calls_of ''napi_gro_receive'' w' = calls_of ''napi_gro_receive'' w
    \<or> rx_skbuff p ! i \<noteq> 0 \<and> rx_skbuff p' = (rx_skbuff p)[i := 0]
      \<and> calls_of ''napi_gro_receive'' w' = [I (rx_skbuff p ! i)] # calls_of ''napi_gro_receive'' w"
  using assms [symmetric]
  by (cases "rx_skbuff p ! i = 0") (simp_all add: rx_deliver_def Let_def upd_stats_def stmmac_get_rx_hwtstamp_def)

lemma rx_entry_outcome:
  assumes "rx_entry (bench_env ans) ops i p w = (go, p', w')" and "\<not> (hwts_rx_en p \<and> \<not> extend_desc p)"
  shows "rx_skbuff p' = rx_skbuff p \<and> calls_of ''napi_gro_receive'' w' = calls_of ''napi_gro_receive'' w
    \<or> rx_skbuff p ! i \<noteq> 0 \<and> rx_skbuff p' = (rx_skbuff p)[i := 0]
      \<and> calls_of ''napi_gro_receive'' w' = [I (rx_skbuff p ! i)] # calls_of ''napi_gro_receive'' w"
proof -
  obtain status st0 xs0 where a: "rx_status ops (nd_stats (dev p)) (xstats p) (rx_desc p i) = (status, st0, xs0)"
    by (metis prod_cases3)
  let ?p = "p\<lparr>cur_rx := cur_rx p + 1\<rparr>"
  obtain st xs where b: "(case rx_extended_status ops of
                Some f \<Rightarrow> if extend_desc ?p then f st0 xs0 (dma_erx ?p ! i) else (st0, xs0)
              | None \<Rightarrow> (st0, xs0)) = (st, xs)" by fastforce
  let ?q = "upd_xstats (\<lambda>_. xs) (upd_stats (\<lambda>_. st) (p\<lparr>cur_rx := cur_rx p + 1\<rparr>))"
  have q: "rx_skbuff ?q = rx_skbuff p" by (simp add: upd_stats_def upd_xstats_def)
  show ?thesis
  proof (cases "status = discard_frame")
    case True
    then show ?thesis
      using assms a b by (auto simp: rx_entry_def upd_stats_def upd_xstats_def Let_def)
  next
    case False
    then have "rx_deliver (bench_env ans) ops status i (rx_desc p i) ?q w = (go, p', w')"
      using assms(1) a b by (simp add: rx_entry_def upd_stats_def upd_xstats_def Let_def)
    from rx_deliver_outcome [OF this] show ?thesis by (simp add: q)
  qed
qed

lemma rx_entry_conserves:
  assumes "rx_entry (bench_env ans) ops i p w = (go, p', w')" and "i < length (rx_skbuff p)"
    and "\<not> (hwts_rx_en p \<and> \<not> extend_desc p)"
  shows "rx_bufs p' + rx_given w' = rx_bufs p + rx_given w"
  using rx_entry_outcome [OF assms(1, 3)]
proof
  assume "rx_skbuff p' = rx_skbuff p \<and> calls_of ''napi_gro_receive'' w' = calls_of ''napi_gro_receive'' w"
  then show ?thesis by (simp add: rx_bufs_def rx_given_def)
next
  assume o: "rx_skbuff p ! i \<noteq> 0 \<and> rx_skbuff p' = (rx_skbuff p)[i := 0]
      \<and> calls_of ''napi_gro_receive'' w' = [I (rx_skbuff p ! i)] # calls_of ''napi_gro_receive'' w"
  have b: "rx_bufs p = add_mset [I (rx_skbuff p ! i)] (rx_bufs p')"
    by (rule rx_bufs_take [OF assms(2), symmetric]) (simp_all add: o)
  have g: "rx_given w' = add_mset [I (rx_skbuff p ! i)] (rx_given w)" by (simp add: rx_given_def o)
  show ?thesis by (simp add: b g)
qed

lemma rx_loop_conserves:
  "rx_wf p \<Longrightarrow> \<not> (hwts_rx_en p \<and> \<not> extend_desc p) \<Longrightarrow>
     \<exists>n p' w'. rx_loop (bench_env ans) ops limit cnt p w = Some (cnt + n, p', w') \<and> n \<le> limit
       \<and> rx_wf p' \<and> cur_rx p' = cur_rx p + of_nat n \<and> rx_bufs p' + rx_given w' = rx_bufs p + rx_given w"
proof (induction limit arbitrary: cnt p w)
  case (Suc m)
  note idx = rx_ring_index [OF Suc.prems(1), of "cur_rx p"]
  show ?case
  proof (cases "get_rx_owner ops (rx_desc p (rx_slot p (cur_rx p))) \<noteq> 0")
    case True
    then show ?thesis using idx Suc.prems(1) by (intro exI [of _ 0]) simp
  next
    case False
    obtain go q v where s: "rx_entry (bench_env ans) ops (rx_slot p (cur_rx p)) p w = (go, q, v)"
      by (metis prod_cases3)
    note k = rx_entry_keeps [OF s]
    have q: "rx_wf q" "\<not> (hwts_rx_en q \<and> \<not> extend_desc q)" using Suc.prems k by (simp_all add: rx_wf_def)
    have "rx_slot p (cur_rx p) < length (rx_skbuff p)"
      using rx_slot_less [OF Suc.prems(1)] Suc.prems(1) by (simp add: rx_wf_def)
    note c = rx_entry_conserves [OF s this Suc.prems(2)]
    show ?thesis
    proof (cases go)
      case True
      obtain n p' w' where r: "rx_loop (bench_env ans) ops m (Suc cnt) q v = Some (Suc cnt + n, p', w')"
          "n \<le> m" "rx_wf p'" "cur_rx p' = cur_rx q + of_nat n" "rx_bufs p' + rx_given w' = rx_bufs q + rx_given v"
        using Suc.IH [OF q, of "Suc cnt" v] by blast
      then show ?thesis
        using False True idx s c k(1)
        by (intro exI [of _ "Suc n"] exI [of _ p'] exI [of _ w']) (simp add: add.assoc [symmetric])
    next
      case stop: False
      then show ?thesis
        using False idx s c k(1) q(1) by (intro exI [of _ "Suc 0"] exI [of _ q] exI [of _ v]) simp
    qed
  qed
qed simp

text \<open>
  The receive loop takes at most \<open>limit\<close> descriptors, advances the receive index by the
  number it reports, and loses no buffer: each buffer of the ring is either still in its slot or was
  handed to the stack, exactly once. The case left out, receive time stamps with normal descriptors,
  is \<open>rx_discard_leaks_buffer\<close> below.
\<close>

theorem rx_loop_conserves_buffers:
  assumes "rx_wf p" and "\<not> (hwts_rx_en p \<and> \<not> extend_desc p)"
  shows "\<exists>n p' w'. rx_loop (bench_env ans) ops limit 0 p w = Some (n, p', w') \<and> n \<le> limit \<and> rx_wf p'
     \<and> cur_rx p' = cur_rx p + of_nat n \<and> rx_bufs p' + rx_given w' = rx_bufs p + rx_given w"
  using rx_loop_conserves [OF assms, of ans ops limit 0 w] by simp

theorem rx_loop_conserves_buffers_witness:
  "\<exists>n p' w'. rx_loop (bench_env (\<lambda>_. 0)) (ndesc_ops False) 64 0
       ((bench_priv 3 STMMAC_RING_MODE)\<lparr>rx_skbuff := [0x50, 0x60, 0x70]\<rparr>) bench0 = Some (n, p', w')
     \<and> n \<le> 64 \<and> rx_bufs p' + rx_given w' = {#[I 0x50], [I 0x60], [I 0x70]#}"
  using rx_loop_conserves_buffers [of "(bench_priv 3 STMMAC_RING_MODE)\<lparr>rx_skbuff := [0x50, 0x60, 0x70]\<rparr>"
      "\<lambda>_. 0" "ndesc_ops False" 64 bench0]
  by (simp add: rx_wf_def rx_ring_len_def) (auto simp: rx_bufs_def rx_given_def calls_of_def bench0_def)

text \<open>
  Property C37. With receive time stamps enabled and normal descriptors, a frame whose status is bad
  costs its buffer: the slot is cleared and the DMA mapping undone, but the buffer is neither handed
  to the stack nor freed.
\<close>

theorem rx_discard_leaks_buffer:
  assumes "hwts_rx_en p" and "\<not> extend_desc p" and "i < length (rx_skbuff p)" and "rx_skbuff p ! i \<noteq> 0"
    and "fst (rx_status ops (nd_stats (dev p)) (xstats p) (rx_desc p i)) = discard_frame"
    and "rx_extended_status ops = None"
  shows "\<exists>p' w'. rx_entry (bench_env ans) ops i p w = (True, p', w') \<and> rx_skbuff p' ! i = 0
    \<and> add_mset [I (rx_skbuff p ! i)] (rx_bufs p') = rx_bufs p \<and> rx_given w' = rx_given w
    \<and> b_calls w' = K ''dma_unmap_single'' [I (uint (rx_skbuff_dma p ! i)), I (uint (dma_buf_sz p))] # b_calls w"
  using assms
  by (auto simp: rx_entry_def Let_def upd_stats_def upd_xstats_def rx_given_def split: prod.splits
      intro!: rx_bufs_take)

lemma bench_discard:
  "fst (rx_status (ndesc_ops vlan) st xs zero_desc) = discard_frame" "rx_extended_status (ndesc_ops vlan) = None"
  by (simp_all add: ops_simps ndesc_get_rx_status_def ndesc_simps zero_desc_def fld_get.simps)

theorem rx_discard_leaks_buffer_witness:
  "\<exists>p' w'. rx_entry (bench_env (\<lambda>_. 0)) (ndesc_ops False) 1 ((bench_priv 3 STMMAC_RING_MODE)
       \<lparr>rx_skbuff := [0x50, 0x60, 0x70], hwts_rx_en := True\<rparr>) bench0 = (True, p', w')
     \<and> rx_skbuff p' ! 1 = 0 \<and> rx_given w' = rx_given bench0"
  using rx_discard_leaks_buffer [of "(bench_priv 3 STMMAC_RING_MODE)
      \<lparr>rx_skbuff := [0x50, 0x60, 0x70], hwts_rx_en := True\<rparr>" 1 "ndesc_ops False" "\<lambda>_. 0" bench0]
  by (simp add: bench_discard rx_desc_def) blast

section \<open>The polled receive\<close>

declare peek_loop.simps [simp del]

lemma peek_frame_miss:
  assumes "\<And>s u. kval e ''eth_type_trans'' [I s] u \<noteq> 0xa488" and "rx_skbuff p ! i \<noteq> 0"
  shows "\<exists>w'. peek_frame e ops len status i d p w = Some (False, w')"
  using assms by (simp add: peek_frame_def Let_def kcall_eq)

lemma peek_loop_diverges:
  assumes "peek_loop e ops len limit cnt i p w = Some r"
  shows "\<not> (cnt < limit \<and> rx_wf p
    \<and> i \<in> {rx_slot p (cur_rx p), rx_slot p (cur_rx p + 1)}
    \<and> (\<forall>j\<in>{rx_slot p (cur_rx p), rx_slot p (cur_rx p + 1)}. get_rx_owner ops (rx_desc p j) = 0 \<and> rx_skbuff p ! j \<noteq> 0)
    \<and> (\<forall>s u. kval e ''eth_type_trans'' [I s] u \<noteq> 0xa488))"
  (is "\<not> ?stuck e ops limit cnt i p")
proof (rule peek_loop.raw_induct [OF _ assms])
  fix f e ops len limit cnt i p w r
  assume ih: "\<And>e ops len limit cnt i p w r. f e ops len limit cnt i p w = Some r \<Longrightarrow> \<not> ?stuck e ops limit cnt i p"
    and r: "(if cnt \<ge> limit then Some (cnt, p, w)
      else if i \<ge> rx_ring_len p then None
      else if get_rx_owner ops (rx_desc p i) \<noteq> 0 then Some (cnt, p, w)
      else
        (let next_entry = unat ((cur_rx p + 1) mod dma_rx_size p);
             d = rx_desc p i;
             (status, st, xs) = rx_status ops (nd_stats (dev p)) (xstats p) d;
             (st, xs) = (case rx_extended_status ops of
                  Some f \<Rightarrow> if extend_desc p then f st xs (dma_erx p ! i) else (st, xs)
                | None \<Rightarrow> (st, xs));
             p = upd_xstats (\<lambda>_. xs) (upd_stats (\<lambda>_. st) p)
         in if status = discard_frame then f e ops len limit cnt next_entry p w
            else
              (case peek_frame e ops len status i d p w of
                 None \<Rightarrow> Some (cnt, upd_stats (rx_dropped_update inc) p, w)
               | Some (hit, w) \<Rightarrow>
                   f e ops len limit (if hit then Suc cnt else cnt) next_entry p w))) = Some r"
  show "\<not> ?stuck e ops limit cnt i p"
  proof
    assume s: "?stuck e ops limit cnt i p"
    have own: "get_rx_owner ops (rx_desc p i) = 0" "rx_skbuff p ! i \<noteq> 0" using s by auto
    obtain status st0 xs0 where a: "rx_status ops (nd_stats (dev p)) (xstats p) (rx_desc p i) = (status, st0, xs0)"
      by (metis prod_cases3)
    obtain st xs where b: "(case rx_extended_status ops of
                  Some f \<Rightarrow> if extend_desc p then f st0 xs0 (dma_erx p ! i) else (st0, xs0)
                | None \<Rightarrow> (st0, xs0)) = (st, xs)" by fastforce
    let ?q = "upd_xstats (\<lambda>_. xs) (upd_stats (\<lambda>_. st) p)"
    have q: "?stuck e ops limit cnt (rx_slot p (cur_rx p + 1)) ?q"
      using s by (simp add: upd_xstats_def upd_stats_def rx_wf_def rx_slot_def)
    have len: "i < rx_ring_len p" using s rx_slot_less [of p] by (auto simp: rx_wf_def)
    have "rx_skbuff ?q ! i \<noteq> 0" using own by (simp add: upd_xstats_def upd_stats_def)
    then obtain w' where m: "peek_frame e ops len status i (rx_desc p i) ?q w = Some (False, w')"
      using peek_frame_miss [of e ?q i ops len status "rx_desc p i" w] s by blast
    have "\<not> limit \<le> cnt" using s by simp
    then have "f e ops len limit cnt (rx_slot p (cur_rx p + 1)) ?q (if status = discard_frame then w else w') = Some r"
      using r len own(1) by (simp add: a b m rx_slot_def Let_def split: if_splits)
    then show False using ih q by blast
  qed
qed


lemma bench_rx_owner: "get_rx_owner (ndesc_ops vlan) zero_desc = 0"
  by (simp add: ndesc_simps zero_desc_def fld_get.simps)


end
