(* ===== verification/Stmmac_Irq.thy ===== *)
theory Stmmac_Irq
  imports Tx_Ring_Props Rx_Ring_Props
begin

text \<open>
  The interrupt side of \<open>stmmac_main.c\<close>: the core interrupt with its low-power flags, the two DMA
  interrupt handlers (the one that schedules NAPI and the one in use, which works on the rings at
  once), the NAPI poll, the timer of the transmit coalescing and the watchdog. The second section
  composes them with the interrupt routines of the cores and the rings.
\<close>

section \<open>The handlers\<close>

definition IRQ_NONE :: int where [hw_consts]: "IRQ_NONE = 0"
definition IRQ_HANDLED :: int where [hw_consts]: "IRQ_HANDLED = 1"

definition stmmac_enable_dma_irq :: "'w env \<Rightarrow> 'w priv \<Rightarrow> 'w \<Rightarrow> 'w" where
  "stmmac_enable_dma_irq e p w = enable_dma_irq (hw_dma (hw p)) e (ioaddr p) w"

definition stmmac_disable_dma_irq :: "'w env \<Rightarrow> 'w priv \<Rightarrow> 'w \<Rightarrow> 'w" where
  "stmmac_disable_dma_irq e p w = disable_dma_irq (hw_dma (hw p)) e (ioaddr p) w"

text \<open>
  The end both DMA handlers share: an underflow raises the threshold, up to 320, unless the core
  stores and forwards; only a status that is nothing but a hard error restarts the transmission.
\<close>

definition dma_tx_error :: "'w env \<Rightarrow> u32 \<Rightarrow> 'w priv \<Rightarrow> 'w \<Rightarrow> ('w priv \<times> 'w) option" where
  "dma_tx_error e status p w =
     (if tst status tx_hard_error_bump_tc then
        (let tc = m_tc (glob p)
         in if tc \<noteq> uint SF_DMA_MODE \<and> tc \<le> 256 then
              (let p = p\<lparr>glob := (glob p)\<lparr>m_tc := tc + 64\<rparr>\<rparr>;
                   w = dma_mode (hw_dma (hw p)) e (ioaddr p) (tc + 64) (uint SF_DMA_MODE) w
               in Some (upd_xstats (threshold_update (\<lambda>_. word_of_int (tc + 64))) p, w))
            else Some (p, w))
      else if status = tx_hard_error then stmmac_tx_err e p w
      else Some (p, w))"

definition stmmac_dma_interrupt :: "'w env \<Rightarrow> 'w priv \<Rightarrow> 'w \<Rightarrow> ('w priv \<times> 'w) option" where
  "stmmac_dma_interrupt e p w =
     (let (status, xs, w) = dma_interrupt (hw_dma (hw p)) e (ioaddr p) (xstats p) w;
          p = upd_xstats (\<lambda>_. xs) p;
          w = (if tst status handle_rx \<or> tst status handle_tx
               then (let (prep, w) = kcall e ''napi_schedule_prep'' [] w
                     in if prep \<noteq> 0 then kdo e ''__napi_schedule'' [] (stmmac_disable_dma_irq e p w) else w)
               else w)
      in dma_tx_error e status p w)"

definition stmmac_direct_dma_interrupt :: "'w ext \<Rightarrow> 'w env \<Rightarrow> 'w priv \<Rightarrow> 'w \<Rightarrow> ('w priv \<times> 'w) option" where
  "stmmac_direct_dma_interrupt x e p w = do {
     let (status, xs, w) = dma_interrupt (hw_dma (hw p)) e (ioaddr p) (xstats p) w;
     let p = upd_xstats (\<lambda>_. xs) p;
     (p, w) \<leftarrow> (if tst status handle_rx \<or> tst status handle_tx
        then do {
          let w = stmmac_disable_dma_irq e p w;
          (p, w) \<leftarrow> stmmac_tx_clean x e p w;
          (n, p, w) \<leftarrow> stmmac_rx x e 64 p w;
          Some (p, stmmac_enable_dma_irq e p w) }
        else Some (p, w));
     dma_tx_error e status p w }"

definition stmmac_poll :: "'w ext \<Rightarrow> 'w env \<Rightarrow> nat \<Rightarrow> 'w priv \<Rightarrow> 'w \<Rightarrow> (nat \<times> 'w priv \<times> 'w) option" where
  "stmmac_poll x e budget p w = do {
     let p = upd_xstats (napi_poll_update inc) p;
     (p, w) \<leftarrow> stmmac_tx_clean x e p w;
     (work_done, p, w) \<leftarrow> stmmac_rx x e budget p w;
     if work_done < budget
     then Some (work_done, p, stmmac_enable_dma_irq e p (kdo e ''napi_complete'' [] w))
     else Some (work_done, p, w) }"

definition stmmac_tx_timer :: "'w ext \<Rightarrow> 'w env \<Rightarrow> 'w priv \<Rightarrow> 'w \<Rightarrow> ('w priv \<times> 'w) option" where
  "stmmac_tx_timer x e p w = stmmac_tx_clean x e p w"

definition stmmac_tx_timeout :: "'w env \<Rightarrow> 'w priv \<Rightarrow> 'w \<Rightarrow> ('w priv \<times> 'w) option" where
  "stmmac_tx_timeout e p w = stmmac_tx_err e p w"

text \<open>The main interrupt; the device pointer may be \<open>NULL\<close>.\<close>

definition core_irq :: "'w env \<Rightarrow> 'w priv \<Rightarrow> 'w \<Rightarrow> 'w priv \<times> 'w" where
  "core_irq e p w =
     (if pl_has_gmac (plat p) then
        (let (status, xs, w) = host_irq_status (hw_mac (hw p)) e (base_addr (dev p)) (xstats p) w;
             p = upd_xstats (\<lambda>_. xs) p;
             p = doif (tst status CORE_IRQ_TX_PATH_IN_LPI_MODE) (tx_path_in_lpi_mode_update (\<lambda>_. True)) p;
             p = doif (tst status CORE_IRQ_TX_PATH_EXIT_LPI_MODE) (tx_path_in_lpi_mode_update (\<lambda>_. False)) p
         in (p, w))
      else (p, w))"

definition stmmac_interrupt ::
    "'w ext \<Rightarrow> 'w env \<Rightarrow> 'w priv option \<Rightarrow> 'w \<Rightarrow> (int \<times> 'w priv option \<times> 'w) option" where
  "stmmac_interrupt x e ndev w =
     (case ndev of None \<Rightarrow> Some (IRQ_NONE, None, w)
      | Some p \<Rightarrow>
          (let (p, w) = core_irq e p w
           in case stmmac_direct_dma_interrupt x e p w of None \<Rightarrow> None
              | Some (p, w) \<Rightarrow> Some (IRQ_HANDLED, Some p, w)))"

definition stmmac_poll_controller ::
    "'w ext \<Rightarrow> 'w env \<Rightarrow> 'w priv \<Rightarrow> 'w \<Rightarrow> ('w priv option \<times> 'w) option" where
  "stmmac_poll_controller x e p w = do {
     let w = kdo e ''disable_irq'' [I (nd_irq (dev p))] w;
     (ret, p', w) \<leftarrow> stmmac_interrupt x e (Some p) w;
     Some (p', kdo e ''enable_irq'' [I (nd_irq (dev p))] w) }"

end
