(* ===== verification/Irq_Props.thy ===== *)
theory Irq_Props
  imports Stmmac_Irq
begin

text \<open>
  The properties of the interrupt side. Reclaiming leaves the receive half of the state alone and
  receiving the transmit half, so the refinement of the transmit queue and the contract of the
  receive ring compose to what one interrupt, or one poll, does to both rings (\<open>serve_rings\<close>).
\<close>

declare tx_clean_loop.simps [simp del] rx_refill_loop.simps [simp del]

section \<open>The two halves of the state\<close>

text \<open>
  What the receive path leaves alone, and what the reclaiming of sent frames leaves alone: the
  other ring, and the configuration both use.
\<close>

definition tx_side :: "'w priv \<Rightarrow> _" where
  "tx_side p = (cur_tx p, dirty_tx p, dma_tx_size p, tx_skbuff p, tx_skbuff_dma p, dma_tx p, dma_etx p, extend_desc p,
     hw p, priv.mode p, hwts_tx_en p, glob p, ioaddr p, plat p, tx_path_in_lpi_mode p, eee_enabled p, eee_active p)"

definition rx_side :: "'w priv \<Rightarrow> _" where
  "rx_side p = (cur_rx p, dirty_rx p, dma_rx_size p, rx_skbuff p, rx_skbuff_dma p, dma_rx p, dma_erx p, extend_desc p,
     hw p, hwts_rx_en p, glob p, ioaddr p, plat p, tx_path_in_lpi_mode p, eee_enabled p, eee_active p)"

lemma tx_side_stats [simp]: "tx_side (upd_stats f p) = tx_side p" "tx_side (upd_xstats g p) = tx_side p"
  by (simp_all add: tx_side_def upd_stats_def upd_xstats_def)

lemma rx_side_stats [simp]: "rx_side (upd_stats f p) = rx_side p" "rx_side (upd_xstats g p) = rx_side p"
  by (simp_all add: rx_side_def upd_stats_def upd_xstats_def)

lemma rx_side_upd [simp]:
  "rx_side (p\<lparr>tx_skbuff := a\<rparr>) = rx_side p" "rx_side (p\<lparr>tx_skbuff_dma := b\<rparr>) = rx_side p"
  "rx_side (p\<lparr>dirty_tx := c\<rparr>) = rx_side p" "rx_side (p\<lparr>cur_tx := d\<rparr>) = rx_side p"
  "rx_side (p\<lparr>tx_count_frames := n\<rparr>) = rx_side p"
  by (simp_all add: rx_side_def)

lemma tx_side_queue:
  assumes "tx_side p' = tx_side p"
  shows "tx_queue ops p' = tx_queue ops p" "tx_wf p' = tx_wf p" "tx_same_ring q p' = tx_same_ring q p"
  using assms
  by (simp_all add: tx_side_def tx_queue_def used_def slot_def tx_flight_def tx_desc_def tx_wf_def ring_continuous_def
      tx_ring_len_def tx_same_ring_def)

lemma rx_side_wf: "rx_side p' = rx_side p \<Longrightarrow> rx_wf p' = rx_wf p"
  by (simp add: rx_side_def rx_wf_def rx_ring_len_def)

lemma set_rx_desc_tx_side [simp]: "tx_side (set_rx_desc i d p) = tx_side p"
  by (simp add: tx_side_def set_rx_desc_def)

lemma set_tx_desc_rx_side [simp]: "rx_side (set_tx_desc i d p) = rx_side p"
  by (simp add: rx_side_def set_tx_desc_def)

lemma rx_deliver_tx_side: "tx_side (fst (snd (rx_deliver e ops st i d p w))) = tx_side p"
  by (simp add: rx_deliver_def Let_def) (simp add: tx_side_def)

lemma rx_entry_shape:
  "\<exists>status st xs. rx_entry e ops i p w =
     (let q = upd_xstats (\<lambda>_. xs) (upd_stats (\<lambda>_. st) (p\<lparr>cur_rx := cur_rx p + 1\<rparr>))
      in if status = discard_frame then
           (let q = upd_stats (rx_errors_update inc) q
            in if hwts_rx_en q \<and> \<not> extend_desc q
               then (True, q\<lparr>rx_skbuff := (rx_skbuff q)[i := 0]\<rparr>,
                     kdo e ''dma_unmap_single'' [I (uint (rx_skbuff_dma q ! i)), I (uint (dma_buf_sz q))] w)
               else (True, q, w))
         else rx_deliver e ops status i (rx_desc p i) q w)"
proof -
  obtain status st0 xs0 where a: "rx_status ops (nd_stats (dev p)) (xstats p) (rx_desc p i) = (status, st0, xs0)"
    by (metis prod_cases3)
  let ?p = "p\<lparr>cur_rx := cur_rx p + 1\<rparr>"
  obtain st xs where b: "(case rx_extended_status ops of
                Some f \<Rightarrow> if extend_desc ?p then f st0 xs0 (dma_erx ?p ! i) else (st0, xs0)
              | None \<Rightarrow> (st0, xs0)) = (st, xs)" by fastforce
  show ?thesis
    by (rule exI [of _ status], rule exI [of _ st], rule exI [of _ xs])
      (use a b in \<open>simp add: rx_entry_def Let_def\<close>)
qed

lemma rx_entry_tx_side:
  assumes "rx_entry e ops i p w = (go, p', w')"
  shows "tx_side p' = tx_side p"
proof -
  have c: "tx_side (p\<lparr>cur_rx := c\<rparr>) = tx_side p" "tx_side (q\<lparr>rx_skbuff := s\<rparr>) = tx_side q" for c s and q :: "'a priv"
    by (simp_all add: tx_side_def)
  from rx_entry_shape [of e ops i p w] obtain status st xs where
    "rx_entry e ops i p w =
     (let q = upd_xstats (\<lambda>_. xs) (upd_stats (\<lambda>_. st) (p\<lparr>cur_rx := cur_rx p + 1\<rparr>))
      in if status = discard_frame then
           (let q = upd_stats (rx_errors_update inc) q
            in if hwts_rx_en q \<and> \<not> extend_desc q
               then (True, q\<lparr>rx_skbuff := (rx_skbuff q)[i := 0]\<rparr>,
                     kdo e ''dma_unmap_single'' [I (uint (rx_skbuff_dma q ! i)), I (uint (dma_buf_sz q))] w)
               else (True, q, w))
         else rx_deliver e ops status i (rx_desc p i) q w)" by blast
  then have "tx_side (fst (snd (rx_entry e ops i p w))) = tx_side p"
    by (simp add: Let_def c rx_deliver_tx_side)
  then show ?thesis by (simp add: assms)
qed

lemma rx_loop_tx_side:
  "rx_loop e ops n c p w = Some (k, p', w') \<Longrightarrow> tx_side p' = tx_side p"
proof (induction n arbitrary: c p w)
  case (Suc n)
  then show ?case
    by (auto split: option.splits if_splits prod.splits dest!: rx_entry_tx_side)
qed simp

lemma rx_refill_entry_tx_side:
  "rx_refill_entry x e ops i p w = Some (ok, p', w') \<Longrightarrow> tx_side p' = tx_side p"
  by (auto simp: rx_refill_entry_def Let_def bind_eq_Some_conv tx_side_def set_rx_desc_def split: if_splits prod.splits)

lemma rx_refill_loop_tx_side:
  "rx_refill_loop x e ops p w = Some (p', w') \<Longrightarrow> tx_side p' = tx_side p"
proof (induction x e ops p w arbitrary: p' w' rule: rx_refill_loop.induct)
  case (1 x e ops p w)
  show ?case
  proof (cases "p' = p")
    case False
    then obtain i ok q v where d: "cur_rx p - dirty_rx p \<noteq> 0"
      and i: "ring_index (rx_ring_len p) (dirty_rx p) (dma_rx_size p) = Some i"
      and s: "rx_refill_entry x e ops i p w = Some (ok, q, v)"
      and r: "(if ok then rx_refill_loop x e ops q v else Some (q, v)) = Some (p', w')"
      using 1(2) by (auto simp: rx_refill_loop.simps [of x e ops p w] split: if_splits option.splits)
    show ?thesis using 1(1) [OF d i s] r rx_refill_entry_tx_side [OF s] by (auto split: if_splits)
  qed simp
qed

lemma stmmac_rx_tx_side:
  "stmmac_rx x e n p w = Some (k, p', w') \<Longrightarrow> tx_side p' = tx_side p"
  by (auto simp: stmmac_rx_def stmmac_rx_refill_def bind_eq_Some_conv dest!: rx_loop_tx_side rx_refill_loop_tx_side)

lemma tx_account_rx_side [simp]: "rx_side (tx_account ops d p) = rx_side p"
  by (simp add: tx_account_def Let_def split: prod.splits)

lemma tx_clean_entry_rx_side:
  "tx_clean_entry x e ops i p w = Some (p', w') \<Longrightarrow> rx_side p' = rx_side p"
proof -
  have [simp]: "rx_side (p\<lparr>tx_skbuff := a\<rparr>) = rx_side p" "rx_side (p\<lparr>tx_skbuff_dma := b\<rparr>) = rx_side p"
    "rx_side (p\<lparr>dirty_tx := c\<rparr>) = rx_side p" for a b c and p :: "'a priv"
    by (simp_all add: rx_side_def)
  assume "tx_clean_entry x e ops i p w = Some (p', w')"
  then show ?thesis
    by (auto simp: tx_clean_entry_def Let_def bind_eq_Some_conv split: if_splits)
qed

lemma tx_clean_loop_rx_side:
  "tx_clean_loop x e ops p w = Some (p', w') \<Longrightarrow> rx_side p' = rx_side p"
proof (induction x e ops p w arbitrary: p' w' rule: tx_clean_loop.induct)
  case (1 x e ops p w)
  show ?case
  proof (cases "p' = p")
    case False
    then obtain i q v where d: "dirty_tx p \<noteq> cur_tx p"
      and i: "ring_index (tx_ring_len p) (dirty_tx p) (dma_tx_size p) = Some i"
      and o: "get_tx_owner ops (tx_desc p i) = 0" and s: "tx_clean_entry x e ops i p w = Some (q, v)"
      and r: "tx_clean_loop x e ops q v = Some (p', w')"
      using 1(2) by (auto simp: tx_clean_loop.simps [of x e ops p w] split: if_splits option.splits)
    show ?thesis using 1(1) [OF d i _ s _ r] o tx_clean_entry_rx_side [OF s] by simp
  qed simp
qed

lemma stmmac_tx_clean_rx_side:
  assumes "stmmac_tx_clean x e p w = Some (p', w')"
  shows "rx_side p' = rx_side p"
  using assms
  by (auto simp: stmmac_tx_clean_def bind_eq_Some_conv Let_def split: if_splits dest!: tx_clean_loop_rx_side)

lemma stmmac_tx_clean_xside:
  assumes "stmmac_tx_clean x e p w = Some (p', w')"
  shows "glob p' = glob p" "hw p' = hw p" "ioaddr p' = ioaddr p" "rx_wf p' = rx_wf p" "cur_rx p' = cur_rx p"
    "hwts_rx_en p' = hwts_rx_en p" "extend_desc p' = extend_desc p"
  using stmmac_tx_clean_rx_side [OF assms] rx_side_wf [of p' p] by (simp_all add: rx_side_def)

section \<open>Receiving in an arbitrary world\<close>

lemma rx_loop_total:
  "rx_wf p \<Longrightarrow> \<exists>n p' w'. rx_loop e ops limit c p w = Some (c + n, p', w') \<and> n \<le> limit
     \<and> rx_wf p' \<and> cur_rx p' = cur_rx p + of_nat n"
proof (induction limit arbitrary: c p w)
  case (Suc m)
  note idx = rx_ring_index [OF Suc.prems, of "cur_rx p"]
  show ?case
  proof (cases "get_rx_owner ops (rx_desc p (rx_slot p (cur_rx p))) \<noteq> 0")
    case True
    then show ?thesis using idx Suc.prems by (intro exI [of _ 0]) simp
  next
    case False
    obtain go q v where s: "rx_entry e ops (rx_slot p (cur_rx p)) p w = (go, q, v)"
      by (metis prod_cases3)
    note k = rx_entry_keeps [OF s]
    have q: "rx_wf q" using Suc.prems k by (simp add: rx_wf_def)
    show ?thesis
    proof (cases go)
      case True
      obtain n p' w' where r: "rx_loop e ops m (Suc c) q v = Some (Suc c + n, p', w')"
          "n \<le> m" "rx_wf p'" "cur_rx p' = cur_rx q + of_nat n"
        using Suc.IH [OF q, of "Suc c" v] by blast
      then show ?thesis
        using False True idx s k(1)
        by (intro exI [of _ "Suc n"] exI [of _ p'] exI [of _ w']) (simp add: add.assoc [symmetric])
    next
      case stop: False
      then show ?thesis
        using False idx s k(1) q by (intro exI [of _ "Suc 0"] exI [of _ q] exI [of _ v]) simp
    qed
  qed
qed simp

lemma stmmac_rx_serves:
  assumes "rx_wf p" and "hw_desc (hw p) = Some (ndesc_ops vlan)" and "hw_ring (hw p)"
  shows "\<exists>n p' w'. stmmac_rx x e limit p w = Some (n, p', w') \<and> n \<le> limit \<and> rx_wf p'
    \<and> cur_rx p' = cur_rx p + of_nat n \<and> tx_side p' = tx_side p
    \<and> ((\<forall>as u. kval e ''netdev_alloc_skb_ip_align'' as u \<noteq> 0) \<longrightarrow> dirty_rx p' = cur_rx p')"
proof -
  obtain n q v where l: "rx_loop e (ndesc_ops vlan) limit 0 p w = Some (n, q, v)" "n \<le> limit" "rx_wf q"
    "cur_rx q = cur_rx p + of_nat n"
    using rx_loop_total [OF assms(1), of e "ndesc_ops vlan" limit 0 w] by auto
  note q = rx_loop_tx_side [OF l(1)]
  then have hq: "hw q = hw p" by (simp add: tx_side_def)
  have "hw_ring (hw q)" using hq assms(3) by simp
  from nd_rx.refill_loop_step [OF l(3) this, of x e vlan v] obtain r u where
    r: "rx_refill_loop x e (ndesc_ops vlan) q v = Some (r, u)" "rx_wf r" "cur_rx r = cur_rx q"
      "(\<forall>as u. kval e ''netdev_alloc_skb_ip_align'' as u \<noteq> 0) \<longrightarrow> dirty_rx r = cur_rx q" by blast
  let ?r = "upd_xstats (rx_pkt_n_update (\<lambda>m. m + of_nat n)) r"
  have "stmmac_rx x e limit p w = Some (n, ?r, u)"
    using l(1) r(1) assms(2) hq by (simp add: stmmac_rx_def stmmac_rx_refill_def)
  moreover have "tx_side ?r = tx_side p" using rx_refill_loop_tx_side [OF r(1)] q by simp
  moreover have "rx_wf ?r" using r(2) rx_side_wf [of ?r r] by simp
  moreover have "cur_rx ?r = cur_rx r \<and> dirty_rx ?r = dirty_rx r" by (simp add: upd_xstats_def)
  ultimately show ?thesis using l(2, 4) r(3, 4) by auto
qed

section \<open>Serving both rings\<close>

text \<open>What the direct interrupt and the poll have in common: reclaim, then receive at most \<open>limit\<close> frames.\<close>

definition rings_served :: "bool \<Rightarrow> nat \<Rightarrow> 'w env \<Rightarrow> 'w priv \<Rightarrow> nat \<Rightarrow> 'w priv \<Rightarrow> bool" where
  "rings_served vlan limit e p n p' \<longleftrightarrow> n \<le> limit \<and> tx_wf p' \<and> rx_wf p' \<and> tx_same_ring p p'
     \<and> tx_queue (ndesc_ops vlan) p' = dropWhile (\<lambda>(_, _, own). \<not> own) (tx_queue (ndesc_ops vlan) p)
     \<and> cur_tx p' = cur_tx p \<and> cur_rx p' = cur_rx p + of_nat n
     \<and> ((\<forall>as u. kval e ''netdev_alloc_skb_ip_align'' as u \<noteq> 0) \<longrightarrow> dirty_rx p' = cur_rx p')"

definition ring_driver :: "bool \<Rightarrow> 'w priv \<Rightarrow> bool" where
  "ring_driver vlan p \<longleftrightarrow> tx_wf p \<and> rx_wf p \<and> hw_desc (hw p) = Some (ndesc_ops vlan) \<and> hw_ring (hw p)
     \<and> \<not> hwts_tx_en p \<and> set_eee_mode (hw_mac (hw p)) \<noteq> None"

lemma ring_driver_stats [simp]: "ring_driver vlan (upd_xstats f p) = ring_driver vlan p"
  by (simp add: ring_driver_def tx_wf_def ring_continuous_def used_def rx_wf_def upd_xstats_def tx_ring_len_def
      rx_ring_len_def)

lemma rings_served_stats [simp]:
  "rings_served vlan l e (upd_xstats f p) n p' = rings_served vlan l e p n p'"
  "rings_served vlan l e p n (upd_xstats f p') = rings_served vlan l e p n p'"
  by (simp_all add: rings_served_def tx_wf_def ring_continuous_def used_def rx_wf_def upd_xstats_def tx_ring_len_def
      rx_ring_len_def tx_same_ring_def tx_queue_def slot_def tx_flight_def tx_desc_def)

lemma rings_served_glob [simp]:
  "rings_served vlan l e p n (p'\<lparr>glob := g\<rparr>) = rings_served vlan l e p n p'"
  by (simp add: rings_served_def tx_wf_def ring_continuous_def used_def rx_wf_def tx_ring_len_def
      rx_ring_len_def tx_same_ring_def tx_queue_def slot_def tx_flight_def tx_desc_def)

lemma serve_rings:
  assumes "ring_driver vlan p"
  shows "\<exists>q v n p' w'. stmmac_tx_clean x e p w = Some (q, v) \<and> stmmac_rx x e limit q v = Some (n, p', w')
    \<and> rings_served vlan limit e p n p' \<and> glob p' = glob p \<and> hw p' = hw p \<and> ioaddr p' = ioaddr p"
proof -
  have a: "tx_wf p" "hw_desc (hw p) = Some (ndesc_ops vlan)" "hw_ring (hw p)" "\<not> hwts_tx_en p"
    "set_eee_mode (hw_mac (hw p)) \<noteq> None" "rx_wf p" using assms by (simp_all add: ring_driver_def)
  obtain q v where c: "stmmac_tx_clean x e p w = Some (q, v)" "tx_wf q" "tx_same_ring p q" "cur_tx q = cur_tx p"
    "tx_queue (ndesc_ops vlan) q = dropWhile (\<lambda>(_, _, own). \<not> own) (tx_queue (ndesc_ops vlan) p)"
    using tx_clean_refines [OF a(1-5), of x e w] by blast
  note q = stmmac_tx_clean_xside [OF c(1)]
  have "rx_wf q" "hw_desc (hw q) = Some (ndesc_ops vlan)" "hw_ring (hw q)" using a q by simp_all
  from stmmac_rx_serves [OF this, of x e limit v] obtain n p' w' where
    r: "stmmac_rx x e limit q v = Some (n, p', w')" "n \<le> limit" "rx_wf p'" "cur_rx p' = cur_rx q + of_nat n"
      "tx_side p' = tx_side q"
      "(\<forall>as u. kval e ''netdev_alloc_skb_ip_align'' as u \<noteq> 0) \<longrightarrow> dirty_rx p' = cur_rx p'" by blast
  have "cur_tx p' = cur_tx q \<and> glob p' = glob q \<and> hw p' = hw q \<and> ioaddr p' = ioaddr q"
    using r(5) by (simp add: tx_side_def)
  with c q r show ?thesis
    by (intro exI [of _ q] exI [of _ v] exI [of _ n] exI [of _ p'] exI [of _ w'])
      (simp add: rings_served_def tx_side_queue [OF r(5)])
qed

lemma serve_rings_direct:
  assumes "ring_driver vlan p" and "dma_interrupt (hw_dma (hw p)) e (ioaddr p) (xstats p) w = (status, xs, w1)"
    and "tst status handle_rx \<or> tst status handle_tx"
  shows "\<exists>q n p' w'. stmmac_direct_dma_interrupt x e p w = Some (p', w') \<and> rings_served vlan 64 e p n p'
    \<and> glob q = glob p \<and> (\<exists>v. dma_tx_error e status q v = Some (p', w'))"
proof -
  let ?p = "upd_xstats (\<lambda>_. xs) p"
  have h: "status \<noteq> tx_hard_error" using assms(3) by (auto simp: tst_def hw_consts)
  have "ring_driver vlan ?p" using assms(1) by simp
  from serve_rings [OF this, of x e "stmmac_disable_dma_irq e ?p w1" 64] obtain q v n r u where
    s: "stmmac_tx_clean x e ?p (stmmac_disable_dma_irq e ?p w1) = Some (q, v)" "stmmac_rx x e 64 q v = Some (n, r, u)"
      "rings_served vlan 64 e ?p n r" "glob r = glob ?p" by blast
  let ?u = "stmmac_enable_dma_irq e r u"
  have d: "stmmac_direct_dma_interrupt x e p w = dma_tx_error e status r ?u"
    using assms(2, 3) s(1, 2) by (auto simp: stmmac_direct_dma_interrupt_def)
  have "\<exists>p' w'. dma_tx_error e status r ?u = Some (p', w') \<and> rings_served vlan 64 e p n p'"
    using s(3) h by (simp add: dma_tx_error_def Let_def)
  moreover have "glob r = glob p" using s(4) by (simp add: upd_xstats_def)
  ultimately show ?thesis using d by metis
qed


lemma bench_ring_driver:
  "length fs < n \<Longrightarrow> n < 2 ^ 32 \<Longrightarrow> ring_driver False (bench_load fs (bench_priv n STMMAC_RING_MODE))"
  using bench_load_wf [of fs n STMMAC_RING_MODE]
  by (simp add: ring_driver_def dwmac1000_ops_def) (simp add: rx_wf_def rx_ring_len_def tx_wf_def bench_load_def)


text \<open>
  The NAPI poll never crashes, stays within its budget and serves both rings, and it
  enables the DMA interrupts again, after \<open>napi_complete\<close>, exactly when the budget was not used up.
\<close>

theorem poll_serves_rings:
  assumes "ring_driver vlan p"
  shows "\<exists>n p' w' v. stmmac_poll x e budget p w = Some (n, p', w') \<and> rings_served vlan budget e p n p'
    \<and> w' = (if n < budget then enable_dma_irq (hw_dma (hw p)) e (ioaddr p) (kdo e ''napi_complete'' [] v) else v)"
proof -
  let ?p = "upd_xstats (napi_poll_update inc) p"
  have "ring_driver vlan ?p" using assms by simp
  from serve_rings [OF this, of x e w budget] obtain q v n r u where
    s: "stmmac_tx_clean x e ?p w = Some (q, v)" "stmmac_rx x e budget q v = Some (n, r, u)"
      "rings_served vlan budget e ?p n r" "hw r = hw ?p" "ioaddr r = ioaddr ?p" by blast
  moreover have "hw ?p = hw p" "ioaddr ?p = ioaddr p" by (simp_all add: upd_xstats_def)
  ultimately show ?thesis
    by (intro exI [of _ n] exI [of _ r] exI [of _ "if n < budget then
        enable_dma_irq (hw_dma (hw p)) e (ioaddr p) (kdo e ''napi_complete'' [] u) else u"] exI [of _ u])
      (simp add: stmmac_poll_def stmmac_enable_dma_irq_def)
qed

theorem poll_serves_rings_witness:
  "\<exists>n p' w'. stmmac_poll bench_ext (bench_env (\<lambda>_. 0)) 16
      (bench_load [(0xa0, False), (0xb0, True)] (bench_priv 5 STMMAC_RING_MODE)) bench0 = Some (n, p', w')
    \<and> n \<le> 16 \<and> tx_queue (ndesc_ops False) p' = [(0xb0, 0x4000, True)]"
  using poll_serves_rings [of False "bench_load [(0xa0, False), (0xb0, True)] (bench_priv 5 STMMAC_RING_MODE)"
      bench_ext "bench_env (\<lambda>_. 0)" 16 bench0]
  by (simp add: bench_ring_driver) (auto simp: rings_served_def bench_load_queue)

section \<open>Errors of the transmitter\<close>

lemma tst_flags_status:
  "tst tx_hard_error handle_tx = False" "tst tx_hard_error handle_rx = False"
  "tst tx_hard_error tx_hard_error_bump_tc = False"
  by (simp_all add: tst_def hw_consts)

lemma tx_err_total:
  assumes "tx_wf p" and "hw_desc (hw p) = Some (ndesc_ops vlan)"
    and "mode p = STMMAC_RING_MODE \<or> mode p = STMMAC_CHAIN_MODE"
  shows "\<exists>p' w'. stmmac_tx_err e p w = Some (p', w') \<and> tx_queue (ndesc_ops vlan) p' = []"
  using assms nd_ring.tx_err_empties [of p vlan e w] nd_chain.tx_err_empties [of p vlan e w] by blast

text \<open>
  When the core reports that the transmitter stopped or that the bus failed, the ring is
  restarted only if no frame event came with it: the handlers compare the status with the hard error
  instead of testing the bit, so together with a sent or a received frame the error is dropped and the
  frames the hardware still owns stay in the queue of a stopped transmitter.
\<close>

theorem hard_error_only_alone:
  assumes "ring_driver vlan p" and "hw_dma (hw p) = dwmac1000_dma_ops"
    and "mode p = STMMAC_RING_MODE \<or> mode p = STMMAC_CHAIN_MODE"
    and "s = peek e (ioaddr p + DMA_STATUS) w"
    and "v = peek e (ioaddr p + DMA_INTR_ENA) (after_read e (ioaddr p + DMA_STATUS) w)"
    and "tst s DMA_STATUS_AIS" and "tst s DMA_STATUS_TPS \<or> tst s DMA_STATUS_FBI"
  shows "\<exists>p' w'. stmmac_direct_dma_interrupt x e p w = Some (p', w') \<and>
    tx_queue (ndesc_ops vlan) p' =
      (if tst s DMA_STATUS_NIS \<and> (tst s DMA_STATUS_TI \<or> tst s DMA_STATUS_RI \<and> tst v DMA_INTR_ENA_RIE)
       then dropWhile (\<lambda>(_, _, own). \<not> own) (tx_queue (ndesc_ops vlan) p) else [])"
proof -
  obtain status xs w1 where r: "dwmac_dma_interrupt e (ioaddr p) (xstats p) w = (status, xs, w1)"
    by (metis prod_cases3)
  have d: "dma_interrupt (hw_dma (hw p)) e (ioaddr p) (xstats p) w = (status, xs, w1)"
    using r assms(2) by (simp add: dwmac1000_dma_ops_def)
  have st: "status = tx_hard_error
      OR (if tst s DMA_STATUS_NIS \<and> tst s DMA_STATUS_RI \<and> tst v DMA_INTR_ENA_RIE then handle_rx else 0)
      OR (if tst s DMA_STATUS_NIS \<and> tst s DMA_STATUS_TI then handle_tx else 0)"
    using dma_interrupt_status [of e "ioaddr p" "xstats p" w] assms(6, 7)
    by (simp add: r assms(4, 5) [symmetric])
  show ?thesis
  proof (cases "tst s DMA_STATUS_NIS \<and> (tst s DMA_STATUS_TI \<or> tst s DMA_STATUS_RI \<and> tst v DMA_INTR_ENA_RIE)")
    case True
    then have "tst status handle_rx \<or> tst status handle_tx"
      by (auto simp: st tst_or_val) (simp_all add: tst_def hw_consts)
    from serve_rings_direct [OF assms(1) d this, of x] True show ?thesis by (auto simp: rings_served_def)
  next
    case False
    then have "status = tx_hard_error" by (auto simp: st)
    moreover have "tx_wf p" "hw_desc (hw p) = Some (ndesc_ops vlan)" using assms(1) by (simp_all add: ring_driver_def)
    moreover have "mode (upd_xstats (\<lambda>_. xs) p) = mode p" "hw (upd_xstats (\<lambda>_. xs) p) = hw p"
      by (simp_all add: upd_xstats_def)
    ultimately show ?thesis
      using tx_err_total [of "upd_xstats (\<lambda>_. xs) p" vlan e w1] False assms(3)
      by (auto simp: stmmac_direct_dma_interrupt_def d dma_tx_error_def tst_flags_status)
  qed
qed

theorem hard_error_only_alone_witness:
  "\<exists>p' w'. stmmac_direct_dma_interrupt bench_ext (bench_env (\<lambda>_. 0))
      (bench_load [(0xb0, True)] (bench_priv 5 STMMAC_RING_MODE))
      (bench0\<lparr>b_regs := (\<lambda>_. 0x18003)\<rparr>) = Some (p', w')
    \<and> tx_queue (ndesc_ops False) p' = [(0xb0, 0x4000, True)]"
  using hard_error_only_alone [of False "bench_load [(0xb0, True)] (bench_priv 5 STMMAC_RING_MODE)" "0x18003"
      "bench_env (\<lambda>_. 0)" "bench0\<lparr>b_regs := (\<lambda>_. 0x18003)\<rparr>" "0x18003" bench_ext]
    bench_ring_driver [of "[(0xb0, True)]" 5]
  by (simp add: bench_load_queue tst_def hw_consts)

lemma glob_stats [simp]: "glob (upd_xstats f p) = glob p" "glob (upd_stats g p) = glob p"
  by (simp_all add: upd_xstats_def upd_stats_def)

lemma tx_err_glob:
  assumes "stmmac_tx_err e p w = Some (p', w')"
  shows "glob p' = glob p"
proof -
  have s: "glob (set_tx_desc i d q) = glob q" for i d and q :: "'a priv" by (simp add: set_tx_desc_def)
  have f: "glob (fst (fold (free_tx_skbuf e ops) ks y)) = glob (fst y)" for ops ks and y :: "'a priv \<times> 'a"
    by (rule fold_keeps [where f = "\<lambda>y. glob (fst y)"])
      (auto simp: free_tx_skbuf_def Let_def split: prod.splits)
  have c: "glob (clear_tx_descriptors ops q) = glob q" for ops and q :: "'a priv"
    unfolding clear_tx_descriptors_def by (rule fold_keeps) (rule s)
  have fr: "dma_free_tx_skbufs e ops q v = Some (r, u) \<Longrightarrow> glob r = glob q" for ops and q r :: "'a priv" and v u
    using f [of ops "[0..<unat (dma_tx_size q)]" "(q, v)"] by (auto simp: dma_free_tx_skbufs_def split: if_splits)
  show ?thesis
    using assms by (auto simp: stmmac_tx_err_def bind_eq_Some_conv Let_def upd_stats_def c dest!: fr)
qed

lemma stmmac_rx_glob: "stmmac_rx x e n p w = Some (k, p', w') \<Longrightarrow> glob p' = glob p"
  using stmmac_rx_tx_side [of x e n p w k p' w'] by (simp add: tx_side_def)

text \<open>
  One interrupt leaves the threshold parameter alone or raises it by 64, the latter only
  while it is at most 256 and the core does not store and forward; so it never passes 320, and the
  value is counted in the statistics.
\<close>

theorem threshold_bounded:
  assumes "stmmac_direct_dma_interrupt x e p w = Some (p', w')"
  shows "m_tc (glob p') = m_tc (glob p)
    \<or> m_tc (glob p) \<le> 256 \<and> m_tc (glob p) \<noteq> uint SF_DMA_MODE \<and> m_tc (glob p') = m_tc (glob p) + 64
      \<and> threshold (xstats p') = word_of_int (m_tc (glob p'))"
proof -
  obtain status xs w1 where d: "dma_interrupt (hw_dma (hw p)) e (ioaddr p) (xstats p) w = (status, xs, w1)"
    by (metis prod_cases3)
  obtain q v where q: "glob q = glob p" and r: "dma_tx_error e status q v = Some (p', w')"
  proof (cases "tst status handle_rx \<or> tst status handle_tx")
    case True
    then obtain r u n r2 u2 where "stmmac_tx_clean x e (upd_xstats (\<lambda>_. xs) p)
        (stmmac_disable_dma_irq e (upd_xstats (\<lambda>_. xs) p) w1) = Some (r, u)"
      "stmmac_rx x e 64 r u = Some (n, r2, u2)"
      "dma_tx_error e status r2 (stmmac_enable_dma_irq e r2 u2) = Some (p', w')"
      using assms by (auto simp: stmmac_direct_dma_interrupt_def d bind_eq_Some_conv Let_def)
    moreover from this have "glob r2 = glob p"
      using stmmac_rx_glob stmmac_tx_clean_xside(1) by (metis glob_stats)
    ultimately show thesis using that by blast
  next
    case False
    then show thesis using that [of "upd_xstats (\<lambda>_. xs) p" w1] assms
      by (simp add: stmmac_direct_dma_interrupt_def d)
  qed
  show ?thesis
    using r q tx_err_glob [of e q v p' w']
    by (auto simp: dma_tx_error_def Let_def upd_xstats_def split: if_splits)
qed

theorem threshold_bounded_witness:
  "\<exists>p' w'. stmmac_direct_dma_interrupt bench_ext (bench_env (\<lambda>_. 0)) (bench_priv 5 STMMAC_RING_MODE)
      (bench0\<lparr>b_regs := (\<lambda>_. 0x8020)\<rparr>) = Some (p', w') \<and> m_tc (glob p') \<le> 128"
proof -
  have "stmmac_direct_dma_interrupt bench_ext (bench_env (\<lambda>_. 0)) (bench_priv 5 STMMAC_RING_MODE)
      (bench0\<lparr>b_regs := (\<lambda>_. 0x8020)\<rparr>) \<noteq> None"
    by (simp add: stmmac_direct_dma_interrupt_def dwmac1000_dma_ops_def dwmac_dma_interrupt_def dma_normal_irq_def
        dma_abnormal_irq_def dma_tx_error_def Let_def tst_def hw_consts)
  then obtain p' w' where r: "stmmac_direct_dma_interrupt bench_ext (bench_env (\<lambda>_. 0)) (bench_priv 5 STMMAC_RING_MODE)
      (bench0\<lparr>b_regs := (\<lambda>_. 0x8020)\<rparr>) = Some (p', w')" by auto
  have "m_tc (glob (bench_priv 5 STMMAC_RING_MODE)) = 64"
    by (simp add: bench_priv_def default_params_def TC_DEFAULT_def)
  with threshold_bounded [OF r] r show ?thesis by auto
qed

section \<open>The low-power flags\<close>

text \<open>
  The low-power state the driver keeps for the transmit path follows the wrong events:
  it is set when the core counted the exit of the transmit path and cleared when it counted the entry
  of the receive path; the entry of the transmit path alone leaves it as it was.
\<close>

theorem core_irq_lpi_state:
  assumes "pl_has_gmac (plat p)" and "hw_mac (hw p) = dwmac1000_ops kl" and "core_irq e p w = (p', w')"
  shows "tx_path_in_lpi_mode p' =
    (irq_rx_path_in_lpi_mode_n (xstats p') = irq_rx_path_in_lpi_mode_n (xstats p) \<and>
     (irq_tx_path_exit_lpi_mode_n (xstats p') \<noteq> irq_tx_path_exit_lpi_mode_n (xstats p) \<or> tx_path_in_lpi_mode p))"
proof -
  obtain ret y u where r: "dwmac1000_irq_status e (base_addr (dev p)) (xstats p) w = (ret, y, u)"
    by (metis prod_cases3)
  let ?p = "upd_xstats (\<lambda>_. y) p"
  have h: "host_irq_status (hw_mac (hw p)) e (base_addr (dev p)) (xstats p) w = (ret, y, u)"
    using assms(2) r by (simp add: dwmac1000_ops_def)
  have p': "p' = doif (tst ret CORE_IRQ_TX_PATH_EXIT_LPI_MODE) (tx_path_in_lpi_mode_update (\<lambda>_. False))
      (doif (tst ret CORE_IRQ_TX_PATH_IN_LPI_MODE) (tx_path_in_lpi_mode_update (\<lambda>_. True)) ?p)"
    using assms(1, 3) by (simp add: core_irq_def h Let_def)
  have "xstats p' = y" "tx_path_in_lpi_mode p' = (\<not> tst ret CORE_IRQ_TX_PATH_EXIT_LPI_MODE \<and>
      (tst ret CORE_IRQ_TX_PATH_IN_LPI_MODE \<or> tx_path_in_lpi_mode p))"
    by (simp_all add: p' doif_def upd_xstats_def)
  then show ?thesis
    using irq_lpi_flags [of e "base_addr (dev p)" "xstats p" w] by (simp add: r)
qed

theorem core_irq_lpi_state_witness:
  "(let (p', w') = core_irq (bench_env (\<lambda>_. 0)) (bench_priv 5 STMMAC_RING_MODE)
      (bench0\<lparr>b_regs := (\<lambda>a. if a = 0x1038 then 0x400 else if a = 0x1030 then 1 else 0)\<rparr>)
    in \<not> tx_path_in_lpi_mode p')"
proof -
  let ?w = "bench0\<lparr>b_regs := (\<lambda>a. if a = 0x1038 then 0x400 else if a = 0x1030 then 1 else 0)\<rparr>"
  obtain p' w' where r: "core_irq (bench_env (\<lambda>_. 0)) (bench_priv 5 STMMAC_RING_MODE) ?w = (p', w')" by fastforce
  have "irq_tx_path_exit_lpi_mode_n (xstats p') = 0"
    using r by (simp add: core_irq_def bench_plat_def bench_dev_def dwmac1000_ops_def dwmac1000_irq_status_def
        dwmac1000_lpi_irq_def Let_def tst_def hw_consts upd_xstats_def zero_xstats_def doif_def bench_priv_sel
        split: if_splits) auto
  then show ?thesis
    using r core_irq_lpi_state [of "bench_priv 5 STMMAC_RING_MODE" bench_crc "bench_env (\<lambda>_. 0)" ?w p' w']
    by (simp add: bench_plat_def zero_xstats_def)
qed

end
