(* ===== verification/Call_Log.thy ===== *)
theory Call_Log
  imports Drv_Env "HOL-Library.Multiset"
begin

text \<open>
  Worlds that can be asked which kernel calls were made. \<open>call_log log e\<close> says that \<open>log\<close> reads off a
  state the calls of \<open>e\<close> with their results, the latest first. The accounts of the buffers are
  functions of such a log: what was allocated, handed to the stack, and freed.
\<close>

section \<open>The log\<close>

type_synonym call_record = "kcall \<times> int"

definition call_log :: "('w \<Rightarrow> call_record list) \<Rightarrow> 'w env \<Rightarrow> bool" where
  "call_log log e \<longleftrightarrow>
     (\<forall>n as w. log (kdo e n as w) = (K n as, kval e n as w) # log w)
     \<and> (\<forall>v a w. log (writel e v a w) = log w) \<and> (\<forall>a w. log (after_read e a w) = log w)"

lemma call_log_laws:
  assumes "call_log log e"
  shows "log (kdo e n as w) = (K n as, kval e n as w) # log w" "log (writel e v a w) = log w"
    "log (after_read e a w) = log w" "log (rmw e a f w) = log w"
  using assms by (simp_all add: call_log_def rmw_unfold)

lemma call_log_eq:
  assumes "call_log log e"
  shows "kcall e n as w = (r, v) \<Longrightarrow> log v = (K n as, r) # log w" "readl e a w = (d, v) \<Longrightarrow> log v = log w"
  using call_log_laws [OF assms] by (auto simp: kcall_eq readl_eq)

section \<open>The accounts of the buffers\<close>

definition buf_names :: "string list" where
  "buf_names = [''dev_kfree_skb'', ''dev_kfree_skb_any'', ''napi_gro_receive'', ''netdev_alloc_skb_ip_align'', ''__netdev_alloc_skb'']"

text \<open>The calls that matter to the accounts.\<close>

primrec buf_log :: "call_record list \<Rightarrow> call_record list" where
  "buf_log [] = []"
| "buf_log (c # l) = (case c of (K n as, r) \<Rightarrow> (if n \<in> set buf_names then [c] else []) @ buf_log l)"

definition call_ptrs :: "string \<Rightarrow> call_record \<Rightarrow> int list" where
  "call_ptrs n c = (case c of (K m as, r) \<Rightarrow> if m = n then (case as of I s # _ \<Rightarrow> [s] | _ \<Rightarrow> []) else [])"

definition call_result :: "string \<Rightarrow> call_record \<Rightarrow> int list" where
  "call_result n c = (case c of (K m as, r) \<Rightarrow> if m = n \<and> r \<noteq> 0 then [r] else [])"

definition frees :: "call_record list \<Rightarrow> int list" where
  "frees l = concat (map (\<lambda>c. call_ptrs ''dev_kfree_skb'' c @ call_ptrs ''dev_kfree_skb_any'' c) l)"

definition given :: "call_record list \<Rightarrow> int list" where
  "given l = concat (map (call_ptrs ''napi_gro_receive'') l)"

definition allocs :: "call_record list \<Rightarrow> int list" where
  "allocs l = concat (map (\<lambda>c. call_result ''netdev_alloc_skb_ip_align'' c @ call_result ''__netdev_alloc_skb'' c) l)"

lemmas account_defs = frees_def given_def allocs_def

lemma accounts_Nil [simp]: "frees [] = []" "given [] = []" "allocs [] = []"
  by (simp_all add: account_defs)

lemma accounts_Cons [simp]:
  "frees ((K n as, r) # l) = (if n = ''dev_kfree_skb'' \<or> n = ''dev_kfree_skb_any'' then (case as of I s # _ \<Rightarrow> [s] | _ \<Rightarrow> []) else []) @ frees l"
  "given ((K n as, r) # l) = (if n = ''napi_gro_receive'' then (case as of I s # _ \<Rightarrow> [s] | _ \<Rightarrow> []) else []) @ given l"
  "allocs ((K n as, r) # l) =
     (if (n = ''netdev_alloc_skb_ip_align'' \<or> n = ''__netdev_alloc_skb'') \<and> r \<noteq> 0 then [r] else []) @ allocs l"
  by (auto simp: account_defs call_ptrs_def call_result_def)

lemma buf_log_Cons [simp]: "buf_log ((K n as, r) # l) = (if n \<in> set buf_names then [(K n as, r)] else []) @ buf_log l"
  by simp

declare buf_log.simps(2) [simp del]

lemma accounts_buf_log: "frees (buf_log l) = frees l \<and> given (buf_log l) = given l \<and> allocs (buf_log l) = allocs l"
proof (induction l)
  case (Cons c l)
  obtain n as r where c: "c = (K n as, r)" by (metis kcall.exhaust prod.exhaust)
  show ?case using Cons by (simp add: c buf_names_def)
qed simp

lemma same_buf_log:
  assumes "buf_log l' = buf_log l"
  shows "frees l' = frees l" "given l' = given l" "allocs l' = allocs l"
  using accounts_buf_log [of l] accounts_buf_log [of l'] assms by auto

section \<open>Two worlds with a log\<close>

definition bench_log :: "(kcall \<Rightarrow> int) \<Rightarrow> bench \<Rightarrow> call_record list" where
  "bench_log ans w = map (\<lambda>c. (c, ans c)) (b_calls w)"

lemma bench_call_log: "call_log (bench_log ans) (bench_env ans)" "call_log (bench_log ans) (bench_selfclear_env ans)"
  by (simp_all add: call_log_def bench_log_def)

lemma bench_log0 [simp]: "bench_log ans bench0 = []"
  by (simp add: bench_log_def bench0_def)

end
