(* ===== verification/Tx_Machine.thy ===== *)
theory Tx_Machine
  imports Irq_Props Call_Log
begin

text \<open>
  The transmit ring as one machine: the driver sends, reclaims and recovers while the hardware
  completes the frames it owns, the oldest first, in any interleaving. The state is that of the
  driver, that of a world with a log of its calls, and the buffers the stack has handed over.
\<close>

section \<open>Buffers in flight\<close>

text \<open>The buffers of the frames in flight.\<close>

definition in_flight :: "stmmac_desc_ops \<Rightarrow> 'w priv \<Rightarrow> ptr list" where
  "in_flight ops p = filter (\<lambda>s. s \<noteq> 0) (map fst (tx_queue ops p))"

text \<open>A slot that holds no frame in flight holds no buffer either.\<close>

definition idle_empty :: "'w priv \<Rightarrow> bool" where
  "idle_empty p \<longleftrightarrow> (\<forall>j<unat (dma_tx_size p). (\<forall>k<used p. j \<noteq> slot p (dirty_tx p + of_nat k)) \<longrightarrow> tx_skbuff p ! j = 0)"

section \<open>What the operations free\<close>

lemma wait_cyclic_task_quiet:
  assumes "call_log log e" and "wait_cyclic_task e w = Some w'"
  shows "buf_log (log w') = buf_log (log w)"
proof -
  have "e' = e \<longrightarrow> buf_log (log v') = buf_log (log v)" if "wait_cyclic_task e' v = Some v'" for e' v v'
  proof (rule wait_cyclic_task.raw_induct [where P = "\<lambda>e' v v'. e' = e \<longrightarrow> buf_log (log v') = buf_log (log v)", OF _ that])
    fix wait e' v v'
    assume ih: "\<And>e' v v'. wait e' v = Some v' \<Longrightarrow> e' = e \<longrightarrow> buf_log (log v') = buf_log (log v)"
      and r: "(let (regs, w) = kcall e' ''regs_timer0'' [] v
         in if regs = 0 then Some w
            else let (v, w) = kcall e' ''readl_relaxed'' [I (regs + 0x18)] w
                 in if v = 0
                    then let (l, w) = kcall e' ''atomic_read_m_Tx_Lock'' [] w
                         in if l = 0 then Some w else wait e' w
                    else wait e' w) = Some v'"
    show "e' = e \<longrightarrow> buf_log (log v') = buf_log (log v)"
    proof
      assume e: "e' = e"
      show "buf_log (log v') = buf_log (log v)"
        using r ih [of e _ v'] by (auto simp: e Let_def kcall_eq call_log_laws [OF assms(1)] buf_names_def split: if_splits)
    qed
  qed
  with assms(2) show ?thesis by blast
qed

lemma set_tx_desc_eee [simp]:
  "eee_enabled (set_tx_desc i d p) = eee_enabled p" "tx_path_in_lpi_mode (set_tx_desc i d p) = tx_path_in_lpi_mode p"
  "eee_enabled (upd_stats f p) = eee_enabled p" "tx_path_in_lpi_mode (upd_stats f p) = tx_path_in_lpi_mode p"
  "eee_enabled (upd_xstats g p) = eee_enabled p" "tx_path_in_lpi_mode (upd_xstats g p) = tx_path_in_lpi_mode p"
  "hw (upd_stats f p) = hw p" "hw (upd_xstats g p) = hw p"
  by (simp_all add: set_tx_desc_def upd_stats_def upd_xstats_def)

text \<open>The steps of a transmission make no call that moves a buffer, and leave the receive ring alone.\<close>

lemma xmit_first_quiet:
  assumes "call_log log e" and "xmit_first x e ops skb i p w = Some (p', w')" and "plain_frame x p (skb_len skb)"
  shows "buf_log (log w') = buf_log (log w) \<and> rx_side p' = rx_side p"
  using assms(2, 3)
  by (auto simp: xmit_first_def plain_frame_def Let_def kcall_eq call_log_laws [OF assms(1)] buf_names_def split: if_splits)

lemma xmit_frags_quiet:
  assumes "call_log log e"
  shows "xmit_frags e ops csum fs i p w = Some (j, p', w') \<Longrightarrow> buf_log (log w') = buf_log (log w) \<and> rx_side p' = rx_side p"
proof (induction fs arbitrary: i p w)
  case (Cons f fs)
  then obtain i1 p1 w1 where s: "xmit_frag e ops csum f i p w = Some (i1, p1, w1)"
    and r: "xmit_frags e ops csum fs i1 p1 w1 = Some (j, p', w')"
    by (auto simp: bind_eq_Some_conv split: prod.splits)
  have "buf_log (log w1) = buf_log (log w) \<and> rx_side p1 = rx_side p"
    using s by (auto simp: xmit_frag_def bind_eq_Some_conv Let_def kcall_eq call_log_laws [OF assms] buf_names_def)
  with Cons.IH [OF r] show ?case by simp
qed simp

lemma xmit_end_quiet:
  assumes "call_log log e"
  shows "xmit_coalesce e ops n i p w = (p', w') \<Longrightarrow> buf_log (log w') = buf_log (log w) \<and> rx_side p' = rx_side p"
    "hw_dma (hw p) = dwmac1000_dma_ops \<Longrightarrow> xmit_finish x e ops skb i p w = (p', w') \<Longrightarrow>
       buf_log (log w') = buf_log (log w) \<and> rx_side p' = rx_side p"
  by (auto simp: xmit_coalesce_def xmit_finish_def Let_def doif_def dwmac1000_dma_ops_def kcall_eq
      dwmac_enable_dma_transmission_def call_log_laws [OF assms] buf_names_def split: if_splits)

section \<open>The invariant\<close>

text \<open>The configuration the machine runs in, and the shape of the ring.\<close>

definition machine_ok :: "bool \<Rightarrow> 'w priv \<Rightarrow> bool" where
  "machine_ok vlan p \<longleftrightarrow> hw_desc (hw p) = Some (ndesc_ops vlan) \<and> hw_ring (hw p) \<and> hw_dma (hw p) = dwmac1000_dma_ops
     \<and> mode p = STMMAC_RING_MODE \<and> \<not> hwts_tx_en p \<and> \<not> eee_enabled p \<and> \<not> tx_path_in_lpi_mode p
     \<and> ring_continuous p \<and> tx_wf p \<and> idle_empty p"

lemma machine_ok_same:
  assumes "machine_ok vlan p" and "tx_same_ring p p'" and "tx_wf p'" and "idle_empty p'"
    and "eee_enabled p' = eee_enabled p" and "tx_path_in_lpi_mode p' = tx_path_in_lpi_mode p"
  shows "machine_ok vlan p'"
  using assms by (simp add: machine_ok_def tx_same_ring_def ring_continuous_def)

lemma xmit_machine:
  assumes cl: "call_log log e" and ok: "machine_ok vlan p" and r: "stmmac_xmit x e skb p w = Some (NETDEV_TX_OK, p', w')"
    and plain: "plain_frame x p (skb_len skb)" and n: "length (skb_frags skb) < 2147483648"
  shows "machine_ok vlan p'" and "buf_log (log w') = buf_log (log w)" and "rx_side p' = rx_side p"
    and "in_flight (ndesc_ops vlan) p' = in_flight (ndesc_ops vlan) p @ (if skb_ptr skb = 0 then [] else [skb_ptr skb])"
proof -
  let ?ops = "ndesc_ops vlan"
  note cfg = ok [unfolded machine_ok_def]
  have room: "\<not> stmmac_tx_avail p < of_nat (length (skb_frags skb)) + 1"
    using r by (auto simp: stmmac_xmit_def NETDEV_TX_OK_def NETDEV_TX_BUSY_def Let_def kcall_eq split: if_splits)
  obtain w0 where wait: "wait_cyclic_task e w = Some w0"
    using r room cfg by (auto simp: stmmac_xmit_def Let_def bind_eq_Some_conv)
  obtain a as where x: "tx_wf p'" "tx_same_ring p p'"
    "tx_queue ?ops p' = tx_queue ?ops p @ (skb_ptr skb, a, True) # map (\<lambda>b. (0, b, True)) as"
    "cur_tx p' = cur_tx p + of_nat (length as + 1)" "dirty_tx p' = dirty_tx p"
    "\<forall>j. (\<forall>k\<le>length as. j \<noteq> slot p (cur_tx p + of_nat k)) \<longrightarrow> tx_flight ?ops p' j = tx_flight ?ops p j"
    using nd_ring.xmit_refines [of p vlan x skb e w w0] cfg plain wait n room r
    by (simp add: index_room_def) blast
  have nz: "filter (\<lambda>s. s \<noteq> 0) (map (fst \<circ> (\<lambda>b. (0 :: ptr, b :: u32, True))) as) = []"
    by (simp add: filter_empty_conv)
  show "in_flight ?ops p' = in_flight ?ops p @ (if skb_ptr skb = 0 then [] else [skb_ptr skb])"
    using nz by (simp add: in_flight_def x(3))
  have u: "used p' = used p + length as + 1"
    using arg_cong [OF x(3), of length] by (simp add: tx_queue_def)
  have "tx_skbuff p' ! j = 0" if j: "j < unat (dma_tx_size p')" "\<forall>k<used p'. j \<noteq> slot p' (dirty_tx p' + of_nat k)" for j
  proof -
    have j': "\<forall>k<used p'. j \<noteq> slot p (dirty_tx p + of_nat k)"
      using j(2) tx_same_ring_slot [OF x(2)] x(5) by simp
    have "dirty_tx p + of_nat (used p + k) = cur_tx p + of_nat k" for k
      using dirty_plus_used [of p] by (simp add: add.assoc [symmetric])
    then have "\<forall>k\<le>length as. j \<noteq> slot p (cur_tx p + of_nat k)"
      using j' u by (metis add.assoc add_less_cancel_left less_Suc_eq_le Suc_eq_plus1)
    then have "tx_flight ?ops p' j = tx_flight ?ops p j" using x(6) by blast
    moreover have "tx_skbuff p ! j = 0"
      using cfg j(1) j' u x(2) by (auto simp: idle_empty_def tx_same_ring_def)
    ultimately show ?thesis by (simp add: tx_flight_def)
  qed
  then have idle: "idle_empty p'" by (simp add: idle_empty_def)
  obtain q1 w1 i q2 w2 where
    s: "xmit_first x e ?ops skb (slot p (cur_tx p)) (p\<lparr>tx_skbuff := (tx_skbuff p)[slot p (cur_tx p) := skb_ptr skb]\<rparr>)
        (kdo e ''disable_irq'' [I 98] w0) = Some (q1, w1)"
    "xmit_frags e ?ops (skb_csum_partial skb) (skb_frags skb) (slot p (cur_tx p)) q1 w1 = Some (i, q2, w2)"
    and fin: "xmit_finish x e ?ops skb (slot p (cur_tx p))
        (fst (xmit_coalesce e ?ops (of_nat (length (skb_frags skb)) + 1) i (set_tx_desc i (close_tx_desc ?ops (tx_desc q2 i)) q2) w2))
        (snd (xmit_coalesce e ?ops (of_nat (length (skb_frags skb)) + 1) i (set_tx_desc i (close_tx_desc ?ops (tx_desc q2 i)) q2) w2))
        = (p', w')"
    using r room wait cfg ring_index_slot [of p "cur_tx p"]
    by (auto simp: stmmac_xmit_def Let_def bind_eq_Some_conv case_prod_unfold)
  obtain q3 w3 where c: "xmit_coalesce e ?ops (of_nat (length (skb_frags skb)) + 1) i
      (set_tx_desc i (close_tx_desc ?ops (tx_desc q2 i)) q2) w2 = (q3, w3)" by fastforce
  note s = s c fin [unfolded c fst_conv snd_conv]
  have q: "buf_log (log w3) = buf_log (log w) \<and> rx_side q3 = rx_side p"
    using xmit_first_quiet [OF cl s(1)] xmit_frags_quiet [OF cl s(2)] xmit_end_quiet(1) [OF cl s(3)] plain
      wait_cyclic_task_quiet [OF cl wait]
    by (simp add: plain_frame_def call_log_laws [OF cl] buf_names_def)
  then have "hw_dma (hw q3) = dwmac1000_dma_ops" using cfg by (simp add: rx_side_def)
  with xmit_end_quiet(2) [OF cl _ s(4)] q show f: "buf_log (log w') = buf_log (log w)" "rx_side p' = rx_side p" by simp_all
  then have "eee_enabled p' = eee_enabled p \<and> tx_path_in_lpi_mode p' = tx_path_in_lpi_mode p" by (simp add: rx_side_def)
  then show "machine_ok vlan p'" using machine_ok_same [OF ok x(2, 1) idle] by simp
qed

lemma tx_clean_entry_empties:
  assumes "tx_clean_entry x e ops i p w = Some (p', w')" and "i < length (tx_skbuff p)"
  shows "tx_skbuff p' ! i = 0"
  using assms by (auto simp: tx_clean_entry_def Let_def bind_eq_Some_conv split: if_splits)

lemma tx_clean_entry_idle:
  assumes "tx_wf p" and "dirty_tx p \<noteq> cur_tx p"
    and s: "tx_clean_entry x e ops (slot p (dirty_tx p)) p w = Some (q, v)" and "idle_empty p"
  shows "idle_empty q"
  unfolding idle_empty_def
proof (intro allI impI)
  note same = tx_clean_entry_flights(1) [OF assms(1) s]
  note idx = tx_clean_entry_index [OF s]
  fix j assume j: "j < unat (dma_tx_size q)" and n: "\<forall>k<used q. j \<noteq> slot q (dirty_tx q + of_nat k)"
  show "tx_skbuff q ! j = 0"
  proof (cases "j = slot p (dirty_tx p)")
    case True
    then show ?thesis
      using tx_clean_entry_empties [OF s] slot_less [OF assms(1)] assms(1) by (simp add: tx_wf_def)
  next
    case False
    have u: "used q = used p - 1" using used_Suc_dirty [OF assms(2)] idx by (simp add: used_def)
    have "j \<noteq> slot p (dirty_tx p + of_nat k)" if "k < used p" for k
    proof (cases k)
      case (Suc m)
      then have "j \<noteq> slot q (dirty_tx q + of_nat m)" using n u that by simp
      then show ?thesis by (simp add: Suc idx tx_same_ring_slot [OF same] ac_simps)
    qed (use False in simp)
    then have "tx_skbuff p ! j = 0" using assms(4) j idx(3) by (simp add: idle_empty_def)
    then show ?thesis using tx_clean_entry_flights(2) [OF assms(1) s False]
      by (simp add: tx_flight_def)
  qed
qed

lemma tx_clean_loop_idle:
  "tx_clean_loop x e ops p w = Some (p', w') \<Longrightarrow> tx_wf p \<Longrightarrow> idle_empty p \<Longrightarrow> idle_empty p'"
proof (induction x e ops p w arbitrary: p' w' rule: tx_clean_loop.induct)
  case (1 x e ops p w)
  note idx = ring_index_slot [OF 1(3), of "dirty_tx p"]
  show ?case
  proof (cases "p' = p")
    case False
    then obtain q v where d: "dirty_tx p \<noteq> cur_tx p" and o: "get_tx_owner ops (tx_desc p (slot p (dirty_tx p))) = 0"
      and s: "tx_clean_entry x e ops (slot p (dirty_tx p)) p w = Some (q, v)"
      and r: "tx_clean_loop x e ops q v = Some (p', w')"
      using 1(2) idx by (auto simp: tx_clean_loop.simps [of x e ops p w] split: if_splits option.splits)
    show ?thesis
      using 1(1) [OF d idx _ s _ r] o tx_clean_entry_queue(1) [OF 1(3) d s] tx_clean_entry_idle [OF 1(3) d s 1(4)] by simp
  qed (use 1(4) in simp)
qed

lemma wake_tx_queue_quiet: "call_log log e \<Longrightarrow> buf_log (log (wake_tx_queue e p w)) = buf_log (log w)"
  by (simp add: wake_tx_queue_def doif_def Let_def kcall_eq call_log_laws buf_names_def)

text \<open>What reclaiming a descriptor frees, and that it moves no received buffer.\<close>

lemma tx_clean_entry_frees_one:
  assumes "call_log log e" and "tx_clean_entry x e ops i p w = Some (q, v)"
  shows "frees (log v) = (if tx_skbuff p ! i \<noteq> 0 then [tx_skbuff p ! i] else []) @ frees (log w)"
    "given (log v) = given (log w)" "allocs (log v) = allocs (log w)"
  using assms(2)
  by (auto simp: tx_clean_entry_def stmmac_get_tx_hwtstamp_def Let_def bind_eq_Some_conv kcall_eq call_log_laws [OF assms(1)]
      split: if_splits)

lemma tx_clean_loop_frees_all:
  assumes cl: "call_log log e"
  shows "tx_clean_loop x e ops p w = Some (p', w') \<Longrightarrow> tx_wf p \<Longrightarrow>
     rev (frees (log w')) = rev (frees (log w)) @ filter (\<lambda>s. s \<noteq> 0) (map fst (takeWhile (\<lambda>(_, _, own). \<not> own) (tx_queue ops p)))
       \<and> given (log w') = given (log w) \<and> allocs (log w') = allocs (log w)"
  using cl
proof (induction x e ops p w arbitrary: p' w' rule: tx_clean_loop.induct)
  case (1 x e ops p w)
  note idx = ring_index_slot [OF 1(3), of "dirty_tx p"]
  show ?case
  proof (cases "dirty_tx p = cur_tx p \<or> get_tx_owner ops (tx_desc p (slot p (dirty_tx p))) \<noteq> 0")
    case True
    then have "w' = w" using 1(2) idx by (auto simp: tx_clean_loop.simps split: if_splits)
    moreover have "takeWhile (\<lambda>(_, _, own). \<not> own) (tx_queue ops p) = []"
      using True tx_queue_empty [of ops p] tx_queue_Cons [of p ops]
      by (cases "dirty_tx p = cur_tx p") (auto simp: tx_flight_def)
    ultimately show ?thesis by simp
  next
    case False
    then have d: "dirty_tx p \<noteq> cur_tx p" by simp
    obtain q v where s: "tx_clean_entry x e ops (slot p (dirty_tx p)) p w = Some (q, v)"
      and r: "tx_clean_loop x e ops q v = Some (p', w')"
      using 1(2) False idx by (auto simp: tx_clean_loop.simps [of x e ops p w] split: option.splits)
    note step = tx_clean_entry_queue [OF 1(3) d s]
    show ?thesis
      using False step(2) 1(1) [OF d idx _ s _ r step(1) 1(4)] tx_clean_entry_frees_one [OF 1(4) s]
      by (simp add: tx_queue_Cons [OF d] tx_flight_def)
  qed
qed

lemma tx_clean_machine:
  assumes cl: "call_log log e" and ok: "machine_ok vlan p"
  obtains p' w' where "stmmac_tx_clean x e p w = Some (p', w')" and "machine_ok vlan p'"
    and "tx_queue (ndesc_ops vlan) p' = dropWhile (\<lambda>(_, _, own). \<not> own) (tx_queue (ndesc_ops vlan) p)"
    and "mset (frees (log w')) + mset (in_flight (ndesc_ops vlan) p') = mset (frees (log w)) + mset (in_flight (ndesc_ops vlan) p)"
    and "given (log w') = given (log w)" and "allocs (log w') = allocs (log w)" and "rx_side p' = rx_side p"
proof -
  let ?ops = "ndesc_ops vlan" and ?p = "upd_xstats (tx_clean_update inc) p" and ?own = "\<lambda>(_ :: ptr, _ :: u32, own). \<not> own"
  note cfg = ok [unfolded machine_ok_def]
  have wf: "tx_wf ?p" using cfg by simp
  have i: "idle_empty ?p" using cfg by (simp add: idle_empty_def upd_xstats_def used_def slot_def)
  obtain q v where c: "tx_clean_loop x e ?ops ?p w = Some (q, v)"
    using tx_clean_loop_total [of ?p x e ?ops w] cfg wf by (auto simp: upd_xstats_def)
  note l = tx_clean_loop_refines [OF c wf] tx_clean_loop_eee [OF c] tx_clean_loop_idle [OF c wf i]
  have "stmmac_tx_clean x e p w = Some (q, wake_tx_queue e q v)"
    using c l cfg by (simp add: stmmac_tx_clean_def Let_def)
  moreover from this have "rx_side q = rx_side p" by (rule stmmac_tx_clean_rx_side)
  moreover have "machine_ok vlan q"
    using machine_ok_same [OF ok, of q] l by simp
  moreover have "mset (frees (log v)) + mset (in_flight ?ops q) = mset (frees (log w)) + mset (in_flight ?ops p)"
  proof -
    have "mset (rev (frees (log v))) = mset (rev (frees (log w))) + mset (filter (\<lambda>s. s \<noteq> 0) (map fst (takeWhile ?own (tx_queue ?ops p))))"
      using tx_clean_loop_frees_all [OF cl c wf] by simp
    moreover have "in_flight ?ops p = filter (\<lambda>s. s \<noteq> 0) (map fst (takeWhile ?own (tx_queue ?ops p)))
        @ filter (\<lambda>s. s \<noteq> 0) (map fst (dropWhile ?own (tx_queue ?ops p)))"
      unfolding in_flight_def by (metis filter_append map_append takeWhile_dropWhile_id)
    ultimately show ?thesis using l by (simp add: in_flight_def)
  qed
  ultimately show thesis
    using that l same_buf_log [OF wake_tx_queue_quiet [OF cl, of q v]] tx_clean_loop_frees_all [OF cl c wf] by simp
qed

lemma free_tx_skbuf_frees:
  assumes cl: "call_log log e"
  shows "m \<le> length (tx_skbuff p) \<Longrightarrow> m \<le> length (tx_skbuff_dma p) \<Longrightarrow>
     fold (free_tx_skbuf e ops) [0..<m] (p, w) = (q, v) \<Longrightarrow>
     frees (log v) = rev (filter (\<lambda>s. s \<noteq> 0) (map ((!) (tx_skbuff p)) [0..<m])) @ frees (log w)
       \<and> given (log v) = given (log w) \<and> allocs (log v) = allocs (log w) \<and> rx_side q = rx_side p"
proof (induction m arbitrary: q v)
  case (Suc m)
  obtain r u where r: "fold (free_tx_skbuf e ops) [0..<m] (p, w) = (r, u)" by fastforce
  have l: "m \<le> length (tx_skbuff p)" "m \<le> length (tx_skbuff_dma p)" using Suc.prems by simp_all
  have "tx_skbuff r ! m = tx_skbuff p ! m" using free_tx_skbuf_fold [OF l r] Suc.prems(1) by simp
  moreover have "free_tx_skbuf e ops m (r, u) = (q, v)" using Suc.prems(3) r by simp
  ultimately show ?case
    using Suc.IH [OF l r] by (auto simp: free_tx_skbuf_def Let_def doif_def call_log_laws [OF cl] split: if_splits)
qed simp

text \<open>The buffers of all slots are those of the frames in flight, where the idle slots hold none.\<close>

lemma all_slots_in_flight:
  assumes "tx_wf p" and "idle_empty p"
  shows "mset (filter (\<lambda>s. s \<noteq> 0) (map ((!) (tx_skbuff p)) [0..<unat (dma_tx_size p)])) = mset (in_flight ops p)"
proof -
  let ?N = "unat (dma_tx_size p)" and ?g = "\<lambda>k. slot p (dirty_tx p + of_nat k)" and ?f = "(!) (tx_skbuff p)"
  have u: "used p < ?N" using assms(1) by (simp add: tx_wf_def)
  have inj: "inj_on ?g {0..<used p}"
  proof (rule inj_onI, rule ccontr)
    fix a b assume "a \<in> {0..<used p}" "b \<in> {0..<used p}" "?g a = ?g b" "a \<noteq> b"
    then show False using slot_neq_dirty [OF assms(1) index_room_0, of a b] u by simp
  qed
  have sub: "?g ` {0..<used p} \<subseteq> {0..<?N}" using slot_less [OF assms(1)] by auto
  have z: "\<forall>j\<in>{0..<?N} - ?g ` {0..<used p}. ?f j = 0" using assms(2) by (auto simp: idle_empty_def)
  have split: "mset_set {0..<?N} = mset_set (?g ` {0..<used p}) + mset_set ({0..<?N} - ?g ` {0..<used p})"
    using sub by (metis Diff_partition Diff_disjoint finite_Diff finite_atLeastLessThan finite_imageI mset_set_Union)
  have rest: "filter_mset (\<lambda>s. s \<noteq> 0) (image_mset ?f (mset_set ({0..<?N} - ?g ` {0..<used p}))) = {#}"
    using z by auto
  have "mset (filter (\<lambda>s. s \<noteq> 0) (map ?f [0..<?N])) = filter_mset (\<lambda>s. s \<noteq> 0) (image_mset ?f (mset_set {0..<?N}))"
    by (simp only: mset_filter mset_map mset_upt)
  also have "\<dots> = filter_mset (\<lambda>s. s \<noteq> 0) (image_mset ?f (mset_set (?g ` {0..<used p})))"
    using rest by (simp add: split)
  also have "\<dots> = filter_mset (\<lambda>s. s \<noteq> 0) (image_mset (?f \<circ> ?g) (mset_set {0..<used p}))"
    by (simp add: image_mset_mset_set [OF inj, symmetric] multiset.map_comp)
  also have "\<dots> = mset (in_flight ops p)"
    by (simp add: in_flight_def tx_queue_def tx_flight_def comp_def)
  finally show ?thesis .
qed

lemma tx_err_machine:
  assumes cl: "call_log log e" and ok: "machine_ok vlan p" and r: "stmmac_tx_err e p w = Some (p', w')"
  shows "machine_ok vlan p'" and "tx_queue (ndesc_ops vlan) p' = []"
    and "mset (frees (log w')) = mset (frees (log w)) + mset (in_flight (ndesc_ops vlan) p)"
    and "given (log w') = given (log w)" and "allocs (log w') = allocs (log w)" and "rx_side p' = rx_side p"
proof -
  let ?ops = "ndesc_ops vlan" and ?N = "unat (dma_tx_size p)"
  note cfg = ok [unfolded machine_ok_def]
  have x: "tx_wf p'" "tx_same_ring p p'" "tx_queue ?ops p' = []" "\<forall>j<?N. tx_skbuff p' ! j = 0"
    using nd_ring.tx_err_empties [of p vlan e w] cfg r by auto
  show "tx_queue ?ops p' = []" by (rule x(3))
  have len: "?N \<le> length (tx_skbuff p)" "?N \<le> length (tx_skbuff_dma p)" using cfg by (simp_all add: tx_wf_def)
  obtain q v where f: "fold (free_tx_skbuf e ?ops) [0..<?N]
      (p, dwmac_dma_stop_tx e (ioaddr p) (kdo e ''netif_stop_queue'' [] w)) = (q, v)"
    by fastforce
  have hq: "hw q = hw p" using free_tx_skbuf_fold [OF len f] by (simp add: tx_same_ring_def)
  have hc: "hw (clear_tx_descriptors ?ops q) = hw q" "rx_side (clear_tx_descriptors ?ops q) = rx_side q"
    unfolding clear_tx_descriptors_def by (rule fold_keeps; simp)+
  have dm: "dma_free_tx_skbufs e ?ops p
      (stop_tx (hw_dma (hw p)) e (ioaddr p) (kdo e ''netif_stop_queue'' [] w)) = Some (q, v)"
    using f len cfg by (simp add: dma_free_tx_skbufs_def dwmac1000_dma_ops_def)
  have st: "buf_log (log (start_tx (hw_dma (hw p)) e a u)) = buf_log (log u)" for a u
    using cfg by (simp add: dwmac1000_dma_ops_def dwmac_dma_start_tx_def call_log_laws [OF cl])
  obtain a where r': "rx_side p' = rx_side q" "w' = kdo e ''netif_wake_queue'' [] (start_tx (hw_dma (hw p)) e a v)"
    using r cfg dm hq hc by (auto simp: stmmac_tx_err_def Let_def)
  then have s: "buf_log (log w') = buf_log (log v)" "rx_side p' = rx_side q"
    by (simp_all add: call_log_laws [OF cl] buf_names_def st)
  note fr = free_tx_skbuf_frees [OF cl len f]
  then show rx: "rx_side p' = rx_side p" using s(2) by simp
  then show "machine_ok vlan p'"
    using machine_ok_same [OF ok x(2, 1)] x by (simp add: idle_empty_def tx_same_ring_def rx_side_def)
  have l: "log (dwmac_dma_stop_tx e (ioaddr p) (kdo e ''netif_stop_queue'' [] w)) = (K ''netif_stop_queue'' [], kval e ''netif_stop_queue'' [] w) # log w"
    by (simp add: dwmac_dma_stop_tx_def call_log_laws [OF cl])
  show "mset (frees (log w')) = mset (frees (log w)) + mset (in_flight ?ops p)"
    using same_buf_log [OF s(1)] fr all_slots_in_flight [of p ?ops] cfg l by simp
  show "given (log w') = given (log w)" "allocs (log w') = allocs (log w)"
    using same_buf_log [OF s(1)] fr l by simp_all
qed

text \<open>The hardware completes the frame at the position \<open>k\<close> of the queue: it writes back the descriptor.\<close>

lemma hw_done_machine:
  assumes ok: "machine_ok vlan p" and k: "k < used p" and d: "get_tx_owner (ndesc_ops vlan) d = 0"
  shows "machine_ok vlan (set_tx_desc (slot p (dirty_tx p + of_nat k)) d p)"
    and "tx_queue (ndesc_ops vlan) (set_tx_desc (slot p (dirty_tx p + of_nat k)) d p) =
      (tx_queue (ndesc_ops vlan) p)[k := (\<lambda>(s, a, own). (s, a, False)) (tx_queue (ndesc_ops vlan) p ! k)]"
    and "in_flight (ndesc_ops vlan) (set_tx_desc (slot p (dirty_tx p + of_nat k)) d p) = in_flight (ndesc_ops vlan) p"
proof -
  let ?i = "slot p (dirty_tx p + of_nat k)" and ?ops = "ndesc_ops vlan"
  let ?p = "set_tx_desc ?i d p"
  note cfg = ok [unfolded machine_ok_def]
  have wf: "tx_wf p" using cfg by simp
  have l: "?i < tx_ring_len p" using slot_less [OF wf] wf by (simp add: tx_wf_def)
  have u: "used ?p = used p" and sl: "slot ?p = slot p" by (simp_all add: used_def slot_def fun_eq_iff)
  have wf': "tx_wf ?p" using wf by (simp add: tx_wf_def u ring_continuous_def)
  show "machine_ok vlan ?p"
    using machine_ok_same [OF ok _ wf'] cfg by (simp add: idle_empty_def u sl)
  have other: "tx_flight ?ops ?p (slot p (dirty_tx p + of_nat m)) =
      (if m = k then (\<lambda>(s, a, own). (s, a, False)) (tx_flight ?ops p ?i)
       else tx_flight ?ops p (slot p (dirty_tx p + of_nat m)))" if "m < used p" for m
    using slot_neq_dirty [OF wf index_room_0, of m k] that k l wf d
    by (auto simp: tx_flight_def tx_desc_set_tx_desc tx_wf_def)
  show q: "tx_queue ?ops ?p = (tx_queue ?ops p)[k := (\<lambda>(s, a, own). (s, a, False)) (tx_queue ?ops p ! k)]"
  proof (rule nth_equalityI)
    fix m assume "m < length (tx_queue ?ops ?p)"
    then have "m < used p" by (simp add: tx_queue_def u)
    then show "tx_queue ?ops ?p ! m = (tx_queue ?ops p)[k := (\<lambda>(s, a, own). (s, a, False)) (tx_queue ?ops p ! k)] ! m"
      using other [of m] k by (simp add: tx_queue_def u sl nth_list_update)
  qed (simp add: tx_queue_def u)
  have "fst (tx_queue ?ops p ! k) = map fst (tx_queue ?ops p) ! k" using k by (simp add: tx_queue_def)
  then have "map fst (tx_queue ?ops ?p) = map fst (tx_queue ?ops p)"
    by (simp add: q map_update split_beta)
  then show "in_flight ?ops ?p = in_flight ?ops p" by (simp add: in_flight_def)
qed

section \<open>The machine\<close>

text \<open>
  The steps. The driver sends a frame it has room for, or answers busy; it reclaims, or recovers from
  an error; the hardware gives back the oldest frame it still owns, with any status in its descriptor.
\<close>

type_synonym 'w tx_state = "'w priv \<times> 'w \<times> ptr list"

inductive tx_step :: "'w ext \<Rightarrow> 'w env \<Rightarrow> bool \<Rightarrow> 'w tx_state \<Rightarrow> 'w tx_state \<Rightarrow> bool"
  for x :: "'w ext" and e :: "'w env" and vlan :: bool
where
  send: "stmmac_xmit x e skb p w = Some (NETDEV_TX_OK, p', w') \<Longrightarrow> plain_frame x p (skb_len skb) \<Longrightarrow>
    skb_ptr skb \<noteq> 0 \<Longrightarrow> length (skb_frags skb) < 2147483648 \<Longrightarrow> tx_step x e vlan (p, w, s) (p', w', skb_ptr skb # s)"
| busy: "stmmac_xmit x e skb p w = Some (NETDEV_TX_BUSY, p', w') \<Longrightarrow>
    tx_step x e vlan (p, w, s) (p', w', s)"
| complete: "k < used p \<Longrightarrow> (\<And>j. j < k \<Longrightarrow> get_tx_owner (ndesc_ops vlan) (tx_desc p (slot p (dirty_tx p + of_nat j))) = 0) \<Longrightarrow>
    get_tx_owner (ndesc_ops vlan) (tx_desc p (slot p (dirty_tx p + of_nat k))) \<noteq> 0 \<Longrightarrow>
    get_tx_owner (ndesc_ops vlan) d = 0 \<Longrightarrow>
    tx_step x e vlan (p, w, s) (set_tx_desc (slot p (dirty_tx p + of_nat k)) d p, w, s)"
| reclaim: "stmmac_tx_clean x e p w = Some (p', w') \<Longrightarrow> tx_step x e vlan (p, w, s) (p', w', s)"
| recover: "stmmac_tx_err e p w = Some (p', w') \<Longrightarrow> tx_step x e vlan (p, w, s) (p', w', s)"

inductive_cases tx_stepE: "tx_step x e vlan (p, w, s) st"

text \<open>Every buffer handed over is in flight or was given back, exactly once.\<close>

definition tx_inv :: "('w \<Rightarrow> call_record list) \<Rightarrow> bool \<Rightarrow> 'w tx_state \<Rightarrow> bool" where
  "tx_inv log vlan = (\<lambda>(p, w, s). machine_ok vlan p \<and> mset s = mset (frees (log w)) + mset (in_flight (ndesc_ops vlan) p))"

lemma tx_busy_machine:
  assumes "call_log log e" and "machine_ok vlan p" and "stmmac_xmit x e skb p w = Some (NETDEV_TX_BUSY, p', w')"
  shows "p' = p \<and> buf_log (log w') = buf_log (log w)"
  using assms(2, 3)
  by (auto simp: stmmac_xmit_def NETDEV_TX_OK_def NETDEV_TX_BUSY_def Let_def doif_def bind_eq_Some_conv kcall_eq
      call_log_laws [OF assms(1)] buf_names_def split: if_splits prod.splits)

text \<open>A step keeps the invariant, and leaves the receive ring and its account alone.\<close>

lemma tx_inv_step:
  assumes cl: "call_log log e" and "tx_step x e vlan (p, w, s) (p', w', s')" and "tx_inv log vlan (p, w, s)"
  shows "tx_inv log vlan (p', w', s') \<and> rx_side p' = rx_side p \<and> given (log w') = given (log w) \<and> allocs (log w') = allocs (log w)"
  using assms(2)
proof (cases rule: tx_step.cases)
  case (send skb)
  then show ?thesis
    using xmit_machine [OF cl, of vlan p x skb w p' w'] same_buf_log [of "log w'" "log w"] assms(3) by (simp add: tx_inv_def)
next
  case (busy skb)
  then show ?thesis
    using tx_busy_machine [OF cl, of vlan p x skb w p' w'] same_buf_log [of "log w'" "log w"] assms(3) by (simp add: tx_inv_def)
next
  case (complete k d)
  then show ?thesis using hw_done_machine [of vlan p k d] assms(3) by (simp add: tx_inv_def)
next
  case reclaim
  have "machine_ok vlan p" using assms(3) by (simp add: tx_inv_def)
  from tx_clean_machine [OF cl this, of x w] show ?thesis using reclaim assms(3) by (simp add: tx_inv_def) metis
next
  case recover
  then show ?thesis using tx_err_machine [OF cl, of vlan p w p' w'] assms(3) by (simp add: tx_inv_def in_flight_def)
qed

lemma tx_inv_steps:
  assumes "call_log log e"
  shows "(tx_step x e vlan)\<^sup>*\<^sup>* st st' \<Longrightarrow> tx_inv log vlan st \<Longrightarrow> tx_inv log vlan st'"
proof (induction rule: rtranclp_induct)
  case (step y z)
  then show ?case using tx_inv_step [OF assms] by (metis prod_cases3)
qed

text \<open>
  Property C5. No buffer is lost and none is given back twice, over the whole life of the transmit
  ring, in any world with a log of its calls: starting from an empty ring, after any interleaving of sending, refusing, reclaiming,
  recovering and completing by the hardware, the buffers the stack handed over are, counted with
  multiplicity, those given back together with those in flight; the ring stays well formed, and a
  slot that holds no frame in flight holds no buffer.
\<close>

theorem tx_no_buffer_lost:
  assumes "call_log log e" and "machine_ok vlan p0" and "in_flight (ndesc_ops vlan) p0 = []" and "frees (log w0) = []"
    and "(tx_step x e vlan)\<^sup>*\<^sup>* (p0, w0, []) (p, w, s)"
  shows "mset s = mset (frees (log w)) + mset (in_flight (ndesc_ops vlan) p) \<and> tx_wf p \<and> idle_empty p"
proof -
  have "tx_inv log vlan (p0, w0, [])" using assms(2-4) by (simp add: tx_inv_def)
  from tx_inv_steps [OF assms(1, 5) this] show ?thesis by (simp add: tx_inv_def machine_ok_def)
qed

lemma bench_machine: "machine_ok False (bench_priv 8 STMMAC_RING_MODE)"
  by (simp add: machine_ok_def bench_priv_wf idle_empty_def ring_continuous_def)

lemma bench_send:
  assumes "ans (K ''regs_timer0'' []) = 0"
  obtains p w where "tx_step bench_ext (bench_env ans) False (bench_priv 8 STMMAC_RING_MODE, bench0, []) (p, w, [0xc0de])"
    and "tx_queue (ndesc_ops False) p \<noteq> []"
proof -
  let ?p = "bench_priv 8 STMMAC_RING_MODE"
  obtain a as p' w' where r: "stmmac_xmit bench_ext (bench_env ans) (bench_skb []) ?p bench0 = Some (NETDEV_TX_OK, p', w')"
    "tx_queue (ndesc_ops False) p' = tx_queue (ndesc_ops False) ?p @ (0xc0de, a, True) # map (\<lambda>b. (0, b, True)) as"
    using nd_ring.xmit_refines [of ?p False bench_ext "bench_skb []" "bench_env ans" bench0] bench_wait [of ans bench0] assms
    by (auto simp: stmmac_tx_avail_def index_room_def bench_priv_wf)
  then show thesis
    using that [of p' w'] tx_step.send [OF r(1), of False] by simp
qed

theorem tx_no_buffer_lost_witness:
  "\<exists>p w. (tx_step bench_ext (bench_env (\<lambda>_. 0)) False)\<^sup>*\<^sup>* (bench_priv 8 STMMAC_RING_MODE, bench0, []) (p, w, [0xc0de])
    \<and> {#0xc0de#} = mset (frees (bench_log (\<lambda>_. 0) w)) + mset (in_flight (ndesc_ops False) p)"
proof -
  obtain p w where s: "tx_step bench_ext (bench_env (\<lambda>_. 0)) False (bench_priv 8 STMMAC_RING_MODE, bench0, []) (p, w, [0xc0de])"
    by (rule bench_send) simp
  have "in_flight (ndesc_ops False) (bench_priv 8 STMMAC_RING_MODE) = []"
    by (simp add: in_flight_def tx_queue_def used_def)
  then show ?thesis
    using tx_no_buffer_lost [OF bench_call_log(1) [of "\<lambda>_. 0"] bench_machine, of bench0 bench_ext p w "[0xc0de]"] r_into_rtranclp [of "tx_step bench_ext (bench_env (\<lambda>_. 0)) False", OF s]
    by (intro exI [of _ p] exI [of _ w]) simp
qed

text \<open>The hardware can complete everything it owns.\<close>

lemma complete_all:
  "machine_ok vlan p \<Longrightarrow> length (filter (\<lambda>(_, _, own). own) (tx_queue (ndesc_ops vlan) p)) = n \<Longrightarrow>
     \<exists>p'. (tx_step x e vlan)\<^sup>*\<^sup>* (p, w, s) (p', w, s) \<and> machine_ok vlan p'
       \<and> list_all (\<lambda>(_, _, own). \<not> own) (tx_queue (ndesc_ops vlan) p')"
proof (induction n arbitrary: p)
  case 0
  then show ?case by (intro exI [of _ p]) (auto simp: list_all_iff filter_empty_conv)
next
  case (Suc n)
  let ?ops = "ndesc_ops vlan" and ?Q = "tx_queue (ndesc_ops vlan) p"
  have "\<exists>f\<in>set ?Q. snd (snd f)"
    using Suc.prems(2) by (metis (mono_tags, lifting) case_prod_unfold filter_False length_0_conv nat.distinct(1))
  then obtain ys f zs where split: "?Q = ys @ f # zs" "snd (snd f)" "\<forall>g\<in>set ys. \<not> snd (snd g)"
    by (rule split_list_first_propE) blast
  let ?k = "length ys"
  let ?p = "set_tx_desc (slot p (dirty_tx p + of_nat ?k)) zero_desc p"
  have ku: "?k < used p" using arg_cong [OF split(1), of length] by (simp add: tx_queue_def)
  have own: "snd (snd (?Q ! j)) = (get_tx_owner ?ops (tx_desc p (slot p (dirty_tx p + of_nat j))) \<noteq> 0)" if "j < used p" for j
    using that by (simp add: tx_queue_def tx_flight_def)
  have k: "snd (snd (?Q ! ?k))" "\<And>j. j < ?k \<Longrightarrow> \<not> snd (snd (?Q ! j))"
    using split by (simp_all add: nth_append)
  have step: "tx_step x e vlan (p, w, s) (?p, w, s)"
    using tx_step.complete [of ?k p vlan zero_desc x e w s] ku k own bench_owner(1) by auto
  note hw = hw_done_machine [OF Suc.prems(1) ku bench_owner(1)]
  have "length (filter (\<lambda>(_, _, own). own) (?Q[?k := (\<lambda>(s, a, own). (s, a, False)) (?Q ! ?k)])) = n"
    using Suc.prems(2) split by (simp add: case_prod_unfold)
  then obtain p' where "(tx_step x e vlan)\<^sup>*\<^sup>* (?p, w, s) (p', w, s)" "machine_ok vlan p'"
    "list_all (\<lambda>(_, _, own). \<not> own) (tx_queue ?ops p')"
    using Suc.IH [OF hw(1)] hw(2) by auto
  then show ?case using step by (meson converse_rtranclp_into_rtranclp)
qed

text \<open>
  Property C6. The ring never gets stuck: from every state the machine can reach there is a run, in
  which the hardware completes what it owns and the driver reclaims once, that empties the ring and
  gives back every buffer handed over; all descriptors but the reserved one are then free again.
\<close>

theorem tx_drains:
  assumes "call_log log e" and "machine_ok vlan p0" and "in_flight (ndesc_ops vlan) p0 = []" and "frees (log w0) = []"
    and "(tx_step x e vlan)\<^sup>*\<^sup>* (p0, w0, []) (p, w, s)"
  shows "\<exists>p' w'. (tx_step x e vlan)\<^sup>*\<^sup>* (p, w, s) (p', w', s) \<and> tx_queue (ndesc_ops vlan) p' = []
    \<and> mset (frees (log w')) = mset s \<and> stmmac_tx_avail p' = dma_tx_size p' - 1"
proof -
  let ?ops = "ndesc_ops vlan"
  have "tx_inv log vlan (p0, w0, [])" using assms(2-4) by (simp add: tx_inv_def)
  then have i: "tx_inv log vlan (p, w, s)" by (rule tx_inv_steps [OF assms(1, 5)])
  then have "machine_ok vlan p" by (simp add: tx_inv_def)
  then obtain q where q: "(tx_step x e vlan)\<^sup>*\<^sup>* (p, w, s) (q, w, s)" "machine_ok vlan q"
    "list_all (\<lambda>(_, _, own). \<not> own) (tx_queue ?ops q)"
    using complete_all [OF _ refl, of vlan p x e w s] by metis
  obtain p' w' where c: "stmmac_tx_clean x e q w = Some (p', w')"
    "tx_queue ?ops p' = dropWhile (\<lambda>(_, _, own). \<not> own) (tx_queue ?ops q)"
    by (rule tx_clean_machine [OF assms(1) q(2), of x w])
  have e: "tx_queue ?ops p' = []" using q(3) c(2) by (simp add: dropWhile_eq_Nil_conv list_all_iff)
  have run: "(tx_step x e vlan)\<^sup>*\<^sup>* (p, w, s) (p', w', s)"
    using q(1) tx_step.reclaim [OF c(1)] by (meson rtranclp.rtrancl_into_rtrancl)
  have "tx_inv log vlan (p', w', s)" using tx_inv_steps [OF assms(1) run i] .
  then have "mset (frees (log w')) = mset s" using e by (simp add: tx_inv_def in_flight_def)
  moreover have "stmmac_tx_avail p' = dma_tx_size p' - 1"
    using e tx_queue_empty [of ?ops p'] by (simp add: stmmac_tx_avail_def)
  ultimately show ?thesis using run e by blast
qed

theorem tx_drains_witness:
  "\<exists>p' w'. (tx_step bench_ext (bench_env (\<lambda>_. 0)) False)\<^sup>*\<^sup>* (bench_priv 8 STMMAC_RING_MODE, bench0, []) (p', w', [0xc0de])
    \<and> mset (frees (bench_log (\<lambda>_. 0) w')) = {#0xc0de#} \<and> tx_queue (ndesc_ops False) p' = []"
proof -
  obtain p w where s: "tx_step bench_ext (bench_env (\<lambda>_. 0)) False (bench_priv 8 STMMAC_RING_MODE, bench0, []) (p, w, [0xc0de])"
    by (rule bench_send) simp
  have "in_flight (ndesc_ops False) (bench_priv 8 STMMAC_RING_MODE) = []" "frees (bench_log (\<lambda>_. 0) bench0) = []"
    by (simp_all add: in_flight_def tx_queue_def used_def)
  from tx_drains [OF bench_call_log(1) bench_machine this r_into_rtranclp [of "tx_step bench_ext (bench_env (\<lambda>_. 0)) False", OF s]] s show ?thesis
    by (auto intro: converse_rtranclp_into_rtranclp)
qed

end
