(* ===== verification/Rx_Account.thy ===== *)
theory Rx_Account
  imports Tx_Machine
begin

text \<open>
  The account of the receive ring, in any world with a log of its calls: what was allocated is, counted
  with multiplicity, what was handed to the stack together with what the slots hold. Receiving and
  refilling keep it, and free nothing.
\<close>

declare rx_refill_loop.simps [simp del]

section \<open>The buffers the slots hold\<close>

definition held :: "'w priv \<Rightarrow> ptr list" where
  "held p = filter (\<lambda>s. s \<noteq> 0) (rx_skbuff p)"

lemma held_rx_side: "rx_side p' = rx_side p \<Longrightarrow> held p' = held p"
  by (simp add: held_def rx_side_def)

lemma held_upd [simp]:
  "held (p\<lparr>cur_rx := c\<rparr>) = held p" "held (upd_stats f p) = held p" "held (upd_xstats g p) = held p"
  by (simp_all add: held_def upd_stats_def upd_xstats_def)

lemma mset_held_update:
  assumes "i < length l"
  shows "mset (filter (\<lambda>s. s \<noteq> 0) (l[i := v])) + (if l ! i \<noteq> 0 then {#l ! i#} else {#})
    = mset (filter (\<lambda>s. s \<noteq> 0) l) + (if v \<noteq> (0 :: ptr) then {#v#} else {#})"
proof -
  have l: "l = take i l @ l ! i # drop (Suc i) l" using assms by (simp add: id_take_nth_drop [symmetric])
  have u: "l[i := v] = take i l @ v # drop (Suc i) l" using assms by (simp add: upd_conv_take_nth_drop)
  have "mset (filter (\<lambda>s. s \<noteq> 0) l) = mset (filter (\<lambda>s. s \<noteq> 0) (take i l @ l ! i # drop (Suc i) l))" using l by simp
  then show ?thesis unfolding u by simp
qed

section \<open>Receiving\<close>

text \<open>The account, over what \<open>A\<close> and \<open>B\<close> say was gained and lost elsewhere.\<close>

definition rx_balance :: "ptr multiset \<Rightarrow> ptr multiset \<Rightarrow> call_record list \<Rightarrow> 'w priv \<Rightarrow> bool" where
  "rx_balance A B l p \<longleftrightarrow> A + mset (allocs l) = B + mset (given l) + mset (held p)"

lemma rx_deliver_account:
  assumes cl: "call_log log e" and r: "rx_deliver e ops st i d p w = (go, p', w')" and i: "i < length (rx_skbuff p)"
    and b: "rx_balance A B (log w) p"
  shows "rx_balance A B (log w') p'" and "frees (log w') = frees (log w)"
proof -
  have h: "buf_log (log (stmmac_get_rx_hwtstamp e ops q j s u)) = buf_log (log u)" for q :: "'a priv" and j s u
    by (simp add: stmmac_get_rx_hwtstamp_def Let_def call_log_laws [OF cl] buf_names_def)
  note acc = same_buf_log [OF h]
  have "rx_balance A B (log w') p' \<and> frees (log w') = frees (log w)"
  proof (cases "rx_skbuff p ! i = 0")
    case True
    then show ?thesis using r b by (auto simp: rx_deliver_def Let_def rx_balance_def)
  next
    case False
    then have "mset (held p) = add_mset (rx_skbuff p ! i) (mset (filter (\<lambda>s. s \<noteq> 0) ((rx_skbuff p)[i := 0])))"
      using mset_held_update [OF i, of 0] by (simp add: held_def)
    moreover have "held p' = filter (\<lambda>s. s \<noteq> 0) ((rx_skbuff p)[i := 0])"
      using r False by (auto simp: rx_deliver_def Let_def held_def upd_stats_def)
    moreover have "given (log w') = rx_skbuff p ! i # given (log w)" "allocs (log w') = allocs (log w)" "frees (log w') = frees (log w)"
      using r False by (auto simp: rx_deliver_def Let_def call_log_laws [OF cl] acc split: if_splits)
    ultimately show ?thesis using b by (simp add: rx_balance_def)
  qed
  then show "rx_balance A B (log w') p'" and "frees (log w') = frees (log w)" by simp_all
qed

lemma rx_balance_upd [simp]:
  "rx_balance A B l (p\<lparr>cur_rx := c\<rparr>) = rx_balance A B l p" "rx_balance A B l (upd_stats f p) = rx_balance A B l p"
  "rx_balance A B l (upd_xstats g p) = rx_balance A B l p"
  by (simp_all add: rx_balance_def)

lemma rx_entry_account:
  assumes cl: "call_log log e" and r: "rx_entry e ops i p w = (go, p', w')" and i: "i < length (rx_skbuff p)"
    and b: "rx_balance A B (log w) p" and t: "\<not> (hwts_rx_en p \<and> \<not> extend_desc p)"
  shows "rx_balance A B (log w') p' \<and> frees (log w') = frees (log w)"
proof -
  obtain status st xs where s: "rx_entry e ops i p w =
     (let q = upd_xstats (\<lambda>_. xs) (upd_stats (\<lambda>_. st) (p\<lparr>cur_rx := cur_rx p + 1\<rparr>))
      in if status = discard_frame then
           (let q = upd_stats (rx_errors_update inc) q
            in if hwts_rx_en q \<and> \<not> extend_desc q
               then (True, q\<lparr>rx_skbuff := (rx_skbuff q)[i := 0]\<rparr>,
                     kdo e ''dma_unmap_single'' [I (uint (rx_skbuff_dma q ! i)), I (uint (dma_buf_sz q))] w)
               else (True, q, w))
         else rx_deliver e ops status i (rx_desc p i) q w)"
    using rx_entry_shape [of e ops i p w] by blast
  let ?q = "upd_xstats (\<lambda>_. xs) (upd_stats (\<lambda>_. st) (p\<lparr>cur_rx := cur_rx p + 1\<rparr>))"
  have q: "hwts_rx_en ?q = hwts_rx_en p" "extend_desc ?q = extend_desc p" "rx_skbuff ?q = rx_skbuff p"
    by (simp_all add: upd_xstats_def upd_stats_def)
  show ?thesis
  proof (cases "status = discard_frame")
    case True
    have "hwts_rx_en (upd_stats f ?q) = hwts_rx_en p" "extend_desc (upd_stats f ?q) = extend_desc p" for f
      using q by (simp_all add: upd_stats_def)
    then show ?thesis using r s True t b by (auto simp: Let_def)
  next
    case False
    then have "rx_deliver e ops status i (rx_desc p i) ?q w = (go, p', w')" using r s by (simp add: Let_def)
    from rx_deliver_account [OF cl this] i b show ?thesis by (simp add: q)
  qed
qed

lemma rx_loop_account:
  assumes cl: "call_log log e"
  shows "rx_loop e ops limit cnt p w = Some (n, p', w') \<Longrightarrow> rx_wf p \<Longrightarrow> \<not> (hwts_rx_en p \<and> \<not> extend_desc p) \<Longrightarrow>
     rx_balance A B (log w) p \<Longrightarrow>
     rx_wf p' \<and> rx_balance A B (log w') p' \<and> frees (log w') = frees (log w) \<and> hwts_rx_en p' = hwts_rx_en p
       \<and> extend_desc p' = extend_desc p"
proof (induction limit arbitrary: cnt p w)
  case (Suc m)
  note idx = rx_ring_index [OF Suc.prems(2), of "cur_rx p"]
  show ?case
  proof (cases "get_rx_owner ops (rx_desc p (rx_slot p (cur_rx p))) \<noteq> 0")
    case True
    then show ?thesis using idx Suc.prems by simp
  next
    case False
    obtain go q v where s: "rx_entry e ops (rx_slot p (cur_rx p)) p w = (go, q, v)" by (metis prod_cases3)
    note k = rx_entry_keeps [OF s]
    have "rx_slot p (cur_rx p) < length (rx_skbuff p)"
      using rx_slot_less [OF Suc.prems(2)] Suc.prems(2) by (simp add: rx_wf_def)
    note a = rx_entry_account [OF cl s this Suc.prems(4, 3)]
    have q: "rx_wf q" "\<not> (hwts_rx_en q \<and> \<not> extend_desc q)" using Suc.prems(2, 3) k by (simp_all add: rx_wf_def)
    show ?thesis
    proof (cases go)
      case True
      then have "rx_loop e ops m (Suc cnt) q v = Some (n, p', w')" using Suc.prems(1) False idx s by simp
      from Suc.IH [OF this q] a k show ?thesis by simp
    next
      case stop: False
      then have "p' = q \<and> w' = v" using Suc.prems(1) False idx s by simp
      then show ?thesis using a k q by simp
    qed
  qed
qed simp

section \<open>Refilling\<close>

lemma rx_refill_entry_account:
  assumes cl: "call_log log e" and r: "rx_refill_entry x e ops i p w = Some (ok, p', w')" and i: "i < length (rx_skbuff p)"
    and b: "rx_balance A B (log w) p"
  shows "rx_balance A B (log w') p' \<and> frees (log w') = frees (log w) \<and> hwts_rx_en p' = hwts_rx_en p"
proof -
  have h: "held (set_rx_desc j d q) = held q" "hwts_rx_en (set_rx_desc j d q) = hwts_rx_en q" "held (q\<lparr>dirty_rx := c\<rparr>) = held q"
    "held (q\<lparr>rx_skbuff_dma := m\<rparr>) = held q"
    for j d c m and q :: "'a priv"
    by (simp_all add: held_def set_rx_desc_def)
  show ?thesis
  proof (cases "rx_skbuff p ! i = 0 \<and> kval e ''netdev_alloc_skb_ip_align'' [I (uint (dma_buf_sz p))] w \<noteq> 0")
    case True
    let ?skb = "kval e ''netdev_alloc_skb_ip_align'' [I (uint (dma_buf_sz p))] w"
    have "mset (filter (\<lambda>s. s \<noteq> 0) ((rx_skbuff p)[i := ?skb])) = add_mset ?skb (mset (held p))"
      using mset_held_update [OF i, of ?skb] True by (simp add: held_def)
    moreover have "held p' = filter (\<lambda>s. s \<noteq> 0) ((rx_skbuff p)[i := ?skb])" "hwts_rx_en p' = hwts_rx_en p"
      "given (log w') = given (log w)" "allocs (log w') = ?skb # allocs (log w)" "frees (log w') = frees (log w)"
      using r True
      by (auto simp: rx_refill_entry_def kcall_eq Let_def bind_eq_Some_conv call_log_laws [OF cl] h split: if_splits)
        (simp_all add: held_def)
    ultimately show ?thesis using b by (simp add: rx_balance_def)
  next
    case False
    then show ?thesis
      using r b
      by (auto simp: rx_refill_entry_def kcall_eq Let_def bind_eq_Some_conv call_log_laws [OF cl] h rx_balance_def
          split: if_splits)
  qed
qed

lemma rx_refill_loop_account:
  assumes cl: "call_log log e"
  shows "rx_refill_loop x e ops p w = Some (p', w') \<Longrightarrow> rx_wf p \<Longrightarrow> rx_balance A B (log w) p \<Longrightarrow>
     rx_wf p' \<and> rx_balance A B (log w') p' \<and> frees (log w') = frees (log w) \<and> hwts_rx_en p' = hwts_rx_en p"
  using cl
proof (induction x e ops p w arbitrary: p' w' rule: rx_refill_loop.induct)
  case (1 x e ops p w)
  note idx = rx_ring_index [OF 1(3), of "dirty_rx p"]
  show ?case
  proof (cases "cur_rx p - dirty_rx p = 0")
    case False
    then obtain ok q v where s: "rx_refill_entry x e ops (rx_slot p (dirty_rx p)) p w = Some (ok, q, v)"
      and r: "(if ok then rx_refill_loop x e ops q v else Some (q, v)) = Some (p', w')"
      using 1(2) idx by (auto simp: rx_refill_loop.simps [of x e ops p w] split: option.splits)
    have l: "rx_slot p (dirty_rx p) < length (rx_skbuff p)"
      using rx_slot_less [OF 1(3)] 1(3) by (simp add: rx_wf_def)
    note a = rx_refill_entry_account [OF 1(5) s l 1(4)]
    have w: "rx_wf q" using 1(3) s
      by (auto simp: rx_refill_entry_def Let_def bind_eq_Some_conv rx_wf_def split: if_splits prod.splits)
    show ?thesis
    proof (cases ok)
      case True
      then show ?thesis using 1(1) [OF False idx s refl refl True _ w _ 1(5)] r a by simp
    qed (use r a w in simp)
  qed (use 1 in \<open>simp add: rx_refill_loop.simps [of x e ops p w]\<close>)
qed

lemma stmmac_rx_account:
  assumes "call_log log e" and "stmmac_rx x e limit p w = Some (n, p', w')" and "rx_wf p"
    and "\<not> (hwts_rx_en p \<and> \<not> extend_desc p)" and "rx_balance A B (log w) p"
  shows "rx_wf p' \<and> rx_balance A B (log w') p' \<and> frees (log w') = frees (log w) \<and> hwts_rx_en p' = hwts_rx_en p
    \<and> tx_side p' = tx_side p"
proof -
  obtain ops c q v r where h: "hw_desc (hw p) = Some ops" and l: "rx_loop e ops limit 0 p w = Some (c, q, v)"
    and f: "stmmac_rx_refill x e q v = Some (r, w')" and n: "n = c" "p' = upd_xstats (rx_pkt_n_update (\<lambda>m. m + of_nat c)) r"
    using assms(2) by (auto simp: stmmac_rx_def bind_eq_Some_conv)
  have "hw q = hw p" using rx_loop_tx_side [OF l] by (simp add: tx_side_def)
  then have f': "rx_refill_loop x e ops q v = Some (r, w')" using f h by (simp add: stmmac_rx_refill_def)
  note a = rx_loop_account [OF assms(1) l assms(3-5)]
  have "rx_wf r \<and> rx_balance A B (log w') r \<and> frees (log w') = frees (log v) \<and> hwts_rx_en r = hwts_rx_en q"
    using rx_refill_loop_account [OF assms(1) f', of A B] a by simp
  moreover have "rx_wf p' = rx_wf r" using rx_side_wf [of p' r] by (simp add: n)
  moreover have "hwts_rx_en p' = hwts_rx_en r" by (simp add: n upd_xstats_def)
  ultimately show ?thesis using a stmmac_rx_tx_side [OF assms(2)] n by simp
qed

end
