(* ===== verification/Stmmac_Netdev.thy ===== *)
theory Stmmac_Netdev
  imports Irq_Props
begin

text \<open>
  The \<open>net_device\<close> operations of \<open>stmmac_main.c\<close>: opening and closing the interface with the
  attachment of its PHY, the change of the MTU, the features, the configuration of the interface,
  the address filter and the two ioctls. A failing open goes through the labels of the source. The
  MDIO bus, the MMC registers and the time-stamp unit are in files the repository does not have:
  their functions are calls of the world.
\<close>

section \<open>Values of kernel headers\<close>

definition SIOCGMIIPHY :: int where [hw_consts]: "SIOCGMIIPHY = 0x8947"
definition SIOCGMIIREG :: int where [hw_consts]: "SIOCGMIIREG = 0x8948"
definition SIOCSMIIREG :: int where [hw_consts]: "SIOCSMIIREG = 0x8949"
definition SIOCSHWTSTAMP :: int where [hw_consts]: "SIOCSHWTSTAMP = 0x89b0"
definition IFF_UP :: u32 where [hw_consts]: "IFF_UP = 1"
definition ETH_DATA_LEN :: int where [hw_consts]: "ETH_DATA_LEN = 1500"
definition NETIF_MSG_HW :: u32 where [hw_consts]: "NETIF_MSG_HW = 0x2000"
definition STMMAC_DEFAULT_TWT_LS :: u32 where [hw_consts]: "STMMAC_DEFAULT_TWT_LS = 0"
definition STMMAC_RX_COE_NONE :: int where [hw_consts]: "STMMAC_RX_COE_NONE = 0"
definition STMMAC_RX_COE_TYPE1 :: int where [hw_consts]: "STMMAC_RX_COE_TYPE1 = 1"
definition STMMAC_RX_COE_TYPE2 :: int where [hw_consts]: "STMMAC_RX_COE_TYPE2 = 2"
definition SUPPORTED_1000baseT_Half :: u32 where [hw_consts]: "SUPPORTED_1000baseT_Half = 0x10"
definition SUPPORTED_1000baseT_Full :: u32 where [hw_consts]: "SUPPORTED_1000baseT_Full = 0x20"

definition is_valid_ether_addr :: "u8 list \<Rightarrow> bool" where
  "is_valid_ether_addr a \<longleftrightarrow> a ! 0 AND 1 = 0 \<and> (\<exists>b\<in>set (take 6 a). b \<noteq> 0)"

text \<open>A call that fills in an address returns it as a number, the first byte lowest.\<close>

definition bytes_of :: "int \<Rightarrow> u8 list" where
  "bytes_of v = map (\<lambda>i. word_of_int (v div 2 ^ (8 * i))) [0..<6]"

section \<open>The board\<close>

definition bsp_call :: "('w bsp \<Rightarrow> (bool \<Rightarrow> 'w \<Rightarrow> 'w) option) \<Rightarrow> bool \<Rightarrow> 'w priv \<Rightarrow> 'w \<Rightarrow> 'w" where
  "bsp_call callback on p w =
     (case pl_bsp (plat p) of None \<Rightarrow> w
      | Some b \<Rightarrow> (case callback b of None \<Rightarrow> w | Some f \<Rightarrow> f on w))"

section \<open>The address and the counters\<close>

definition stmmac_check_ether_addr :: "'w env \<Rightarrow> 'w priv \<Rightarrow> 'w \<Rightarrow> 'w priv \<times> 'w" where
  "stmmac_check_ether_addr e p w =
     (if is_valid_ether_addr (nd_dev_addr (dev p)) then (p, w)
      else
        (let (a, w) = get_umac_addr (hw_mac (hw p)) e (base_addr (dev p)) 0 w;
             (a, w) = (if is_valid_ether_addr a then (a, w)
                       else (let (v, w) = kcall e ''eth_mac_idb'' [] w in (bytes_of v, w)));
             (a, w) = (if is_valid_ether_addr a then (a, w)
                       else (let (v, w) = kcall e ''eth_hw_addr_random'' [] w in (bytes_of v, w)))
         in (p\<lparr>dev := (dev p)\<lparr>nd_dev_addr := a\<rparr>\<rparr>, w)))"

definition stmmac_mmc_setup :: "'w env \<Rightarrow> 'w priv \<Rightarrow> 'w \<Rightarrow> 'w priv \<times> 'w" where
  "stmmac_mmc_setup e p w =
     (let mode = MMC_CNTRL_RESET_ON_READ OR MMC_CNTRL_COUNTER_RESET OR MMC_CNTRL_PRESET OR MMC_CNTRL_FULL_HALF_PRESET;
          w = kdo e ''dwmac_mmc_intr_all_mask'' [I (uint (ioaddr p))] w
      in if rmon (dma_cap p) \<noteq> 0
         then (p\<lparr>mmc := zero_counters\<rparr>, kdo e ''dwmac_mmc_ctrl'' [I (uint (ioaddr p)), I (uint mode)] w)
         else (p, w))"

definition stmmac_init_tx_coalesce :: "'w env \<Rightarrow> 'w priv \<Rightarrow> 'w \<Rightarrow> 'w priv \<times> 'w" where
  "stmmac_init_tx_coalesce e p w =
     (let p = p\<lparr>tx_coal_frames := STMMAC_TX_FRAMES, tx_coal_timer := STMMAC_COAL_TX_TIMER\<rparr>;
          w = kdo e ''init_timer'' [S ''txtimer''] w;
          (t, w) = kcall e ''STMMAC_COAL_TIMER'' [I (uint (tx_coal_timer p))] w
      in (p, kdo e ''add_timer'' [S ''txtimer'', I t] w))"

section \<open>The PHY\<close>

definition gmac_create_sysfs :: "'w env \<Rightarrow> ptr \<Rightarrow> 'w \<Rightarrow> int \<times> 'w" where
  "gmac_create_sysfs e phy_dev w =
     (let w = kdo e ''dev_set_drvdata'' [I phy_dev] w;
          (r, w) = kcall e ''device_create_file'' [I phy_dev, S ''phy_reg''] w
      in if r \<noteq> 0 then (r, w)
         else (let (r, w) = kcall e ''device_create_file'' [I phy_dev, S ''phy_regValue''] w in (r, w)))"

definition gmac_remove_sysfs :: "'w env \<Rightarrow> ptr \<Rightarrow> 'w \<Rightarrow> int \<times> 'w" where
  "gmac_remove_sysfs e phy_dev w =
     (let w = kdo e ''device_remove_file'' [I phy_dev, S ''phy_reg''] w;
          w = kdo e ''device_remove_file'' [I phy_dev, S ''phy_regValue''] w
      in (0, w))"

text \<open>The members the driver reads later, as the PHY layer has them at the attachment.\<close>

definition phy_attached :: "'w env \<Rightarrow> ptr \<Rightarrow> 'w \<Rightarrow> phy_device \<times> 'w" where
  "phy_attached e h w =
     (let (l, w) = kcall e ''phydev_link'' [I h] w;
          (d, w) = kcall e ''phydev_duplex'' [I h] w;
          (s, w) = kcall e ''phydev_speed'' [I h] w;
          (z, w) = kcall e ''phydev_pause'' [I h] w
      in (\<lparr>phy_link = (l \<noteq> 0), phy_duplex = d, phy_speed = s, phy_pause = (z \<noteq> 0), phy_handle = h\<rparr>, w))"

definition stmmac_init_phy :: "'w env \<Rightarrow> 'w priv \<Rightarrow> 'w \<Rightarrow> int \<times> 'w priv \<times> 'w" where
  "stmmac_init_phy e p w =
     (let interface = pl_interface (plat p);
          p = p\<lparr>oldlink := False, p_speed := 0, oldduplex := -1\<rparr>;
          bus = (case pl_phy_bus_name (plat p) of Some n \<Rightarrow> n | None \<Rightarrow> ''stmmac'');
          (h, w) = kcall e ''phy_connect'' [S bus, I (pl_bus_id (plat p)), I (pl_phy_addr (plat p)), I (uint interface)] w
      in if IS_ERR h then (h, p, w)
         else
           (let w = doif (interface = PHY_INTERFACE_MODE_MII \<or> interface = PHY_INTERFACE_MODE_RMII)
                      (kdo e ''phydev_advertising_clear''
                        [I h, I (uint (SUPPORTED_1000baseT_Half OR SUPPORTED_1000baseT_Full))]) w;
                (phy_id, w) = kcall e ''phydev_phy_id'' [I h] w
            in if phy_id = 0 then (- ENODEV, p, kdo e ''phy_disconnect'' [I h] w)
               else
                 (let (d, w) = phy_attached e h w;
                      p = p\<lparr>phydev := Some d\<rparr>;
                      (r, w) = gmac_create_sysfs e h w
                  in (0, p, w))))"

section \<open>Open\<close>

definition stmmac_align :: "'w ext \<Rightarrow> int \<Rightarrow> u32" where
  "stmmac_align x v = (word_of_int v + l1_cache_bytes x - 1) AND NOT (l1_cache_bytes x - 1)"

definition phy_disconnect_open :: "'w env \<Rightarrow> 'w priv \<Rightarrow> 'w \<Rightarrow> 'w" where
  "phy_disconnect_open e p w =
     (case phydev p of None \<Rightarrow> w | Some d \<Rightarrow> kdo e ''phy_disconnect'' [I (phy_handle d)] w)"

text \<open>The three labels of the error path.\<close>

definition open_error :: "'w env \<Rightarrow> 'w priv \<Rightarrow> 'w \<Rightarrow> 'w" where
  "open_error e p w = bsp_call gmac_clk_enable False p (phy_disconnect_open e p w)"

definition open_error_wolirq :: "'w env \<Rightarrow> 'w priv \<Rightarrow> 'w \<Rightarrow> 'w" where
  "open_error_wolirq e p w = open_error e p (kdo e ''free_irq'' [I (nd_irq (dev p))] w)"

definition open_error_lpiirq :: "'w env \<Rightarrow> 'w priv \<Rightarrow> 'w \<Rightarrow> 'w" where
  "open_error_lpiirq e p w =
     open_error_wolirq e p (doif (wol_irq p \<noteq> nd_irq (dev p)) (kdo e ''free_irq'' [I (wol_irq p)]) w)"

definition no_mdio :: "'w priv \<Rightarrow> bool" where
  "no_mdio p \<longleftrightarrow> pcs p = STMMAC_PCS_SGMII \<or> pcs p = STMMAC_PCS_TBI \<or> pcs p = STMMAC_PCS_RTBI"

text \<open>The MDIO bus and the PHY; a result other than 0 is an error.\<close>

definition open_phy :: "'w env \<Rightarrow> 'w priv \<Rightarrow> 'w \<Rightarrow> int \<times> 'w priv \<times> 'w" where
  "open_phy e p w =
     (if no_mdio p then (0, p, w)
      else
        (let (ret, p, w) =
           (if mdio_registered p then (0, p, w)
            else
              (let (ret, w) = kcall e ''stmmac_mdio_register'' [] w
               in if ret < 0 then (ret, p, w) else (0, p\<lparr>mdio_registered := True\<rparr>, w)))
         in if ret < 0 then (ret, p, w) else stmmac_init_phy e p w))"

text \<open>
  The interrupt lines, each with the label its failure jumps to; the result is 0, or the error after
  the clean-up.
\<close>

definition open_irqs :: "'w env \<Rightarrow> 'w priv \<Rightarrow> 'w \<Rightarrow> int \<times> 'w" where
  "open_irqs e p w =
     (let (ret, w) = kcall e ''request_irq'' [I (nd_irq (dev p))] w
      in if ret < 0 then (ret, open_error e p w)
         else
           (let (ret, w) = (if wol_irq p \<noteq> nd_irq (dev p) then kcall e ''request_irq'' [I (wol_irq p)] w else (0, w))
            in if ret < 0 then (ret, open_error_wolirq e p w)
               else
                 (let (ret, w) = (if lpi_irq p \<noteq> - ENXIO then kcall e ''request_irq'' [I (lpi_irq p)] w else (0, w))
                  in if ret < 0 then (ret, open_error_lpiirq e p w) else (0, w))))"

text \<open>
  What follows once every resource is there: the core and the DMA are started, then, after energy
  efficient Ethernet is set up, the timers and the queue.
\<close>

definition open_start_dma :: "'w env \<Rightarrow> 'w priv \<Rightarrow> 'w \<Rightarrow> 'w priv \<times> 'w" where
  "open_start_dma e p w =
     (let w = kdo e ''irq_set_affinity'' [I (nd_irq (dev p)), I 3] w;
          w = stmmac_set_mac e (ioaddr p) True w;
          (p, w) = stmmac_dma_operation_mode e p w;
          p = p\<lparr>xstats := zero_xstats\<lparr>threshold := word_of_int (m_tc (glob p))\<rparr>\<rparr>;
          (p, w) = stmmac_mmc_setup e p w;
          w = start_tx (hw_dma (hw p)) e (ioaddr p) w;
          w = start_rx (hw_dma (hw p)) e (ioaddr p) w;
          w = doif (tst (msg_enable p) NETIF_MSG_HW)
                (\<lambda>w. dma_dump_regs (hw_dma (hw p)) e (ioaddr p) (mac_dump_regs (hw_mac (hw p)) e (ioaddr p) w)) w;
          w = (case phydev p of None \<Rightarrow> w | Some d \<Rightarrow> kdo e ''phy_start'' [I (phy_handle d)] w)
      in (p\<lparr>tx_lpi_timer := STMMAC_DEFAULT_TWT_LS\<rparr>, w))"

definition open_start_timers :: "'w env \<Rightarrow> 'w priv \<Rightarrow> 'w \<Rightarrow> 'w priv \<times> 'w" where
  "open_start_timers e p w =
     (let (p, w) = stmmac_init_tx_coalesce e p w;
          (p, w) = (case rx_watchdog (hw_dma (hw p)) of
              Some f \<Rightarrow> if use_riwt p then (p\<lparr>rx_riwt := MAX_DMA_RIWT\<rparr>, f e (ioaddr p) MAX_DMA_RIWT w) else (p, w)
            | None \<Rightarrow> (p, w));
          w = (case ctrl_ane (hw_mac (hw p)) of
              Some f \<Rightarrow> if pcs p \<noteq> 0 then f e (ioaddr p) False w else w
            | None \<Rightarrow> w)
      in (p, kdo e ''netif_start_queue'' [] w))"

definition open_start :: "'w env \<Rightarrow> 'w priv \<Rightarrow> 'w \<Rightarrow> ('w priv \<times> 'w) option" where
  "open_start e p w = do {
     let (p, w) = open_start_dma e p w;
     (r, p, w) \<leftarrow> stmmac_eee_init e p w;
     Some (open_start_timers e (p\<lparr>eee_enabled := r\<rparr>) w) }"

text \<open>The sizes of the rings and of the buffers, in whole cache lines.\<close>

definition open_sizes :: "'w ext \<Rightarrow> 'w priv \<Rightarrow> 'w priv" where
  "open_sizes x p = p\<lparr>dma_tx_size := stmmac_align x (m_dma_txsize (glob p)),
      dma_rx_size := stmmac_align x (m_dma_rxsize (glob p)), dma_buf_sz := stmmac_align x (m_buf_sz (glob p))\<rparr>"

definition stmmac_open :: "'w ext \<Rightarrow> 'w env \<Rightarrow> 'w priv \<Rightarrow> 'w \<Rightarrow> (int \<times> 'w priv \<times> 'w) option" where
  "stmmac_open x e p w = do {
     let w = bsp_call phy_power_on True p w;
     let w = bsp_call gmac_clk_enable True p w;
     let (p, w) = stmmac_check_ether_addr e p w;
     let (ret, p, w) = open_phy e p w;
     if ret \<noteq> 0 then Some (ret, p, open_error e p w)
     else do {
       (p, w) \<leftarrow> init_dma_desc_rings x e (open_sizes x p) w;
       let (ret, w) = stmmac_init_dma_engine e p w;
       if ret < 0 then Some (ret, p, open_error e p w)
       else do {
         let w = set_umac_addr (hw_mac (hw p)) e (ioaddr p) (nd_dev_addr (dev p)) 0 w;
         let w = (case pl_bus_setup (plat p) of None \<Rightarrow> w | Some f \<Rightarrow> f (ioaddr p) w);
         let w = core_init (hw_mac (hw p)) e (ioaddr p) w;
         let (ret, w) = open_irqs e p w;
         if ret < 0 then Some (ret, p, w)
         else map_option (\<lambda>(p, w). (0, p, w)) (open_start e p w) } } }"

section \<open>Release\<close>

definition stmmac_release_ptp :: "'w env \<Rightarrow> 'w \<Rightarrow> 'w" where
  "stmmac_release_ptp e w = kdo e ''stmmac_ptp_unregister'' [] w"

definition stmmac_release :: "'w env \<Rightarrow> 'w priv \<Rightarrow> 'w \<Rightarrow> (int \<times> 'w priv \<times> 'w) option" where
  "stmmac_release e p w = do {
     ops \<leftarrow> hw_desc (hw p);
     let w = doif (eee_enabled p) (kdo e ''del_timer_sync'' [S ''eee_ctrl_timer'']) w;
     let (p, w) = (case phydev p of None \<Rightarrow> (p, w)
        | Some d \<Rightarrow>
            (let (r, w) = gmac_remove_sysfs e (phy_handle d) w;
                 w = kdo e ''phy_stop'' [I (phy_handle d)] w;
                 w = kdo e ''phy_disconnect'' [I (phy_handle d)] w
             in (p\<lparr>phydev := None\<rparr>, w)));
     let w = kdo e ''netif_stop_queue'' [] w;
     let w = kdo e ''del_timer_sync'' [S ''txtimer''] w;
     let w = kdo e ''free_irq'' [I (nd_irq (dev p))] w;
     let w = doif (wol_irq p \<noteq> nd_irq (dev p)) (kdo e ''free_irq'' [I (wol_irq p)]) w;
     let w = doif (lpi_irq p \<noteq> - ENXIO) (kdo e ''free_irq'' [I (lpi_irq p)]) w;
     let w = stop_tx (hw_dma (hw p)) e (ioaddr p) w;
     let w = stop_rx (hw_dma (hw p)) e (ioaddr p) w;
     (p, w) \<leftarrow> free_dma_desc_resources e ops p w;
     let w = stmmac_set_mac e (ioaddr p) False w;
     let w = kdo e ''netif_carrier_off'' [] w;
     let w = stmmac_release_ptp e w;
     let w = bsp_call phy_power_on False p w;
     let w = bsp_call gmac_clk_enable False p w;
     Some (0, p, w) }"

section \<open>Configuration\<close>

definition stmmac_config :: "'w priv \<Rightarrow> u32 \<Rightarrow> int \<Rightarrow> int" where
  "stmmac_config p map_base_addr map_irq =
     (if tst (nd_flags (dev p)) IFF_UP then - EBUSY
      else if map_base_addr \<noteq> base_addr (dev p) then - EOPNOTSUPP
      else if map_irq \<noteq> nd_irq (dev p) then - EOPNOTSUPP
      else 0)"

definition stmmac_set_rx_mode :: "'w env \<Rightarrow> 'w priv \<Rightarrow> 'w \<Rightarrow> 'w" where
  "stmmac_set_rx_mode e p w = set_filter (hw_mac (hw p)) e (net_device.truncate (dev p)) (synopsys_id p) w"

text \<open>\<open>SKB_MAX_HEAD\<close> and \<open>NET_SKB_PAD\<close> depend on the page and the cache of the target: the world answers.\<close>

definition max_mtu_of :: "'w env \<Rightarrow> 'w priv \<Rightarrow> 'w \<Rightarrow> int \<times> 'w" where
  "max_mtu_of e p w = (if pl_enh_desc (plat p) \<noteq> 0 then (JUMBO_LEN, w) else kcall e ''SKB_MAX_HEAD'' [] w)"

definition stmmac_change_mtu :: "'w env \<Rightarrow> int \<Rightarrow> 'w priv \<Rightarrow> 'w \<Rightarrow> int \<times> 'w priv \<times> 'w" where
  "stmmac_change_mtu e new_mtu p w =
     (let (running, w) = kcall e ''netif_running'' [] w
      in if running \<noteq> 0 then (- EBUSY, p, w)
         else
           (let (max_mtu, w) = max_mtu_of e p w
            in if new_mtu < 46 \<or> new_mtu > max_mtu then (- EINVAL, p, w)
               else (0, p\<lparr>dev := (dev p)\<lparr>nd_mtu := new_mtu\<rparr>\<rparr>, kdo e ''netdev_update_features'' [] w)))"

text \<open>The feature bits the driver names, of \<open>linux/netdev_features.h\<close>, whose numbering depends on the kernel.\<close>

record netif_f =
  f_sg :: u64
  f_ip_csum :: u64
  f_ipv6_csum :: u64
  f_rxcsum :: u64
  f_all_csum :: u64
  f_highdma :: u64
  f_vlan_ctag_rx :: u64

definition stmmac_fix_features :: "netif_f \<Rightarrow> 'w priv \<Rightarrow> u64 \<Rightarrow> u64" where
  "stmmac_fix_features nf p features =
     (let features = (if pl_rx_coe (plat p) = STMMAC_RX_COE_NONE then features AND NOT (f_rxcsum nf)
                      else if pl_rx_coe (plat p) = STMMAC_RX_COE_TYPE1 then features AND NOT (f_ipv6_csum nf)
                      else features);
          features = (if pl_tx_coe (plat p) = 0 then features AND NOT (f_all_csum nf) else features)
      in if pl_bugged_jumbo (plat p) \<and> nd_mtu (dev p) > ETH_DATA_LEN then features AND NOT (f_all_csum nf)
         else features)"

section \<open>Hardware time stamps\<close>

text \<open>\<open>struct hwtstamp_config\<close> and its enumerations, of \<open>linux/net_tstamp.h\<close>.\<close>

record hwtstamp_config =
  hc_flags :: int
  hc_tx_type :: int
  hc_rx_filter :: int

definition HWTSTAMP_TX_OFF :: int where [hw_consts]: "HWTSTAMP_TX_OFF = 0"
definition HWTSTAMP_TX_ON :: int where [hw_consts]: "HWTSTAMP_TX_ON = 1"
definition HWTSTAMP_FILTER_NONE :: int where [hw_consts]: "HWTSTAMP_FILTER_NONE = 0"
definition HWTSTAMP_FILTER_ALL :: int where [hw_consts]: "HWTSTAMP_FILTER_ALL = 1"
definition HWTSTAMP_FILTER_PTP_V1_L4_EVENT :: int where [hw_consts]: "HWTSTAMP_FILTER_PTP_V1_L4_EVENT = 3"
definition HWTSTAMP_FILTER_PTP_V1_L4_SYNC :: int where [hw_consts]: "HWTSTAMP_FILTER_PTP_V1_L4_SYNC = 4"
definition HWTSTAMP_FILTER_PTP_V1_L4_DELAY_REQ :: int where [hw_consts]: "HWTSTAMP_FILTER_PTP_V1_L4_DELAY_REQ = 5"
definition HWTSTAMP_FILTER_PTP_V2_L4_EVENT :: int where [hw_consts]: "HWTSTAMP_FILTER_PTP_V2_L4_EVENT = 6"
definition HWTSTAMP_FILTER_PTP_V2_L4_SYNC :: int where [hw_consts]: "HWTSTAMP_FILTER_PTP_V2_L4_SYNC = 7"
definition HWTSTAMP_FILTER_PTP_V2_L4_DELAY_REQ :: int where [hw_consts]: "HWTSTAMP_FILTER_PTP_V2_L4_DELAY_REQ = 8"
definition HWTSTAMP_FILTER_PTP_V2_EVENT :: int where [hw_consts]: "HWTSTAMP_FILTER_PTP_V2_EVENT = 12"
definition HWTSTAMP_FILTER_PTP_V2_SYNC :: int where [hw_consts]: "HWTSTAMP_FILTER_PTP_V2_SYNC = 13"
definition HWTSTAMP_FILTER_PTP_V2_DELAY_REQ :: int where [hw_consts]: "HWTSTAMP_FILTER_PTP_V2_DELAY_REQ = 14"

text \<open>The bits of the time-stamp control register and the clock of the unit: in a header the repository does not have.\<close>

record ptp_tcr =
  TSENA :: u32
  TSCFUPDT :: u32
  TSCTRLSSR :: u32
  TSENALL :: u32
  TSVER2ENA :: u32
  TSIPENA :: u32
  TSIPV6ENA :: u32
  TSIPV4ENA :: u32
  TSEVNTENA :: u32
  TSMSTRENA :: u32
  SNAPTYPSEL_1 :: u32
  SYSCLOCK :: u64

text \<open>The cases of the receive filter with advanced time stamps: the bits of each, \<open>None\<close> where it is refused.\<close>

definition hwts_filter_bits :: "ptp_tcr \<Rightarrow> int \<Rightarrow> u32 option" where
  "hwts_filter_bits t f =
     (let v4v6 = TSIPV6ENA t OR TSIPV4ENA t
      in if f = HWTSTAMP_FILTER_NONE then Some 0
         else if f = HWTSTAMP_FILTER_PTP_V1_L4_EVENT then Some (v4v6 OR SNAPTYPSEL_1 t)
         else if f = HWTSTAMP_FILTER_PTP_V1_L4_SYNC then Some (v4v6 OR TSEVNTENA t)
         else if f = HWTSTAMP_FILTER_PTP_V1_L4_DELAY_REQ then Some (v4v6 OR TSEVNTENA t OR TSMSTRENA t)
         else if f = HWTSTAMP_FILTER_PTP_V2_L4_EVENT then Some (TSVER2ENA t OR v4v6 OR SNAPTYPSEL_1 t)
         else if f = HWTSTAMP_FILTER_PTP_V2_L4_SYNC then Some (TSVER2ENA t OR v4v6 OR TSEVNTENA t)
         else if f = HWTSTAMP_FILTER_PTP_V2_L4_DELAY_REQ then Some (TSVER2ENA t OR v4v6 OR TSEVNTENA t OR TSMSTRENA t)
         else if f = HWTSTAMP_FILTER_PTP_V2_EVENT then Some (TSVER2ENA t OR TSIPENA t OR v4v6 OR SNAPTYPSEL_1 t)
         else if f = HWTSTAMP_FILTER_PTP_V2_SYNC then Some (TSVER2ENA t OR TSIPENA t OR v4v6 OR TSEVNTENA t)
         else if f = HWTSTAMP_FILTER_PTP_V2_DELAY_REQ
              then Some (TSVER2ENA t OR TSIPENA t OR v4v6 OR TSEVNTENA t OR TSMSTRENA t)
         else if f = HWTSTAMP_FILTER_ALL then Some (TSENALL t)
         else None)"

text \<open>The filter in force with its bits; without advanced time stamps every filter but none is version 1.\<close>

definition hwts_rx_select :: "ptp_tcr \<Rightarrow> bool \<Rightarrow> int \<Rightarrow> (int \<times> u32) option" where
  "hwts_rx_select t adv f =
     (if adv then map_option (Pair f) (hwts_filter_bits t f)
      else if f = HWTSTAMP_FILTER_NONE then Some (HWTSTAMP_FILTER_NONE, 0)
      else Some (HWTSTAMP_FILTER_PTP_V1_L4_EVENT, 0))"

text \<open>
  The programming of the unit through \<open>priv->hw->ptp\<close>, which may be \<open>NULL\<close>.
\<close>

definition hwts_program :: "ptp_tcr \<Rightarrow> 'w env \<Rightarrow> u32 \<Rightarrow> 'w priv \<Rightarrow> 'w \<Rightarrow> ('w priv \<times> 'w) option" where
  "hwts_program t e bits p w =
     (if \<not> hw_ptp (hw p) then None
      else if \<not> hwts_tx_en p \<and> \<not> hwts_rx_en p then
        Some (p, kdo e ''config_hw_tstamping'' [I (uint (ioaddr p)), I 0] w)
      else
        (let value = TSENA t OR TSCFUPDT t OR TSCTRLSSR t OR bits;
             w = kdo e ''config_hw_tstamping'' [I (uint (ioaddr p)), I (uint value)] w;
             w = kdo e ''config_sub_second_increment'' [I (uint (ioaddr p))] w;
             p = p\<lparr>default_addend := ucast (push_bit 32 (50000000 :: u64) div SYSCLOCK t)\<rparr>;
             w = kdo e ''config_addend'' [I (uint (ioaddr p)), I (uint (default_addend p))] w;
             (sec, w) = kcall e ''getnstimeofday_sec'' [] w;
             (nsec, w) = kcall e ''getnstimeofday_nsec'' [] w
         in Some (p, kdo e ''init_systime'' [I (uint (ioaddr p)), I sec, I nsec] w)))"

text \<open>\<open>user\<close> is what \<open>copy_from_user\<close> finds, \<open>None\<close> a fault.\<close>

definition stmmac_hwtstamp_ioctl ::
    "ptp_tcr \<Rightarrow> 'w env \<Rightarrow> hwtstamp_config option \<Rightarrow> 'w priv \<Rightarrow> 'w \<Rightarrow> (int \<times> 'w priv \<times> 'w) option" where
  "stmmac_hwtstamp_ioctl t e user p w =
     (if time_stamp (dma_cap p) = 0 \<and> adv_ts p = 0
      then Some (- EOPNOTSUPP, p\<lparr>hwts_tx_en := False, hwts_rx_en := False\<rparr>, w)
      else case user of None \<Rightarrow> Some (- EFAULT, p, w)
      | Some c \<Rightarrow>
          if hc_flags c \<noteq> 0 then Some (- EINVAL, p, w)
          else if hc_tx_type c \<noteq> HWTSTAMP_TX_OFF \<and> hc_tx_type c \<noteq> HWTSTAMP_TX_ON then Some (- ERANGE, p, w)
          else
            (let p = p\<lparr>hwts_tx_en := (hc_tx_type c = HWTSTAMP_TX_ON)\<rparr>
             in case hwts_rx_select t (adv_ts p \<noteq> 0) (hc_rx_filter c) of
                  None \<Rightarrow> Some (- ERANGE, p, w)
                | Some (f, bits) \<Rightarrow>
                    (let p = p\<lparr>hwts_rx_en := (f \<noteq> HWTSTAMP_FILTER_NONE)\<rparr>
                     in case hwts_program t e bits p w of None \<Rightarrow> None
                        | Some (p, w) \<Rightarrow>
                            (let (fault, w) = kcall e ''copy_to_user'' [I (hc_flags c), I (hc_tx_type c), I f] w
                             in Some (if fault \<noteq> 0 then - EFAULT else 0, p, w)))))"

definition stmmac_ioctl ::
    "ptp_tcr \<Rightarrow> 'w env \<Rightarrow> int \<Rightarrow> hwtstamp_config option \<Rightarrow> 'w priv \<Rightarrow> 'w \<Rightarrow> (int \<times> 'w priv \<times> 'w) option" where
  "stmmac_ioctl t e cmd user p w =
     (let (running, w) = kcall e ''netif_running'' [] w
      in if running = 0 then Some (- EINVAL, p, w)
         else if cmd = SIOCGMIIPHY \<or> cmd = SIOCGMIIREG \<or> cmd = SIOCSMIIREG then
           (case phydev p of None \<Rightarrow> Some (- EINVAL, p, w)
            | Some d \<Rightarrow> (let (ret, w) = kcall e ''phy_mii_ioctl'' [I (phy_handle d), I cmd] w in Some (ret, p, w)))
         else if cmd = SIOCSHWTSTAMP then stmmac_hwtstamp_ioctl t e user p w
         else Some (- EOPNOTSUPP, p, w))"

section \<open>The register window of the PHY\<close>

text \<open>
  The two files under \<open>sysfs\<close>: the number of a register, \<open>gPhyReg\<close>, and its value. \<open>parse\<close> is the
  kernel's \<open>kstrtoint\<close>; when it fails the handlers go on with the variable it did not write, here
  \<open>junk\<close>.
\<close>

definition set_phy_reg :: "(string \<Rightarrow> int option) \<Rightarrow> int \<Rightarrow> string \<Rightarrow> int \<Rightarrow> int" where
  "set_phy_reg parse junk buf gPhyReg = (case parse buf of Some v \<Rightarrow> v | None \<Rightarrow> junk)"

definition set_phy_regValue ::
    "(string \<Rightarrow> int option) \<Rightarrow> int \<Rightarrow> 'w env \<Rightarrow> ptr \<Rightarrow> string \<Rightarrow> int \<Rightarrow> 'w \<Rightarrow> 'w" where
  "set_phy_regValue parse junk e phy_dev buf gPhyReg w =
     kdo e ''phy_write'' [I phy_dev, I gPhyReg, I (case parse buf of Some v \<Rightarrow> v | None \<Rightarrow> junk)] w"

definition show_phy_regValue :: "'w env \<Rightarrow> ptr \<Rightarrow> int \<Rightarrow> 'w \<Rightarrow> int \<times> 'w" where
  "show_phy_regValue e phy_dev gPhyReg w =
     (let w = fold (\<lambda>i w. kdo e ''phy_read'' [I phy_dev, I (int i)] w) [0..<32] w
      in kcall e ''phy_read'' [I phy_dev, I gPhyReg] w)"

end
