(* ===== verification/Driver_Run.thy ===== *)
theory Driver_Run
  imports Rx_Account Stmmac_Netdev
begin

text \<open>
  A running interface: the stack sends, the hardware completes frames and receives others, interrupts,
  polls, timers and the watchdog come in any order (\<open>run_step\<close>), and the interface is closed. The
  account of the socket buffers goes over both rings: what the stack handed over and what the driver
  allocated is what was freed, what was given to the stack, and what the slots hold.
\<close>

section \<open>The invariant while the interface is up\<close>

text \<open>The callbacks of the board may do anything but move a socket buffer.\<close>

definition quiet_hook :: "('w \<Rightarrow> call_record list) \<Rightarrow> ('a \<Rightarrow> 'w \<Rightarrow> 'w) option \<Rightarrow> bool" where
  "quiet_hook log h \<longleftrightarrow> (case h of None \<Rightarrow> True | Some f \<Rightarrow> \<forall>a w. buf_log (log (f a w)) = buf_log (log w))"

definition quiet_board :: "('w \<Rightarrow> call_record list) \<Rightarrow> 'w plat \<Rightarrow> bool" where
  "quiet_board log pd \<longleftrightarrow>
     (case pl_bsp pd of None \<Rightarrow> True | Some b \<Rightarrow> quiet_hook log (phy_power_on b) \<and> quiet_hook log (gmac_clk_enable b))
     \<and> quiet_hook log (pl_bus_setup pd)"

text \<open>
  The account over both rings. The buffers of the stack are \<open>s\<close>; what was allocated, freed and given
  to the stack is read off the log.
\<close>

definition account :: "('w \<Rightarrow> call_record list) \<Rightarrow> ptr multiset \<Rightarrow> 'w tx_state \<Rightarrow> bool" where
  "account log holding = (\<lambda>(p, w, s).
     mset s + mset (allocs (log w)) = mset (frees (log w)) + mset (given (log w)) + holding)"

definition holding :: "bool \<Rightarrow> 'w priv \<Rightarrow> ptr multiset" where
  "holding vlan p = mset (in_flight (ndesc_ops vlan) p) + mset (held p)"

definition up_ok :: "('w \<Rightarrow> call_record list) \<Rightarrow> bool \<Rightarrow> 'w priv \<Rightarrow> bool" where
  "up_ok log vlan p \<longleftrightarrow> machine_ok vlan p \<and> host_irq_status (hw_mac (hw p)) = dwmac1000_irq_status \<and> rx_wf p \<and> \<not> (hwts_rx_en p \<and> \<not> extend_desc p) \<and> 
     quiet_board log (plat p)"

definition up_inv :: "('w \<Rightarrow> call_record list) \<Rightarrow> bool \<Rightarrow> 'w tx_state \<Rightarrow> bool" where
  "up_inv log vlan = (\<lambda>(p, w, s). up_ok log vlan p \<and> account log (holding vlan p) (p, w, s))"

section \<open>What keeps it\<close>

lemma machine_tx_side:
  assumes "tx_side p' = tx_side p"
  shows "machine_ok vlan p' = machine_ok vlan p" "in_flight ops p' = in_flight ops p"
  using assms tx_side_queue [OF assms]
  by (simp_all add: machine_ok_def in_flight_def)
    (simp add: tx_side_def idle_empty_def used_def slot_def ring_continuous_def)

lemma up_sides:
  assumes "tx_side p' = tx_side p" and "rx_side p' = rx_side p"
  shows "up_ok log vlan p' = up_ok log vlan p" "holding vlan p' = holding vlan p"
  using machine_tx_side [OF assms(1)] rx_side_wf [OF assms(2)] held_rx_side [OF assms(2)] assms
  by (simp_all add: up_ok_def holding_def tx_side_def rx_side_def)

text \<open>Something that touches neither ring and makes no call that moves a buffer.\<close>

lemma up_inv_quiet:
  assumes "up_inv log vlan (p, w, s)" and "up_ok log vlan p' = up_ok log vlan p" and "holding vlan p' = holding vlan p"
    and "buf_log (log w') = buf_log (log w)"
  shows "up_inv log vlan (p', w', s)"
  using assms(1-3) same_buf_log [OF assms(4)] by (simp add: up_inv_def account_def)

lemma up_inv_xstats [simp]: "up_inv log vlan (upd_xstats f p, w, s) = up_inv log vlan (p, w, s)"
  using up_sides [of "upd_xstats f p" p] by (simp add: up_inv_def account_def)

lemma up_inv_glob [simp]: "up_inv log vlan (p\<lparr>glob := g\<rparr>, w, s) = up_inv log vlan (p, w, s)"
proof -
  have "tx_queue ops (p\<lparr>glob := g\<rparr>) = tx_queue ops p" for ops
    by (simp add: tx_queue_def used_def slot_def tx_flight_def tx_desc_def)
  then have "holding vlan (p\<lparr>glob := g\<rparr>) = holding vlan p" by (simp add: holding_def in_flight_def held_def)
  moreover have "up_ok log vlan (p\<lparr>glob := g\<rparr>) = up_ok log vlan p"
    by (simp add: up_ok_def machine_ok_def idle_empty_def tx_wf_def rx_wf_def used_def slot_def ring_continuous_def
        tx_ring_len_def rx_ring_len_def)
  ultimately show ?thesis by (simp add: up_inv_def account_def)
qed

text \<open>The steps of the transmit ring, whatever the account stood at before.\<close>

lemma up_inv_tx_delta:
  assumes "up_inv log vlan (p, w, s)" and "machine_ok vlan p'" and "rx_side p' = rx_side p"
    and "given (log w') = given (log w)" and "allocs (log w') = allocs (log w)"
    and "mset d + mset (frees (log w)) + mset (in_flight (ndesc_ops vlan) p)
      = mset (frees (log w')) + mset (in_flight (ndesc_ops vlan) p')"
  shows "up_inv log vlan (p', w', d @ s)"
proof -
  have k: "held p' = held p" "rx_wf p' = rx_wf p" using held_rx_side [OF assms(3)] rx_side_wf [OF assms(3)] by simp_all
  then have "up_ok log vlan p'" using assms(1-3) by (simp add: up_inv_def up_ok_def rx_side_def)
  moreover have "mset s + mset (allocs (log w)) + (mset d + mset (frees (log w)) + mset (in_flight (ndesc_ops vlan) p))
      = mset (frees (log w)) + mset (given (log w)) + mset (in_flight (ndesc_ops vlan) p) + mset (held p)
        + (mset (frees (log w')) + mset (in_flight (ndesc_ops vlan) p'))"
    using assms(1, 6) by (simp add: up_inv_def account_def holding_def)
  then have "mset d + mset s + mset (allocs (log w)) = mset (frees (log w')) + mset (given (log w))
      + (mset (in_flight (ndesc_ops vlan) p') + mset (held p))"
    by (simp add: ac_simps)
  ultimately show ?thesis using k assms(4, 5) by (simp add: up_inv_def account_def holding_def)
qed

lemma up_inv_tx_step:
  assumes cl: "call_log log e" and s: "tx_step x e vlan (p, w, s) (p', w', s')" and i: "up_inv log vlan (p, w, s)"
  shows "up_inv log vlan (p', w', s')"
proof -
  obtain d where d: "s' = d @ s" and any: "\<And>t. tx_step x e vlan (p, w, t) (p', w', d @ t)"
  proof -
    from s show thesis
    proof (cases rule: tx_step.cases)
      case (send skb)
      then show thesis using that [of "[skb_ptr skb]"] tx_step.send by fastforce
    next
      case (complete k d)
      then show thesis using that [of "[]"] tx_step.complete [of k p vlan d x e w] by simp
    qed (use that [of "[]"] tx_step.intros in fastforce)+
  qed
  let ?t = "frees (log w) @ in_flight (ndesc_ops vlan) p"
  have "tx_inv log vlan (p, w, ?t)" using i by (simp add: tx_inv_def up_inv_def up_ok_def)
  from tx_inv_step [OF cl any this] show ?thesis
    unfolding d by (intro up_inv_tx_delta [OF i]) (simp_all add: tx_inv_def add.assoc)
qed

lemma up_inv_rx:
  assumes cl: "call_log log e" and r: "stmmac_rx x e limit p w = Some (n, p', w')" and i: "up_inv log vlan (p, w, s)"
  shows "up_inv log vlan (p', w', s)"
proof -
  let ?fl = "mset (in_flight (ndesc_ops vlan) p)"
  have "rx_balance (mset s) (mset (frees (log w)) + ?fl) (log w) p"
    using i by (simp add: up_inv_def account_def holding_def rx_balance_def ac_simps)
  from stmmac_rx_account [OF cl r _ _ this] i
  have a: "rx_wf p'" "rx_balance (mset s) (mset (frees (log w)) + ?fl) (log w') p'" "frees (log w') = frees (log w)"
    "hwts_rx_en p' = hwts_rx_en p" "tx_side p' = tx_side p"
    by (simp_all add: up_inv_def up_ok_def)
  note t = machine_tx_side [OF a(5)]
  have "up_ok log vlan p'" using a i t by (simp add: up_inv_def up_ok_def tx_side_def)
  then show ?thesis using a(2, 3) t by (simp add: up_inv_def account_def holding_def rx_balance_def ac_simps)
qed

lemma up_inv_clean:
  assumes "call_log log e" and "stmmac_tx_clean x e p w = Some (p', w')" and "up_inv log vlan (p, w, s)"
  shows "up_inv log vlan (p', w', s)"
  using up_inv_tx_step [OF assms(1) tx_step.reclaim [OF assms(2)] assms(3)] .

lemma up_inv_err:
  assumes "call_log log e" and "stmmac_tx_err e p w = Some (p', w')" and "up_inv log vlan (p, w, s)"
  shows "up_inv log vlan (p', w', s)"
  using up_inv_tx_step [OF assms(1) tx_step.recover [OF assms(2)] assms(3)] .

section \<open>Interrupts and polls\<close>

lemma dma_interrupt_quiet:
  assumes "call_log log e" and "dwmac_dma_interrupt e a xs w = (st, xs', w')"
  shows "log w' = log w"
  using assms(2)
  by (auto simp: dwmac_dma_interrupt_def dma_normal_irq_def readl_eq Let_def call_log_laws [OF assms(1)] split: prod.splits if_splits)

lemma up_inv_dma_tx_error:
  assumes cl: "call_log log e" and r: "dma_tx_error e status p w = Some (p', w')" and i: "up_inv log vlan (p, w, s)"
  shows "up_inv log vlan (p', w', s)"
proof -
  have m: "log (dma_mode (hw_dma (hw p)) e a tc sf w) = log w" for a tc sf
    using i by (simp add: up_inv_def up_ok_def machine_ok_def dwmac1000_dma_ops_def dwmac1000_dma_operation_mode_def
        call_log_laws [OF cl])
  have world: "up_inv log vlan (p, v, s)" if "log v = log w" for v
    using i that by (simp add: up_inv_def account_def)
  show ?thesis
    using r i up_inv_err [OF cl, of p w p' w' vlan s] world m by (auto simp: dma_tx_error_def Let_def split: if_splits)
qed

lemma up_inv_log: "log v = log w \<Longrightarrow> up_inv log vlan (p, v, s) = up_inv log vlan (p, w, s)"
  by (simp add: up_inv_def account_def)

lemma dma_irq_quiet:
  assumes "call_log log e" and "hw_dma (hw p) = dwmac1000_dma_ops"
  shows "log (stmmac_enable_dma_irq e p w) = log w" "log (stmmac_disable_dma_irq e p w) = log w"
  using assms(2)
  by (simp_all add: stmmac_enable_dma_irq_def stmmac_disable_dma_irq_def dwmac1000_dma_ops_def dwmac_enable_dma_irq_def
      dwmac_disable_dma_irq_def call_log_laws [OF assms(1)])

lemma up_inv_dma: "up_inv log vlan (p, w, s) \<Longrightarrow> hw_dma (hw p) = dwmac1000_dma_ops"
  by (simp add: up_inv_def up_ok_def machine_ok_def)

lemma up_inv_interrupt:
  assumes cl: "call_log log e" and r: "stmmac_direct_dma_interrupt x e p w = Some (p', w')" and i: "up_inv log vlan (p, w, s)"
  shows "up_inv log vlan (p', w', s)"
proof -
  obtain status xs w1 where d: "dma_interrupt (hw_dma (hw p)) e (ioaddr p) (xstats p) w = (status, xs, w1)"
    by (metis prod_cases3)
  let ?p = "upd_xstats (\<lambda>_. xs) p"
  have "log w1 = log w"
    using dma_interrupt_quiet [OF cl, of "ioaddr p" "xstats p" w] d up_inv_dma [OF i] by (simp add: dwmac1000_dma_ops_def)
  then have i1: "up_inv log vlan (?p, w1, s)" using i up_inv_log [of log w1 w vlan p s] by simp
  show ?thesis
  proof (cases "tst status handle_rx \<or> tst status handle_tx")
    case False
    then have "dma_tx_error e status ?p w1 = Some (p', w')" using r by (simp add: stmmac_direct_dma_interrupt_def d)
    from up_inv_dma_tx_error [OF cl this i1] show ?thesis .
  next
    case True
    then obtain q u n t z where s: "stmmac_tx_clean x e ?p (stmmac_disable_dma_irq e ?p w1) = Some (q, u)"
      "stmmac_rx x e 64 q u = Some (n, t, z)" "dma_tx_error e status t (stmmac_enable_dma_irq e t z) = Some (p', w')"
      using r by (auto simp: stmmac_direct_dma_interrupt_def d Let_def bind_eq_Some_conv)
    have "up_inv log vlan (?p, stmmac_disable_dma_irq e ?p w1, s)"
      using i1 up_inv_log [of log "stmmac_disable_dma_irq e ?p w1" w1 vlan ?p s] dma_irq_quiet(2) [OF cl up_inv_dma [OF i1], of w1] by blast
    from up_inv_rx [OF cl s(2) up_inv_clean [OF cl s(1) this]] have i2: "up_inv log vlan (t, z, s)" .
    then have "up_inv log vlan (t, stmmac_enable_dma_irq e t z, s)"
      using up_inv_log [of log "stmmac_enable_dma_irq e t z" z vlan t s] dma_irq_quiet(1) [OF cl up_inv_dma [OF i2], of z] by blast
    from up_inv_dma_tx_error [OF cl s(3) this] show ?thesis .
  qed
qed

text \<open>The interrupt in use, as long as the core does not report the low-power state nobody asked for.\<close>

lemma core_irq_up_inv:
  assumes cl: "call_log log e" and c: "core_irq e p w = (c, v)" and q: "\<not> tx_path_in_lpi_mode c"
    and i: "up_inv log vlan (p, w, s)"
  shows "up_inv log vlan (c, v, s)"
proof -
  have n: "\<not> tx_path_in_lpi_mode p" and g: "host_irq_status (hw_mac (hw p)) = dwmac1000_irq_status"
    using i by (simp_all add: up_inv_def up_ok_def machine_ok_def)
  have l: "log (snd (snd (dwmac1000_irq_status e a xs w))) = log w" for a xs
    by (simp add: dwmac1000_irq_status_def dwmac1000_lpi_irq_def dwmac1000_rgmii_irq_def readl_eq Let_def doif_def
        call_log_laws [OF cl] split: prod.split)
  have "log v = log w \<and> (\<exists>xs. c = upd_xstats (\<lambda>_. xs) p)"
  proof (cases "pl_has_gmac (plat p)")
    case True
    obtain st xs u where h: "dwmac1000_irq_status e (base_addr (dev p)) (xstats p) w = (st, xs, u)" by (metis prod_cases3)
    have "c = upd_xstats (\<lambda>_. xs) p"
      using True c q n h by (auto simp: core_irq_def g Let_def doif_def upd_xstats_def split: if_splits)
    then show ?thesis using True c h l [of "base_addr (dev p)" "xstats p"]
      by (auto simp: core_irq_def g Let_def)
  next
    case False
    then have "c = upd_xstats (\<lambda>_. xstats p) p \<and> v = w" using c by (simp add: core_irq_def upd_xstats_def)
    then show ?thesis by blast
  qed
  then show ?thesis using i up_inv_log [of log v w vlan p s] by auto
qed

lemma up_inv_stmmac_interrupt:
  assumes cl: "call_log log e" and r: "stmmac_interrupt x e (Some p) w = Some (z, Some p', w')"
    and q: "\<not> tx_path_in_lpi_mode (fst (core_irq e p w))" and i: "up_inv log vlan (p, w, s)"
  shows "up_inv log vlan (p', w', s)"
proof -
  obtain c v where c: "core_irq e p w = (c, v)" by fastforce
  have "stmmac_direct_dma_interrupt x e c v = Some (p', w')"
    using r by (auto simp: stmmac_interrupt_def c split: option.splits prod.splits)
  moreover have "up_inv log vlan (c, v, s)" using core_irq_up_inv [OF cl c _ i] q c by simp
  ultimately show ?thesis using up_inv_interrupt [OF cl] by blast
qed

lemma up_inv_poll:
  assumes cl: "call_log log e" and r: "stmmac_poll x e budget p w = Some (n, p', w')" and i: "up_inv log vlan (p, w, s)"
  shows "up_inv log vlan (p', w', s)"
proof -
  obtain q u t z where s: "stmmac_tx_clean x e (upd_xstats (napi_poll_update inc) p) w = Some (q, u)"
    "stmmac_rx x e budget q u = Some (n, p', z)"
    "w' = (if n < budget then stmmac_enable_dma_irq e p' (kdo e ''napi_complete'' [] z) else z)"
    using r by (auto simp: stmmac_poll_def Let_def bind_eq_Some_conv split: if_splits)
  have "up_inv log vlan (upd_xstats (napi_poll_update inc) p, w, s)" using i by simp
  from up_inv_rx [OF cl s(2) up_inv_clean [OF cl s(1) this]] have j: "up_inv log vlan (p', z, s)" .
  have "buf_log (log w') = buf_log (log z)"
    using s(3) dma_irq_quiet(1) [OF cl up_inv_dma [OF j]] by (simp add: call_log_laws [OF cl] buf_names_def)
  with up_inv_quiet [OF j refl refl] show ?thesis .
qed

text \<open>A frame arrives: the hardware writes back a receive descriptor it owns.\<close>

lemma up_inv_arrival:
  assumes "up_inv log vlan (p, w, s)"
  shows "up_inv log vlan (set_rx_desc j d p, w, s)"
proof -
  have h: "held (set_rx_desc j d p) = held p" "hwts_rx_en (set_rx_desc j d p) = hwts_rx_en p" "plat (set_rx_desc j d p) = plat p"
    "length (rx_skbuff_dma (set_rx_desc j d p)) = length (rx_skbuff_dma p)"
    by (simp_all add: held_def set_rx_desc_def)
  have "rx_wf (set_rx_desc j d p) = rx_wf p" by (simp add: rx_wf_def h)
  then show ?thesis
    using assms machine_tx_side [of "set_rx_desc j d p" p] h
    by (simp add: up_inv_def up_ok_def account_def holding_def)
qed


section \<open>Running\<close>

inductive run_step :: "'w ext \<Rightarrow> 'w env \<Rightarrow> bool \<Rightarrow> 'w tx_state \<Rightarrow> 'w tx_state \<Rightarrow> bool"
  for x :: "'w ext" and e :: "'w env" and vlan :: bool
where
  transmit: "tx_step x e vlan (p, w, s) (p', w', s') \<Longrightarrow> run_step x e vlan (p, w, s) (p', w', s')"
| arrive: "get_rx_owner (ndesc_ops vlan) (rx_desc p j) \<noteq> 0 \<Longrightarrow> get_rx_owner (ndesc_ops vlan) d = 0 \<Longrightarrow>
    run_step x e vlan (p, w, s) (set_rx_desc j d p, w, s)"
| poll: "stmmac_poll x e budget p w = Some (n, p', w') \<Longrightarrow> run_step x e vlan (p, w, s) (p', w', s)"
| interrupt: "stmmac_interrupt x e (Some p) w = Some (z, Some p', w') \<Longrightarrow> \<not> tx_path_in_lpi_mode (fst (core_irq e p w)) \<Longrightarrow>
    run_step x e vlan (p, w, s) (p', w', s)"

inductive_cases run_stepE: "run_step x e vlan (p, w, s) st"

lemma up_inv_step:
  assumes cl: "call_log log e" and "run_step x e vlan (p, w, s) (p', w', s')" and i: "up_inv log vlan (p, w, s)"
  shows "up_inv log vlan (p', w', s')"
  using assms(2)
proof (cases rule: run_step.cases)
  case transmit
  then show ?thesis using up_inv_tx_step [OF cl _ i] by blast
next
  case (arrive j d)
  then show ?thesis using up_inv_arrival [OF i] by simp
next
  case (poll budget n)
  then show ?thesis using up_inv_poll [OF cl _ i] by blast
next
  case (interrupt z)
  then show ?thesis using up_inv_stmmac_interrupt [OF cl _ _ i] by blast
qed

section \<open>Closing\<close>

definition free_rx_slot :: "'w env \<Rightarrow> nat \<Rightarrow> 'w priv \<times> 'w \<Rightarrow> 'w priv \<times> 'w" where
  "free_rx_slot e = (\<lambda>i (q, w).
     (q\<lparr>rx_skbuff := (rx_skbuff q)[i := 0]\<rparr>,
      doif (rx_skbuff q ! i \<noteq> 0)
        (\<lambda>w. kdo e ''dev_kfree_skb_any'' [I (rx_skbuff q ! i)]
           (kdo e ''dma_unmap_single'' [I (uint (rx_skbuff_dma q ! i)), I (uint (dma_buf_sz q))] w)) w))"

lemma free_rx_skbufs_slots:
  "dma_free_rx_skbufs e p w =
     (if unat (dma_rx_size p) > min (length (rx_skbuff p)) (length (rx_skbuff_dma p)) then None
      else Some (fold (free_rx_slot e) [0..<unat (dma_rx_size p)] (p, w)))"
  by (simp add: dma_free_rx_skbufs_def free_rx_slot_def Let_def case_prod_unfold cong: if_cong)

lemma free_rx_slots:
  assumes cl: "call_log log e"
  shows "m \<le> length (rx_skbuff p) \<Longrightarrow> fold (free_rx_slot e) [0..<m] (p, w) = (q, v) \<Longrightarrow>
     mset (frees (log v)) = mset (frees (log w)) + mset (filter (\<lambda>s. s \<noteq> 0) (take m (rx_skbuff p)))
       \<and> given (log v) = given (log w) \<and> allocs (log v) = allocs (log w)
       \<and> q = p\<lparr>rx_skbuff := replicate m 0 @ drop m (rx_skbuff p)\<rparr>"
proof (induction m arbitrary: q v)
  case (Suc m)
  obtain r u where r: "fold (free_rx_slot e) [0..<m] (p, w) = (r, u)" by fastforce
  have l: "m \<le> length (rx_skbuff p)" using Suc.prems by simp
  note ih = Suc.IH [OF l r]
  have n: "rx_skbuff r ! m = rx_skbuff p ! m" using ih Suc.prems(1) by (simp add: nth_append)
  have t: "take (Suc m) (rx_skbuff p) = take m (rx_skbuff p) @ [rx_skbuff p ! m]"
    using Suc.prems(1) by (simp add: take_Suc_conv_app_nth)
  have d: "(replicate m 0 @ drop m (rx_skbuff p))[m := 0] = replicate (Suc m) (0 :: ptr) @ drop (Suc m) (rx_skbuff p)"
    using Suc.prems(1)
    by (simp add: list_update_append Cons_nth_drop_Suc [symmetric] replicate_append_same [symmetric])
  have s: "free_rx_slot e m (r, u) = (q, v)" using Suc.prems(2) r by simp
  show ?case
    using s ih n t d by (auto simp: free_rx_slot_def doif_def call_log_laws [OF cl] split: if_splits)
qed simp

lemma free_resources_account:
  assumes cl: "call_log log e" and ok: "machine_ok vlan p" and rx: "rx_wf p"
  obtains q v where "free_dma_desc_resources e (ndesc_ops vlan) p w = Some (q, v)"
    and "mset (frees (log v)) = mset (frees (log w)) + holding vlan p"
    and "given (log v) = given (log w)" and "allocs (log v) = allocs (log w)"
    and "\<forall>j<unat (dma_tx_size q). tx_skbuff q ! j = 0" and "held q = []" and "hw q = hw p" and "plat q = plat p"
proof -
  let ?ops = "ndesc_ops vlan" and ?R = "unat (dma_rx_size p)" and ?T = "unat (dma_tx_size p)"
  note cfg = ok [unfolded machine_ok_def]
  obtain r u where f: "fold (free_rx_slot e) [0..<?R] (p, w) = (r, u)" by fastforce
  have lr: "length (rx_skbuff p) = ?R" "length (rx_skbuff_dma p) = ?R" using rx by (simp_all add: rx_wf_def)
  have a: "mset (frees (log u)) = mset (frees (log w)) + mset (held p)" "given (log u) = given (log w)"
    "allocs (log u) = allocs (log w)" "r = p\<lparr>rx_skbuff := replicate ?R 0\<rparr>"
    using free_rx_slots [OF cl _ f] lr by (simp_all add: held_def)
  have d: "dma_free_rx_skbufs e p w = Some (r, u)" using f lr by (simp add: free_rx_skbufs_slots)
  have t: "tx_side r = tx_side p" by (simp add: a(4) tx_side_def)
  have wf: "tx_wf r" "idle_empty r" "in_flight ?ops r = in_flight ?ops p" "dma_tx_size r = dma_tx_size p"
    using cfg machine_tx_side(1) [OF t, of vlan] machine_tx_side(2) [OF t, of ?ops] ok t
    by (simp_all add: machine_ok_def tx_side_def)
  obtain q v where g: "fold (free_tx_skbuf e ?ops) [0..<?T] (r, u) = (q, v)" by fastforce
  have lt: "?T \<le> length (tx_skbuff r)" "?T \<le> length (tx_skbuff_dma r)" using wf(1, 4) by (simp_all add: tx_wf_def)
  note b = free_tx_skbuf_frees [OF cl lt g]
  note c = free_tx_skbuf_fold [OF lt g]
  have dt: "dma_free_tx_skbufs e ?ops r u = Some (q, v)" using g lt wf(4) by (simp add: dma_free_tx_skbufs_def)
  have "mset (frees (log v)) = mset (frees (log u)) + mset (in_flight ?ops p)"
    using b all_slots_in_flight [OF wf(1, 2), of ?ops] wf(3, 4) by simp
  moreover have "\<forall>j<unat (dma_tx_size q). tx_skbuff q ! j = 0"
    using c lt(1) wf(4) by (simp add: tx_same_ring_def)
  moreover have "held q = []" "hw q = hw p" "plat q = plat p" "extend_desc q = extend_desc p"
    using b a(4) held_rx_side [of q r] by (simp_all add: held_def rx_side_def)
  moreover obtain v' where "free_dma_desc_resources e ?ops p w = Some (q, v')" "buf_log (log v') = buf_log (log v)"
    by (simp add: free_dma_desc_resources_def d dt Let_def call_log_laws [OF cl] buf_names_def)
  ultimately show thesis
    using that [of q v'] a b same_buf_log [of "log v'" "log v"] by (simp add: holding_def ac_simps)
qed

lemma bsp_call_quiet:
  assumes "quiet_board log (plat p)"
  shows "buf_log (log (bsp_call phy_power_on on p w)) = buf_log (log w)"
    "buf_log (log (bsp_call gmac_clk_enable on p w)) = buf_log (log w)"
  using assms by (auto simp: quiet_board_def quiet_hook_def bsp_call_def split: option.splits)

text \<open>
  Closing returns 0, frees what the slots of both rings hold, and leaves them empty.
\<close>

lemma release_account:
  assumes cl: "call_log log e" and i: "up_inv log vlan (p, w, s)"
  obtains p' w' where "stmmac_release e p w = Some (0, p', w')" and "account log {#} (p', w', s)"
    and "\<forall>j<unat (dma_tx_size p'). tx_skbuff p' ! j = 0" and "held p' = []"
proof -
  let ?ops = "ndesc_ops vlan"
  have ok: "machine_ok vlan p" "rx_wf p" "quiet_board log (plat p)" using i by (simp_all add: up_inv_def up_ok_def)
  note cfg = ok(1) [unfolded machine_ok_def]
  have hd: "hw_desc (hw p) = Some ?ops" "hw_dma (hw p) = dwmac1000_dma_ops" using cfg by simp_all
  let ?irq = "\<lambda>q w. doif (lpi_irq q \<noteq> - ENXIO) (kdo e ''free_irq'' [I (lpi_irq q)])
      (doif (wol_irq q \<noteq> nd_irq (dev q)) (kdo e ''free_irq'' [I (wol_irq q)]) (kdo e ''free_irq'' [I (nd_irq (dev q))]
        (kdo e ''del_timer_sync'' [S ''txtimer''] (kdo e ''netif_stop_queue'' [] w))))"
  have irq: "buf_log (log (?irq q v)) = buf_log (log v)" for q :: "'a priv" and v
    by (simp add: doif_def call_log_laws [OF cl] buf_names_def)
  obtain p1 w1 where s: "p1 = p\<lparr>phydev := phydev p1\<rparr>" "buf_log (log w1) = buf_log (log w)"
    "stmmac_release e p w = (let v = dwmac_dma_stop_rx e (ioaddr p1) (dwmac_dma_stop_tx e (ioaddr p1) (?irq p1 w1)) in
       Option.bind (free_dma_desc_resources e ?ops p1 v)
         (\<lambda>(q, v). Some (0, q, bsp_call gmac_clk_enable False q (bsp_call phy_power_on False q
            (stmmac_release_ptp e (kdo e ''netif_carrier_off'' [] (stmmac_set_mac e (ioaddr q) False v)))))))"
  proof (cases "phydev p")
    case None
    show thesis
      by (rule that [of p "doif (eee_enabled p) (kdo e ''del_timer_sync'' [S ''eee_ctrl_timer'']) w"])
        (simp_all add: stmmac_release_def hd None Let_def dwmac1000_dma_ops_def  doif_def
          call_log_laws [OF cl] buf_names_def)
  next
    case (Some d)
    let ?w = "kdo e ''phy_disconnect'' [I (phy_handle d)] (kdo e ''phy_stop'' [I (phy_handle d)]
      (snd (gmac_remove_sysfs e (phy_handle d) (doif (eee_enabled p) (kdo e ''del_timer_sync'' [S ''eee_ctrl_timer'']) w))))"
    show thesis
      by (rule that [of "p\<lparr>phydev := None\<rparr>" ?w])
        (simp_all add: stmmac_release_def hd Some Let_def dwmac1000_dma_ops_def  doif_def gmac_remove_sysfs_def
          call_log_laws [OF cl] buf_names_def)
  qed
  let ?v = "dwmac_dma_stop_rx e (ioaddr p1) (dwmac_dma_stop_tx e (ioaddr p1) (?irq p1 w1))"
  have v: "buf_log (log ?v) = buf_log (log w)"
    using irq s(2) by (simp add: dwmac_dma_stop_rx_def dwmac_dma_stop_tx_def call_log_laws [OF cl])
  have "tx_side p1 = tx_side (p\<lparr>phydev := phydev p1\<rparr>)" "rx_side p1 = rx_side (p\<lparr>phydev := phydev p1\<rparr>)"
    using s(1) by simp_all
  then have sd: "tx_side p1 = tx_side p" "rx_side p1 = rx_side p" by (simp_all add: tx_side_def rx_side_def)
  have ok1: "machine_ok vlan p1" "rx_wf p1" "holding vlan p1 = holding vlan p" "plat p1 = plat p"
    using ok machine_tx_side [OF sd(1)] rx_side_wf [OF sd(2)] up_sides(2) [OF sd] sd by (simp_all add: tx_side_def)
  obtain q z where f: "free_dma_desc_resources e ?ops p1 ?v = Some (q, z)"
    "mset (frees (log z)) = mset (frees (log ?v)) + holding vlan p1" "given (log z) = given (log ?v)"
    "allocs (log z) = allocs (log ?v)" "\<forall>j<unat (dma_tx_size q). tx_skbuff q ! j = 0" "held q = []" "plat q = plat p1"
    by (rule free_resources_account [OF cl ok1(1, 2), of ?v])
  let ?w' = "bsp_call gmac_clk_enable False q (bsp_call phy_power_on False q
            (stmmac_release_ptp e (kdo e ''netif_carrier_off'' [] (stmmac_set_mac e (ioaddr q) False z))))"
  have qb: "quiet_board log (plat q)" using ok(3) f(7) ok1(4) by simp
  have w': "buf_log (log ?w') = buf_log (log z)"
    by (simp add: bsp_call_quiet [OF qb] stmmac_release_ptp_def stmmac_set_mac_def Let_def readl_eq
        call_log_laws [OF cl] buf_names_def)
  have "account log {#} (q, ?w', s)"
    using i f(2-4) ok1(3) same_buf_log [OF w'] same_buf_log [OF v] by (simp add: up_inv_def account_def ac_simps)
  moreover have "stmmac_release e p w = Some (0, q, ?w')" using s(3) f(1) by simp
  ultimately show thesis using that f(5, 6) by blast
qed

end
