(* ===== verification/Stmmac_Lifecycle.thy ===== *)
theory Stmmac_Lifecycle
  imports Stmmac_Netdev
begin

text \<open>
  The life of the driver of \<open>stmmac_main.c\<close>: the detection of the core, probe and remove, suspend and
  resume, the registration of the module and its command line. The static variables of the file are
  the member \<open>glob\<close> of the state; the memory \<open>alloc_etherdev\<close> returns is an argument.
\<close>

section \<open>Detection of the core\<close>

definition IFF_UNICAST_FLT :: u32 where [hw_consts]: "IFF_UNICAST_FLT = 0x20000"

definition hw_caps_override :: "'w priv \<Rightarrow> 'w priv" where
  "hw_caps_override p =
     (let c = dma_cap p;
          rx_coe = (if rx_coe_type2 c \<noteq> 0 then STMMAC_RX_COE_TYPE2
                    else if rx_coe_type1 c \<noteq> 0 then STMMAC_RX_COE_TYPE1 else pl_rx_coe (plat p))
      in p\<lparr>plat := (plat p)\<lparr>pl_enh_desc := cap_enh_desc c, pl_pmt := pmt_remote_wake_up c,
                            pl_tx_coe := cap_tx_coe c, pl_rx_coe := rx_coe\<rparr>\<rparr>)"

text \<open>What the detected core \<open>m\<close> and the module parameters decide: the descriptor table and the mode.\<close>

definition hw_select :: "'w ext \<Rightarrow> 'w mac_device_info \<Rightarrow> 'w priv \<Rightarrow> 'w priv" where
  "hw_select x m p =
     (let p = p\<lparr>hw := m\<rparr>;
          p = p\<lparr>synopsys_id := stmmac_get_synopsys_id p\<rparr>;
          p = stmmac_selec_desc_mode (enh_desc_ops x) (vlan_tag_used x) p
      in if m_chain_mode (glob p) \<noteq> 0
         then p\<lparr>hw := (hw p)\<lparr>hw_chain := True\<rparr>, mode := STMMAC_CHAIN_MODE\<rparr>
         else p\<lparr>hw := (hw p)\<lparr>hw_ring := True\<rparr>, mode := STMMAC_RING_MODE\<rparr>)"

definition stmmac_hw_init :: "'w ext \<Rightarrow> crc_lib \<Rightarrow> 'w env \<Rightarrow> 'w priv \<Rightarrow> 'w \<Rightarrow> int \<times> 'w priv \<times> 'w" where
  "stmmac_hw_init x kl e p w =
     (let (mac, p, w) =
        (if pl_has_gmac (plat p) then
           (let p = p\<lparr>dev := (dev p)\<lparr>nd_priv_flags := nd_priv_flags (dev p) OR IFF_UNICAST_FLT\<rparr>\<rparr>;
                (mac, w) = dwmac1000_setup kl e (ioaddr p) w
            in (mac, p, w))
         else (let (mac, w) = dwmac100_setup kl (vlan_tag_used x) e (ioaddr p) w in (mac, p, w)))
      in case mac of None \<Rightarrow> (- ENOMEM, p, w)
         | Some m \<Rightarrow>
             (let p = hw_select x m p;
                  (cap, p, w) = stmmac_get_hw_features e p w;
                  p = p\<lparr>hw_cap_support := cap\<rparr>;
                  p = doif (cap \<noteq> 0) hw_caps_override p;
                  (ret, w) = rx_ipc (hw_mac (hw p)) e (ioaddr p) w;
                  p = doif (ret = 0) (plat_update (pl_rx_coe_update (\<lambda>_. STMMAC_RX_COE_NONE))) p;
                  w = doif (pl_pmt (plat p) \<noteq> 0) (kdo e ''device_set_wakeup_capable'' [I 1]) w
              in (0, p, w)))"

section \<open>Probe and remove\<close>

definition default_msg_level :: int where [hw_consts]: "default_msg_level = 0x3f"

definition free_netdev_error :: "'w env \<Rightarrow> 'w \<Rightarrow> 'w priv option \<times> 'w" where
  "free_netdev_error e w = (None, kdo e ''free_netdev'' [] w)"

text \<open>The settings between the allocation and the detection of the core.\<close>

definition probe_setup :: "'w plat \<Rightarrow> u32 \<Rightarrow> 'w priv \<Rightarrow> 'w priv" where
  "probe_setup plat_dat addr p =
     (let p = p\<lparr>p_pause := word_of_int (m_pause (glob p)), plat := plat_dat, ioaddr := addr,
                dev := (dev p)\<lparr>base_addr := addr\<rparr>\<rparr>;
          p = stmmac_verify_args p;
          phyaddr = m_phyaddr (glob p)
      in p\<lparr>plat := (plat p)\<lparr>pl_phy_addr := (if phyaddr \<ge> 0 \<and> phyaddr \<le> 31 then phyaddr else - 1)\<rparr>\<rparr>)"

text \<open>The settings between the detection of the core and the registration.\<close>

definition probe_features :: "'w ext \<Rightarrow> netif_f \<Rightarrow> 'w env \<Rightarrow> 'w priv \<Rightarrow> 'w \<Rightarrow> 'w priv \<times> 'w" where
  "probe_features x nf e p w =
     (let hwf = f_sg nf OR f_ip_csum nf OR f_ipv6_csum nf OR f_rxcsum nf;
          (t, w) = kcall e ''msecs_to_jiffies'' [I (m_watchdog (glob p))] w;
          p = p\<lparr>dev := (dev p)\<lparr>nd_hw_features := hwf,
                 nd_features := nd_features (dev p) OR hwf OR f_highdma nf OR (if vlan_tag_used x then f_vlan_ctag_rx nf else 0),
                 nd_watchdog_timeo := t\<rparr>\<rparr>;
          (lvl, w) = kcall e ''netif_msg_init'' [I (m_debug (glob p)), I default_msg_level] w;
          p = p\<lparr>msg_enable := word_of_int lvl\<rparr>;
          p = doif (m_flow_ctrl (glob p) \<noteq> 0) (p_flow_ctrl_update (\<lambda>_. FLOW_AUTO)) p;
          p = doif (synopsys_id p \<ge> DWMAC_CORE_3_50 \<and> \<not> pl_riwt_off (plat p)) (use_riwt_update (\<lambda>_. True)) p
      in (p, w))"

definition stmmac_dvr_probe ::
    "'w ext \<Rightarrow> netif_f \<Rightarrow> crc_lib \<Rightarrow> 'w env \<Rightarrow> 'w priv \<Rightarrow> 'w plat \<Rightarrow> u32 \<Rightarrow> 'w \<Rightarrow> ('w priv option \<times> 'w) option" where
  "stmmac_dvr_probe x nf kl e mem plat_dat addr w =
     (let (ndev, w) = kcall e ''alloc_etherdev'' [] w
      in if ndev = 0 then Some (None, w)
         else
           (let w = kdo e ''SET_NETDEV_DEV'' [I ndev] w;
                w = kdo e ''ether_setup'' [I ndev] w;
                w = kdo e ''stmmac_set_ethtool_ops'' [I ndev] w;
                (ret, p, w) = stmmac_hw_init x kl e (probe_setup plat_dat addr mem) w
            in if ret \<noteq> 0 then Some (free_netdev_error e w)
               else
                 (let (p, w) = probe_features x nf e p w;
                      (ret, w) = kcall e ''register_netdev'' [I ndev] w
                  in if ret \<noteq> 0 then Some (free_netdev_error e (kdo e ''netif_napi_del'' [] w))
                     else
                       (case pl_bsp (plat p) of None \<Rightarrow> None
                        | Some b \<Rightarrow>
                            (let p = p\<lparr>mdio_registered := False, stmmac_clk := bsp_clk_mac b\<rparr>
                             in if IS_ERR (stmmac_clk p)
                                then Some (free_netdev_error e (kdo e ''netif_napi_del'' [] (kdo e ''unregister_netdev'' [I ndev] w)))
                                else
                                  (let (p, w) = (if pl_clk_csr (plat p) = 0 then stmmac_clk_csr_set e p w
                                                 else (p\<lparr>p_clk_csr := pl_clk_csr (plat p)\<rparr>, w))
                                   in Some (Some (stmmac_check_pcs_mode p), w)))))))"

definition stmmac_dvr_remove :: "'w env \<Rightarrow> 'w priv \<Rightarrow> 'w \<Rightarrow> int \<times> 'w" where
  "stmmac_dvr_remove e p w =
     (let w = stop_rx (hw_dma (hw p)) e (ioaddr p) w;
          w = stop_tx (hw_dma (hw p)) e (ioaddr p) w;
          w = stmmac_set_mac e (ioaddr p) False w;
          w = doif (\<not> no_mdio p) (kdo e ''stmmac_mdio_unregister'' []) w;
          w = kdo e ''netif_carrier_off'' [] w;
          w = kdo e ''unregister_netdev'' [] w
      in (0, kdo e ''free_netdev'' [] w))"

section \<open>Power management\<close>

text \<open>The network device may be \<open>NULL\<close>.\<close>

definition stmmac_suspend :: "'w env \<Rightarrow> 'w priv option \<Rightarrow> 'w \<Rightarrow> (int \<times> 'w priv option \<times> 'w) option" where
  "stmmac_suspend e ndev w =
     (case ndev of None \<Rightarrow> Some (0, None, w)
      | Some p \<Rightarrow>
          (let (running, w) = kcall e ''netif_running'' [] w
           in if running = 0 then Some (0, Some p, w)
              else do {
                ops \<leftarrow> hw_desc (hw p);
                let w = (case phydev p of None \<Rightarrow> w | Some d \<Rightarrow> kdo e ''phy_stop'' [I (phy_handle d)] w);
                let w = kdo e ''netif_device_detach'' [] w;
                let w = kdo e ''netif_stop_queue'' [] w;
                let w = stop_tx (hw_dma (hw p)) e (ioaddr p) w;
                let w = stop_rx (hw_dma (hw p)) e (ioaddr p) w;
                let p = stmmac_clear_descriptors ops p;
                let (may, w) = kcall e ''device_may_wakeup'' [] w;
                let w = (if may \<noteq> 0 then pmt (hw_mac (hw p)) e (ioaddr p) (wolopts p) w
                         else bsp_call phy_power_on False p
                                (bsp_call gmac_clk_enable False p (stmmac_set_mac e (ioaddr p) False w)));
                Some (0, Some p, w) }))"

definition stmmac_resume :: "'w env \<Rightarrow> 'w priv \<Rightarrow> 'w \<Rightarrow> int \<times> 'w priv \<times> 'w" where
  "stmmac_resume e p w =
     (let (running, w) = kcall e ''netif_running'' [] w
      in if running = 0 then (0, p, w)
         else
           (let (may, w) = kcall e ''device_may_wakeup'' [] w;
                w = (if may \<noteq> 0 then pmt (hw_mac (hw p)) e (ioaddr p) 0 w
                     else bsp_call phy_power_on True p (bsp_call gmac_clk_enable True p w));
                w = kdo e ''netif_device_attach'' [] w;
                w = stmmac_set_mac e (ioaddr p) True w;
                w = start_tx (hw_dma (hw p)) e (ioaddr p) w;
                w = start_rx (hw_dma (hw p)) e (ioaddr p) w;
                w = kdo e ''netif_start_queue'' [] w;
                w = (case phydev p of None \<Rightarrow> w | Some d \<Rightarrow> kdo e ''phy_start'' [I (phy_handle d)] w)
            in (0, p, w)))"

definition stmmac_freeze :: "'w env \<Rightarrow> 'w priv option \<Rightarrow> 'w \<Rightarrow> (int \<times> 'w priv option \<times> 'w) option" where
  "stmmac_freeze e ndev w =
     (case ndev of None \<Rightarrow> Some (0, None, w)
      | Some p \<Rightarrow>
          (let (running, w) = kcall e ''netif_running'' [] w
           in if running = 0 then Some (0, Some p, w)
              else map_option (\<lambda>(r, p, w). (r, Some p, w)) (stmmac_release e p w)))"

definition stmmac_restore :: "'w ext \<Rightarrow> 'w env \<Rightarrow> 'w priv option \<Rightarrow> 'w \<Rightarrow> (int \<times> 'w priv option \<times> 'w) option" where
  "stmmac_restore x e ndev w =
     (case ndev of None \<Rightarrow> Some (0, None, w)
      | Some p \<Rightarrow>
          (let (running, w) = kcall e ''netif_running'' [] w
           in if running = 0 then Some (0, Some p, w)
              else map_option (\<lambda>(r, p, w). (r, Some p, w)) (stmmac_open x e p w)))"

section \<open>The module\<close>

text \<open>\<open>pci\<close> says whether the PCI part is configured in; otherwise its functions are empty.\<close>

definition stmmac_register_platform :: "'w env \<Rightarrow> 'w \<Rightarrow> int \<times> 'w" where
  "stmmac_register_platform e w = kcall e ''platform_driver_register'' [S ''stmmac_pltfr_driver''] w"

definition stmmac_unregister_platform :: "'w env \<Rightarrow> 'w \<Rightarrow> 'w" where
  "stmmac_unregister_platform e w = kdo e ''platform_driver_unregister'' [S ''stmmac_pltfr_driver''] w"

definition stmmac_register_pci :: "bool \<Rightarrow> 'w env \<Rightarrow> 'w \<Rightarrow> int \<times> 'w" where
  "stmmac_register_pci pci e w = (if pci then kcall e ''pci_register_driver'' [S ''stmmac_pci_driver''] w else (0, w))"

definition stmmac_unregister_pci :: "bool \<Rightarrow> 'w env \<Rightarrow> 'w \<Rightarrow> 'w" where
  "stmmac_unregister_pci pci e w = doif pci (kdo e ''pci_unregister_driver'' [S ''stmmac_pci_driver'']) w"

definition stmmac_init :: "bool \<Rightarrow> 'w env \<Rightarrow> 'w \<Rightarrow> int \<times> 'w" where
  "stmmac_init pci e w =
     (let (ret, w) = stmmac_register_platform e w
      in if ret \<noteq> 0 then (ret, w)
         else
           (let (ret, w) = stmmac_register_pci pci e w
            in if ret \<noteq> 0 then (ret, stmmac_unregister_platform e w) else (0, w)))"

definition stmmac_exit :: "bool \<Rightarrow> 'w env \<Rightarrow> 'w \<Rightarrow> 'w" where
  "stmmac_exit pci e w = stmmac_unregister_pci pci e (stmmac_unregister_platform e w)"

section \<open>The command line\<close>

text \<open>
  \<open>strsep(&str, ",")\<close> in a loop: the pieces between the commas, empty ones included.
\<close>

fun split_comma :: "string \<Rightarrow> string list" where
  "split_comma [] = [[]]"
| "split_comma (c # cs) =
     (if c = CHR '','' then [] # split_comma cs
      else (case split_comma cs of [] \<Rightarrow> [[c]] | t # ts \<Rightarrow> (c # t) # ts))"

text \<open>\<open>!strncmp(opt, key, strlen(key))\<close>: the rest of the option after the key.\<close>

definition after_key :: "string \<Rightarrow> string \<Rightarrow> string option" where
  "after_key key opt = (if take (length key) opt = key then Some (drop (length key) opt) else None)"

text \<open>The options in the order the code tries them, each with the variable it writes.\<close>

definition cmdline_keys :: "(string \<times> (int \<Rightarrow> module_params \<Rightarrow> module_params)) list" where
  "cmdline_keys =
     [(''debug:'', \<lambda>v. m_debug_update (\<lambda>_. v)), (''phyaddr:'', \<lambda>v. m_phyaddr_update (\<lambda>_. v)),
      (''dma_txsize:'', \<lambda>v. m_dma_txsize_update (\<lambda>_. v)), (''dma_rxsize:'', \<lambda>v. m_dma_rxsize_update (\<lambda>_. v)),
      (''buf_sz:'', \<lambda>v. m_buf_sz_update (\<lambda>_. v)), (''tc:'', \<lambda>v. m_tc_update (\<lambda>_. v)),
      (''watchdog:'', \<lambda>v. m_watchdog_update (\<lambda>_. v)), (''flow_ctrl:'', \<lambda>v. m_flow_ctrl_update (\<lambda>_. v)),
      (''pause:'', \<lambda>v. m_pause_update (\<lambda>_. v)), (''eee_timer:'', \<lambda>v. m_eee_timer_update (\<lambda>_. v)),
      (''chain_mode:'', \<lambda>v. m_chain_mode_update (\<lambda>_. v))]"

text \<open>One option: unknown ones are skipped; the flag is \<open>False\<close> when a number does not parse.\<close>

fun cmdline_option ::
    "(string \<Rightarrow> int option) \<Rightarrow> (string \<times> (int \<Rightarrow> module_params \<Rightarrow> module_params)) list \<Rightarrow> string \<Rightarrow>
     module_params \<Rightarrow> bool \<times> module_params" where
  "cmdline_option parse [] opt g = (True, g)"
| "cmdline_option parse ((key, set_var) # keys) opt g =
     (case after_key key opt of None \<Rightarrow> cmdline_option parse keys opt g
      | Some s \<Rightarrow> (case parse s of None \<Rightarrow> (False, g) | Some v \<Rightarrow> (True, set_var v g)))"

fun cmdline_loop :: "(string \<Rightarrow> int option) \<Rightarrow> string list \<Rightarrow> module_params \<Rightarrow> int \<times> module_params" where
  "cmdline_loop parse [] g = (0, g)"
| "cmdline_loop parse (opt # opts) g =
     (let (ok, g) = cmdline_option parse cmdline_keys opt g
      in if ok then cmdline_loop parse opts g else (- EINVAL, g))"

text \<open>\<open>parse\<close> is the kernel's \<open>kstrtoint\<close> with base 0, \<open>None\<close> its failure; the string may be \<open>NULL\<close>.\<close>

definition stmmac_cmdline_opt ::
    "(string \<Rightarrow> int option) \<Rightarrow> string option \<Rightarrow> module_params \<Rightarrow> int \<times> module_params" where
  "stmmac_cmdline_opt parse str g =
     (case str of None \<Rightarrow> (- EINVAL, g)
      | Some s \<Rightarrow> if s = [] then (- EINVAL, g) else cmdline_loop parse (split_comma s) g)"

end
