(* ===== verification/Main_Props.thy ===== *)
theory Main_Props
  imports Stmmac_Lifecycle
begin

text \<open>
  Properties of the life cycle of the driver: which tables the detection of a core selects, what the
  time-stamping request does when it is refused, what suspending marks in the rings, and how the
  boot options are read.
\<close>

section \<open>Detection of the core\<close>

lemma hw_features_keeps:
  assumes "stmmac_get_hw_features e p w = (cap, p', w')"
  shows "hw p' = hw p" "mode p' = mode p" "plat p' = plat p"
  using assms by (auto simp: stmmac_get_hw_features_def Let_def split: option.splits prod.splits)

lemma setup_fresh:
  assumes "dwmac1000_setup kl e a w = (Some m, w') \<or> dwmac100_setup kl vlan e a w = (Some m, w')"
  shows "\<not> hw_ptp m" "\<not> hw_ring m" "\<not> hw_chain m"
  using assms by (auto simp: dwmac1000_setup_def dwmac100_setup_def Let_def split: prod.splits if_splits)

text \<open>The chosen descriptor table and mode, before the capability register is read.\<close>

lemma hw_select_tables:
  assumes "\<not> hw_ptp m" and "\<not> hw_ring m" and "\<not> hw_chain m"
  shows "hw_desc (hw (hw_select x m p)) =
      Some (if pl_enh_desc (plat p) \<noteq> 0 then enh_desc_ops x else ndesc_ops (vlan_tag_used x))"
    "mode (hw_select x m p) = (if m_chain_mode (glob p) = 0 then STMMAC_RING_MODE else STMMAC_CHAIN_MODE)"
    "hw_ring (hw (hw_select x m p)) = (m_chain_mode (glob p) = 0)"
    "hw_chain (hw (hw_select x m p)) = (m_chain_mode (glob p) \<noteq> 0)"
    "\<not> hw_ptp (hw (hw_select x m p))" "plat (hw_select x m p) = plat p"
  using assms by (simp_all add: hw_select_def stmmac_selec_desc_mode_def doif_def Let_def)

text \<open>
  Property C33. A detected core ends up with one table of descriptor operations and exactly one of
  the two ring tables, the one of the mode asked for, and without a table for the time-stamp unit.
  The descriptor table follows what the platform said of enhanced descriptors \<^emph>\<open>before\<close> the
  capability register was read; where that register is supported, the platform value is overwritten
  afterwards, so the two may differ from then on.
\<close>

theorem hw_init_tables:
  assumes "stmmac_hw_init x kl e p w = (0, p', w')"
  shows "hw_desc (hw p') = Some (if pl_enh_desc (plat p) \<noteq> 0 then enh_desc_ops x else ndesc_ops (vlan_tag_used x))
    \<and> mode p' = (if m_chain_mode (glob p) = 0 then STMMAC_RING_MODE else STMMAC_CHAIN_MODE)
    \<and> hw_ring (hw p') = (m_chain_mode (glob p) = 0) \<and> hw_chain (hw p') = (\<not> hw_ring (hw p'))
    \<and> \<not> hw_ptp (hw p')
    \<and> pl_enh_desc (plat p') = (if hw_cap_support p' = 0 then pl_enh_desc (plat p) else cap_enh_desc (dma_cap p'))"
proof -
  obtain m q v where m: "\<not> hw_ptp m" "\<not> hw_ring m" "\<not> hw_chain m"
    and q: "plat q = plat p" "glob q = glob p"
    and mac: "(if pl_has_gmac (plat p) then
           (let p = p\<lparr>dev := (dev p)\<lparr>nd_priv_flags := nd_priv_flags (dev p) OR IFF_UNICAST_FLT\<rparr>\<rparr>;
                (mac, w) = dwmac1000_setup kl e (ioaddr p) w
            in (mac, p, w))
         else (let (mac, w) = dwmac100_setup kl (vlan_tag_used x) e (ioaddr p) w in (mac, p, w))) = (Some m, q, v)"
  proof (cases "pl_has_gmac (plat p)")
    case True
    obtain m v where s: "dwmac1000_setup kl e (ioaddr p) w = (Some m, v)"
      using assms True by (cases "dwmac1000_setup kl e (ioaddr p) w"; cases "fst (dwmac1000_setup kl e (ioaddr p) w)")
        (simp_all add: stmmac_hw_init_def Let_def ENOMEM_def)
    show thesis
      by (rule that [of m "p\<lparr>dev := (dev p)\<lparr>nd_priv_flags := nd_priv_flags (dev p) OR IFF_UNICAST_FLT\<rparr>\<rparr>" v])
        (use s True setup_fresh [of kl e "ioaddr p" w m v] in simp_all)
  next
    case False
    obtain m v where s: "dwmac100_setup kl (vlan_tag_used x) e (ioaddr p) w = (Some m, v)"
      using assms False by (cases "dwmac100_setup kl (vlan_tag_used x) e (ioaddr p) w";
          cases "fst (dwmac100_setup kl (vlan_tag_used x) e (ioaddr p) w)")
        (simp_all add: stmmac_hw_init_def Let_def ENOMEM_def)
    show thesis
      by (rule that [of m p v])
        (use s False setup_fresh [of kl e "ioaddr p" w m v "vlan_tag_used x"] in simp_all)
  qed
  note r = hw_select_tables [OF m, of x q]
  obtain cap f u where f: "stmmac_get_hw_features e (hw_select x m q) v = (cap, f, u)" by (metis prod_cases3)
  obtain ret z where z: "rx_ipc (hw_mac (hw (doif (cap \<noteq> 0) hw_caps_override (f\<lparr>hw_cap_support := cap\<rparr>)))) e
      (ioaddr (doif (cap \<noteq> 0) hw_caps_override (f\<lparr>hw_cap_support := cap\<rparr>))) u = (ret, z)" by fastforce
  have "p' = doif (ret = 0) (plat_update (pl_rx_coe_update (\<lambda>_. STMMAC_RX_COE_NONE)))
      (doif (cap \<noteq> 0) hw_caps_override (f\<lparr>hw_cap_support := cap\<rparr>))"
    using assms unfolding stmmac_hw_init_def mac by (simp add: Let_def f z)
  with r q hw_features_keeps [OF f] show ?thesis
    by (simp add: doif_def hw_caps_override_def Let_def)
qed

theorem hw_init_tables_witness:
  "let (ret, p', w') = stmmac_hw_init bench_ext bench_crc (bench_env (\<lambda>_. 1)) (bench_priv 5 STMMAC_CHAIN_MODE) bench0
   in mode p' = STMMAC_RING_MODE \<and> hw_desc (hw p') = Some (ndesc_ops False) \<and> \<not> hw_ptp (hw p')"
proof -
  obtain ret p' w' where r: "stmmac_hw_init bench_ext bench_crc (bench_env (\<lambda>_. 1)) (bench_priv 5 STMMAC_CHAIN_MODE) bench0
      = (ret, p', w')" by (metis prod_cases3)
  have "ret = 0"
    using r by (simp add: stmmac_hw_init_def dwmac1000_setup_def bench_plat_def Let_def split: prod.splits)
  then show ?thesis
    using hw_init_tables [of bench_ext bench_crc "bench_env (\<lambda>_. 1)" "bench_priv 5 STMMAC_CHAIN_MODE" bench0 p' w'] r
    by (simp add: bench_plat_def bench_ext_def) (simp add: bench_priv_def default_params_def)
qed

section \<open>Time stamps\<close>

text \<open>
  While the driver has no table for the time-stamp unit, which no code of the
  repository sets, the ioctl for time stamps never succeeds: it returns an error, or, exactly for
  the requests it means to accept, calls through the \<open>NULL\<close> table.
\<close>

theorem hwtstamp_never_succeeds:
  assumes "\<not> hw_ptp (hw p)"
  shows "case stmmac_hwtstamp_ioctl t e user p w of
      Some (ret, p', w') \<Rightarrow> ret < 0 \<and> w' = w
    | None \<Rightarrow> \<exists>c. user = Some c \<and> hc_flags c = 0 \<and> hc_tx_type c \<in> {HWTSTAMP_TX_OFF, HWTSTAMP_TX_ON}
        \<and> hwts_rx_select t (adv_ts p \<noteq> 0) (hc_rx_filter c) \<noteq> None \<and> (time_stamp (dma_cap p) \<noteq> 0 \<or> adv_ts p \<noteq> 0)"
  using assms
  by (auto simp: stmmac_hwtstamp_ioctl_def hwts_program_def EOPNOTSUPP_def EFAULT_def EINVAL_def ERANGE_def Let_def
      split: option.splits)

text \<open>A time-stamp unit whose bits are pairwise different.\<close>

definition bench_tcr :: ptp_tcr where
  "bench_tcr = \<lparr>TSENA = 1, TSCFUPDT = 2, TSCTRLSSR = 0x200, TSENALL = 0x100, TSVER2ENA = 0x400, TSIPENA = 0x800,
     TSIPV6ENA = 0x1000, TSIPV4ENA = 0x2000, TSEVNTENA = 0x4000, TSMSTRENA = 0x8000, SNAPTYPSEL_1 = 0x10000,
     SYSCLOCK = 62500000\<rparr>"

theorem hwtstamp_never_succeeds_witness:
  "stmmac_hwtstamp_ioctl bench_tcr (bench_env (\<lambda>_. 0)) (Some \<lparr>hc_flags = 0, hc_tx_type = 1, hc_rx_filter = 0\<rparr>)
     ((bench_priv 5 STMMAC_RING_MODE)\<lparr>adv_ts := 1\<rparr>) bench0 = None"
  using hwtstamp_never_succeeds [where p = "(bench_priv 5 STMMAC_RING_MODE)\<lparr>adv_ts := 1\<rparr>" and t = bench_tcr
      and e = "bench_env (\<lambda>_. 0)" and user = "Some \<lparr>hc_flags = 0, hc_tx_type = 1, hc_rx_filter = 0\<rparr>" and w = bench0]
  by (simp add: stmmac_hwtstamp_ioctl_def hwts_program_def hwts_rx_select_def hwts_filter_bits_def hw_consts Let_def)

text \<open>
  A request the ioctl refuses for its receive filter has already switched the transmit
  time stamps.
\<close>

theorem hwtstamp_refused_switches_tx:
  assumes "adv_ts p \<noteq> 0" and "hc_flags c = 0" and "hc_tx_type c = HWTSTAMP_TX_OFF \<or> hc_tx_type c = HWTSTAMP_TX_ON"
    and "hwts_filter_bits t (hc_rx_filter c) = None"
  shows "stmmac_hwtstamp_ioctl t e (Some c) p w =
    Some (- ERANGE, p\<lparr>hwts_tx_en := (hc_tx_type c = HWTSTAMP_TX_ON)\<rparr>, w)"
  using assms by (auto simp: stmmac_hwtstamp_ioctl_def hwts_rx_select_def Let_def)

theorem hwtstamp_refused_switches_tx_witness:
  "stmmac_hwtstamp_ioctl bench_tcr (bench_env (\<lambda>_. 0)) (Some \<lparr>hc_flags = 0, hc_tx_type = 1, hc_rx_filter = 9\<rparr>)
     ((bench_priv 5 STMMAC_RING_MODE)\<lparr>adv_ts := 1\<rparr>) bench0 =
     Some (- 34, (bench_priv 5 STMMAC_RING_MODE)\<lparr>adv_ts := 1, hwts_tx_en := True\<rparr>, bench0)"
  using hwtstamp_refused_switches_tx [of "(bench_priv 5 STMMAC_RING_MODE)\<lparr>adv_ts := 1\<rparr>"
      "\<lparr>hc_flags = 0, hc_tx_type = 1, hc_rx_filter = 9\<rparr>" bench_tcr "bench_env (\<lambda>_. 0)" bench0]
  by (simp add: hwts_filter_bits_def hw_consts bench_priv_def)

section \<open>Suspend\<close>

lemma clear_rx_tx_side: "tx_side (clear_rx_descriptors ops p) = tx_side p"
  unfolding clear_rx_descriptors_def by (rule fold_keeps) simp

lemma tx_flight_clear:
  assumes "tx_wf p" and "mode p = STMMAC_RING_MODE \<or> mode p = STMMAC_CHAIN_MODE"
  shows "tx_same_ring p (clear_tx_descriptors (ndesc_ops vlan) p)"
    "cur_tx (clear_tx_descriptors (ndesc_ops vlan) p) = cur_tx p" "dirty_tx (clear_tx_descriptors (ndesc_ops vlan) p) = dirty_tx p"
    "j < unat (dma_tx_size p) \<Longrightarrow> tx_flight (ndesc_ops vlan) (clear_tx_descriptors (ndesc_ops vlan) p) j =
      (tx_skbuff p ! j, tx_skbuff_dma p ! j, False)"
proof -
  have l: "unat (dma_tx_size p) \<le> tx_ring_len p" using assms(1) by (simp add: tx_wf_def)
  have o: "get_tx_owner (ndesc_ops vlan) (init_tx_desc (ndesc_ops vlan) d (mode p) z) = 0" for d z
    using assms(2) nd_ring.owner_init [of vlan d z] nd_chain.owner_init [of vlan d z] by auto
  note c = clear_tx_descriptors_fold [OF l, of "\<lambda>i d. init_tx_desc (ndesc_ops vlan) d (mode p) (Suc i = unat (dma_tx_size p))"]
  have k: "fold (\<lambda>i q. set_tx_desc i (init_tx_desc (ndesc_ops vlan) (tx_desc q i) (mode p) (Suc i = unat (dma_tx_size p))) q)
      [0..<unat (dma_tx_size p)] p = clear_tx_descriptors (ndesc_ops vlan) p"
    by (simp add: clear_tx_descriptors_def)
  show "tx_same_ring p (clear_tx_descriptors (ndesc_ops vlan) p)"
    "cur_tx (clear_tx_descriptors (ndesc_ops vlan) p) = cur_tx p"
    using c by (simp_all add: clear_tx_descriptors_def)
  show "dirty_tx (clear_tx_descriptors (ndesc_ops vlan) p) = dirty_tx p"
    unfolding clear_tx_descriptors_def by (rule fold_keeps) simp
  show "tx_flight (ndesc_ops vlan) (clear_tx_descriptors (ndesc_ops vlan) p) j =
      (tx_skbuff p ! j, tx_skbuff_dma p ! j, False)" if "j < unat (dma_tx_size p)"
    using c that o by (simp add: clear_tx_descriptors_def tx_flight_def)
qed

text \<open>
  Suspending with frames in flight makes every one of them look sent: the descriptors
  are cleared, buffers and indices are kept, so the first reclaiming after the resume frees and
  counts frames that were never sent.
\<close>

theorem suspend_marks_sent:
  assumes "tx_wf p" and "hw_desc (hw p) = Some (ndesc_ops vlan)"
    and "mode p = STMMAC_RING_MODE \<or> mode p = STMMAC_CHAIN_MODE" and "\<And>v. kval e ''netif_running'' [] v \<noteq> 0"
  shows "\<exists>p' w'. stmmac_suspend e (Some p) w = Some (0, Some p', w') \<and> tx_wf p'
    \<and> tx_queue (ndesc_ops vlan) p' = map (\<lambda>(s, a, own). (s, a, False)) (tx_queue (ndesc_ops vlan) p)"
proof -
  let ?q = "clear_rx_descriptors (ndesc_ops vlan) p"
  have q: "tx_side ?q = tx_side p" by (rule clear_rx_tx_side)
  then have m: "mode ?q = mode p" "dma_tx_size ?q = dma_tx_size p" "tx_skbuff ?q = tx_skbuff p"
      "tx_skbuff_dma ?q = tx_skbuff_dma p" "cur_tx ?q = cur_tx p" "dirty_tx ?q = dirty_tx p"
    by (simp_all add: tx_side_def)
  have wq: "tx_wf ?q" "mode ?q = STMMAC_RING_MODE \<or> mode ?q = STMMAC_CHAIN_MODE"
    using tx_side_queue(2) [OF q] assms(1, 3) m by simp_all
  let ?p' = "clear_tx_descriptors (ndesc_ops vlan) ?q"
  note c = tx_flight_clear [OF wq, where vlan = vlan]
  have u: "used ?p' = used p" using c(2, 3) m by (simp add: used_def)
  have wf: "tx_wf ?p'"
    using tx_same_ring_wf [OF c(1) wq(1)] u assms(1) m c(2, 3) by (auto simp: tx_wf_def ring_continuous_def)
  have s: "slot ?p' i = slot p i" for i using tx_same_ring_slot [OF c(1)] m by (simp add: slot_def)
  have "tx_queue (ndesc_ops vlan) ?p' = map (\<lambda>(s, a, own). (s, a, False)) (tx_queue (ndesc_ops vlan) p)"
    using slot_less [OF assms(1)] c(4) m
    by (simp add: tx_queue_def u s c(3)) (simp add: tx_flight_def)
  moreover have "\<exists>w'. stmmac_suspend e (Some p) w = Some (0, Some ?p', w')"
    using assms(2, 4) by (simp add: stmmac_suspend_def kcall_eq stmmac_clear_descriptors_def Let_def)
  ultimately show ?thesis using wf by blast
qed

theorem suspend_marks_sent_witness:
  "\<exists>p' w'. stmmac_suspend (bench_env (\<lambda>_. 1)) (Some (bench_load [(0xa0, True)] (bench_priv 5 STMMAC_RING_MODE))) bench0
      = Some (0, Some p', w') \<and> tx_queue (ndesc_ops False) p' = [(0xa0, 0x4000, False)]"
proof -
  let ?p = "bench_load [(0xa0, True)] (bench_priv 5 STMMAC_RING_MODE)"
  have "tx_wf ?p" by (simp add: bench_load_wf)
  then show ?thesis
    using suspend_marks_sent [of ?p False "bench_env (\<lambda>_. 1)" bench0] by (auto simp: bench_load_queue)
qed

section \<open>The command line\<close>

lemma split_comma_nonempty: "split_comma s \<noteq> []"
  by (induction s) (auto split: list.splits)

lemma split_comma_append:
  "split_comma (s @ CHR '','' # t) = split_comma s @ split_comma t"
  by (induction s) (auto split: list.splits simp: split_comma_nonempty)

lemma split_comma_atom: "CHR '','' \<notin> set s \<Longrightarrow> split_comma s = [s]"
  by (induction s) auto

lemma cmdline_loop_append:
  "cmdline_loop parse (as @ bs) g =
     (let (r, g') = cmdline_loop parse as g in if r = 0 then cmdline_loop parse bs g' else (r, g'))"
  by (induction as arbitrary: g) (auto simp: Let_def EINVAL_def split: prod.splits)

text \<open>No key of the table begins another, so the one that stands in front of a value is the one found.\<close>

definition prefix_free :: "string list \<Rightarrow> bool" where
  "prefix_free ks \<longleftrightarrow> distinct ks \<and>
     (\<forall>a\<in>set ks. \<forall>b\<in>set ks. a \<noteq> b \<longrightarrow> take (min (length a) (length b)) a \<noteq> take (min (length a) (length b)) b)"

lemma cmdline_keys_prefix_free: "prefix_free (map fst cmdline_keys)"
  unfolding prefix_free_def cmdline_keys_def list.map fst_conv by code_simp

lemma cmdline_keys_comma: "list_all (\<lambda>k. CHR '','' \<notin> set k) (map fst cmdline_keys)"
  unfolding cmdline_keys_def list.map fst_conv by code_simp

lemma after_key_same [simp]: "after_key k (k @ s) = Some s"
  by (simp add: after_key_def)

lemma after_key_other:
  assumes "take (min (length a) (length b)) a \<noteq> take (min (length a) (length b)) b"
  shows "after_key a (b @ s) = None"
proof -
  have "take (length a) (b @ s) \<noteq> a"
  proof
    assume h: "take (length a) (b @ s) = a"
    have "take (min (length a) (length b)) (take (length a) (b @ s)) = take (min (length a) (length b)) b"
      by (simp add: min_def)
    with h assms show False by simp
  qed
  then show ?thesis by (simp add: after_key_def)
qed

lemma cmdline_option_key:
  "prefix_free (map fst keys) \<Longrightarrow> (k, set_var) \<in> set keys \<Longrightarrow>
     cmdline_option parse keys (k @ s) g =
      (case parse s of None \<Rightarrow> (False, g) | Some v \<Rightarrow> (True, set_var v g))"
proof (induction keys)
  case (Cons kf keys)
  obtain a f where kf: "kf = (a, f)" by fastforce
  have pf: "prefix_free (map fst keys)" using Cons.prems(1) by (simp add: prefix_free_def)
  show ?case
  proof (cases "(k, set_var) = (a, f)")
    case True
    then show ?thesis by (auto simp: kf split: option.split)
  next
    case False
    then have k: "(k, set_var) \<in> set keys" using Cons.prems(2) kf by auto
    then have "k \<in> fst ` set keys" by force
    then have "a \<noteq> k" "take (min (length a) (length k)) a \<noteq> take (min (length a) (length k)) k"
      using Cons.prems(1) by (auto simp: prefix_free_def kf)
    then show ?thesis using Cons.IH [OF pf k] by (simp add: kf after_key_other)
  qed
qed simp

lemma cmdline_key:
  assumes "(k, set_var) \<in> set cmdline_keys"
  shows "cmdline_option parse cmdline_keys (k @ s) g =
      (case parse s of None \<Rightarrow> (False, g) | Some v \<Rightarrow> (True, set_var v g))" "CHR '','' \<notin> set k"
proof -
  show "cmdline_option parse cmdline_keys (k @ s) g =
      (case parse s of None \<Rightarrow> (False, g) | Some v \<Rightarrow> (True, set_var v g))"
    by (rule cmdline_option_key [OF cmdline_keys_prefix_free assms])
  have "k \<in> set (map fst cmdline_keys)" using assms by force
  then show "CHR '','' \<notin> set k" using cmdline_keys_comma unfolding list_all_iff by blast
qed

text \<open>
  Property C34. The options of the command line take effect from left to right: an option of one of
  the eleven names, put behind other options, sets its variable after them and nothing else. Once a
  number does not parse the rest is ignored and \<open>-EINVAL\<close> returned, with what was set before kept.
\<close>

theorem cmdline_option_appended:
  assumes "(k, set_var) \<in> set cmdline_keys" and "CHR '','' \<notin> set s" and "pre \<noteq> []"
  shows "stmmac_cmdline_opt parse (Some (pre @ '','' @ k @ s)) g =
    (let (r, g') = stmmac_cmdline_opt parse (Some pre) g
     in if r \<noteq> 0 then (r, g')
        else case parse s of Some v \<Rightarrow> (0, set_var v g') | None \<Rightarrow> (- EINVAL, g'))"
proof -
  have "split_comma (pre @ '','' @ k @ s) = split_comma pre @ [k @ s]"
    using cmdline_key(2) [OF assms(1)] assms(2) by (simp add: split_comma_append split_comma_atom)
  then show ?thesis
    using assms(3) cmdline_key(1) [OF assms(1), of parse s]
    by (simp add: stmmac_cmdline_opt_def cmdline_loop_append Let_def split: prod.splits option.splits)
qed

theorem cmdline_option_appended_witness:
  "stmmac_cmdline_opt (\<lambda>s. if s = ''64'' then Some 64 else None) (Some (''dma_txsize:64'' @ '','' @ ''tc:'' @ ''64''))
     default_params = (0, default_params\<lparr>m_dma_txsize := 64, m_tc := 64\<rparr>)"
  by (subst cmdline_option_appended [where set_var = "\<lambda>v. m_tc_update (\<lambda>_. v)"])
    (simp_all add: cmdline_keys_def stmmac_cmdline_opt_def after_key_def)

end
