(* ===== verification/Open_Props.thy ===== *)
theory Open_Props
  imports Main_Props
begin

text \<open>
  Opening the interface. The first two sections follow \<^verbatim>\<open>init_dma_desc_rings\<close> through its
  allocations and loops: where every allocation succeeds, the rings it leaves are empty, every
  receive slot holds a buffer and belongs to the DMA. The third carries this over the rest of
  \<^verbatim>\<open>stmmac_open\<close>, which touches none of the rings, and follows its error paths.
\<close>

section \<open>Setting up the rings\<close>

text \<open>A world in which every allocation succeeds.\<close>

definition allocs_succeed :: "'w env \<Rightarrow> bool" where
  "allocs_succeed e \<longleftrightarrow> (\<forall>n\<in>{''dma_alloc_coherent'', ''kmalloc_array'', ''__netdev_alloc_skb''}. \<forall>as w. kval e n as w \<noteq> 0)"

lemma allocs_succeedD:
  "allocs_succeed e \<Longrightarrow> kval e ''dma_alloc_coherent'' as w \<noteq> 0"
  "allocs_succeed e \<Longrightarrow> kval e ''kmalloc_array'' as w \<noteq> 0"
  "allocs_succeed e \<Longrightarrow> kval e ''__netdev_alloc_skb'' as w \<noteq> 0"
  by (simp_all add: allocs_succeed_def)

text \<open>
  What the loop over the receive ring keeps and what it establishes: every slot it passed holds a
  buffer.
\<close>

definition rx_filling :: "nat \<Rightarrow> 'w priv \<Rightarrow> 'w priv \<Rightarrow> bool" where
  "rx_filling i p p' \<longleftrightarrow> tx_side p' = tx_side p \<and> dma_rx_size p' = dma_rx_size p \<and> rx_ring_len p' = rx_ring_len p
     \<and> length (rx_skbuff p') = length (rx_skbuff p) \<and> length (rx_skbuff_dma p') = length (rx_skbuff_dma p)
     \<and> dma_buf_sz p' = dma_buf_sz p \<and> dev p' = dev p \<and> (\<forall>j<i. rx_skbuff p' ! j \<noteq> 0)"

lemma init_rx_buffers_step:
  assumes "allocs_succeed e" and "hw_ring (hw p)" and "i < length (rx_skbuff p)" and "i < length (rx_skbuff_dma p)"
    and "\<forall>j<i. rx_skbuff p ! j \<noteq> 0"
  shows "\<exists>p' w'. stmmac_init_rx_buffers x e i p w = Some (True, p', w') \<and> rx_filling (Suc i) p p'"
  using assms allocs_succeedD(3) [OF assms(1)]
  by (auto simp: stmmac_init_rx_buffers_def kcall_eq Let_def rx_filling_def tx_side_def rx_ring_len_def set_rx_desc_def
      less_Suc_eq)

lemma init_rx_loop_step:
  "allocs_succeed e \<Longrightarrow> hw_ring (hw p) \<Longrightarrow> i + n \<le> length (rx_skbuff p) \<Longrightarrow> i + n \<le> length (rx_skbuff_dma p) \<Longrightarrow>
     \<forall>j<i. rx_skbuff p ! j \<noteq> 0 \<Longrightarrow>
     \<exists>p' w'. init_rx_loop x e i n p w = Some (i + n, p', w') \<and> rx_filling (i + n) p p'"
proof (induction n arbitrary: i p w)
  case 0
  then show ?case by (simp add: rx_filling_def)
next
  case (Suc n)
  have l: "i < length (rx_skbuff p)" "i < length (rx_skbuff_dma p)" using Suc.prems by auto
  obtain q v where s: "stmmac_init_rx_buffers x e i p w = Some (True, q, v)" and q: "rx_filling (Suc i) p q"
    using init_rx_buffers_step [OF Suc.prems(1, 2) l Suc.prems(5)] by blast
  have "hw_ring (hw q)" using q Suc.prems(2) by (simp add: rx_filling_def tx_side_def)
  then obtain p' w' where r: "init_rx_loop x e (Suc i) n q v = Some (Suc i + n, p', w')" "rx_filling (Suc i + n) q p'"
    using Suc.IH [of q "Suc i" v] Suc.prems q by (auto simp: rx_filling_def)
  then show ?case using s q by (auto simp: rx_filling_def)
qed

lemma init_tx_loop_fold:
  "n \<le> length (tx_skbuff p) \<Longrightarrow> n \<le> length (tx_skbuff_dma p) \<Longrightarrow>
     (let q = fold (\<lambda>i q. (set_tx_desc i ((tx_desc q i)\<lparr>des2 := 0\<rparr>) q)
                \<lparr>tx_skbuff_dma := (tx_skbuff_dma q)[i := 0], tx_skbuff := (tx_skbuff q)[i := 0]\<rparr>) [0..<n] p
      in rx_side q = rx_side p \<and> tx_same_ring p q \<and> (\<forall>j<n. tx_skbuff q ! j = 0 \<and> tx_skbuff_dma q ! j = 0))"
proof (induction n)
  case 0
  then show ?case by (simp add: tx_same_ring_def)
next
  case (Suc n)
  then show ?case
    by (auto simp: Let_def less_Suc_eq tx_same_ring_def nth_list_update)
qed

lemma init_tx_loop_step:
  assumes "unat (dma_tx_size p) \<le> length (tx_skbuff p)" and "unat (dma_tx_size p) \<le> length (tx_skbuff_dma p)"
  shows "\<exists>q. init_tx_loop p = Some q \<and> rx_side q = rx_side p \<and> tx_same_ring p q
    \<and> (\<forall>j<unat (dma_tx_size p). tx_skbuff q ! j = 0 \<and> tx_skbuff_dma q ! j = 0)"
  using init_tx_loop_fold [OF assms] assms by (simp add: init_tx_loop_def Let_def)

lemma clear_tx_rx_side: "rx_side (clear_tx_descriptors ops p) = rx_side p"
  unfolding clear_tx_descriptors_def by (rule fold_keeps) simp

lemma clear_rx_descriptors_fold:
  assumes "m \<le> rx_ring_len p"
  shows "let q = fold (\<lambda>i q. set_rx_desc i (f i (rx_desc q i)) q) [0..<m] p
    in rx_ring_len q = rx_ring_len p \<and> rx_skbuff q = rx_skbuff p \<and> rx_skbuff_dma q = rx_skbuff_dma p
     \<and> dma_rx_size q = dma_rx_size p \<and> cur_rx q = cur_rx p \<and> dirty_rx q = dirty_rx p
     \<and> (\<forall>j. rx_desc q j = (if j < m then f j (rx_desc p j) else rx_desc p j))"
  using assms
proof (induction m)
  case (Suc m)
  let ?q = "fold (\<lambda>i q. set_rx_desc i (f i (rx_desc q i)) q) [0..<m] p"
  have l: "m < rx_ring_len ?q" using Suc by (simp add: Let_def)
  show ?case using Suc l by (auto simp: Let_def rx_desc_set_rx_desc less_Suc_eq)
qed simp

lemma clear_rx_ready:
  assumes "rx_wf p" and "\<forall>j<unat (dma_rx_size p). rx_skbuff p ! j \<noteq> 0"
  shows "rx_wf (clear_rx_descriptors (ndesc_ops vlan) p)"
    "j < unat (dma_rx_size p) \<Longrightarrow> rx_ready (ndesc_ops vlan) (clear_rx_descriptors (ndesc_ops vlan) p) j"
    "cur_rx (clear_rx_descriptors (ndesc_ops vlan) p) = cur_rx p" "dirty_rx (clear_rx_descriptors (ndesc_ops vlan) p) = dirty_rx p"
    "dma_rx_size (clear_rx_descriptors (ndesc_ops vlan) p) = dma_rx_size p"
proof -
  have u: "use_riwt (set_rx_desc i d q) = use_riwt q" for i d and q :: "'a priv" by (simp add: set_rx_desc_def)
  have "unat (dma_rx_size p) \<le> rx_ring_len p" using assms(1) by (simp add: rx_wf_def)
  note c = clear_rx_descriptors_fold [OF this, of "\<lambda>i d. init_rx_desc (ndesc_ops vlan) d (use_riwt p) (mode p) (Suc i = unat (dma_rx_size p))"]
  show "rx_wf (clear_rx_descriptors (ndesc_ops vlan) p)"
    "cur_rx (clear_rx_descriptors (ndesc_ops vlan) p) = cur_rx p" "dirty_rx (clear_rx_descriptors (ndesc_ops vlan) p) = dirty_rx p"
    "dma_rx_size (clear_rx_descriptors (ndesc_ops vlan) p) = dma_rx_size p"
    using c assms(1) by (simp_all add: clear_rx_descriptors_def rx_wf_def Let_def)
  show "rx_ready (ndesc_ops vlan) (clear_rx_descriptors (ndesc_ops vlan) p) j" if "j < unat (dma_rx_size p)"
    using c assms that nd_rx.rx_owner_init by (simp add: clear_rx_descriptors_def rx_ready_def Let_def)
qed

lemma alloc_rings_ok:
  assumes "allocs_succeed e" and "\<not> extend_desc p"
  shows "\<exists>p' w'. alloc_rings e p w = (True, p', w') \<and> length (dma_rx p') = unat (dma_rx_size p)
    \<and> length (dma_tx p') = unat (dma_tx_size p) \<and> \<not> extend_desc p' \<and> dma_rx_size p' = dma_rx_size p
    \<and> dma_tx_size p' = dma_tx_size p \<and> hw p' = hw p \<and> mode p' = mode p \<and> hwts_tx_en p' = hwts_tx_en p
    \<and> ioaddr p' = ioaddr p \<and> eee_active p' = eee_active p \<and> dev p' = dev p \<and> dma_buf_sz p' = dma_buf_sz p"
  using assms(2) allocs_succeedD(1) [OF assms(1)]
  by (simp add: alloc_rings_def alloc_desc_ring_def kcall_eq Let_def)

lemma fresh_ptrs_ok:
  assumes "allocs_succeed e"
  shows "\<exists>l w'. fresh_ptrs e name n w = (l, w') \<and> length l = unat n"
  using allocs_succeedD(2) [OF assms] by (simp add: fresh_ptrs_def kcall_eq Let_def)

lemma rx_side_ready: "rx_side p' = rx_side p \<Longrightarrow> rx_ready ops p' j = rx_ready ops p j"
  by (simp add: rx_side_def rx_ready_def rx_desc_def)

text \<open>The members of a ring that was just set up.\<close>

definition rings_fresh :: "bool \<Rightarrow> 'w priv \<Rightarrow> 'w priv \<Rightarrow> bool" where
  "rings_fresh vlan p p' \<longleftrightarrow> tx_wf p' \<and> rx_wf p' \<and> tx_queue (ndesc_ops vlan) p' = [] \<and> cur_tx p' = 0 \<and> cur_rx p' = 0
     \<and> dirty_rx p' = 0 \<and> dma_tx_size p' = dma_tx_size p \<and> dma_rx_size p' = dma_rx_size p \<and> hw p' = hw p
     \<and> mode p' = mode p \<and> hwts_tx_en p' = hwts_tx_en p \<and> ioaddr p' = ioaddr p \<and> eee_active p' = eee_active p
     \<and> (\<forall>j<unat (dma_tx_size p). tx_skbuff p' ! j = 0)
     \<and> (\<forall>j<unat (dma_rx_size p). rx_ready (ndesc_ops vlan) p' j)"

lemma init_rings_fresh:
  assumes ok: "allocs_succeed e" and ops: "hw_desc (hw p) = Some (ndesc_ops vlan)" and ring: "hw_ring (hw p)"
    and m: "mode p = STMMAC_RING_MODE" and ext: "\<not> extend_desc p" and sz: "dma_tx_size p \<noteq> 0" "dma_rx_size p \<noteq> 0"
  shows "\<exists>p' w'. init_dma_desc_rings x e p w = Some (p', w') \<and> rings_fresh vlan p p'"
proof -
  let ?ops = "ndesc_ops vlan" and ?T = "unat (dma_tx_size p)" and ?R = "unat (dma_rx_size p)"
  obtain a wa where a: "alloc_rings e p w = (True, a, wa)" and al: "length (dma_rx a) = ?R" "length (dma_tx a) = ?T"
    "\<not> extend_desc a" "dma_rx_size a = dma_rx_size p" "dma_tx_size a = dma_tx_size p" "hw a = hw p" "mode a = mode p"
    "hwts_tx_en a = hwts_tx_en p" "ioaddr a = ioaddr p" "eee_active a = eee_active p"
    using alloc_rings_ok [OF ok ext, of w] by blast
  obtain rda w1 where r1: "fresh_ptrs e ''rx_skbuff_dma'' (dma_rx_size a) wa = (rda, w1)" "length rda = ?R"
    using fresh_ptrs_ok [OF ok, of _ "dma_rx_size a"] al(4) by metis
  obtain rsk w2 where r2: "fresh_ptrs e ''rx_skbuff'' (dma_rx_size a) w1 = (rsk, w2)" "length rsk = ?R"
    using fresh_ptrs_ok [OF ok, of _ "dma_rx_size a"] al(4) by metis
  obtain tda w3 where r3: "fresh_ptrs e ''tx_skbuff_dma'' (dma_tx_size a) w2 = (tda, w3)" "length tda = ?T"
    using fresh_ptrs_ok [OF ok, of _ "dma_tx_size a"] al(5) by metis
  obtain tsk w4 where r4: "fresh_ptrs e ''tx_skbuff'' (dma_tx_size a) w3 = (tsk, w4)" "length tsk = ?T"
    using fresh_ptrs_ok [OF ok, of _ "dma_tx_size a"] al(5) by metis
  define b where "b = a\<lparr>rx_skbuff_dma := map word_of_int rda, rx_skbuff := rsk,
                 tx_skbuff_dma := map word_of_int tda, tx_skbuff := tsk\<rparr>"
  have b: "length (rx_skbuff b) = ?R" "length (rx_skbuff_dma b) = ?R" "hw_ring (hw b)" "dma_rx_size b = dma_rx_size p"
    "length (tx_skbuff b) = ?T" "length (tx_skbuff_dma b) = ?T" "tx_ring_len b = ?T" "rx_ring_len b = ?R" "hw b = hw p"
    "mode b = mode p" "dma_tx_size b = dma_tx_size p" "hwts_tx_en b = hwts_tx_en p"
    "ioaddr b = ioaddr p" "eee_active b = eee_active p"
    using al r1 r2 r3 r4 ring by (simp_all add: b_def tx_ring_len_def rx_ring_len_def)
  obtain c wc where c: "init_rx_loop x e 0 ?R b w4 = Some (?R, c, wc)" "rx_filling ?R b c"
    using init_rx_loop_step [OF ok b(3), of 0 ?R x w4] b(1, 2) by auto
  define bfsize where "bfsize = (if ring_set_16kib_bfsize x (nd_mtu (dev p)) < BUF_SIZE_16KiB
        then stmmac_set_bfsize (nd_mtu (dev p)) (uint (dma_buf_sz p)) else ring_set_16kib_bfsize x (nd_mtu (dev p)))"
  define d where "d = c\<lparr>cur_rx := 0, dirty_rx := dma_rx_size p - dma_rx_size c, dma_buf_sz := word_of_int bfsize,
                 glob := (glob c)\<lparr>m_buf_sz := bfsize\<rparr>\<rparr>"
  have cs: "tx_side c = tx_side b" using c(2) by (simp add: rx_filling_def)
  have d: "rx_wf d" "cur_rx d = 0" "dirty_rx d = 0" "\<forall>j<?R. rx_skbuff d ! j \<noteq> 0" "dma_rx_size d = dma_rx_size p"
    "length (tx_skbuff d) = ?T" "length (tx_skbuff_dma d) = ?T" "tx_ring_len d = ?T" "hw d = hw p" "mode d = mode p"
    "dma_tx_size d = dma_tx_size p" "hwts_tx_en d = hwts_tx_en p"
    "ioaddr d = ioaddr p" "eee_active d = eee_active p"
    using c(2) cs b sz by (auto simp: d_def rx_filling_def rx_wf_def rx_ring_len_def tx_side_def tx_ring_len_def)
  obtain f where f: "init_tx_loop d = Some f" "rx_side f = rx_side d" "tx_same_ring d f"
      "\<forall>j<?T. tx_skbuff f ! j = 0 \<and> tx_skbuff_dma f ! j = 0"
    using init_tx_loop_step [of d] d(6, 7, 11) by auto
  define g where "g = f\<lparr>dirty_tx := 0, cur_tx := 0\<rparr>"
  let ?h = "clear_rx_descriptors ?ops g"
  let ?p = "clear_tx_descriptors ?ops ?h"
  have gr: "rx_side g = rx_side d" using f(2) by (simp add: g_def)
  have g: "rx_wf g" "\<forall>j<?R. rx_skbuff g ! j \<noteq> 0" "dma_rx_size g = dma_rx_size p" "cur_rx g = 0" "dirty_rx g = 0"
    "ioaddr g = ioaddr p" "eee_active g = eee_active p"
    using rx_side_wf [OF gr] d gr by (simp_all add: rx_side_def)
  have gt: "tx_wf g" "hw g = hw p" "mode g = mode p" "dma_tx_size g = dma_tx_size p" "hwts_tx_en g = hwts_tx_en p"
    "cur_tx g = 0" "dirty_tx g = 0" "\<forall>j<?T. tx_skbuff g ! j = 0"
    using f(3, 4) d sz by (simp_all add: g_def tx_same_ring_def tx_wf_def used_def unat_gt_0)
  have "\<forall>j<unat (dma_rx_size g). rx_skbuff g ! j \<noteq> 0" using g by simp
  note hr = clear_rx_ready [OF g(1) this, where vlan = vlan]
  have ht: "tx_side ?h = tx_side g" by (rule clear_rx_tx_side)
  have hw': "tx_wf ?h" "mode ?h = STMMAC_RING_MODE \<or> mode ?h = STMMAC_CHAIN_MODE"
    using tx_side_queue(2) [OF ht] gt m ht by (simp_all add: tx_side_def)
  note pt = tx_flight_clear [OF hw', where vlan = vlan]
  have pr: "rx_side ?p = rx_side ?h" by (rule clear_tx_rx_side)
  have u: "cur_tx ?p = 0" "dirty_tx ?p = 0" using pt(2, 3) ht gt by (simp_all add: tx_side_def)
  have wf: "tx_wf ?p" using tx_same_ring_wf [OF pt(1) hw'(1)] u gt(1) ht
    by (simp add: used_def tx_wf_def unat_gt_0 tx_side_def)
  have "tx_skbuff ?p ! j = 0" if "j < ?T" for j
    using pt(4) [of j] that gt ht by (simp add: tx_flight_def tx_side_def)
  moreover have "rx_ready ?ops ?p j" if "j < ?R" for j
    using hr(2) [of j] that g(3) rx_side_ready [OF pr] by simp
  moreover have "rx_wf ?p" using rx_side_wf [OF pr] hr(1) by simp
  moreover have "cur_rx ?p = 0 \<and> dirty_rx ?p = 0 \<and> dma_rx_size ?p = dma_rx_size p"
    using pr hr(3-5) g by (simp add: rx_side_def)
  moreover have "dma_tx_size ?p = dma_tx_size p \<and> hw ?p = hw p \<and> mode ?p = mode p \<and> hwts_tx_en ?p = hwts_tx_en p"
    using pt(1) ht gt by (simp add: tx_same_ring_def tx_side_def)
  moreover have "ioaddr ?p = ioaddr p \<and> eee_active ?p = eee_active p"
    using pr ht g(6, 7) by (simp add: rx_side_def tx_side_def)
  moreover have "tx_queue ?ops ?p = []" using u by (simp add: tx_queue_empty)
  ultimately have "rings_fresh vlan p ?p" using wf u by (simp add: rings_fresh_def)
  moreover have "chain_rings x d = Some d"
    using d(10) m by (simp add: chain_rings_def STMMAC_RING_MODE_def STMMAC_CHAIN_MODE_def)
  then have "init_dma_desc_rings x e p w = Some (?p, wc)"
    using ops ring m r1(1) r2(1) r3(1) r4(1) al c(1) f(1) d(10)
    by (simp add: init_dma_desc_rings_def a b_def [symmetric] bfsize_def [symmetric] d_def [symmetric]
        g_def [symmetric] stmmac_clear_descriptors_def Let_def b(4))
  ultimately show ?thesis by blast
qed

section \<open>Opening the interface\<close>

text \<open>The members of the state the rings live in, which nothing after their set-up changes.\<close>

definition ring_state :: "'w priv \<Rightarrow> _" where
  "ring_state p = (cur_tx p, dirty_tx p, dma_tx_size p, tx_skbuff p, tx_skbuff_dma p, dma_tx p, dma_etx p,
     extend_desc p, hw p, mode p, hwts_tx_en p, cur_rx p, dirty_rx p, dma_rx_size p, rx_skbuff p,
     rx_skbuff_dma p, dma_rx p, dma_erx p)"

lemma ring_state_rings:
  assumes "ring_state p' = ring_state p"
  shows "tx_wf p' = tx_wf p" "rx_wf p' = rx_wf p" "tx_queue ops p' = tx_queue ops p" "rx_ready ops p' j = rx_ready ops p j"
    "cur_rx p' = cur_rx p" "dirty_rx p' = dirty_rx p" "dma_tx_size p' = dma_tx_size p" "dma_rx_size p' = dma_rx_size p"
    "hw p' = hw p" "hwts_tx_en p' = hwts_tx_en p" "tx_ring_len p' = tx_ring_len p"
  using assms
  by (simp_all add: ring_state_def tx_wf_def rx_wf_def tx_queue_def used_def slot_def tx_flight_def tx_desc_def
      rx_ready_def rx_desc_def tx_ring_len_def rx_ring_len_def ring_continuous_def)

lemma check_ether_addr_keeps:
  assumes "stmmac_check_ether_addr e p w = (p', w')"
  shows "\<exists>a. p' = p\<lparr>dev := (dev p)\<lparr>nd_dev_addr := a\<rparr>\<rparr>"
proof (cases "is_valid_ether_addr (nd_dev_addr (dev p))")
  case True
  then have "p' = p" using assms by (simp add: stmmac_check_ether_addr_def)
  then show ?thesis by (intro exI [of _ "nd_dev_addr (dev p)"]) simp
next
  case False
  then show ?thesis using assms by (auto simp: stmmac_check_ether_addr_def Let_def split: prod.splits)
qed

lemma init_phy_keeps:
  assumes "stmmac_init_phy e p w = (r, p', w')"
  shows "\<exists>d. p' = p\<lparr>oldlink := False, p_speed := 0, oldduplex := -1, phydev := d\<rparr>"
  using assms
  by (auto simp: stmmac_init_phy_def Let_def split: prod.splits if_splits intro: exI [of _ "phydev p"])

text \<open>Everything the rest of the opening reads is left alone by the attachment of the PHY.\<close>

lemma open_phy_keeps:
  assumes "open_phy e p w = (r, p', w')"
  shows "ring_state p' = ring_state p" "glob p' = glob p" "ioaddr p' = ioaddr p" "eee_active p' = eee_active p"
    "plat p' = plat p" "dma_cap p' = dma_cap p"
proof -
  have "ring_state p' = ring_state p \<and> glob p' = glob p \<and> ioaddr p' = ioaddr p \<and> eee_active p' = eee_active p
    \<and> plat p' = plat p \<and> dma_cap p' = dma_cap p"
    using assms
    by (auto simp: open_phy_def Let_def ring_state_def split: prod.splits if_splits dest!: init_phy_keeps)
  then show "ring_state p' = ring_state p" "glob p' = glob p" "ioaddr p' = ioaddr p" "eee_active p' = eee_active p"
    "plat p' = plat p" "dma_cap p' = dma_cap p" by simp_all
qed

lemma open_irqs_granted:
  assumes "\<And>as v. 0 \<le> kval e ''request_irq'' as v"
  shows "fst (open_irqs e p w) = 0"
proof -
  have "\<not> kval e ''request_irq'' as v < 0" for as v using assms [of as v] by simp
  then show ?thesis by (simp add: open_irqs_def kcall_eq Let_def)
qed

lemma dma_mode_keeps:
  assumes "stmmac_dma_operation_mode e p w = (p', w')"
  shows "\<exists>g. p' = p\<lparr>glob := g\<rparr>"
  using assms by (auto simp: stmmac_dma_operation_mode_def split: if_splits intro: exI [of _ "glob p"])

lemma mmc_setup_keeps:
  assumes "stmmac_mmc_setup e p w = (p', w')"
  shows "\<exists>c. p' = p\<lparr>mmc := c\<rparr>"
  using assms by (auto simp: stmmac_mmc_setup_def Let_def split: if_splits intro: exI [of _ "mmc p"])

lemma open_start_dma_keeps:
  assumes "open_start_dma e p w = (p', w')"
  shows "\<exists>g c x t. p' = p\<lparr>glob := g, xstats := x, mmc := c, tx_lpi_timer := t\<rparr>"
  using assms
  by (auto simp: open_start_dma_def Let_def split: prod.splits dest!: dma_mode_keeps mmc_setup_keeps)

lemma open_start_timers_keeps: "ring_state (fst (open_start_timers e p w)) = ring_state p"
  by (simp add: open_start_timers_def stmmac_init_tx_coalesce_def kcall_eq Let_def ring_state_def split: option.split)

lemma eee_init_ok:
  assumes "hw_mac (hw p) = dwmac1000_ops kl" and "\<not> eee_active p"
  shows "\<exists>r q w'. stmmac_eee_init e p w = Some (r, q, w') \<and> ring_state q = ring_state p"
  using assms by (simp add: stmmac_eee_init_def kcall_eq Let_def dwmac1000_ops_def ring_state_def) blast

lemma open_start_ok:
  assumes "hw_mac (hw p) = dwmac1000_ops kl" and "\<not> eee_active p"
  shows "\<exists>p' w'. open_start e p w = Some (p', w') \<and> ring_state p' = ring_state p"
proof -
  obtain q v where q: "open_start_dma e p w = (q, v)" by fastforce
  then have k: "ring_state q = ring_state p" "hw q = hw p" "eee_active q = eee_active p"
    using open_start_dma_keeps [OF q] by (auto simp: ring_state_def)
  obtain r b u where r: "stmmac_eee_init e q v = Some (r, b, u)" "ring_state b = ring_state q"
    using eee_init_ok [of q kl e v] assms k by auto
  let ?s = "open_start_timers e (b\<lparr>eee_enabled := r\<rparr>) u"
  have "ring_state (b\<lparr>eee_enabled := r\<rparr>) = ring_state b" by (simp add: ring_state_def)
  then have "ring_state (fst ?s) = ring_state p" using open_start_timers_keeps r(2) k(1) by metis
  moreover have "open_start e p w = Some (fst ?s, snd ?s)" by (simp add: open_start_def q r(1))
  ultimately show ?thesis by blast
qed

lemma open_shape:
  assumes "\<And>q v. fst (open_phy e q v) = 0" and "\<And>as v. 0 \<le> kval e ''request_irq'' as v"
    and "\<And>q v. ioaddr q = ioaddr p \<Longrightarrow> hw q = hw p \<Longrightarrow> 0 \<le> fst (stmmac_init_dma_engine e q v)"
    and "hw_mac (hw p) = dwmac1000_ops kl" and "\<not> eee_active p"
    and "\<And>q v. glob q = glob p \<Longrightarrow> ring_state q = ring_state p \<Longrightarrow> ioaddr q = ioaddr p \<Longrightarrow> eee_active q = eee_active p \<Longrightarrow>
       \<exists>r u. init_dma_desc_rings x e (open_sizes x q) v = Some (r, u) \<and> R r \<and> hw r = hw p \<and> ioaddr r = ioaddr q
         \<and> eee_active r = eee_active q"
  shows "\<exists>r p' w'. stmmac_open x e p w = Some (0, p', w') \<and> R r \<and> ring_state p' = ring_state r"
proof -
  let ?w1 = "bsp_call gmac_clk_enable True p (bsp_call phy_power_on True p w)"
  obtain a w2 where a: "stmmac_check_ether_addr e p ?w1 = (a, w2)" by fastforce
  obtain d where ad: "a = p\<lparr>dev := d\<rparr>" using check_ether_addr_keeps [OF a] by blast
  obtain z b w3 where b: "open_phy e a w2 = (z, b, w3)" by (metis prod_cases3)
  have z: "z = 0" using assms(1) [of a w2] b by simp
  note k = open_phy_keeps [OF b]
  have kb: "glob b = glob p" "ring_state b = ring_state p" "ioaddr b = ioaddr p" "eee_active b = eee_active p"
    using k by (simp_all add: ad ring_state_def)
  obtain r w4 where r: "init_dma_desc_rings x e (open_sizes x b) w3 = Some (r, w4)" "R r" "hw r = hw p"
    "ioaddr r = ioaddr b" "eee_active r = eee_active b"
    using assms(6) [OF kb, of w3] by blast
  obtain i w5 where i: "stmmac_init_dma_engine e r w4 = (i, w5)" "0 \<le> i"
    using assms(3) [of r w4] r kb by (metis prod.collapse)
  let ?w6 = "core_init (hw_mac (hw r)) e (ioaddr r) (case pl_bus_setup (plat r) of
      None \<Rightarrow> set_umac_addr (hw_mac (hw r)) e (ioaddr r) (nd_dev_addr (dev r)) 0 w5
    | Some f \<Rightarrow> f (ioaddr r) (set_umac_addr (hw_mac (hw r)) e (ioaddr r) (nd_dev_addr (dev r)) 0 w5))"
  obtain w7 where q: "open_irqs e r ?w6 = (0, w7)"
    using open_irqs_granted [OF assms(2), of r ?w6] by (metis prod.collapse)
  obtain p' w8 where s: "open_start e r w7 = Some (p', w8)" "ring_state p' = ring_state r"
    using open_start_ok [of r kl e w7] r assms(4, 5) kb by auto
  have "stmmac_open x e p w = Some (0, p', w8)"
    using i(2) by (simp add: stmmac_open_def a b z Let_def r(1) i(1) q s(1))
  with r(2) s(2) show ?thesis by blast
qed

text \<open>What the opening needs of the PHY, the interrupt lines and the reset of the DMA.\<close>

definition open_world :: "'w env \<Rightarrow> 'w priv \<Rightarrow> bool" where
  "open_world e p \<longleftrightarrow> (\<forall>q v. fst (open_phy e q v) = 0) \<and> (\<forall>as v. 0 \<le> kval e ''request_irq'' as v)
     \<and> (\<forall>q v. ioaddr q = ioaddr p \<longrightarrow> hw q = hw p \<longrightarrow> 0 \<le> fst (stmmac_init_dma_engine e q v))"

lemma ring_state_sel:
  "ring_state q = ring_state p \<Longrightarrow> hw q = hw p \<and> mode q = mode p \<and> extend_desc q = extend_desc p \<and> hwts_tx_en q = hwts_tx_en p"
  by (simp add: ring_state_def)

lemma open_sizes_sel [simp]:
  "hw (open_sizes x p) = hw p" "mode (open_sizes x p) = mode p" "extend_desc (open_sizes x p) = extend_desc p"
  "hwts_tx_en (open_sizes x p) = hwts_tx_en p" "ioaddr (open_sizes x p) = ioaddr p" "eee_active (open_sizes x p) = eee_active p"
  "dma_tx_size (open_sizes x p) = stmmac_align x (m_dma_txsize (glob p))"
  "dma_rx_size (open_sizes x p) = stmmac_align x (m_dma_rxsize (glob p))"
  by (simp_all add: open_sizes_def)

lemma open_fresh_rings:
  assumes "open_world e p" and "allocs_succeed e" and "hw_mac (hw p) = dwmac1000_ops kl" and "\<not> eee_active p"
    and "hw_desc (hw p) = Some (ndesc_ops vlan)" and "hw_ring (hw p)" and "mode p = STMMAC_RING_MODE"
    and "\<not> extend_desc p" and "\<not> hwts_tx_en p"
    and "stmmac_align x (m_dma_txsize (glob p)) \<noteq> 0" and "stmmac_align x (m_dma_rxsize (glob p)) \<noteq> 0"
  shows "\<exists>p' w' r. stmmac_open x e p w = Some (0, p', w') \<and> rings_fresh vlan (open_sizes x p) r \<and> ring_state p' = ring_state r"
proof -
  let ?R = "\<lambda>r. rings_fresh vlan (open_sizes x p) r"
  have R: "\<exists>r u. init_dma_desc_rings x e (open_sizes x q) v = Some (r, u) \<and> ?R r \<and> hw r = hw p \<and> ioaddr r = ioaddr q
      \<and> eee_active r = eee_active q"
    if q: "glob q = glob p" "ring_state q = ring_state p" "ioaddr q = ioaddr p" "eee_active q = eee_active p" for q v
  proof -
    have "hw (open_sizes x q) = hw p" "mode (open_sizes x q) = STMMAC_RING_MODE" "\<not> extend_desc (open_sizes x q)"
      "hwts_tx_en (open_sizes x q) = hwts_tx_en p"
      using ring_state_sel [OF q(2)] assms(7, 8) by simp_all
    moreover have "dma_tx_size (open_sizes x q) \<noteq> 0" "dma_rx_size (open_sizes x q) \<noteq> 0" using assms(10, 11) q(1) by simp_all
    ultimately obtain r u where r: "init_dma_desc_rings x e (open_sizes x q) v = Some (r, u)"
      "rings_fresh vlan (open_sizes x q) r"
      using init_rings_fresh [OF assms(2), of "open_sizes x q" vlan x v] assms(5, 6) by auto
    moreover have "?R r" using r(2) ring_state_sel [OF q(2)] q(1, 3, 4) assms(7) by (simp add: rings_fresh_def)
    ultimately show ?thesis using ring_state_sel [OF q(2)] by (simp add: rings_fresh_def)
  qed
  have w: "\<And>q v. fst (open_phy e q v) = 0" "\<And>as v. 0 \<le> kval e ''request_irq'' as v"
    "\<And>q v. ioaddr q = ioaddr p \<Longrightarrow> hw q = hw p \<Longrightarrow> 0 \<le> fst (stmmac_init_dma_engine e q v)"
    using assms(1) by (simp_all add: open_world_def)
  show ?thesis using open_shape [OF w assms(3, 4) R, of w] by blast
qed

text \<open>
  Property C7. Opening a GMAC interface, in ring mode with normal descriptors, in a world that grants
  every resource: it succeeds, the rings have the sizes of the parameters in whole cache lines, the
  transmit queue is empty, and every slot of the receive ring holds a buffer and is owned by the
  hardware; this is the state in which the interrupt serves both rings.
\<close>

theorem open_establishes_rings:
  assumes "open_world e p" and "allocs_succeed e" and "hw_mac (hw p) = dwmac1000_ops kl" and "\<not> eee_active p"
    and "hw_desc (hw p) = Some (ndesc_ops vlan)" and "hw_ring (hw p)" and "mode p = STMMAC_RING_MODE"
    and "\<not> extend_desc p" and "\<not> hwts_tx_en p"
    and "stmmac_align x (m_dma_txsize (glob p)) \<noteq> 0" and "stmmac_align x (m_dma_rxsize (glob p)) \<noteq> 0"
  shows "\<exists>p' w'. stmmac_open x e p w = Some (0, p', w') \<and> ring_driver vlan p'
    \<and> dma_tx_size p' = stmmac_align x (m_dma_txsize (glob p)) \<and> dma_rx_size p' = stmmac_align x (m_dma_rxsize (glob p))
    \<and> tx_queue (ndesc_ops vlan) p' = [] \<and> cur_rx p' = dirty_rx p'
    \<and> (\<forall>j<unat (dma_rx_size p'). rx_ready (ndesc_ops vlan) p' j)"
proof -
  obtain r p' w' where o: "stmmac_open x e p w = Some (0, p', w')" "rings_fresh vlan (open_sizes x p) r" "ring_state p' = ring_state r"
    using open_fresh_rings [OF assms, of w] by blast
  note s = ring_state_rings [OF o(3)]
  have "ring_driver vlan p'"
    using o(2) assms(3, 5, 6, 9) s by (simp add: rings_fresh_def ring_driver_def dwmac1000_ops_def)
  then show ?thesis using o(1, 2) s by (auto simp: rings_fresh_def)
qed

text \<open>A kernel that answers every call but the allocation of the rings and the timer of the cyclic task with 1.\<close>

definition friendly :: "(kcall \<Rightarrow> int) \<Rightarrow> bool" where
  "friendly ans \<longleftrightarrow> (\<forall>n as. n \<notin> {''dma_alloc_coherent'', ''regs_timer0''} \<longrightarrow> ans (K n as) = 1)"

lemma friendlyD: "friendly ans \<Longrightarrow> n \<noteq> ''dma_alloc_coherent'' \<Longrightarrow> n \<noteq> ''regs_timer0'' \<Longrightarrow> ans (K n as) = 1"
  by (simp add: friendly_def)

lemma bench_init_phy:
  assumes "friendly ans"
  shows "fst (stmmac_init_phy (bench_selfclear_env ans) q v) = 0"
  by (simp add: stmmac_init_phy_def kcall_eq IS_ERR_def Let_def friendlyD [OF assms] split: prod.split)

lemma bench_phy:
  assumes "friendly ans"
  shows "fst (open_phy (bench_selfclear_env ans) q v) = 0"
  using bench_init_phy [OF assms]
  by (simp add: open_phy_def kcall_eq Let_def friendlyD [OF assms])

lemma bench_reset: "fst (dwmac1000_dma_init (bench_selfclear_env ans) 0 pbl fb mb bl tx rx atds v) = 0"
proof -
  have "\<exists>n<10. \<not> tst (peek (bench_selfclear_env ans) (0 + DMA_BUS_MODE) ((reset_wait (bench_selfclear_env ans) 0 ^^ n)
      (rmw (bench_selfclear_env ans) (0 + DMA_BUS_MODE) (\<lambda>value. value OR DMA_BUS_MODE_SFT_RESET) v))) DMA_BUS_MODE_SFT_RESET"
    using andnot_and_same [of "b_regs v 4096 OR 1" 1] by (intro exI [of _ 0]) (simp add: rmw_unfold hw_consts tst_def)
  then show ?thesis unfolding dma_init_fail_iff dma_reset_poll_iff by simp
qed

lemma bench_open_world:
  assumes "friendly ans" and "ioaddr p = 0" and "hw p = bench_hw"
  shows "open_world (bench_selfclear_env ans) p"
  using assms(2, 3) bench_phy [OF assms(1)]
  by (auto simp: open_world_def stmmac_init_dma_engine_def dwmac1000_dma_ops_def bench_reset friendlyD [OF assms(1)]
      split: prod.split option.split)

theorem open_establishes_rings_witness:
  "\<exists>p' w'. stmmac_open bench_ext (bench_selfclear_env (\<lambda>_. 1)) ((bench_priv 5 STMMAC_RING_MODE)\<lparr>ioaddr := 0\<rparr>) bench0
      = Some (0, p', w') \<and> ring_driver False p' \<and> dma_tx_size p' = 64"
proof -
  let ?p = "(bench_priv 5 STMMAC_RING_MODE)\<lparr>ioaddr := 0\<rparr>"
  have w: "open_world (bench_selfclear_env (\<lambda>_. 1)) ?p" by (rule bench_open_world) (simp_all add: friendly_def)
  have a: "allocs_succeed (bench_selfclear_env (\<lambda>_. 1))" by (simp add: allocs_succeed_def)
  have s: "stmmac_align bench_ext (m_dma_txsize (glob ?p)) = 64" "stmmac_align bench_ext (m_dma_rxsize (glob ?p)) = 64"
    by (simp_all add: stmmac_align_def bench_ext_def bench_priv_def default_params_def DMA_TX_SIZE_def DMA_RX_SIZE_def)
  have e: "\<not> eee_active ?p" by (simp add: bench_priv_def)
  show ?thesis
    using open_establishes_rings [OF w a _ e, of bench_crc False bench_ext bench0] s by simp blast
qed

section \<open>Opening without memory\<close>

lemma xmit_without_ring:
  assumes "tx_ring_len p = 0" and "\<not> stmmac_tx_avail p < of_nat (length (skb_frags skb)) + 1"
  shows "stmmac_xmit x e skb p v = None"
proof -
  have "tx_ring_len q = 0 \<Longrightarrow> ring_index (tx_ring_len q) i n = None" for q :: "'a priv" and i n
    by (simp add: ring_index_def)
  moreover have "stmmac_disable_eee_mode e p u = Some (q, z) \<Longrightarrow> tx_ring_len q = 0" for u q z
    using assms(1) by (auto simp: stmmac_disable_eee_mode_def Let_def split: option.splits)
  ultimately show ?thesis
    using assms by (auto simp: stmmac_xmit_def Let_def bind_eq_None_conv split: if_splits prod.splits)
qed

text \<open>
  Property C32. The function that sets up the rings has no result, so opening does not notice that
  there was no memory for them: it reports success, and the first frame sent crashes.
\<close>

theorem open_without_memory:
  assumes "open_world e p" and "\<And>as v. kval e ''dma_alloc_coherent'' as v = 0" and "hw_mac (hw p) = dwmac1000_ops kl"
    and "\<not> eee_active p" and "hw_desc (hw p) = Some ops" and "hw_ring (hw p)"
  shows "\<exists>p' w'. stmmac_open x e p w = Some (0, p', w')
    \<and> (\<forall>skb v. \<not> stmmac_tx_avail p' < of_nat (length (skb_frags skb)) + 1 \<longrightarrow> stmmac_xmit x e skb p' v = None)"
proof -
  let ?R = "\<lambda>r. tx_ring_len r = 0"
  have R: "\<exists>r u. init_dma_desc_rings x e (open_sizes x q) v = Some (r, u) \<and> ?R r \<and> hw r = hw p \<and> ioaddr r = ioaddr q
      \<and> eee_active r = eee_active q"
    if q: "glob q = glob p" "ring_state q = ring_state p" "ioaddr q = ioaddr p" "eee_active q = eee_active p" for q v
    using ring_state_sel [OF q(2)] assms(2, 5, 6)
    by (auto simp: init_dma_desc_rings_def alloc_rings_def alloc_desc_ring_def kcall_eq Let_def tx_ring_len_def)
  have w: "\<And>q v. fst (open_phy e q v) = 0" "\<And>as v. 0 \<le> kval e ''request_irq'' as v"
    "\<And>q v. ioaddr q = ioaddr p \<Longrightarrow> hw q = hw p \<Longrightarrow> 0 \<le> fst (stmmac_init_dma_engine e q v)"
    using assms(1) by (simp_all add: open_world_def)
  obtain r p' w' where o: "stmmac_open x e p w = Some (0, p', w')" "?R r" "ring_state p' = ring_state r"
    using open_shape [OF w assms(3, 4) R, of w] by blast
  have "tx_ring_len p' = 0" using ring_state_rings [OF o(3)] o(2) by simp
  with o(1) xmit_without_ring [of p'] show ?thesis by blast
qed

theorem open_without_memory_witness:
  "\<exists>p' w'. stmmac_open bench_ext (bench_selfclear_env (\<lambda>c. if \<exists>as. c = K ''dma_alloc_coherent'' as then 0 else 1))
      ((bench_priv 5 STMMAC_RING_MODE)\<lparr>ioaddr := 0\<rparr>) bench0 = Some (0, p', w')"
proof -
  let ?p = "(bench_priv 5 STMMAC_RING_MODE)\<lparr>ioaddr := 0\<rparr>"
  let ?e = "bench_selfclear_env (\<lambda>c. if \<exists>as. c = K ''dma_alloc_coherent'' as then 0 else 1)"
  have w: "open_world ?e ?p" by (rule bench_open_world) (simp_all add: friendly_def)
  have z: "kval ?e ''dma_alloc_coherent'' as v = 0" for as v by simp
  have e: "\<not> eee_active ?p" by (simp add: bench_priv_def)
  show ?thesis
    using open_without_memory [OF w z _ e, of bench_crc "ndesc_ops False" bench_ext bench0] by simp blast
qed

section \<open>The interrupt lines\<close>

text \<open>The lines the opening asks for, in order, and those of them it is granted.\<close>

definition irq_lines :: "'w priv \<Rightarrow> int list" where
  "irq_lines p = nd_irq (dev p) # (if wol_irq p \<noteq> nd_irq (dev p) then [wol_irq p] else [])
     @ (if lpi_irq p \<noteq> - ENXIO then [lpi_irq p] else [])"

definition irqs_granted :: "(kcall \<Rightarrow> int) \<Rightarrow> 'w priv \<Rightarrow> int list" where
  "irqs_granted ans p = takeWhile (\<lambda>l. 0 \<le> ans (K ''request_irq'' [I l])) (irq_lines p)"



end
