(* ===== verification/Driver_Life.thy ===== *)
theory Driver_Life
  imports Driver_Run Open_Props
begin

text \<open>
  The life of an interface: it is opened, runs, is closed, may be configured anew and opened again. The
  first sections follow the calls of an opening that move a buffer, those of the loop that fills the
  receive ring; the last states the account over the whole life.
\<close>

section \<open>Opening\<close>

lemma init_rx_loop_account:
  assumes cl: "call_log log e"
  shows "init_rx_loop x e i n p w = Some (k, p', w') \<Longrightarrow> i + n \<le> length (rx_skbuff p) \<Longrightarrow> allocs_succeed e \<Longrightarrow>
     mset (allocs (log w')) + mset (filter (\<lambda>s. s \<noteq> 0) (take i (rx_skbuff p)))
       = mset (allocs (log w)) + mset (filter (\<lambda>s. s \<noteq> 0) (take (i + n) (rx_skbuff p')))
     \<and> frees (log w') = frees (log w) \<and> given (log w') = given (log w) \<and> length (rx_skbuff p') = length (rx_skbuff p)"
proof (induction n arbitrary: i p w)
  case (Suc n)
  let ?skb = "kval e ''__netdev_alloc_skb'' [I (uint (dma_buf_sz p) + NET_IP_ALIGN)] w"
  have nz: "?skb \<noteq> 0" using allocs_succeedD(3) [OF Suc.prems(3)] .
  obtain ok q v where s: "stmmac_init_rx_buffers x e i p w = Some (ok, q, v)"
    using Suc.prems(1) by (auto simp: bind_eq_Some_conv)
  then have q: "ok" "rx_skbuff q = (rx_skbuff p)[i := ?skb]" "allocs (log v) = ?skb # allocs (log w)"
    "frees (log v) = frees (log w)" "given (log v) = given (log w)"
    using nz by (auto simp: stmmac_init_rx_buffers_def kcall_eq Let_def call_log_laws [OF cl] set_rx_desc_def split: if_splits)
  have r: "init_rx_loop x e (Suc i) n q v = Some (k, p', w')" using Suc.prems(1) s q(1) by simp
  have i: "i < length (rx_skbuff p)" using Suc.prems(2) by simp
  have "take (Suc i) (rx_skbuff q) = take i (rx_skbuff p) @ [?skb]"
    using i by (simp add: q(2) take_Suc_conv_app_nth)
  then show ?case using Suc.IH [OF r _ Suc.prems(3)] Suc.prems(2) q nz by simp
qed simp

text \<open>The members that decide how the rings are used, which opening leaves as they are configured.\<close>

definition ring_config :: "'w priv \<Rightarrow> _" where
  "ring_config p = (hwts_rx_en p, tx_path_in_lpi_mode p, plat p, dma_cap p)"

lemma init_rx_loop_config:
  "init_rx_loop x e i n p w = Some (k, p', w') \<Longrightarrow> ring_config p' = ring_config p"
proof (induction n arbitrary: i p w)
  case (Suc n)
  obtain ok q v where s: "stmmac_init_rx_buffers x e i p w = Some (ok, q, v)"
    and r: "(if ok then init_rx_loop x e (Suc i) n q v else Some (i, q, v)) = Some (k, p', w')"
    using Suc.prems by (auto simp: bind_eq_Some_conv)
  have "ring_config q = ring_config p"
    using s by (auto simp: stmmac_init_rx_buffers_def Let_def ring_config_def set_rx_desc_def split: if_splits prod.splits)
  then show ?case using r Suc.IH by (auto split: if_splits)
qed simp

lemma init_rx_loop_mode:
  "init_rx_loop x e i n p w = Some (k, p', w') \<Longrightarrow> mode p' = mode p"
proof (induction n arbitrary: i p w)
  case (Suc n)
  obtain ok q v where s: "stmmac_init_rx_buffers x e i p w = Some (ok, q, v)"
    and r: "(if ok then init_rx_loop x e (Suc i) n q v else Some (i, q, v)) = Some (k, p', w')"
    using Suc.prems by (auto simp: bind_eq_Some_conv)
  have "mode q = mode p"
    using s by (auto simp: stmmac_init_rx_buffers_def Let_def split: if_splits prod.splits)
  then show ?case using r Suc.IH by (auto split: if_splits)
qed simp

lemma set_desc_config [simp]:
  "ring_config (set_rx_desc i d p) = ring_config p" "ring_config (set_tx_desc i d p) = ring_config p"
  "ring_config (p\<lparr>tx_skbuff := a\<rparr>) = ring_config p" "ring_config (p\<lparr>tx_skbuff_dma := b\<rparr>) = ring_config p"
  "held (set_tx_desc i d p) = held p" "held (set_rx_desc i d p) = held p"
  "held (p\<lparr>tx_skbuff := a\<rparr>) = held p" "held (p\<lparr>tx_skbuff_dma := b\<rparr>) = held p"
  by (simp_all add: ring_config_def held_def set_rx_desc_def set_tx_desc_def)

lemma clear_config:
  "ring_config (stmmac_clear_descriptors ops p) = ring_config p" "held (stmmac_clear_descriptors ops p) = held p"
proof -
  have "ring_config (clear_rx_descriptors ops q) = ring_config q" "held (clear_rx_descriptors ops q) = held q" for q :: "'a priv"
    unfolding clear_rx_descriptors_def by (rule fold_keeps; simp)+
  moreover have "ring_config (clear_tx_descriptors ops q) = ring_config q" "held (clear_tx_descriptors ops q) = held q" for q :: "'a priv"
    unfolding clear_tx_descriptors_def by (rule fold_keeps; simp)+
  ultimately show "ring_config (stmmac_clear_descriptors ops p) = ring_config p"
    "held (stmmac_clear_descriptors ops p) = held p" by (simp_all add: stmmac_clear_descriptors_def)
qed

lemma init_tx_config:
  assumes "init_tx_loop p = Some q"
  shows "ring_config q = ring_config p" "held q = held p"
proof -
  have q: "q = fold (\<lambda>i q. (set_tx_desc i ((tx_desc q i)\<lparr>des2 := 0\<rparr>) q)
                \<lparr>tx_skbuff_dma := (tx_skbuff_dma q)[i := 0], tx_skbuff := (tx_skbuff q)[i := 0]\<rparr>) [0..<unat (dma_tx_size p)] p"
    using assms by (simp add: init_tx_loop_def Let_def split: if_splits)
  show "ring_config q = ring_config p" unfolding q by (rule fold_keeps) simp
  show "held q = held p" unfolding q by (rule fold_keeps) simp
qed

lemma fresh_ptrs_log:
  assumes "call_log log e" and "fresh_ptrs e name n w = (l, w')"
  shows "buf_log (log w') = buf_log (log w)" "allocs_succeed e \<Longrightarrow> length l = unat n"
  using assms(2) allocs_succeedD(2) [of e] by (auto simp: fresh_ptrs_def kcall_eq Let_def call_log_laws [OF assms(1)] buf_names_def)

lemma init_rings_account:
  assumes cl: "call_log log e" and ok: "allocs_succeed e" and m: "mode p = STMMAC_RING_MODE" and ext: "\<not> extend_desc p"
    and r: "init_dma_desc_rings x e p w = Some (p', w')"
  shows "ring_config p' = ring_config p \<and> mset (allocs (log w')) = mset (allocs (log w)) + mset (held p')
    \<and> frees (log w') = frees (log w) \<and> given (log w') = given (log w)"
proof -
  obtain a wa where a: "alloc_rings e p w = (True, a, wa)" "buf_log (log wa) = buf_log (log w)" "ring_config a = ring_config p"
      "mode a = mode p"
    using ext allocs_succeedD(1) [OF ok]
    by (simp add: alloc_rings_def alloc_desc_ring_def kcall_eq Let_def call_log_laws [OF cl] buf_names_def ring_config_def)
  obtain rda w1 where r1: "fresh_ptrs e ''rx_skbuff_dma'' (dma_rx_size a) wa = (rda, w1)" by fastforce
  obtain rsk w2 where r2: "fresh_ptrs e ''rx_skbuff'' (dma_rx_size a) w1 = (rsk, w2)" by fastforce
  obtain tda w3 where r3: "fresh_ptrs e ''tx_skbuff_dma'' (dma_tx_size a) w2 = (tda, w3)" by fastforce
  obtain tsk w4 where r4: "fresh_ptrs e ''tx_skbuff'' (dma_tx_size a) w3 = (tsk, w4)" by fastforce
  have w4: "buf_log (log w4) = buf_log (log w)"
    using a(2) fresh_ptrs_log(1) [OF cl r1] fresh_ptrs_log(1) [OF cl r2] fresh_ptrs_log(1) [OF cl r3]
      fresh_ptrs_log(1) [OF cl r4] by simp
  define b where "b = a\<lparr>rx_skbuff_dma := map word_of_int rda, rx_skbuff := rsk,
                 tx_skbuff_dma := map word_of_int tda, tx_skbuff := tsk\<rparr>"
  obtain ops bf where ops: "hw_desc (hw p) = Some ops" and bf:
    "(if mode p = STMMAC_RING_MODE
        then (if hw_ring (hw p) then Some (ring_set_16kib_bfsize x (nd_mtu (dev p))) else None)
        else Some 0) = Some bf"
    using r by (auto simp: init_dma_desc_rings_def bind_eq_Some_conv)
  let ?bf = "if bf < BUF_SIZE_16KiB then stmmac_set_bfsize (nd_mtu (dev p)) (uint (dma_buf_sz p)) else bf"
  have "Option.bind (init_rx_loop x e 0 (unat (dma_rx_size b)) b w4) (\<lambda>(i, p, w).
      Option.bind (chain_rings x (p\<lparr>cur_rx := 0, dirty_rx := of_nat i - dma_rx_size p, dma_buf_sz := word_of_int ?bf,
                 glob := (glob p)\<lparr>m_buf_sz := ?bf\<rparr>\<rparr>)) (\<lambda>p.
      Option.bind (init_tx_loop p) (\<lambda>p. Some (stmmac_clear_descriptors ops (p\<lparr>dirty_tx := 0, cur_tx := 0\<rparr>), w)))) = Some (p', w')"
    using r unfolding init_dma_desc_rings_def bf ops
    by (simp add: a(1) r1 r2 r3 r4 b_def Let_def)
  then obtain k c h d where l: "init_rx_loop x e 0 (unat (dma_rx_size b)) b w4 = Some (k, c, w')"
    and h: "chain_rings x (c\<lparr>cur_rx := 0, dirty_rx := of_nat k - dma_rx_size c, dma_buf_sz := word_of_int ?bf,
                 glob := (glob c)\<lparr>m_buf_sz := ?bf\<rparr>\<rparr>) = Some h"
    and d: "init_tx_loop h = Some d" and p': "p' = stmmac_clear_descriptors ops (d\<lparr>dirty_tx := 0, cur_tx := 0\<rparr>)"
    by (auto simp: bind_eq_Some_conv)
  have lb: "length (rx_skbuff b) = unat (dma_rx_size b)" using fresh_ptrs_log(2) [OF cl r2 ok] by (simp add: b_def)
  note acc = init_rx_loop_account [OF cl l _ ok]
  have "mode c = STMMAC_RING_MODE"
    using init_rx_loop_mode [OF l] a(4) m by (simp add: b_def)
  then have hc: "h = c\<lparr>cur_rx := 0, dirty_rx := of_nat k - dma_rx_size c, dma_buf_sz := word_of_int ?bf,
                 glob := (glob c)\<lparr>m_buf_sz := ?bf\<rparr>\<rparr>"
    using h by (simp add: chain_rings_def STMMAC_RING_MODE_def STMMAC_CHAIN_MODE_def)
  have "held h = held c" "ring_config h = ring_config c" by (simp_all add: hc held_def ring_config_def)
  moreover have "held (d\<lparr>dirty_tx := 0, cur_tx := 0\<rparr>) = held d" "ring_config (d\<lparr>dirty_tx := 0, cur_tx := 0\<rparr>) = ring_config d"
    by (simp_all add: held_def ring_config_def)
  ultimately have k: "held p' = held c" "ring_config p' = ring_config c"
    using init_tx_config [OF d] by (simp_all add: p' clear_config)
  have "ring_config b = ring_config a" by (simp add: b_def ring_config_def)
  then have "ring_config p' = ring_config p" using k a(3) init_rx_loop_config [OF l] by simp
  moreover have "held c = filter (\<lambda>s. s \<noteq> 0) (take (unat (dma_rx_size b)) (rx_skbuff c))"
    using acc lb by (simp add: held_def)
  ultimately show ?thesis using acc lb k(1) same_buf_log [OF w4] by simp
qed

section \<open>The rest of the opening\<close>

lemma check_ether_quiet:
  assumes "call_log log e" and "hw_mac (hw p) = dwmac1000_ops kl" and "stmmac_check_ether_addr e p w = (p', w')"
  shows "buf_log (log w') = buf_log (log w) \<and> ring_config p' = ring_config p"
proof -
  have "log (snd (dwmac1000_get_umac_addr e a r v)) = log v" for a r v
    by (simp add: dwmac1000_get_umac_addr_def stmmac_get_mac_addr_def readl_eq Let_def call_log_laws [OF assms(1)])
  then have g: "dwmac1000_get_umac_addr e a r v = (x, v') \<Longrightarrow> log v' = log v" for a r v x v' by (metis snd_conv)
  show ?thesis
    using assms(3)
    by (auto simp: stmmac_check_ether_addr_def assms(2) dwmac1000_ops_def kcall_eq Let_def ring_config_def
        call_log_laws [OF assms(1)] buf_names_def dest!: g split: prod.splits if_splits)
qed

lemma doif_quiet: "(\<And>v. buf_log (log (f v)) = buf_log (log v)) \<Longrightarrow> buf_log (log (doif c f w)) = buf_log (log w)"
  by (simp add: doif_def)

lemma init_phy_quiet:
  assumes "call_log log e"
  shows "buf_log (log (snd (snd (stmmac_init_phy e p w)))) = buf_log (log w)"
proof -
  have a: "buf_log (log (snd (phy_attached e h v))) = buf_log (log v)" for h v
    by (simp add: phy_attached_def kcall_eq Let_def call_log_laws [OF assms] buf_names_def)
  have s: "buf_log (log (snd (gmac_create_sysfs e h v))) = buf_log (log v)" for h v
    by (simp add: gmac_create_sysfs_def kcall_eq Let_def call_log_laws [OF assms] buf_names_def)
  have k: "buf_log (log (kdo e n as v)) = buf_log (log v)" if "n \<notin> set buf_names" for n as v
    using that by (simp add: call_log_laws [OF assms])
  have n: "''phy_connect'' \<notin> set buf_names" "''phydev_advertising_clear'' \<notin> set buf_names"
    "''phydev_phy_id'' \<notin> set buf_names" "''phy_disconnect'' \<notin> set buf_names" by (simp_all add: buf_names_def)
  show ?thesis
    by (simp add: stmmac_init_phy_def kcall_eq Let_def case_prod_unfold a s k n doif_quiet)
qed

lemma open_phy_quiet:
  assumes "call_log log e" and "open_phy e p w = (r, p', w')"
  shows "buf_log (log w') = buf_log (log w) \<and> ring_config p' = ring_config p"
proof -
  have i: "stmmac_init_phy e q v = (z, p2, v2) \<Longrightarrow> buf_log (log v2) = buf_log (log v) \<and> ring_config p2 = ring_config q"
    for q v z p2 v2
    using init_phy_quiet [OF assms(1), of q v] init_phy_keeps [of e q v z p2 v2] by (auto simp: ring_config_def)
  show ?thesis
    using assms(2)
    by (auto simp: open_phy_def kcall_eq Let_def call_log_laws [OF assms(1)] buf_names_def dest!: i split: if_splits)
      (auto simp: ring_config_def)
qed

lemma dma_reset_quiet:
  assumes "call_log log e"
  shows "dma_reset_poll e a n w = (r, w') \<Longrightarrow> buf_log (log w') = buf_log (log w)"
proof (induction n arbitrary: w)
  case (Suc n)
  then show ?case by (auto simp: readl_eq Let_def call_log_laws [OF assms] buf_names_def split: if_splits)
qed simp

lemma init_dma_engine_quiet:
  assumes "call_log log e" and "hw_dma (hw p) = dwmac1000_dma_ops" and "stmmac_init_dma_engine e p w = (r, w')"
  shows "buf_log (log w') = buf_log (log w)"
  using assms(3) dma_reset_quiet [OF assms(1)]
  by (auto simp: stmmac_init_dma_engine_def assms(2) dwmac1000_dma_ops_def dwmac1000_dma_init_def Let_def doif_def
      call_log_laws [OF assms(1)] split: prod.splits option.splits if_splits)

lemma core_start_quiet:
  assumes "call_log log e" and "hw_mac (hw p) = dwmac1000_ops kl" and "quiet_board log (plat p)"
  shows "buf_log (log (core_init (hw_mac (hw p)) e a (case pl_bus_setup (plat p) of
      None \<Rightarrow> set_umac_addr (hw_mac (hw p)) e a' ad n w
    | Some f \<Rightarrow> f b (set_umac_addr (hw_mac (hw p)) e a' ad n w)))) = buf_log (log w)"
  using assms(3)
  by (auto simp: assms(2) dwmac1000_ops_def dwmac1000_core_init_def dwmac1000_set_umac_addr_def stmmac_set_mac_addr_def
      Let_def call_log_laws [OF assms(1)] quiet_board_def quiet_hook_def split: option.splits)

lemma open_irqs_quiet:
  assumes "call_log log e" and "quiet_board log (plat p)" and "open_irqs e p w = (r, w')"
  shows "buf_log (log w') = buf_log (log w)"
proof -
  have k: "buf_log (log (kdo e n as v)) = buf_log (log v)" if "n \<notin> set buf_names" for n as v
    using that by (simp add: call_log_laws [OF assms(1)])
  have n: "''request_irq'' \<notin> set buf_names" "''free_irq'' \<notin> set buf_names" "''phy_disconnect'' \<notin> set buf_names"
    by (simp_all add: buf_names_def)
  have "buf_log (log (open_error e p v)) = buf_log (log v)" for v
    by (simp add: open_error_def phy_disconnect_open_def bsp_call_quiet [OF assms(2)] k n split: option.split)
  then have "buf_log (log (snd (open_irqs e p w))) = buf_log (log w)"
    by (simp add: open_irqs_def open_error_wolirq_def open_error_lpiirq_def kcall_eq Let_def k n doif_quiet)
  then show ?thesis by (simp add: assms(3))
qed

lemma fold_quiet: "(\<And>i v. log (f i v) = log v) \<Longrightarrow> log (fold f xs w) = log w"
  by (induction xs arbitrary: w) simp_all

lemma open_start_dma_quiet:
  assumes cl: "call_log log e" and g: "hw_mac (hw p) = dwmac1000_ops kl" "hw_dma (hw p) = dwmac1000_dma_ops"
    and r: "open_start_dma e p w = (p', w')"
  shows "buf_log (log w') = buf_log (log w)"
proof -
  have k: "buf_log (log (kdo e n as v)) = buf_log (log v)" if "n \<notin> set buf_names" for n as v
    using that by (simp add: call_log_laws [OF cl])
  have n: "''irq_set_affinity'' \<notin> set buf_names" "''phy_start'' \<notin> set buf_names" "''dwmac_mmc_ctrl'' \<notin> set buf_names"
    "''dwmac_mmc_intr_all_mask'' \<notin> set buf_names" by (simp_all add: buf_names_def)
  have d: "log (dma_dump_regs (hw_dma (hw p)) e a v) = log v" "log (mac_dump_regs (hw_mac (hw p)) e a v) = log v"
    "log (start_tx (hw_dma (hw p)) e a v) = log v" "log (start_rx (hw_dma (hw p)) e a v) = log v"
    "log (stmmac_set_mac e a on v) = log v" "log (dma_mode (hw_dma (hw p)) e a t s v) = log v" for a on t s v
    by (auto simp: g dwmac1000_ops_def dwmac1000_dma_ops_def dwmac1000_dump_dma_regs_def dwmac1000_dump_regs_def
        dwmac_dma_start_tx_def dwmac_dma_start_rx_def stmmac_set_mac_def dwmac1000_dma_operation_mode_def
        call_log_laws [OF cl] intro!: fold_quiet)
  have o: "buf_log (log (snd (stmmac_dma_operation_mode e p v))) = buf_log (log v)" for v
    by (simp add: stmmac_dma_operation_mode_def d)
  have m: "buf_log (log (snd (stmmac_mmc_setup e q v))) = buf_log (log v)" for q :: "'a priv" and v
    by (simp add: stmmac_mmc_setup_def Let_def k n)
  obtain q u where q: "stmmac_dma_operation_mode e p (stmmac_set_mac e (ioaddr p) True
      (kdo e ''irq_set_affinity'' [I (nd_irq (dev p)), I 3] w)) = (q, u)" by fastforce
  obtain q2 u2 where q2: "stmmac_mmc_setup e (q\<lparr>xstats := zero_xstats\<lparr>threshold := word_of_int (m_tc (glob q))\<rparr>\<rparr>) u = (q2, u2)"
    by fastforce
  have h: "hw q2 = hw p" "buf_log (log u2) = buf_log (log w)"
    using dma_mode_keeps [OF q] mmc_setup_keeps [OF q2] o [of "stmmac_set_mac e (ioaddr p) True
      (kdo e ''irq_set_affinity'' [I (nd_irq (dev p)), I 3] w)"] m [of "q\<lparr>xstats := zero_xstats\<lparr>threshold := word_of_int (m_tc (glob q))\<rparr>\<rparr>" u]
    by (auto simp: q q2 d k n)
  show ?thesis
    using r by (auto simp: open_start_dma_def q q2 Let_def h d k n doif_def split: option.splits if_splits)
qed

lemma open_start_timers_quiet:
  assumes cl: "call_log log e" and g: "hw_mac (hw p) = dwmac1000_ops kl" "hw_dma (hw p) = dwmac1000_dma_ops"
  shows "buf_log (log (snd (open_start_timers e p w))) = buf_log (log w)"
    "eee_enabled (fst (open_start_timers e p w)) = eee_enabled p"
    "ring_config (fst (open_start_timers e p w)) = ring_config p"
  by (simp_all add: open_start_timers_def stmmac_init_tx_coalesce_def kcall_eq Let_def g dwmac1000_ops_def dwmac1000_dma_ops_def
      dwmac1000_ctrl_ane_def dwmac1000_rx_watchdog_def readl_eq doif_def call_log_laws [OF cl] buf_names_def ring_config_def)

lemma open_start_account:
  assumes cl: "call_log log e" and g: "hw_mac (hw p) = dwmac1000_ops kl" "hw_dma (hw p) = dwmac1000_dma_ops"
    and eee: "cap_eee (dma_cap p) = 0" and r: "open_start e p w = Some (p', w')"
  shows "buf_log (log w') = buf_log (log w) \<and> ring_config p' = ring_config p \<and> ring_state p' = ring_state p \<and> \<not> eee_enabled p'"
proof -
  obtain q v where q: "open_start_dma e p w = (q, v)" by fastforce
  obtain gl c xs t where qp: "q = p\<lparr>glob := gl, xstats := xs, mmc := c, tx_lpi_timer := t\<rparr>"
    using open_start_dma_keeps [OF q] by blast
  let ?q = "q\<lparr>eee_enabled := False\<rparr>"
  have h: "hw ?q = hw p" "ring_config ?q = ring_config p" "ring_state ?q = ring_state p"
    by (simp_all add: qp ring_config_def ring_state_def)
  have "stmmac_eee_init e q v = Some (False, q, v)" using eee by (simp add: stmmac_eee_init_def qp)
  then have "open_start_timers e ?q v = (p', w')" using r by (simp add: open_start_def q)
  then show ?thesis
    using open_start_timers_quiet [OF cl, of ?q kl v] open_start_timers_keeps [of e ?q v] h g
      open_start_dma_quiet [OF cl g q] by simp
qed

text \<open>
  The configurations the life of the interface is about: a GMAC core in ring mode with normal descriptors,
  without time stamps and energy efficient Ethernet, a ring size that divides \<open>2 ^ 32\<close>, and a board whose
  callbacks move no buffer.
\<close>

definition openable :: "('w \<Rightarrow> call_record list) \<Rightarrow> 'w ext \<Rightarrow> crc_lib \<Rightarrow> bool \<Rightarrow> 'w priv \<Rightarrow> bool" where
  "openable log x kl vlan p \<longleftrightarrow> hw_mac (hw p) = dwmac1000_ops kl \<and> hw_dma (hw p) = dwmac1000_dma_ops
     \<and> hw_desc (hw p) = Some (ndesc_ops vlan) \<and> hw_ring (hw p) \<and> mode p = STMMAC_RING_MODE \<and> \<not> extend_desc p
     \<and> \<not> hwts_tx_en p \<and> \<not> hwts_rx_en p \<and> \<not> tx_path_in_lpi_mode p \<and> cap_eee (dma_cap p) = 0 \<and> quiet_board log (plat p)
     \<and> stmmac_align x (m_dma_rxsize (glob p)) \<noteq> 0 \<and> stmmac_align x (m_dma_txsize (glob p)) \<noteq> 0
     \<and> unat (stmmac_align x (m_dma_txsize (glob p))) dvd 2 ^ 32"

lemma open_account:
  assumes cl: "call_log log e" and al: "allocs_succeed e" and c: "openable log x kl vlan p"
    and r: "stmmac_open x e p w = Some (0, p', w')" and acc: "account log {#} (p, w, s)"
  shows "up_inv log vlan (p', w', s)"
proof -
  let ?w1 = "bsp_call gmac_clk_enable True p (bsp_call phy_power_on True p w)"
  note c = c [unfolded openable_def]
  have qb: "quiet_board log (plat p)" using c by simp
  have w1: "buf_log (log ?w1) = buf_log (log w)" by (simp add: bsp_call_quiet [OF qb])
  obtain a w2 where a: "stmmac_check_ether_addr e p ?w1 = (a, w2)" by fastforce
  obtain d where ad: "a = p\<lparr>dev := d\<rparr>" using check_ether_addr_keeps [OF a] by blast
  obtain z b w3 where b: "open_phy e a w2 = (z, b, w3)" by (metis prod_cases3)
  have z: "z = 0" using r by (auto simp: stmmac_open_def a b Let_def split: if_splits)
  let ?b = "open_sizes x b"
  obtain q w4 where q: "init_dma_desc_rings x e ?b w3 = Some (q, w4)"
    using r by (auto simp: stmmac_open_def a b z Let_def bind_eq_Some_conv)
  obtain i w5 where i: "stmmac_init_dma_engine e q w4 = (i, w5)" by fastforce
  let ?w6 = "core_init (hw_mac (hw q)) e (ioaddr q) (case pl_bus_setup (plat q) of
      None \<Rightarrow> set_umac_addr (hw_mac (hw q)) e (ioaddr q) (nd_dev_addr (dev q)) 0 w5
    | Some f \<Rightarrow> f (ioaddr q) (set_umac_addr (hw_mac (hw q)) e (ioaddr q) (nd_dev_addr (dev q)) 0 w5))"
  obtain j w7 where j: "open_irqs e q ?w6 = (j, w7)" by fastforce
  have o: "open_start e q w7 = Some (p', w')"
    using r by (auto simp: stmmac_open_def a b z q i j Let_def split: if_splits)
  note k = open_phy_keeps [OF b]
  have kb: "glob b = glob p" "ring_state b = ring_state p" "ring_config b = ring_config p"
    using k check_ether_quiet [OF cl _ a] c open_phy_quiet [OF cl b] by (simp_all add: ad ring_state_def)
  have kb': "hw ?b = hw p" "mode ?b = STMMAC_RING_MODE" "\<not> extend_desc ?b" "hwts_tx_en ?b = hwts_tx_en p"
    "dma_tx_size ?b \<noteq> 0" "dma_rx_size ?b \<noteq> 0" "ring_config ?b = ring_config b"
    using ring_state_sel [OF kb(2)] kb(1) c by (simp_all add: open_sizes_def ring_config_def)
  obtain q' v' where q': "init_dma_desc_rings x e ?b w3 = Some (q', v')" "rings_fresh vlan ?b q'"
    using init_rings_fresh [OF al _ _ kb'(2, 3, 5, 6), of vlan x w3] c kb'(1) by auto
  then have fr: "rings_fresh vlan ?b q" using q by simp
  have hq: "hw q = hw p" "hwts_tx_en q = hwts_tx_en p" "mode q = STMMAC_RING_MODE"
    using fr kb' by (simp_all add: rings_fresh_def)
  note acc1 = init_rings_account [OF cl al kb'(2, 3) q]
  have cq: "ring_config q = ring_config p" using acc1 kb' kb(3) by simp
  then have cfg: "hwts_rx_en q = hwts_rx_en p" "plat q = plat p" "tx_path_in_lpi_mode q = tx_path_in_lpi_mode p"
    "dma_cap q = dma_cap p" by (simp_all add: ring_config_def)
  have hm: "hw_mac (hw q) = dwmac1000_ops kl" "hw_dma (hw q) = dwmac1000_dma_ops" "quiet_board log (plat q)"
    using c hq cfg qb by simp_all
  have "buf_log (log w7) = buf_log (log w4)"
    using open_irqs_quiet [OF cl hm(3) j] core_start_quiet [OF cl hm(1, 3)] init_dma_engine_quiet [OF cl hm(2) i] by simp
  moreover have "cap_eee (dma_cap q) = 0" using c cfg by simp
  note st = open_start_account [OF cl hm(1, 2) this o]
  ultimately have "buf_log (log w') = buf_log (log w4)" by simp
  note l1 = same_buf_log [OF this]
  have "buf_log (log w3) = buf_log (log w)" using open_phy_quiet [OF cl b] check_ether_quiet [OF cl _ a] c w1 by simp
  note l2 = same_buf_log [OF this]
  have rs: "ring_state p' = ring_state q" using st by blast
  note R = ring_state_rings [OF rs]
  have e: "in_flight (ndesc_ops vlan) p' = []" "held p' = held q"
    using fr R(3) rs by (simp_all add: in_flight_def rings_fresh_def held_def ring_state_def)
  have "idle_empty p'"
    using fr rs by (simp add: idle_empty_def rings_fresh_def ring_state_def)
  moreover have "ring_continuous p'" "mode p' = STMMAC_RING_MODE" "hw p' = hw p" "hwts_tx_en p' = hwts_tx_en p"
    using c fr R ring_state_sel [OF rs] hq kb(1) by (simp_all add: ring_continuous_def rings_fresh_def)
  moreover have "hwts_rx_en p' = hwts_rx_en p" "plat p' = plat p" "tx_path_in_lpi_mode p' = tx_path_in_lpi_mode p"
    using st cfg by (simp_all add: ring_config_def)
  ultimately have "up_ok log vlan p'"
    using c fr R st by (simp add: up_ok_def machine_ok_def rings_fresh_def dwmac1000_ops_def)
  moreover have "account log (holding vlan p') (p', w', s)"
    using acc acc1 l1 l2 e by (simp add: account_def holding_def ac_simps)
  ultimately show ?thesis by (simp add: up_inv_def account_def)
qed

section \<open>The life of an interface\<close>

text \<open>
  The flag says the interface is up. Only an opening that succeeds brings it up; what runs is
  \<open>run_step\<close>; while it is down its configuration may change in any way.
\<close>

inductive life_step ::
    "('w \<Rightarrow> call_record list) \<Rightarrow> 'w ext \<Rightarrow> 'w env \<Rightarrow> crc_lib \<Rightarrow> bool \<Rightarrow> bool \<times> 'w tx_state \<Rightarrow> bool \<times> 'w tx_state \<Rightarrow> bool"
  for log :: "'w \<Rightarrow> call_record list" and x :: "'w ext" and e :: "'w env" and kl :: crc_lib and vlan :: bool
where
  open_up: "openable log x kl vlan p \<Longrightarrow> stmmac_open x e p w = Some (0, p', w') \<Longrightarrow>
    life_step log x e kl vlan (False, p, w, s) (True, p', w', s)"
| running: "run_step x e vlan (p, w, s) (p', w', s') \<Longrightarrow> life_step log x e kl vlan (True, p, w, s) (True, p', w', s')"
| close_down: "stmmac_release e p w = Some (r, p', w') \<Longrightarrow> life_step log x e kl vlan (True, p, w, s) (False, p', w', s)"
| configure: "life_step log x e kl vlan (False, p, w, s) (False, p', w, s)"

inductive_cases life_stepE: "life_step log x e kl vlan (up, p, w, s) st"

definition life_inv :: "('w \<Rightarrow> call_record list) \<Rightarrow> bool \<Rightarrow> bool \<times> 'w tx_state \<Rightarrow> bool" where
  "life_inv log vlan = (\<lambda>(up, st). if up then up_inv log vlan st else account log {#} st)"

lemma life_inv_step:
  assumes cl: "call_log log e" and al: "allocs_succeed e" and "life_step log x e kl vlan st st'" and "life_inv log vlan st"
  shows "life_inv log vlan st'"
  using assms(3, 4)
proof (cases rule: life_step.cases)
  case (open_up p w p' w' s)
  then show ?thesis using open_account [OF cl al open_up(3, 4), of s] assms(4) by (simp add: life_inv_def)
next
  case (running p w s p' w' s')
  then show ?thesis using up_inv_step [OF cl running(3)] assms(4) by (simp add: life_inv_def)
next
  case (close_down p w r p' w' s)
  then have i: "up_inv log vlan (p, w, s)" using assms(4) by (simp add: life_inv_def)
  obtain q v where "stmmac_release e p w = Some (0, q, v)" "account log {#} (q, v, s)"
    by (rule release_account [OF cl i])
  then show ?thesis using close_down by (simp add: life_inv_def)
next
  case (configure p w s p')
  then show ?thesis using assms(4) by (simp add: life_inv_def account_def)
qed

lemma life_inv_steps:
  assumes "call_log log e" and "allocs_succeed e"
  shows "(life_step log x e kl vlan)\<^sup>*\<^sup>* st st' \<Longrightarrow> life_inv log vlan st \<Longrightarrow> life_inv log vlan st'"
  by (induction rule: rtranclp_induct) (auto intro: life_inv_step [OF assms])


text \<open>In the concrete world an interface is opened and sends a frame.\<close>

definition life_ans :: "kcall \<Rightarrow> int" where
  "life_ans c = (if c = K ''regs_timer0'' [] then 0 else 1)"

lemma life_ans_wait: "\<exists>w'. wait_cyclic_task (bench_selfclear_env life_ans) w = Some w'"
  by (simp add: wait_cyclic_task.simps kcall_eq life_ans_def)

lemma bench_life:
  obtains p w where "(life_step (bench_log life_ans) bench_ext (bench_selfclear_env life_ans) bench_crc False)\<^sup>*\<^sup>*
      (False, (bench_priv 5 STMMAC_RING_MODE)\<lparr>ioaddr := 0\<rparr>, bench0, []) (True, p, w, [0xc0de])"
proof -
  let ?e = "bench_selfclear_env life_ans" and ?p = "(bench_priv 5 STMMAC_RING_MODE)\<lparr>ioaddr := 0\<rparr>" and ?ops = "ndesc_ops False"
  let ?L = "life_step (bench_log life_ans) bench_ext ?e bench_crc False"
  have w: "open_world ?e ?p" by (rule bench_open_world) (simp_all add: friendly_def life_ans_def)
  have a: "allocs_succeed ?e" by (simp add: allocs_succeed_def life_ans_def)
  have s: "stmmac_align bench_ext (m_dma_txsize (glob ?p)) = 64" "stmmac_align bench_ext (m_dma_rxsize (glob ?p)) = 64"
    by (simp_all add: stmmac_align_def bench_ext_def bench_priv_def default_params_def DMA_TX_SIZE_def DMA_RX_SIZE_def)
  have o: "openable (bench_log life_ans) bench_ext bench_crc False ?p"
    using s by (simp add: openable_def) (simp add: bench_priv_def bench_plat_def quiet_board_def quiet_hook_def decode_hw_cap_def)
  have e: "\<not> eee_active ?p" by (simp add: bench_priv_def)
  obtain q v r where q: "stmmac_open bench_ext ?e ?p bench0 = Some (0, q, v)" and r: "rings_fresh False (open_sizes bench_ext ?p) r"
    "ring_state q = ring_state r"
    using open_fresh_rings [OF w a _ e, of bench_crc False bench_ext bench0] s by auto
  have "up_inv (bench_log life_ans) False (q, v, [])"
    by (rule open_account [OF bench_call_log(2) a o q]) (simp add: account_def)
  then have ok: "machine_ok False q" by (simp add: up_inv_def up_ok_def)
  note ring = ring_state_rings [OF r(2)]
  have hq: "hw q = bench_hw" "dma_tx_size q = 64" "tx_queue ?ops q = []"
    using r(1) ring s by (simp_all add: rings_fresh_def)
  then have n: "\<not> stmmac_tx_avail q < of_nat (length (skb_frags (bench_skb []))) + 1"
    using tx_queue_empty [of ?ops q] by (simp add: stmmac_tx_avail_def)
  obtain u where u: "wait_cyclic_task ?e v = Some u" using life_ans_wait by blast
  obtain p' w' where x: "stmmac_xmit bench_ext ?e (bench_skb []) q v = Some (NETDEV_TX_OK, p', w')"
    using nd_ring.xmit_refines [of q False bench_ext "bench_skb []" ?e v u] ok hq(1) u n
    by (auto simp: machine_ok_def index_room_def)
  have "run_step bench_ext ?e False (q, v, []) (p', w', [skb_ptr (bench_skb [])])"
    using tx_step.send [OF x, of False] hq(1) by (intro run_step.transmit) simp
  then have "?L (True, q, v, []) (True, p', w', [0xc0de])" by (intro life_step.running) simp
  moreover have "?L (False, ?p, bench0, []) (True, q, v, [])" by (rule life_step.open_up [OF o q])
  ultimately show thesis using that by (meson converse_rtranclp_into_rtranclp rtranclp.rtrancl_refl)
qed


end
