(* ===== verification/Driver_Progress.thy ===== *)
theory Driver_Progress
  imports Driver_Life
begin

text \<open>
  No operation of an open interface crashes: in every state its life can reach, each function of the driver
  that works on the rings has a result. \<open>None\<close>, a \<open>NULL\<close> pointer, a division by a ring size of 0, an access
  outside of a ring or a loop that never ends, is excluded; only sending depends on the device of the
  cyclic task, for which it may have to wait.
\<close>

section \<open>The functions on the rings\<close>

lemma up_total:
  assumes cl: "call_log log e" and i: "up_inv log vlan (p, w, s)"
  shows "\<exists>p' w'. stmmac_tx_clean x e p w = Some (p', w')" and "\<exists>p' w'. stmmac_tx_err e p w = Some (p', w')"
    and "\<exists>n p' w'. stmmac_rx x e limit p w = Some (n, p', w')" and "\<exists>p' w'. dma_tx_error e status p w = Some (p', w')"
proof -
  have ok: "machine_ok vlan p" "rx_wf p" using i by (simp_all add: up_inv_def up_ok_def)
  note cfg = ok(1) [unfolded machine_ok_def]
  show "\<exists>p' w'. stmmac_tx_clean x e p w = Some (p', w')"
    by (rule tx_clean_machine [OF cl ok(1), of x w]) blast
  show err: "\<exists>p' w'. stmmac_tx_err e p w = Some (p', w')" using tx_err_total [of p vlan e w] cfg by blast
  show "\<exists>n p' w'. stmmac_rx x e limit p w = Some (n, p', w')"
    using stmmac_rx_serves [of p vlan x e limit w] ok(2) cfg by blast
  show "\<exists>p' w'. dma_tx_error e status p w = Some (p', w')" using err by (simp add: dma_tx_error_def Let_def)
qed

lemma up_poll_total:
  assumes cl: "call_log log e" and i: "up_inv log vlan (p, w, s)"
  shows "\<exists>n p' w'. stmmac_poll x e budget p w = Some (n, p', w')"
proof -
  let ?p = "upd_xstats (napi_poll_update inc) p"
  have j: "up_inv log vlan (?p, w, s)" using i by simp
  obtain q u where c: "stmmac_tx_clean x e ?p w = Some (q, u)" using up_total(1) [OF cl j] by blast
  obtain n r v where "stmmac_rx x e budget q u = Some (n, r, v)" using up_total(3) [OF cl up_inv_clean [OF cl c j]] by blast
  with c show ?thesis by (simp add: stmmac_poll_def Let_def)
qed

lemma up_direct_total:
  assumes cl: "call_log log e" and i: "up_inv log vlan (p, w, s)"
  shows "\<exists>p' w'. stmmac_direct_dma_interrupt x e p w = Some (p', w')"
proof -
  obtain status xs w1 where d: "dma_interrupt (hw_dma (hw p)) e (ioaddr p) (xstats p) w = (status, xs, w1)"
    by (metis prod_cases3)
  let ?p = "upd_xstats (\<lambda>_. xs) p" and ?w = "stmmac_disable_dma_irq e (upd_xstats (\<lambda>_. xs) p) w1"
  have "log w1 = log w"
    using dma_interrupt_quiet [OF cl, of "ioaddr p" "xstats p" w] d up_inv_dma [OF i] by (simp add: dwmac1000_dma_ops_def)
  then have i1: "up_inv log vlan (?p, w1, s)" using i up_inv_log [of log w1 w vlan p s] by simp
  show ?thesis
  proof (cases "tst status handle_rx \<or> tst status handle_tx")
    case False
    then show ?thesis using up_total(4) [OF cl i1, of status] by (simp add: stmmac_direct_dma_interrupt_def d)
  next
    case True
    have i2: "up_inv log vlan (?p, ?w, s)"
      using i1 up_inv_log [of log ?w w1 vlan ?p s] dma_irq_quiet(2) [OF cl up_inv_dma [OF i1], of w1] by blast
    obtain q u where c: "stmmac_tx_clean x e ?p ?w = Some (q, u)" using up_total(1) [OF cl i2] by blast
    note i3 = up_inv_clean [OF cl c i2]
    obtain n t z where r: "stmmac_rx x e 64 q u = Some (n, t, z)" using up_total(3) [OF cl i3] by blast
    note i4 = up_inv_rx [OF cl r i3]
    have "up_inv log vlan (t, stmmac_enable_dma_irq e t z, s)"
      using i4 up_inv_log [of log "stmmac_enable_dma_irq e t z" z vlan t s] dma_irq_quiet(1) [OF cl up_inv_dma [OF i4], of z] by blast
    from up_total(4) [OF cl this, of status] True c r show ?thesis by (simp add: stmmac_direct_dma_interrupt_def d Let_def)
  qed
qed

lemma up_xmit_total:
  assumes i: "up_inv log vlan (p, w, s)" and wait: "wait_cyclic_task e w = Some v"
    and plain: "plain_frame x p (skb_len skb)" and n: "length (skb_frags skb) < 2147483648"
  shows "\<exists>r p' w'. stmmac_xmit x e skb p w = Some (r, p', w') \<and> r \<in> {NETDEV_TX_OK, NETDEV_TX_BUSY}"
proof (cases "stmmac_tx_avail p < of_nat (length (skb_frags skb)) + 1")
  case True
  then show ?thesis by (simp add: stmmac_xmit_def kcall_eq Let_def)
next
  case False
  have "machine_ok vlan p" using i by (simp add: up_inv_def up_ok_def)
  then show ?thesis
    using nd_ring.xmit_refines [of p vlan x skb e w v] False wait plain n
    by (auto simp: machine_ok_def index_room_def)
qed



end
