(* ===== verification/Rx_Order.thy ===== *)
theory Rx_Order
  imports Rx_Account
begin

text \<open>
  What the receive routine delivers, and in which order. The specification is a function on the list of
  slots from the receive index on, each with its buffer and its descriptor: the frames are taken in the
  order of the ring up to the first descriptor the hardware still owns. The routine gives the
  stack exactly these, in any world with a log of its calls.
\<close>

section \<open>The specification\<close>

text \<open>A normal descriptor whose frame is accepted: it holds the end of a frame and reports no error.\<close>

definition rx_accepts :: "dma_desc \<Rightarrow> bool" where
  "rx_accepts d \<longleftrightarrow> rx_get d ''last_descriptor'' \<noteq> 0 \<and> rx_get d ''error_summary'' = 0
     \<and> rx_get d ''length_error'' = 0 \<and> rx_get d ''mii_error'' = 0"

text \<open>
  The number of descriptors taken, and the buffers delivered with the length of the frame without its
  checksum. A slot that should hold a frame but has no buffer ends the reception.
\<close>

primrec rx_fifo :: "int \<Rightarrow> (ptr \<times> dma_desc) list \<Rightarrow> nat \<times> (ptr \<times> int) list" where
  "rx_fifo coe [] = (0, [])"
| "rx_fifo coe (f # fs) =
     (let (s, d) = f; (n, l) = rx_fifo coe fs
      in if ndesc_get_rx_owner d \<noteq> 0 then (0, [])
         else if \<not> rx_accepts d then (Suc n, l)
         else if s = 0 then (1, [])
         else (Suc n, (s, ndesc_get_rx_frame_len d coe - ETH_FCS_LEN) # l))"

text \<open>The slots the next \<open>n\<close> turns look at.\<close>

definition rx_view :: "'w priv \<Rightarrow> nat \<Rightarrow> (ptr \<times> dma_desc) list" where
  "rx_view p n = map (\<lambda>k. (rx_skbuff p ! rx_slot p (cur_rx p + of_nat k), rx_desc p (rx_slot p (cur_rx p + of_nat k)))) [0..<n]"

text \<open>The lengths set in the buffers, the latest first.\<close>

definition put_of :: "call_record \<Rightarrow> (ptr \<times> int) list" where
  "put_of c = (case c of (K n as, r) \<Rightarrow> if n = ''skb_put'' then (case as of [I s, I len] \<Rightarrow> [(s, len)] | _ \<Rightarrow> []) else [])"

definition puts :: "call_record list \<Rightarrow> (ptr \<times> int) list" where
  "puts l = concat (map put_of l)"

lemma puts_Cons [simp]:
  "puts ((K n as, r) # l) = (if n = ''skb_put'' then (case as of [I s, I len] \<Rightarrow> [(s, len)] | _ \<Rightarrow> []) else []) @ puts l"
  by (simp add: puts_def put_of_def)

section \<open>The receive loop\<close>

lemma rx_slot_next:
  assumes "rx_wf p" and "unat (dma_rx_size p) dvd 2 ^ 32" and "0 < k" and "k < unat (dma_rx_size p)"
  shows "rx_slot p (i + of_nat k) \<noteq> rx_slot p i"
proof -
  let ?N = "unat (dma_rx_size p)"
  have k: "unat (of_nat k :: u32) = k"
    using assms(4) unat_u32_lt [of "dma_rx_size p"] by (simp add: unsigned_of_nat take_bit_nat_eq_self)
  have "rx_slot p (i + of_nat k) = (unat i + k) mod 2 ^ 32 mod ?N"
    by (simp add: rx_slot_def unat_mod_distrib unat_word_ariths k)
  also have "\<dots> = (unat i + k) mod ?N" using assms(2) by (simp add: mod_mod_cancel)
  finally show ?thesis
    using mod_add_inj [OF assms(3, 4), of "unat i"] by (simp add: rx_slot_def unat_mod_distrib)
qed

lemma rx_entry_delivers:
  assumes cl: "call_log log e" and r: "rx_entry e (ndesc_ops vlan) i p w = (go, q, v)"
  shows "rx_desc q = rx_desc p \<and> plat q = plat p \<and> (\<forall>j. j \<noteq> i \<longrightarrow> rx_skbuff q ! j = rx_skbuff p ! j)"
    and "if \<not> rx_accepts (rx_desc p i) then go \<and> given (log v) = given (log w) \<and> puts (log v) = puts (log w)
      else if rx_skbuff p ! i = 0 then \<not> go \<and> given (log v) = given (log w) \<and> puts (log v) = puts (log w)
      else go \<and> given (log v) = rx_skbuff p ! i # given (log w)
        \<and> puts (log v) = (rx_skbuff p ! i, ndesc_get_rx_frame_len (rx_desc p i) (pl_rx_coe (plat p)) - ETH_FCS_LEN) # puts (log w)"
proof -
  obtain status st xs where s: "ndesc_get_rx_status vlan (nd_stats (dev p)) (xstats p) (rx_desc p i) = (status, st, xs)"
    by (metis prod_cases3)
  have status: "status = (if rx_accepts (rx_desc p i) then good_frame else discard_frame)"
    using ndesc_rx_status_good_iff [of vlan "nd_stats (dev p)" "xstats p" "rx_desc p i"] s by (simp add: rx_accepts_def)
  have h: "given (log (stmmac_get_rx_hwtstamp e ops z j sk u)) = given (log u)"
    "puts (log (stmmac_get_rx_hwtstamp e ops z j sk u)) = puts (log u)" for ops j sk u and z :: "'a priv"
    by (simp_all add: stmmac_get_rx_hwtstamp_def Let_def call_log_laws [OF cl])
  have k: "good_frame \<noteq> discard_frame" "good_frame \<noteq> llc_snap" by (simp_all add: hw_consts)
  note defs = rx_entry_def rx_deliver_def ndesc_ops_def Let_def s status k upd_stats_def upd_xstats_def
  show "rx_desc q = rx_desc p \<and> plat q = plat p \<and> (\<forall>j. j \<noteq> i \<longrightarrow> rx_skbuff q ! j = rx_skbuff p ! j)"
    using r by (auto simp: defs fun_eq_iff split: if_splits)
  show "if \<not> rx_accepts (rx_desc p i) then go \<and> given (log v) = given (log w) \<and> puts (log v) = puts (log w)
      else if rx_skbuff p ! i = 0 then \<not> go \<and> given (log v) = given (log w) \<and> puts (log v) = puts (log w)
      else go \<and> given (log v) = rx_skbuff p ! i # given (log w)
        \<and> puts (log v) = (rx_skbuff p ! i, ndesc_get_rx_frame_len (rx_desc p i) (pl_rx_coe (plat p)) - ETH_FCS_LEN) # puts (log w)"
    using r by (auto simp: defs h call_log_laws [OF cl] split: if_splits)
qed

lemma rx_loop_fifo:
  assumes cl: "call_log log e"
  shows "rx_loop e (ndesc_ops vlan) m cnt p w = Some (n, p', w') \<Longrightarrow> rx_wf p \<Longrightarrow> unat (dma_rx_size p) dvd 2 ^ 32 \<Longrightarrow>
     m \<le> unat (dma_rx_size p) \<Longrightarrow> rx_fifo (pl_rx_coe (plat p)) (rx_view p m) = (k, fs) \<Longrightarrow>
     n = cnt + k \<and> given (log w') = rev (map fst fs) @ given (log w) \<and> puts (log w') = rev fs @ puts (log w)"
proof (induction m arbitrary: cnt p w k fs)
  case 0
  then show ?case by (simp add: rx_view_def)
next
  case (Suc m)
  let ?i = "rx_slot p (cur_rx p)" and ?coe = "pl_rx_coe (plat p)"
  note idx = rx_ring_index [OF Suc.prems(2), of "cur_rx p"]
  obtain go q v where e: "rx_entry e (ndesc_ops vlan) ?i p w = (go, q, v)" by (metis prod_cases3)
  note keep = rx_entry_keeps [OF e] and d = rx_entry_delivers [OF cl e]
  have wf: "rx_wf q" using Suc.prems(2) keep by (simp add: rx_wf_def)
  have sl: "rx_slot q = rx_slot p" by (simp add: rx_slot_def keep fun_eq_iff)
  have ne: "rx_slot p (cur_rx p + 1 + of_nat j) \<noteq> ?i" if "j < m" for j
    using rx_slot_next [OF Suc.prems(2, 3), of "Suc j" "cur_rx p"] that Suc.prems(4) by (simp add: ac_simps)
  have view: "rx_view p (Suc m) = (rx_skbuff p ! ?i, rx_desc p ?i) # rx_view q m"
  proof -
    have "rx_view q m = map (\<lambda>j. (rx_skbuff p ! rx_slot p (cur_rx p + 1 + of_nat j), rx_desc p (rx_slot p (cur_rx p + 1 + of_nat j)))) [0..<m]"
      using d(1) ne by (simp add: rx_view_def sl keep)
    then show ?thesis
      by (simp add: rx_view_def map_upt_Suc ac_simps del: upt_Suc)
  qed
  have coe: "pl_rx_coe (plat q) = ?coe" using d(1) by simp
  obtain k1 fs1 where f1: "rx_fifo ?coe (rx_view q m) = (k1, fs1)" by fastforce
  have own: "get_rx_owner (ndesc_ops vlan) = ndesc_get_rx_owner" by (simp add: ndesc_ops_def)
  show ?case
  proof (cases "ndesc_get_rx_owner (rx_desc p ?i) \<noteq> 0")
    case True
    then show ?thesis using Suc.prems(1, 5) idx view f1 by (simp add: own)
  next
    case False
    have "go \<longleftrightarrow> \<not> (rx_accepts (rx_desc p ?i) \<and> rx_skbuff p ! ?i = 0)" using d(2) by (auto split: if_splits)
    show ?thesis
    proof (cases go)
      case True
      then have "rx_loop e (ndesc_ops vlan) m (Suc cnt) q v = Some (n, p', w')" using Suc.prems(1) False idx e by (simp add: own)
      from Suc.IH [OF this wf] f1 coe keep Suc.prems(3, 4)
      have "n = Suc cnt + k1 \<and> given (log w') = rev (map fst fs1) @ given (log v) \<and> puts (log w') = rev fs1 @ puts (log v)"
        by simp
      then show ?thesis using Suc.prems(5) view f1 False True d(2) by (auto split: if_splits)
    next
      case stop: False
      then have "n = Suc cnt \<and> w' = v" using Suc.prems(1) False idx e by (simp add: own)
      then show ?thesis using Suc.prems(5) view f1 False stop d(2) by (auto split: if_splits)
    qed
  qed
qed

section \<open>The routine\<close>

lemma rx_refill_loop_gives:
  assumes cl: "call_log log e"
  shows "rx_refill_loop x e ops p w = Some (p', w') \<Longrightarrow> given (log w') = given (log w) \<and> puts (log w') = puts (log w)"
  using cl
proof (induction x e ops p w arbitrary: p' w' rule: rx_refill_loop.induct)
  case (1 x e ops p w)
  show ?case
  proof (cases "cur_rx p - dirty_rx p = 0")
    case False
    then obtain i ok q v where i: "ring_index (rx_ring_len p) (dirty_rx p) (dma_rx_size p) = Some i"
      and s: "rx_refill_entry x e ops i p w = Some (ok, q, v)"
      and r: "(if ok then rx_refill_loop x e ops q v else Some (q, v)) = Some (p', w')"
      using 1(2) by (auto simp: rx_refill_loop.simps [of x e ops p w] split: option.splits)
    have "given (log v) = given (log w) \<and> puts (log v) = puts (log w)"
      using s by (auto simp: rx_refill_entry_def kcall_eq Let_def bind_eq_Some_conv call_log_laws [OF 1(3)] split: if_splits)
    then show ?thesis using 1(1) [OF False i s refl refl _ _ 1(3)] r by (cases ok) auto
  qed (use 1 in \<open>simp add: rx_refill_loop.simps [of x e ops p w]\<close>)
qed

text \<open>
  Property C9. Reception in order: \<open>stmmac_rx\<close> returns, and gives the stack exactly the accepted frames of
  the slots from the receive index on, in the order of the ring and each with the length its descriptor
  reports less the checksum. It stops at the first descriptor the hardware still owns, at a slot without a
  buffer, or after \<open>limit\<close> descriptors; frames with an error are passed over, and the number returned is that
  of the descriptors taken.
\<close>

theorem rx_delivers_in_order:
  assumes "call_log log e" and "rx_wf p" and "hw_desc (hw p) = Some (ndesc_ops vlan)" and "hw_ring (hw p)"
    and "unat (dma_rx_size p) dvd 2 ^ 32" and "limit \<le> unat (dma_rx_size p)"
  shows "\<exists>n p' w' frames. stmmac_rx x e limit p w = Some (n, p', w')
    \<and> rx_fifo (pl_rx_coe (plat p)) (rx_view p limit) = (n, frames)
    \<and> given (log w') = rev (map fst frames) @ given (log w) \<and> puts (log w') = rev frames @ puts (log w)"
proof -
  obtain n p' w' where r: "stmmac_rx x e limit p w = Some (n, p', w')"
    using stmmac_rx_serves [OF assms(2-4), of x e limit w] by blast
  then obtain q v t where l: "rx_loop e (ndesc_ops vlan) limit 0 p w = Some (n, q, v)"
    and f: "stmmac_rx_refill x e q v = Some (t, w')"
    using assms(3) by (auto simp: stmmac_rx_def bind_eq_Some_conv)
  obtain k frames where s: "rx_fifo (pl_rx_coe (plat p)) (rx_view p limit) = (k, frames)" by fastforce
  have "given (log w') = given (log v) \<and> puts (log w') = puts (log v)"
    using f rx_refill_loop_gives [OF assms(1)] by (auto simp: stmmac_rx_refill_def bind_eq_Some_conv)
  then show ?thesis using r s rx_loop_fifo [OF assms(1) l assms(2, 5, 6) s] by simp
qed

text \<open>Three frames in a ring of four: the second has an error, the fourth slot is the hardware's.\<close>

definition bench_frame :: "u32 \<Rightarrow> u32 \<Rightarrow> dma_desc" where
  "bench_frame err len = rx_set ''frame_length'' len (rx_set ''error_summary'' err (rx_set ''last_descriptor'' 1 zero_desc))"

lemma fld_get_zero: "fld_get f zero_desc = 0"
  by (cases f) (simp add: fld_get.simps zero_desc_def)

lemma bench_frame_fifo:
  "rx_fifo 0 [(0x50, bench_frame 0 64), (0x60, bench_frame 1 64), (0x70, bench_frame 0 1518), (0x80, rx_set ''own'' 1 zero_desc)]
     = (3, [(0x50, 60), (0x70, 1514)])"
  by (simp add: rx_accepts_def bench_frame_def ndesc_simps fld_get_zero hw_consts)

theorem rx_delivers_in_order_witness:
  "\<exists>p' w'. stmmac_rx bench_ext (bench_env (\<lambda>_. 1)) 4 ((bench_priv 4 STMMAC_RING_MODE)\<lparr>rx_skbuff := [0x50, 0x60, 0x70, 0x80],
        dma_rx := [bench_frame 0 64, bench_frame 1 64, bench_frame 0 1518, rx_set ''own'' 1 zero_desc]\<rparr>) bench0
      = Some (3, p', w') \<and> puts (bench_log (\<lambda>_. 1) w') = [(0x70, 1514), (0x50, 60)]
    \<and> given (bench_log (\<lambda>_. 1) w') = [0x70, 0x50]"
proof -
  let ?p = "(bench_priv 4 STMMAC_RING_MODE)\<lparr>rx_skbuff := [0x50, 0x60, 0x70, 0x80],
        dma_rx := [bench_frame 0 64, bench_frame 1 64, bench_frame 0 1518, rx_set ''own'' 1 zero_desc]\<rparr>"
  have wf: "rx_wf ?p" by (simp add: rx_wf_def rx_ring_len_def)
  have view: "rx_view ?p 4 = [(0x50, bench_frame 0 64), (0x60, bench_frame 1 64), (0x70, bench_frame 0 1518), (0x80, rx_set ''own'' 1 zero_desc)]"
    by (simp add: rx_view_def upt_rec rx_slot_def rx_desc_def)
  have coe: "pl_rx_coe (plat ?p) = 0" by (simp add: bench_plat_def)
  show ?thesis
    using rx_delivers_in_order [OF bench_call_log(1) [of "\<lambda>_. 1"] wf, of False 4 bench_ext bench0]
    unfolding view coe bench_frame_fifo by (auto simp: puts_def)
qed

end
