(* ===== verification/Stmmac_Debugfs.thy ===== *)
theory Stmmac_Debugfs
  imports Stmmac_Lifecycle
begin

text \<open>
  The parts of the driver that only report: the dump of the rings to the log, and, in a kernel built
  with \<open>CONFIG_GMAC_DEBUG_FS\<close>, the two files of the debug file system with their creation and removal;
  and the two routines of \<open>dwmac_lib.c\<close>, built with \<open>DWMAC_DMA_DEBUG\<close>, that name the state of the DMA
  processes. A line of output is a call with the values printed, its text without tabs.
\<close>

section \<open>The rings\<close>

definition newline :: string where
  "newline = [CHR 0x0A]"

text \<open>
  A line on the descriptor \<open>i\<close>: the physical address of the element \<open>at\<close> of the ring, then the four
  words of the descriptor (the code reads the first two as one, on a little-endian machine), and the empty
  line after it.
\<close>

definition show_desc :: "'w env \<Rightarrow> string \<Rightarrow> string \<Rightarrow> nat \<Rightarrow> nat \<Rightarrow> dma_desc \<Rightarrow> 'w \<Rightarrow> 'w" where
  "show_desc e out ring at i d w =
     (let (a, w) = kcall e ''virt_to_phys'' [S ring, I (int at)] w;
          w = kdo e out [I (int i), I (a mod 2 ^ 32), I (uint (des0 d)), I (uint (des1 d)), I (uint (des2 d)), I (uint (des3 d))] w
      in kdo e out [S newline] w)"

text \<open>
  The head of a ring is the list of its descriptors, for extended ones of their basic parts; both
  routines read \<open>n\<close> of them, and \<open>None\<close> is a read past the end. The cursor \<open>ep\<close> of extended
  descriptors and the cursor \<open>p\<close> of normal ones start at the head; only the one in use is advanced.
\<close>

definition stmmac_display_ring :: "'w env \<Rightarrow> string \<Rightarrow> dma_desc list \<Rightarrow> nat \<Rightarrow> bool \<Rightarrow> 'w \<Rightarrow> 'w option" where
  "stmmac_display_ring e ring ds n ext w =
     (if n > length ds then None
      else Some (fold (\<lambda>i w. show_desc e ''pr_info'' ring i i (ds ! i) w) [0..<n] w))"

definition sysfs_display_ring :: "'w env \<Rightarrow> string \<Rightarrow> dma_desc list \<Rightarrow> nat \<Rightarrow> bool \<Rightarrow> 'w \<Rightarrow> 'w option" where
  "sysfs_display_ring e ring ds n ext w =
     (if n > length ds then None
      else Some (fold (\<lambda>i w.
        (let ep = (if ext then i else 0)
         in show_desc e ''seq_printf'' ring ep i (ds ! i) w)) [0..<n] w))"

definition stmmac_display_rings :: "'w env \<Rightarrow> 'w priv \<Rightarrow> 'w \<Rightarrow> 'w option" where
  "stmmac_display_rings e p w =
     (let txsize = unat (dma_tx_size p); rxsize = unat (dma_rx_size p)
      in if extend_desc p then do {
           let w = kdo e ''pr_info'' [S ''Extended RX descriptor ring:''] w;
           w \<leftarrow> stmmac_display_ring e ''dma_erx'' (map basic (dma_erx p)) rxsize True w;
           let w = kdo e ''pr_info'' [S ''Extended TX descriptor ring:''] w;
           stmmac_display_ring e ''dma_etx'' (map basic (dma_etx p)) txsize True w }
         else do {
           let w = kdo e ''pr_info'' [S ''RX descriptor ring:''] w;
           w \<leftarrow> stmmac_display_ring e ''dma_rx'' (dma_rx p) rxsize False w;
           let w = kdo e ''pr_info'' [S ''TX descriptor ring:''] w;
           stmmac_display_ring e ''dma_tx'' (dma_tx p) txsize False w })"

definition stmmac_sysfs_ring_read :: "'w env \<Rightarrow> 'w priv \<Rightarrow> 'w \<Rightarrow> (int \<times> 'w) option" where
  "stmmac_sysfs_ring_read e p w =
     (let txsize = unat (dma_tx_size p); rxsize = unat (dma_rx_size p)
      in if extend_desc p then do {
           let w = kdo e ''seq_printf'' [S ''Extended RX descriptor ring:''] w;
           w \<leftarrow> sysfs_display_ring e ''dma_erx'' (map basic (dma_erx p)) rxsize True w;
           let w = kdo e ''seq_printf'' [S ''Extended TX descriptor ring:''] w;
           w \<leftarrow> sysfs_display_ring e ''dma_etx'' (map basic (dma_etx p)) txsize True w;
           Some (0, w) }
         else do {
           let w = kdo e ''seq_printf'' [S ''RX descriptor ring:''] w;
           w \<leftarrow> sysfs_display_ring e ''dma_rx'' (dma_rx p) rxsize False w;
           let w = kdo e ''seq_printf'' [S ''TX descriptor ring:''] w;
           w \<leftarrow> sysfs_display_ring e ''dma_tx'' (dma_tx p) txsize False w;
           Some (0, w) })"

definition stmmac_sysfs_ring_open :: "'w env \<Rightarrow> ptr \<Rightarrow> 'w \<Rightarrow> int \<times> 'w" where
  "stmmac_sysfs_ring_open e i_private w = kcall e ''single_open'' [S ''stmmac_sysfs_ring_read'', I i_private] w"

section \<open>The capabilities of the core\<close>

definition yn :: "u32 \<Rightarrow> karg" where
  "yn v = S (if v \<noteq> 0 then ''Y'' else ''N'')"

definition dma_cap_lines :: "dma_features \<Rightarrow> (string \<times> karg) list" where
  "dma_cap_lines c = [
     (''10/100 Mbps '', yn (mbps_10_100 c)),
     (''1000 Mbps '', yn (mbps_1000 c)),
     (''Half duple '', yn (half_duplex c)),
     (''Hash Filter: '', yn (hash_filter c)),
     (''Multiple MAC address registers: '', yn (multi_addr c)),
     (''PCS (TBI/SGMII/RTBI PHY interfatces): '', yn (cap_pcs c)),
     (''SMA (MDIO) Interface: '', yn (sma_mdio c)),
     (''PMT Remote wake up: '', yn (pmt_remote_wake_up c)),
     (''PMT Magic Frame: '', yn (pmt_magic_frame c)),
     (''RMON module: '', yn (rmon c)),
     (''IEEE 1588-2002 Time Stamp: '', yn (time_stamp c)),
     (''IEEE 1588-2008 Advanced Time Stamp:'', yn (atime_stamp c)),
     (''802.3az - Energy-Efficient Ethernet (EEE) '', yn (cap_eee c)),
     (''AV features: '', yn (cap_av c)),
     (''Checksum Offload in TX: '', yn (cap_tx_coe c)),
     (''IP Checksum Offload (type1) in RX: '', yn (rx_coe_type1 c)),
     (''IP Checksum Offload (type2) in RX: '', yn (rx_coe_type2 c)),
     (''RXFIFO > 2048bytes: '', yn (rxfifo_over_2048 c)),
     (''Number of Additional RX channel: '', I (sint (number_rx_channel c))),
     (''Number of Additional TX channel: '', I (sint (number_tx_channel c))),
     (''Enhanced descriptors: '', yn (cap_enh_desc c))]"

definition stmmac_sysfs_dma_cap_read :: "'w env \<Rightarrow> 'w priv \<Rightarrow> 'w \<Rightarrow> int \<times> 'w" where
  "stmmac_sysfs_dma_cap_read e p w =
     (if hw_cap_support p = 0 then (0, kdo e ''seq_printf'' [S ''DMA HW features not supported''] w)
      else
        (let w = kdo e ''seq_printf'' [S ''==============================''] w;
             w = kdo e ''seq_printf'' [S ''DMA HW features''] w;
             w = kdo e ''seq_printf'' [S ''==============================''] w
         in (0, fold (\<lambda>(l, v). kdo e ''seq_printf'' [S l, v]) (dma_cap_lines (dma_cap p)) w)))"

definition stmmac_sysfs_dma_cap_open :: "'w env \<Rightarrow> ptr \<Rightarrow> 'w \<Rightarrow> int \<times> 'w" where
  "stmmac_sysfs_dma_cap_open e i_private w = kcall e ''single_open'' [S ''stmmac_sysfs_dma_cap_read'', I i_private] w"

section \<open>The debug file system\<close>

text \<open>The three static pointers; \<open>stmmac_open\<close> warns of a failure and goes on, \<open>stmmac_release\<close> removes.\<close>

record debug_fs =
  stmmac_fs_dir :: ptr
  stmmac_rings_status :: ptr
  stmmac_dma_cap :: ptr

definition STMMAC_RESOURCE_NAME :: string where
  "STMMAC_RESOURCE_NAME = ''stmmaceth''"

definition stmmac_init_fs :: "'w env \<Rightarrow> ptr \<Rightarrow> debug_fs \<Rightarrow> 'w \<Rightarrow> int \<times> debug_fs \<times> 'w" where
  "stmmac_init_fs e ndev f w =
     (let (d, w) = kcall e ''debugfs_create_dir'' [S STMMAC_RESOURCE_NAME] w;
          f = f\<lparr>stmmac_fs_dir := d\<rparr>
      in if d = 0 \<or> IS_ERR d then (- ENOMEM, f, w)
         else
           (let (r, w) = kcall e ''debugfs_create_file'' [S ''descriptors_status'', I d, I ndev] w;
                f = f\<lparr>stmmac_rings_status := r\<rparr>
            in if r = 0 \<or> IS_ERR r then (- ENOMEM, f, kdo e ''debugfs_remove'' [I d] w)
               else
                 (let (c, w) = kcall e ''debugfs_create_file'' [S ''dma_cap'', I d, I ndev] w;
                      f = f\<lparr>stmmac_dma_cap := c\<rparr>
                  in if c = 0 \<or> IS_ERR c
                     then (- ENOMEM, f, kdo e ''debugfs_remove'' [I d] (kdo e ''debugfs_remove'' [I r] w))
                     else (0, f, w))))"

definition stmmac_exit_fs :: "'w env \<Rightarrow> debug_fs \<Rightarrow> 'w \<Rightarrow> 'w" where
  "stmmac_exit_fs e f w =
     (let w = kdo e ''debugfs_remove'' [I (stmmac_rings_status f)] w;
          w = kdo e ''debugfs_remove'' [I (stmmac_dma_cap f)] w
      in kdo e ''debugfs_remove'' [I (stmmac_fs_dir f)] w)"

section \<open>The state of the DMA processes\<close>

definition tx_process_text :: "u32 \<Rightarrow> string option" where
  "tx_process_text state =
     (if state = 0 then Some ''- TX (Stopped): Reset or Stop command''
      else if state = 1 then Some ''- TX (Running):Fetching the Tx desc''
      else if state = 2 then Some ''- TX (Running): Waiting for end of tx''
      else if state = 3 then Some ''- TX (Running): Reading the data and queuing the data into the Tx buf''
      else if state = 6 then Some ''- TX (Suspended): Tx Buff Underflow or an unavailable Transmit descriptor''
      else if state = 7 then Some ''- TX (Running): Closing Tx descriptor''
      else None)"

definition show_tx_process_state :: "'w env \<Rightarrow> u32 \<Rightarrow> 'w \<Rightarrow> 'w" where
  "show_tx_process_state e status w =
     (case tx_process_text (drop_bit (unat DMA_STATUS_TS_SHIFT) (status AND DMA_STATUS_TS_MASK)) of
        None \<Rightarrow> w | Some t \<Rightarrow> kdo e ''pr_info'' [S t] w)"

definition rx_process_text :: "u32 \<Rightarrow> string option" where
  "rx_process_text state =
     (if state = 0 then Some ''- RX (Stopped): Reset or Stop command''
      else if state = 1 then Some ''- RX (Running): Fetching the Rx desc''
      else if state = 2 then Some ''- RX (Running):Checking for end of pkt''
      else if state = 3 then Some ''- RX (Running): Waiting for Rx pkt''
      else if state = 4 then Some ''- RX (Suspended): Unavailable Rx buf''
      else if state = 5 then Some ''- RX (Running): Closing Rx descriptor''
      else if state = 6 then Some ''- RX(Running): Flushing the current frame from the Rx buf''
      else if state = 7 then Some ''- RX (Running): Queuing the Rx frame from the Rx buf into memory''
      else None)"

definition show_rx_process_state :: "'w env \<Rightarrow> u32 \<Rightarrow> 'w \<Rightarrow> 'w" where
  "show_rx_process_state e status w =
     (case rx_process_text (drop_bit (unat DMA_STATUS_RS_SHIFT) (status AND DMA_STATUS_RS_MASK)) of
        None \<Rightarrow> w | Some t \<Rightarrow> kdo e ''pr_info'' [S t] w)"

section \<open>What the files show\<close>

text \<open>The addresses a dump asks for, the latest first.\<close>

lemma show_desc_calls:
  "out \<noteq> ''virt_to_phys'' \<Longrightarrow>
     calls_of ''virt_to_phys'' (show_desc (bench_env ans) out ring at i d w) = [S ring, I (int at)] # calls_of ''virt_to_phys'' w"
  by (simp add: show_desc_def Let_def)

lemma fold_show_desc_calls:
  "out \<noteq> ''virt_to_phys'' \<Longrightarrow>
     calls_of ''virt_to_phys'' (fold (\<lambda>i w. show_desc (bench_env ans) out ring (f i) i (ds ! i) w) [0..<n] w)
       = rev (map (\<lambda>i. [S ring, I (int (f i))]) [0..<n]) @ calls_of ''virt_to_phys'' w"
  by (induction n) (simp_all add: show_desc_calls)

text \<open>
  The dump to the log gives every descriptor its own address, and so does the file for
  extended descriptors; for normal descriptors the file repeats the address of the head of the ring on
  every line, since the cursor it prints is the one that is not advanced.
\<close>

theorem ring_dump_addresses:
  "map_option (calls_of ''virt_to_phys'') (stmmac_display_ring (bench_env ans) ring ds (length ds) ext w)
     = Some (rev (map (\<lambda>i. [S ring, I (int i)]) [0..<length ds]) @ calls_of ''virt_to_phys'' w)"
  "map_option (calls_of ''virt_to_phys'') (sysfs_display_ring (bench_env ans) ring ds (length ds) True w)
     = Some (rev (map (\<lambda>i. [S ring, I (int i)]) [0..<length ds]) @ calls_of ''virt_to_phys'' w)"
  "map_option (calls_of ''virt_to_phys'') (sysfs_display_ring (bench_env ans) ring ds (length ds) False w)
     = Some (replicate (length ds) [S ring, I 0] @ calls_of ''virt_to_phys'' w)"
proof -
  have r: "rev (map (\<lambda>i. c) [0..<n]) = replicate n c" for c :: "karg list" and n
    by (simp add: map_replicate_const)
  show "map_option (calls_of ''virt_to_phys'') (stmmac_display_ring (bench_env ans) ring ds (length ds) ext w)
     = Some (rev (map (\<lambda>i. [S ring, I (int i)]) [0..<length ds]) @ calls_of ''virt_to_phys'' w)"
    by (simp add: stmmac_display_ring_def fold_show_desc_calls [where f = "\<lambda>i. i"])
  show "map_option (calls_of ''virt_to_phys'') (sysfs_display_ring (bench_env ans) ring ds (length ds) True w)
     = Some (rev (map (\<lambda>i. [S ring, I (int i)]) [0..<length ds]) @ calls_of ''virt_to_phys'' w)"
    by (simp add: sysfs_display_ring_def fold_show_desc_calls [where f = "\<lambda>i. i"])
  show "map_option (calls_of ''virt_to_phys'') (sysfs_display_ring (bench_env ans) ring ds (length ds) False w)
     = Some (replicate (length ds) [S ring, I 0] @ calls_of ''virt_to_phys'' w)"
    by (simp add: sysfs_display_ring_def fold_show_desc_calls [where f = "\<lambda>i. 0"] r)
qed

text \<open>A failing set-up of the files removes what it had created, the latest first.\<close>

definition fs_created :: "debug_fs \<Rightarrow> ptr list" where
  "fs_created f = takeWhile (\<lambda>a. a \<noteq> 0 \<and> \<not> IS_ERR a) [stmmac_fs_dir f, stmmac_rings_status f, stmmac_dma_cap f]"

lemma init_fs_undoes:
  assumes "stmmac_init_fs (bench_env ans) ndev f w = (ret, f', w')"
  shows "if ret = 0 then length (fs_created f') = 3 \<and> calls_of ''debugfs_remove'' w' = calls_of ''debugfs_remove'' w
    else ret = - ENOMEM \<and> calls_of ''debugfs_remove'' w' = map (\<lambda>a. [I a]) (fs_created f') @ calls_of ''debugfs_remove'' w"
proof -
  define P where "P a \<longleftrightarrow> a \<noteq> 0 \<and> \<not> IS_ERR a" for a :: ptr
  have b: "(a = 0 \<or> IS_ERR a) = (\<not> P a)" for a by (auto simp: P_def)
  have f: "fs_created g = takeWhile P [stmmac_fs_dir g, stmmac_rings_status g, stmmac_dma_cap g]" for g
    by (simp add: fs_created_def P_def)
  let ?d = "ans (K ''debugfs_create_dir'' [S STMMAC_RESOURCE_NAME])"
  let ?r = "ans (K ''debugfs_create_file'' [S ''descriptors_status'', I ?d, I ndev])"
  let ?c = "ans (K ''debugfs_create_file'' [S ''dma_cap'', I ?d, I ndev])"
  have n: "- ENOMEM \<noteq> 0" by (simp add: ENOMEM_def)
  show ?thesis
    using assms n unfolding stmmac_init_fs_def b f
    by (cases "P ?d"; cases "P ?r"; cases "P ?c") auto
qed

text \<open>
  The removal does not know of a failure: when the second file could not be created, and the
  directory and the first file were removed at once, closing the interface removes both again.
\<close>

theorem exit_after_failed_init_fs:
  assumes "stmmac_init_fs (bench_env ans) ndev f w = (ret, f', w')" and "ret \<noteq> 0"
    and "stmmac_fs_dir f' \<noteq> 0" and "\<not> IS_ERR (stmmac_fs_dir f')"
    and "stmmac_rings_status f' \<noteq> 0" and "\<not> IS_ERR (stmmac_rings_status f')"
  shows "calls_of ''debugfs_remove'' (stmmac_exit_fs (bench_env ans) f' w')
    = [[I (stmmac_fs_dir f')], [I (stmmac_dma_cap f')], [I (stmmac_rings_status f')], [I (stmmac_fs_dir f')],
       [I (stmmac_rings_status f')]] @ calls_of ''debugfs_remove'' w"
  using assms by (auto simp: stmmac_init_fs_def stmmac_exit_fs_def Let_def split: if_splits)

theorem exit_after_failed_init_fs_witness:
  "let (ret, f, w) = stmmac_init_fs (bench_env (\<lambda>c. if c = K ''debugfs_create_file'' [S ''dma_cap'', I 5, I 9] then 0 else 5)) 9
        \<lparr>stmmac_fs_dir = 0, stmmac_rings_status = 0, stmmac_dma_cap = 0\<rparr> bench0
   in ret = - ENOMEM \<and> calls_of ''debugfs_remove'' (stmmac_exit_fs (bench_env (\<lambda>_. 0)) f w) = [[I 5], [I 0], [I 5], [I 5], [I 5]]"
  by (simp add: stmmac_init_fs_def stmmac_exit_fs_def Let_def IS_ERR_def) (simp add: calls_of_def bench0_def)

lemma three_bits:
  assumes "x AND 7 = (x :: u32)"
  shows "x \<in> {0, 1, 2, 3, 4, 5, 6, 7}"
proof -
  have "x = take_bit 3 x" using assms by (simp add: take_bit_eq_mask mask_eq_decr_exp)
  then have "unat x = take_bit 3 (unat x)" by (metis unsigned_take_bit_eq)
  then have "unat x < 8" using take_bit_nat_less_exp [of 3 "unat x"] by simp
  moreover have "x = word_of_nat (unat x)" by simp
  ultimately obtain k where "x = word_of_nat k" "k < 8" by blast
  moreover from this(2) have "k \<in> {0, 1, 2, 3, 4, 5, 6, 7}" by auto
  ultimately show ?thesis by auto
qed

text \<open>Every state of the receive process has a text; the states 4 and 5 of the transmit process have none.\<close>

lemma rx_process_named: "rx_process_text (drop_bit (unat DMA_STATUS_RS_SHIFT) (status AND DMA_STATUS_RS_MASK)) \<noteq> None"
proof -
  let ?x = "drop_bit (unat DMA_STATUS_RS_SHIFT) (status AND DMA_STATUS_RS_MASK)"
  have "?x AND 7 = ?x" by (simp add: hw_consts bit_eq_iff bit_simps)
  from three_bits [OF this] show ?thesis unfolding rx_process_text_def by (simp only: insert_iff empty_iff) (elim disjE; simp)
qed

end
