(* ===== verification/Phy_Ctrl.thy ===== *)
theory Phy_Ctrl
  imports Mac_Ops "HOL-Library.Monad_Syntax"
begin

text \<open>
  The MDIO bus of the character network device, \<open>phy_ctrl.c\<close>: busy-wait, read and write of a PHY
  register, and the registration of the bus with the choice of the PHY. The part of the file from
  \<open>stmmac_init_phy\<close> on is switched off by the preprocessor.
\<close>

section \<open>The device\<close>

definition MII_BUSY :: u32 where [hw_consts]: "MII_BUSY = 0x00000001"
definition MII_WRITE :: u32 where [hw_consts]: "MII_WRITE = 0x00000002"
definition MACLEN :: nat where [hw_consts]: "MACLEN = 6"
definition PHY_MAX_ADDR :: nat where [hw_consts]: "PHY_MAX_ADDR = 32"
definition PHY_POLL :: int where [hw_consts]: "PHY_POLL = - 1"
definition PHY_IGNORE_INTERRUPT :: int where [hw_consts]: "PHY_IGNORE_INTERRUPT = - 2"

text \<open>
  The callback \<open>init\<close> is unset, the one of this driver, or one a board brought along.
\<close>

datatype init_callback = No_init | Pltfr_init | Board_init

text \<open>
  \<open>struct stmmac_mdio_bus_data\<close> and \<open>struct plat_stmmacenet_data\<close> of the kernel, with the members this
  driver uses. Of the callbacks only whether they are set is kept. \<open>cp_bsp\<close> says that \<open>bsp_priv\<close> points
  to \<open>g_bsp_priv\<close>.
\<close>

record mdio_bus_data =
  md_phy_reset :: bool
  md_phy_mask :: int
  md_irqs :: "int list option"
  md_probed_phy_irq :: int

record cplat =
  cp_bus_id :: int
  cp_phy_addr :: int
  cp_interface :: u32
  cp_mdio_bus_data :: "mdio_bus_data option"
  cp_bsp :: bool
  cp_init :: init_callback
  cp_has_fix_speed :: bool
  cp_has_gmac :: bool
  cp_pmt :: bool

text \<open>\<open>struct char_net_priv\<close>; the lock and the embedded device are left out.\<close>

record 'w char_net_priv =
  cn_ioaddr :: u32
  cn_hw :: "'w mac_device_info option"
  cn_irq_num :: int
  cn_plat :: "cplat option"
  cn_mii :: ptr
  cn_clk_csr :: int
  cn_mii_irq :: "int list"
  cn_macaddr :: "u8 list"

section \<open>Access to the registers of the PHY\<close>

text \<open>
  \<open>do ... while (!time_after_eq(curr, finish))\<close>: the clock is read before the register, and compared
  by the sign of the difference, in 32 bits. \<open>HZ\<close> is a constant of the kernel's configuration.
\<close>

definition time_after_eq :: "u32 \<Rightarrow> u32 \<Rightarrow> bool" where
  "time_after_eq a b \<longleftrightarrow> 0 \<le>s a - b"

partial_function (option) busy_wait_loop :: "'w env \<Rightarrow> u32 \<Rightarrow> u32 \<Rightarrow> 'w \<Rightarrow> (int \<times> 'w) option" where
  [code]: "busy_wait_loop e a finish w =
     (let (curr, w) = kcall e ''jiffies'' [] w;
          (v, w) = readl e a w
      in if tst v MII_BUSY then
           (let w = kdo e ''cpu_relax'' [] w
            in if time_after_eq (word_of_int curr) finish then Some (- EBUSY, w) else busy_wait_loop e a finish w)
         else Some (0, w))"

definition stmmac_mdio_busy_wait :: "u32 \<Rightarrow> 'w env \<Rightarrow> u32 \<Rightarrow> u32 \<Rightarrow> 'w \<Rightarrow> (int \<times> 'w) option" where
  "stmmac_mdio_busy_wait hz e ioaddr mii w =
     (let (now, w) = kcall e ''jiffies'' [] w
      in busy_wait_loop e (ioaddr + mii) (word_of_int now + 3 * hz) w)"

text \<open>The command both accesses put together, in an \<open>u16\<close>.\<close>

definition mdio_cmd :: "u32 \<Rightarrow> int \<Rightarrow> int \<Rightarrow> int \<Rightarrow> u16" where
  "mdio_cmd flags clk_csr phyaddr phyreg =
     ucast ((((push_bit 11 (word_of_int phyaddr) AND 0x0000F800) OR (push_bit 6 (word_of_int phyreg) AND 0x000007C0)) OR flags)
       OR (MII_BUSY OR push_bit 2 (word_of_int clk_csr AND 0xF)))"

definition stmmac_mdio_read :: "u32 \<Rightarrow> 'w env \<Rightarrow> int \<Rightarrow> int \<Rightarrow> 'w char_net_priv \<Rightarrow> 'w \<Rightarrow> (int \<times> 'w) option" where
  "stmmac_mdio_read hz e phyaddr phyreg n w = do {
     h \<leftarrow> cn_hw n;
     let mii_address = mii_addr (hw_mii h);
     let regValue = mdio_cmd 0 (cn_clk_csr n) phyaddr phyreg;
     (busy, w) \<leftarrow> stmmac_mdio_busy_wait hz e (cn_ioaddr n) mii_address w;
     if busy \<noteq> 0 then Some (- EBUSY, w)
     else do {
       let w = writel e (ucast regValue) (cn_ioaddr n + mii_address) w;
       (busy, w) \<leftarrow> stmmac_mdio_busy_wait hz e (cn_ioaddr n) mii_address w;
       if busy \<noteq> 0 then Some (- EBUSY, w)
       else
         (let (data, w) = readl e (cn_ioaddr n + mii_data (hw_mii h)) w
          in Some (sint data, w)) } }"

definition stmmac_mdio_write :: "u32 \<Rightarrow> 'w env \<Rightarrow> int \<Rightarrow> int \<Rightarrow> u16 \<Rightarrow> 'w char_net_priv \<Rightarrow> 'w \<Rightarrow> (int \<times> 'w) option" where
  "stmmac_mdio_write hz e phyaddr phyreg phydata n w = do {
     h \<leftarrow> cn_hw n;
     let mii_address = mii_addr (hw_mii h);
     let cmd = mdio_cmd MII_WRITE (cn_clk_csr n) phyaddr phyreg;
     (busy, w) \<leftarrow> stmmac_mdio_busy_wait hz e (cn_ioaddr n) mii_address w;
     if busy \<noteq> 0 then Some (- EBUSY, w)
     else do {
       let w = writel e (ucast phydata) (cn_ioaddr n + mii_data (hw_mii h)) w;
       let w = writel e (ucast cmd) (cn_ioaddr n + mii_address) w;
       stmmac_mdio_busy_wait hz e (cn_ioaddr n) mii_address w } }"

definition stmmac_mdio_reset :: "'w env \<Rightarrow> 'w char_net_priv \<Rightarrow> 'w \<Rightarrow> (int \<times> 'w) option" where
  "stmmac_mdio_reset e n w = do {
     h \<leftarrow> cn_hw n;
     pl \<leftarrow> cn_plat n;
     d \<leftarrow> cp_mdio_bus_data pl;
     let w = doif (md_phy_reset d) (kdo e ''phy_reset'' []) w;
     Some (0, writel e 0 (cn_ioaddr n + mii_addr (hw_mii h)) w) }"

section \<open>The bus\<close>

text \<open>
  The number of an interrupt is printed into an array of four characters, its end included: \<open>None\<close>
  when it does not fit.
\<close>

definition irq_str_fits :: "int \<Rightarrow> bool" where
  "irq_str_fits irq \<longleftrightarrow> irq = PHY_POLL \<or> irq = PHY_IGNORE_INTERRUPT \<or> - 99 \<le> irq \<and> irq \<le> 999"

text \<open>
  One turn of the loop over the addresses on a PHY whose interrupt is \<open>irq\<close>: the interrupt probed is
  assigned, and the address taken where none, or 0, is set.
\<close>

definition mdio_take :: "mdio_bus_data \<Rightarrow> nat \<Rightarrow> int \<Rightarrow> cplat \<times> int list \<Rightarrow> (cplat \<times> int list) option" where
  "mdio_take d addr irq = (\<lambda>(pl, irqlist).
     (let assign = (md_irqs d = None \<and> md_probed_phy_irq d > 0);
          irqlist = doif assign (\<lambda>l. l[addr := md_probed_phy_irq d]) irqlist;
          irq = (if assign then md_probed_phy_irq d else irq);
          pl = (if cp_phy_addr pl = - 1 then pl\<lparr>cp_phy_addr := int addr\<rparr>
                else if cp_phy_addr pl = 0 then pl\<lparr>cp_phy_addr := int addr\<rparr> else pl)
      in if irq_str_fits irq then Some (pl, irqlist) else None))"

text \<open>\<open>phys\<close> is the array \<open>phy_map\<close> the bus filled: the interrupt of each PHY found. The flag is \<open>found\<close>.\<close>

primrec mdio_scan ::
    "mdio_bus_data \<Rightarrow> nat \<Rightarrow> int option list \<Rightarrow> bool \<times> cplat \<times> int list \<Rightarrow> (bool \<times> cplat \<times> int list) option" where
  "mdio_scan d addr [] st = Some st"
| "mdio_scan d addr (phy # phys) st =
     (case phy of None \<Rightarrow> mdio_scan d (Suc addr) phys st
      | Some irq \<Rightarrow>
          (case st of (found, pl, irqlist) \<Rightarrow>
             (case mdio_take d addr irq (pl, irqlist) of None \<Rightarrow> None
              | Some (pl, irqlist) \<Rightarrow> mdio_scan d (Suc addr) phys (True, pl, irqlist))))"

definition stmmac_mdio_register ::
    "'w env \<Rightarrow> int option list \<Rightarrow> 'w char_net_priv \<Rightarrow> 'w \<Rightarrow> (int \<times> 'w char_net_priv \<times> 'w) option" where
  "stmmac_mdio_register e phys n w = do {
     pl \<leftarrow> cn_plat n;
     (case cp_mdio_bus_data pl of None \<Rightarrow> Some (0, n, w)
      | Some d \<Rightarrow>
          (let (new_bus, w) = kcall e ''mdiobus_alloc'' [] w
           in if new_bus = 0 then Some (- ENOMEM, n, w)
              else
                (let (err, w) = kcall e ''mdiobus_register'' [I new_bus, I (cp_bus_id pl), I (md_phy_mask d)] w
                 in if err \<noteq> 0 then Some (err, n, kdo e ''mdiobus_free'' [I new_bus] w)
                    else
                      (case mdio_scan d 0 phys (False, pl, case md_irqs d of Some l \<Rightarrow> l | None \<Rightarrow> cn_mii_irq n) of
                         None \<Rightarrow> None
                       | Some (found, pl, irqlist) \<Rightarrow>
                           (let n = n\<lparr>cn_plat := Some pl\<rparr>;
                                n = (case md_irqs d of
                                    Some l \<Rightarrow> n\<lparr>cn_plat := Some (pl\<lparr>cp_mdio_bus_data := Some (d\<lparr>md_irqs := Some irqlist\<rparr>)\<rparr>)\<rparr>
                                  | None \<Rightarrow> n\<lparr>cn_mii_irq := irqlist\<rparr>)
                            in if \<not> found then Some (- ENODEV, n,
                                 kdo e ''mdiobus_free'' [I new_bus] (kdo e ''mdiobus_unregister'' [I new_bus] w))
                               else Some (0, n\<lparr>cn_mii := new_bus\<rparr>, w)))))) }"

definition stmmac_mdio_unregister :: "'w env \<Rightarrow> 'w char_net_priv \<Rightarrow> 'w \<Rightarrow> int \<times> 'w char_net_priv \<times> 'w" where
  "stmmac_mdio_unregister e n w =
     (if cn_mii n = 0 then (0, n, w)
      else (0, n\<lparr>cn_mii := 0\<rparr>,
            kdo e ''mdiobus_free'' [I (cn_mii n)] (kdo e ''mdiobus_unregister'' [I (cn_mii n)] w)))"

section \<open>Properties of the MDIO bus\<close>

text \<open>The world after \<open>k\<close> turns of the loop that all found the device busy.\<close>

definition busy_turn :: "'w env \<Rightarrow> u32 \<Rightarrow> 'w \<Rightarrow> 'w" where
  "busy_turn e a w = kdo e ''cpu_relax'' [] (after_read e a (kdo e ''jiffies'' [] w))"

text \<open>What one turn finds: the device idle, or the time over.\<close>

definition found_idle :: "'w env \<Rightarrow> u32 \<Rightarrow> 'w \<Rightarrow> bool" where
  "found_idle e a w \<longleftrightarrow> \<not> tst (peek e a (kdo e ''jiffies'' [] w)) MII_BUSY"

definition timed_out :: "'w env \<Rightarrow> u32 \<Rightarrow> 'w \<Rightarrow> bool" where
  "timed_out e finish w \<longleftrightarrow> time_after_eq (word_of_int (kval e ''jiffies'' [] w)) finish"

lemma busy_wait_loop_unfold:
  "busy_wait_loop e a finish w =
     (if found_idle e a w then Some (0, after_read e a (kdo e ''jiffies'' [] w))
      else if timed_out e finish w then Some (- EBUSY, busy_turn e a w)
      else busy_wait_loop e a finish (busy_turn e a w))"
  by (subst busy_wait_loop.simps) (simp add: kcall_eq readl_eq found_idle_def timed_out_def busy_turn_def)

text \<open>The device was seen idle before the time was over.\<close>

definition idle_in_time :: "'w env \<Rightarrow> u32 \<Rightarrow> u32 \<Rightarrow> 'w \<Rightarrow> bool" where
  "idle_in_time e a finish w \<longleftrightarrow>
     (\<exists>m. found_idle e a ((busy_turn e a ^^ m) w) \<and> (\<forall>j<m. \<not> timed_out e finish ((busy_turn e a ^^ j) w)))"

lemma idle_in_time_now: "found_idle e a w \<Longrightarrow> idle_in_time e a finish w"
  unfolding idle_in_time_def by (rule exI [of _ 0]) simp

lemma idle_in_time_late: "\<not> found_idle e a w \<Longrightarrow> timed_out e finish w \<Longrightarrow> \<not> idle_in_time e a finish w"
  unfolding idle_in_time_def by (metis funpow_0 gr_zeroI)

lemma idle_in_time_turn:
  assumes "\<not> found_idle e a w" and "\<not> timed_out e finish w"
  shows "idle_in_time e a finish (busy_turn e a w) = idle_in_time e a finish w"
proof
  assume "idle_in_time e a finish (busy_turn e a w)"
  then obtain m where m: "found_idle e a ((busy_turn e a ^^ m) (busy_turn e a w))"
    "\<forall>j<m. \<not> timed_out e finish ((busy_turn e a ^^ j) (busy_turn e a w))" by (auto simp: idle_in_time_def)
  have "\<not> timed_out e finish ((busy_turn e a ^^ j) w)" if "j < Suc m" for j
    using that m(2) assms(2) by (cases j) (auto simp: funpow_swap1)
  with m(1) show "idle_in_time e a finish w"
    unfolding idle_in_time_def by (intro exI [of _ "Suc m"]) (simp add: funpow_swap1)
next
  assume "idle_in_time e a finish w"
  then obtain m where m: "found_idle e a ((busy_turn e a ^^ m) w)"
    "\<forall>j<m. \<not> timed_out e finish ((busy_turn e a ^^ j) w)" by (auto simp: idle_in_time_def)
  then obtain k where "m = Suc k" using assms(1) by (cases m) auto
  with m show "idle_in_time e a finish (busy_turn e a w)"
    unfolding idle_in_time_def by (intro exI [of _ k]) (auto simp: funpow_swap1 dest: spec [of _ "Suc _"])
qed

lemma busy_wait_loop_ends:
  "found_idle e a ((busy_turn e a ^^ n) w) \<or> timed_out e finish ((busy_turn e a ^^ n) w) \<Longrightarrow>
     \<exists>w'. busy_wait_loop e a finish w = Some (if idle_in_time e a finish w then 0 else - EBUSY, w')"
proof (induction n arbitrary: w)
  case 0
  then show ?case
    using idle_in_time_now [of e a w finish] idle_in_time_late [of e a w finish]
    by (subst busy_wait_loop_unfold) auto
next
  case (Suc n)
  show ?case
  proof (cases "found_idle e a w \<or> timed_out e finish w")
    case True
    then show ?thesis
      using idle_in_time_now [of e a w finish] idle_in_time_late [of e a w finish]
      by (subst busy_wait_loop_unfold) auto
  next
    case False
    then show ?thesis
      using Suc.IH [of "busy_turn e a w"] Suc.prems idle_in_time_turn [of e a w finish]
      by (subst busy_wait_loop_unfold) (auto simp: funpow_swap1)
  qed
qed

lemma busy_wait_loop_Some:
  assumes "busy_wait_loop e a finish w = Some r"
  shows "\<exists>n. found_idle e a ((busy_turn e a ^^ n) w) \<or> timed_out e finish ((busy_turn e a ^^ n) w)"
proof (rule busy_wait_loop.raw_induct [OF _ assms])
  fix f :: "'a env \<Rightarrow> u32 \<Rightarrow> u32 \<Rightarrow> 'a \<Rightarrow> (int \<times> 'a) option" and e a finish w r
  assume ih: "\<And>e a finish w r. f e a finish w = Some r \<Longrightarrow>
      \<exists>n. found_idle e a ((busy_turn e a ^^ n) w) \<or> timed_out e finish ((busy_turn e a ^^ n) w)"
    and step: "(let (curr, w) = kcall e ''jiffies'' [] w; (v, w) = readl e a w
      in if tst v MII_BUSY then
           (let w = kdo e ''cpu_relax'' [] w
            in if time_after_eq (word_of_int curr) finish then Some (- EBUSY, w) else f e a finish w)
         else Some (0, w)) = Some r"
  show "\<exists>n. found_idle e a ((busy_turn e a ^^ n) w) \<or> timed_out e finish ((busy_turn e a ^^ n) w)"
  proof (cases "found_idle e a w \<or> timed_out e finish w")
    case True
    then show ?thesis by (intro exI [of _ 0]) simp
  next
    case False
    then have "f e a finish (busy_turn e a w) = Some r"
      using step by (simp add: kcall_eq readl_eq found_idle_def timed_out_def busy_turn_def)
    from ih [OF this] show ?thesis by (metis funpow_swap1 funpow.simps(2) comp_apply)
  qed
qed

text \<open>The world and the limit the wait starts with: three seconds from now.\<close>

definition after_jiffies :: "'w env \<Rightarrow> 'w \<Rightarrow> 'w" where
  "after_jiffies e w = kdo e ''jiffies'' [] w"

definition wait_limit :: "u32 \<Rightarrow> 'w env \<Rightarrow> 'w \<Rightarrow> u32" where
  "wait_limit hz e w = word_of_int (kval e ''jiffies'' [] w) + 3 * hz"

text \<open>
  Property C18. Waiting for the MDIO bus returns exactly when the bus is seen idle or the clock
  reaches three seconds, after finitely many turns; it returns 0 if the bus was seen idle at a turn
  no later than the first whose clock had reached the limit, and \<open>-EBUSY\<close> otherwise.
\<close>

theorem mdio_busy_wait_returns:
  "(stmmac_mdio_busy_wait hz e ioaddr mii w \<noteq> None) =
      (\<exists>n. found_idle e (ioaddr + mii) ((busy_turn e (ioaddr + mii) ^^ n) (after_jiffies e w))
        \<or> timed_out e (wait_limit hz e w) ((busy_turn e (ioaddr + mii) ^^ n) (after_jiffies e w)))
   \<and> map_option fst (stmmac_mdio_busy_wait hz e ioaddr mii w) \<in>
      {None, Some (if idle_in_time e (ioaddr + mii) (wait_limit hz e w) (after_jiffies e w) then 0 else - EBUSY)}"
proof
  let ?a = "ioaddr + mii" and ?f = "wait_limit hz e w" and ?v = "after_jiffies e w"
  have b: "stmmac_mdio_busy_wait hz e ioaddr mii w = busy_wait_loop e ?a ?f ?v"
    by (simp add: stmmac_mdio_busy_wait_def after_jiffies_def wait_limit_def kcall_eq)
  show "(stmmac_mdio_busy_wait hz e ioaddr mii w \<noteq> None) =
      (\<exists>n. found_idle e ?a ((busy_turn e ?a ^^ n) ?v) \<or> timed_out e ?f ((busy_turn e ?a ^^ n) ?v))"
    unfolding b using busy_wait_loop_ends [of e ?a _ ?v ?f] busy_wait_loop_Some [of e ?a ?f ?v] by fastforce
  show "map_option fst (stmmac_mdio_busy_wait hz e ioaddr mii w) \<in>
      {None, Some (if idle_in_time e ?a ?f ?v then 0 else - EBUSY)}"
  proof (cases "busy_wait_loop e ?a ?f ?v")
    case (Some r)
    with busy_wait_loop_Some [OF Some] busy_wait_loop_ends [of e ?a _ ?v ?f] show ?thesis unfolding b by fastforce
  qed (simp add: b)
qed

section \<open>The command\<close>

lemma bit_mdio_masks:
  "bit (0xF800 :: u32) n \<longleftrightarrow> 11 \<le> n \<and> n < 16" "bit (0x7C0 :: u32) n \<longleftrightarrow> 6 \<le> n \<and> n < 11"
  "bit (0xF :: u32) n \<longleftrightarrow> n < 4"
proof -
  have "bit (push_bit 11 (mask 5) :: u32) n \<longleftrightarrow> 11 \<le> n \<and> n < 16" "bit (push_bit 6 (mask 5) :: u32) n \<longleftrightarrow> 6 \<le> n \<and> n < 11"
    "bit (mask 4 :: u32) n \<longleftrightarrow> n < 4"
    by (auto simp: bit_push_bit_iff bit_mask_iff)
  then show "bit (0xF800 :: u32) n \<longleftrightarrow> 11 \<le> n \<and> n < 16" "bit (0x7C0 :: u32) n \<longleftrightarrow> 6 \<le> n \<and> n < 11"
    "bit (0xF :: u32) n \<longleftrightarrow> n < 4"
    by (simp_all add: mask_eq_exp_minus_1)
qed

lemma bit_mdio_cmd:
  assumes "flags = 0 \<or> flags = MII_WRITE" and "n < 16"
  shows "bit (mdio_cmd flags csr a r) n \<longleftrightarrow>
    (if n \<ge> 11 then bit a (n - 11) else if n \<ge> 6 then bit r (n - 6) else if n \<ge> 2 then bit csr (n - 2)
     else n = 0 \<or> flags = MII_WRITE)"
proof -
  have w: "bit flags m \<longleftrightarrow> m = 1 \<and> flags = MII_WRITE" for m
    using assms(1) by (auto simp: MII_WRITE_def bit_2_iff)
  show ?thesis
    by (simp only: mdio_cmd_def MII_BUSY_def bit_unsigned_iff bit_or_iff bit_and_iff bit_push_bit_iff bit_word_of_int_iff
        bit_mdio_masks w bit_1_iff) (use assms(2) in auto)
qed

text \<open>
  Property C19. The command an access writes carries the address of the PHY in bits 15 to 11, the
  register in bits 10 to 6 and the clock range in bits 5 to 2, each modulo its width, the direction
  in bit 1 and the busy flag in bit 0: the device reads back exactly what was asked for.
\<close>

theorem mdio_command_fields:
  "let v = mdio_cmd (if wr then MII_WRITE else 0) csr phyaddr phyreg
   in uint (drop_bit 11 v) = phyaddr mod 32 \<and> uint (drop_bit 6 v AND 0x1F) = phyreg mod 32
    \<and> uint (drop_bit 2 v AND 0xF) = csr mod 16 \<and> bit v 1 = wr \<and> bit v 0"
proof -
  let ?v = "mdio_cmd (if wr then MII_WRITE else 0) csr phyaddr phyreg"
  have b: "bit ?v n \<longleftrightarrow> n < 16 \<and> (if n \<ge> 11 then bit phyaddr (n - 11) else if n \<ge> 6 then bit phyreg (n - 6)
      else if n \<ge> 2 then bit csr (n - 2) else n = 0 \<or> wr)" for n
    using bit_mdio_cmd [of "if wr then MII_WRITE else 0" n csr phyaddr phyreg] bit_imp_le_length [of ?v n]
    by (cases "n < 16") (auto simp: MII_WRITE_def)
  have m: "(0x1F :: u16) = mask 5" "(0xF :: u16) = mask 4" by (simp_all add: mask_eq_exp_minus_1)
  have t: "phyaddr mod 32 = take_bit 5 phyaddr" "phyreg mod 32 = take_bit 5 phyreg" "csr mod 16 = take_bit 4 csr"
    by (simp_all add: take_bit_eq_mod)
  note bits = bit_uint_iff bit_drop_bit_eq comp_apply bit_take_bit_iff bit_and_iff bit_mask_iff b
  have "uint (drop_bit 11 ?v) = phyaddr mod 32"
    unfolding t by (rule bit_eqI) (simp only: bits, auto)
  moreover have "uint (drop_bit 6 ?v AND 0x1F) = phyreg mod 32"
    unfolding t m by (rule bit_eqI) (simp only: bits, auto)
  moreover have "uint (drop_bit 2 ?v AND 0xF) = csr mod 16"
    unfolding t m by (rule bit_eqI) (simp only: bits, auto)
  moreover have "bit ?v 1 = wr" "bit ?v 0" by (simp_all only: b) simp_all
  ultimately show ?thesis unfolding Let_def by blast
qed

section \<open>The choice of the PHY\<close>

text \<open>The lowest address other than 0 at which a PHY was found.\<close>

primrec first_phy :: "nat \<Rightarrow> int option list \<Rightarrow> nat option" where
  "first_phy addr [] = None"
| "first_phy addr (phy # phys) = (if addr \<noteq> 0 \<and> phy \<noteq> None then Some addr else first_phy (Suc addr) phys)"

lemma first_phy_None: "first_phy (Suc addr) phys = None \<longleftrightarrow> (\<forall>phy\<in>set phys. phy = None)"
  by (induction phys arbitrary: addr) simp_all

lemma mdio_take_addr:
  assumes "mdio_take d addr irq (pl, l) = Some (pl', l')"
  shows "cp_phy_addr pl' = (if cp_phy_addr pl \<in> {- 1, 0} then int addr else cp_phy_addr pl)"
  using assms by (auto simp: mdio_take_def Let_def split: if_splits)

lemma mdio_scan_addr:
  "mdio_scan d addr phys (found, pl, l) = Some (found', pl', l') \<Longrightarrow>
     cp_phy_addr pl' =
       (if cp_phy_addr pl \<notin> {- 1, 0} then cp_phy_addr pl
        else case first_phy addr phys of Some a \<Rightarrow> int a
           | None \<Rightarrow> if addr = 0 \<and> phys \<noteq> [] \<and> hd phys \<noteq> None then 0 else cp_phy_addr pl)
     \<and> (found' \<longleftrightarrow> found \<or> (\<exists>phy\<in>set phys. phy \<noteq> None))"
proof (induction phys arbitrary: addr found pl l)
  case Nil
  then show ?case by simp
next
  case (Cons phy phys)
  show ?case
  proof (cases phy)
    case None
    then show ?thesis using Cons.IH [of "Suc addr" found pl l] Cons.prems by (simp split: option.split)
  next
    case (Some irq)
    then obtain pl1 l1 where t: "mdio_take d addr irq (pl, l) = Some (pl1, l1)"
      and r: "mdio_scan d (Suc addr) phys (True, pl1, l1) = Some (found', pl', l')"
      using Cons.prems by (auto split: option.splits)
    show ?thesis
      using Cons.IH [OF r] mdio_take_addr [OF t] Some
      by (auto split: option.splits if_splits)
  qed
qed

text \<open>
  Property C20. Registration chooses the PHY: an address given by the platform other than 0 is kept;
  otherwise it is the lowest address, but 0, at which the bus found a PHY, and 0 only if there is no
  other. Address 0 stands for \<open>not set\<close>, so a platform cannot ask for the PHY at address 0.
\<close>

theorem mdio_register_chooses:
  assumes "stmmac_mdio_register e phys n w = Some (0, n', w')" and "cn_plat n = Some pl"
    and "cp_mdio_bus_data pl = Some d" and "phys \<noteq> []"
  shows "\<exists>pl'. cn_plat n' = Some pl' \<and> (\<exists>phy\<in>set phys. phy \<noteq> None)
    \<and> cp_phy_addr pl' = (if cp_phy_addr pl \<notin> {- 1, 0} then cp_phy_addr pl
        else case first_phy 0 phys of Some a \<Rightarrow> int a | None \<Rightarrow> 0)"
proof -
  let ?l = "case md_irqs d of Some l \<Rightarrow> l | None \<Rightarrow> cn_mii_irq n"
  obtain pl1 l1 where s: "mdio_scan d 0 phys (False, pl, ?l) = Some (True, pl1, l1)"
    and p: "\<exists>pl'. cn_plat n' = Some pl' \<and> cp_phy_addr pl' = cp_phy_addr pl1"
    using assms(1-3)
    by (fastforce simp: stmmac_mdio_register_def ENOMEM_def ENODEV_def kcall_eq Let_def split: if_splits option.splits prod.splits)
  note r = mdio_scan_addr [OF s]
  have "first_phy 0 phys = None \<Longrightarrow> hd phys \<noteq> None"
    using r assms(4) by (cases phys) (auto simp: first_phy_None)
  then show ?thesis using p r assms(4) by (auto split: option.splits if_splits)
qed

text \<open>A bus with a PHY at 0 and one at 3, and a platform that leaves the choice to the driver.\<close>

definition bench_cplat :: cplat where
  "bench_cplat = \<lparr>cp_bus_id = 0, cp_phy_addr = - 1, cp_interface = 5,
     cp_mdio_bus_data = Some \<lparr>md_phy_reset = False, md_phy_mask = 0, md_irqs = None, md_probed_phy_irq = 0\<rparr>,
     cp_bsp = True, cp_init = No_init, cp_has_fix_speed = False, cp_has_gmac = True, cp_pmt = True\<rparr>"

definition bench_net :: "bench char_net_priv" where
  "bench_net = \<lparr>cn_ioaddr = 0x1000, cn_hw = None, cn_irq_num = 0, cn_plat = Some bench_cplat, cn_mii = 0, cn_clk_csr = 0,
     cn_mii_irq = replicate 32 0, cn_macaddr = replicate 6 0\<rparr>"

theorem mdio_register_chooses_witness:
  "\<exists>n' w' pl'. stmmac_mdio_register (bench_env (\<lambda>c. if c = K ''mdiobus_alloc'' [] then 0x7000 else 0))
      [Some PHY_POLL, None, None, Some 77] bench_net bench0 = Some (0, n', w')
    \<and> cn_plat n' = Some pl' \<and> cp_phy_addr pl' = 3"
proof -
  let ?e = "bench_env (\<lambda>c. if c = K ''mdiobus_alloc'' [] then 0x7000 else 0)" and ?phys = "[Some PHY_POLL, None, None, Some 77]"
  have "irq_str_fits PHY_POLL" "irq_str_fits 77" by (simp_all add: irq_str_fits_def)
  then have "\<exists>n' w'. stmmac_mdio_register ?e ?phys bench_net bench0 = Some (0, n', w')"
    by (simp add: stmmac_mdio_register_def bench_net_def bench_cplat_def mdio_take_def doif_def Let_def)
  then obtain n' w' where r: "stmmac_mdio_register ?e ?phys bench_net bench0 = Some (0, n', w')" by blast
  have "first_phy 0 ?phys = Some 3" by simp
  then show ?thesis
    using mdio_register_chooses [OF r, of bench_cplat "\<lparr>md_phy_reset = False, md_phy_mask = 0, md_irqs = None, md_probed_phy_irq = 0\<rparr>"] r
    by (simp add: bench_net_def bench_cplat_def)
qed

lemma mdio_scan_overflow:
  "phy \<in> set phys \<Longrightarrow> phy = Some irq \<Longrightarrow> \<not> irq_str_fits irq \<Longrightarrow> md_irqs d \<noteq> None \<Longrightarrow> mdio_scan d addr phys st = None"
proof (induction phys arbitrary: addr st)
  case (Cons p phys)
  obtain f pl l where st: "st = (f, pl, l)" by (metis prod_cases3)
  show ?case
    using Cons by (auto simp: st mdio_take_def Let_def doif_def split: option.splits)
qed simp

text \<open>
  The number of an interrupt is printed into four characters: a PHY found with an
  interrupt above 999 overruns the array on the stack, so the registration has no defined result.
\<close>

theorem mdio_irq_overflow:
  assumes "cn_plat n = Some pl" and "cp_mdio_bus_data pl = Some d" and "md_irqs d \<noteq> None"
    and "Some irq \<in> set phys" and "irq > 999"
    and "kval e ''mdiobus_alloc'' [] w \<noteq> 0" and "\<And>as v. kval e ''mdiobus_register'' as v = 0"
  shows "stmmac_mdio_register e phys n w = None"
proof -
  have "\<not> irq_str_fits irq" using assms(5) by (simp add: irq_str_fits_def PHY_POLL_def PHY_IGNORE_INTERRUPT_def)
  then have "mdio_scan d 0 phys st = None" for st using mdio_scan_overflow [OF assms(4) refl _ assms(3)] by blast
  then show ?thesis using assms by (simp add: stmmac_mdio_register_def kcall_eq Let_def)
qed

theorem mdio_irq_overflow_witness:
  "stmmac_mdio_register (bench_env (\<lambda>c. if c = K ''mdiobus_alloc'' [] then 0x7000 else 0)) [None, Some 1024]
     (bench_net\<lparr>cn_plat := Some (bench_cplat\<lparr>cp_mdio_bus_data :=
        Some \<lparr>md_phy_reset = False, md_phy_mask = 0, md_irqs = Some [0, 1024], md_probed_phy_irq = 0\<rparr>\<rparr>)\<rparr>) bench0 = None"
  by (rule mdio_irq_overflow [where irq = 1024 and pl = "bench_cplat\<lparr>cp_mdio_bus_data :=
          Some \<lparr>md_phy_reset = False, md_phy_mask = 0, md_irqs = Some [0, 1024], md_probed_phy_irq = 0\<rparr>\<rparr>"
        and d = "\<lparr>md_phy_reset = False, md_phy_mask = 0, md_irqs = Some [0, 1024], md_probed_phy_irq = 0\<rparr>"]) (auto simp: bench_net_def)

end
