(* ===== verification/Gmac_Ctrl.thy ===== *)
theory Gmac_Ctrl
  imports Mac_Ops
begin

text \<open>
  The board part of the character network device, \<open>gmac_ctrl.c\<close>: the clocks and the power of the PHY,
  and the interface and speed selection in the general register file (GRF) of the Rockchip chip. Its
  state \<open>g_bsp_priv\<close> is a record passed through; the two callbacks it holds are kept as whether they
  are set. The registers of the GRF take in their upper half a mask of the bits of the lower half
  that are written.
\<close>

section \<open>The general register file\<close>

text \<open>The addresses \<open>RK_GRF_VIRT + RK3288_GRF_SOC_CON1\<close> and \<open>..._CON3\<close>, from a header of the kernel.\<close>

record grf =
  SOC_CON1 :: u32
  SOC_CON3 :: u32

definition grf_writel :: "'w env \<Rightarrow> u32 \<Rightarrow> u32 \<Rightarrow> 'w \<Rightarrow> 'w" where
  "grf_writel e v a w = writel e v a w"

definition GMAC_PHY_INTF_SEL_RGMII :: u32 where [hw_consts]: "GMAC_PHY_INTF_SEL_RGMII = push_bit 16 0x01C0 OR 0x0040"
definition GMAC_PHY_INTF_SEL_RMII :: u32 where [hw_consts]: "GMAC_PHY_INTF_SEL_RMII = push_bit 16 0x01C0 OR 0x0100"
definition GMAC_FLOW_CTRL :: u32 where [hw_consts]: "GMAC_FLOW_CTRL = push_bit 16 0x0200 OR 0x0200"
definition GMAC_FLOW_CTRL_CLR :: u32 where [hw_consts]: "GMAC_FLOW_CTRL_CLR = push_bit 16 0x0200 OR 0x0000"
definition GMAC_SPEED_10M :: u32 where [hw_consts]: "GMAC_SPEED_10M = push_bit 16 0x0400 OR 0x0000"
definition GMAC_SPEED_100M :: u32 where [hw_consts]: "GMAC_SPEED_100M = push_bit 16 0x0400 OR 0x0400"
definition GMAC_RMII_CLK_25M :: u32 where [hw_consts]: "GMAC_RMII_CLK_25M = push_bit 16 0x0800 OR 0x0800"
definition GMAC_RMII_CLK_2_5M :: u32 where [hw_consts]: "GMAC_RMII_CLK_2_5M = push_bit 16 0x0800 OR 0x0000"
definition GMAC_CLK_125M :: u32 where [hw_consts]: "GMAC_CLK_125M = push_bit 16 0x3000 OR 0x0000"
definition GMAC_CLK_25M :: u32 where [hw_consts]: "GMAC_CLK_25M = push_bit 16 0x3000 OR 0x3000"
definition GMAC_CLK_2_5M :: u32 where [hw_consts]: "GMAC_CLK_2_5M = push_bit 16 0x3000 OR 0x2000"
definition GMAC_RMII_MODE :: u32 where [hw_consts]: "GMAC_RMII_MODE = push_bit 16 0x4000 OR 0x4000"
definition GMAC_RMII_MODE_CLR :: u32 where [hw_consts]: "GMAC_RMII_MODE_CLR = push_bit 16 0x4000 OR 0x0000"
definition GMAC_TXCLK_DLY_ENABLE :: u32 where [hw_consts]: "GMAC_TXCLK_DLY_ENABLE = push_bit 16 0x4000 OR 0x4000"
definition GMAC_TXCLK_DLY_DISABLE :: u32 where [hw_consts]: "GMAC_TXCLK_DLY_DISABLE = push_bit 16 0x4000 OR 0x0000"
definition GMAC_RXCLK_DLY_ENABLE :: u32 where [hw_consts]: "GMAC_RXCLK_DLY_ENABLE = push_bit 16 0x8000 OR 0x8000"
definition GMAC_RXCLK_DLY_DISABLE :: u32 where [hw_consts]: "GMAC_RXCLK_DLY_DISABLE = push_bit 16 0x8000 OR 0x0000"

definition GMAC_CLK_RX_DL_CFG :: "int \<Rightarrow> u32" where
  "GMAC_CLK_RX_DL_CFG val = push_bit 16 0x3F80 OR push_bit 7 (word_of_int val)"

definition GMAC_CLK_TX_DL_CFG :: "int \<Rightarrow> u32" where
  "GMAC_CLK_TX_DL_CFG val = push_bit 16 0x007F OR word_of_int val"

section \<open>The state of the board\<close>

definition RK3288_GMAC :: int where [hw_consts]: "RK3288_GMAC = 0"
definition RK312X_GMAC :: int where [hw_consts]: "RK312X_GMAC = 1"

record bsp_priv =
  power_ctrl_by_pmu :: bool
  pmu_regulator :: string
  pmu_enable_level :: int
  power_io :: int
  power_io_level :: int
  reset_io :: int
  reset_io_level :: int
  phy_iface :: u32
  clock_input :: bool
  chip :: int
  tx_delay :: int
  rx_delay :: int
  clk_mac :: ptr
  clk_mac_pll :: ptr
  gmac_clkin :: ptr
  mac_clk_rx :: ptr
  mac_clk_tx :: ptr
  clk_mac_ref :: ptr
  clk_mac_refout :: ptr
  aclk_mac :: ptr
  pclk_mac :: ptr
  clk_enabled :: bool
  has_phy_power_on :: bool
  has_gmac_clk_enable :: bool

section \<open>Interface and speed\<close>

definition SET_RGMII :: "grf \<Rightarrow> 'w env \<Rightarrow> int \<Rightarrow> int \<Rightarrow> 'w \<Rightarrow> 'w" where
  "SET_RGMII g e txd rxd w =
     (let w = grf_writel e GMAC_PHY_INTF_SEL_RGMII (SOC_CON1 g) w;
          w = grf_writel e GMAC_RMII_MODE_CLR (SOC_CON1 g) w;
          w = grf_writel e GMAC_RXCLK_DLY_ENABLE (SOC_CON3 g) w;
          w = grf_writel e GMAC_TXCLK_DLY_ENABLE (SOC_CON3 g) w;
          w = grf_writel e (GMAC_CLK_RX_DL_CFG rxd) (SOC_CON3 g) w
      in grf_writel e (GMAC_CLK_TX_DL_CFG txd) (SOC_CON3 g) w)"

definition SET_RMII :: "grf \<Rightarrow> 'w env \<Rightarrow> 'w \<Rightarrow> 'w" where
  "SET_RMII g e w = grf_writel e GMAC_RMII_MODE (SOC_CON1 g) (grf_writel e GMAC_PHY_INTF_SEL_RMII (SOC_CON1 g) w)"

definition SET_RGMII_10M :: "grf \<Rightarrow> 'w env \<Rightarrow> 'w \<Rightarrow> 'w" where
  "SET_RGMII_10M g e w = grf_writel e GMAC_CLK_2_5M (SOC_CON1 g) w"

definition SET_RGMII_100M :: "grf \<Rightarrow> 'w env \<Rightarrow> 'w \<Rightarrow> 'w" where
  "SET_RGMII_100M g e w = grf_writel e GMAC_CLK_25M (SOC_CON1 g) w"

definition SET_RGMII_1000M :: "grf \<Rightarrow> 'w env \<Rightarrow> 'w \<Rightarrow> 'w" where
  "SET_RGMII_1000M g e w = grf_writel e GMAC_CLK_125M (SOC_CON1 g) w"

definition SET_RMII_10M :: "grf \<Rightarrow> 'w env \<Rightarrow> 'w \<Rightarrow> 'w" where
  "SET_RMII_10M g e w = grf_writel e GMAC_SPEED_10M (SOC_CON1 g) (grf_writel e GMAC_RMII_CLK_2_5M (SOC_CON1 g) w)"

definition SET_RMII_100M :: "grf \<Rightarrow> 'w env \<Rightarrow> 'w \<Rightarrow> 'w" where
  "SET_RMII_100M g e w = grf_writel e GMAC_SPEED_100M (SOC_CON1 g) (grf_writel e GMAC_RMII_CLK_25M (SOC_CON1 g) w)"

text \<open>
  The pointer may be \<open>NULL\<close>: \<open>interface\<close> is then the value the stack held, here \<open>junk\<close>.
\<close>

definition stmmc_pltfr_fix_mac_speed :: "grf \<Rightarrow> 'w env \<Rightarrow> u32 \<Rightarrow> bsp_priv option \<Rightarrow> u32 \<Rightarrow> 'w \<Rightarrow> 'w" where
  "stmmc_pltfr_fix_mac_speed g e junk priv speed w =
     (let interface = (case priv of Some b \<Rightarrow> phy_iface b | None \<Rightarrow> junk)
      in if interface = PHY_INTERFACE_MODE_RGMII then
           (if speed = 10 then SET_RGMII_10M g e w
            else if speed = 100 then SET_RGMII_100M g e w
            else if speed = 1000 then SET_RGMII_1000M g e w
            else w)
         else if interface = PHY_INTERFACE_MODE_RMII then
           (if speed = 10 then SET_RMII_10M g e w
            else if speed = 100 then SET_RMII_100M g e w
            else w)
         else w)"

section \<open>Clocks\<close>

text \<open>One statement \<open>if (!IS_ERR(clk)) f(clk);\<close>.\<close>

definition clk_do :: "'w env \<Rightarrow> string \<Rightarrow> ptr \<Rightarrow> 'w \<Rightarrow> 'w" where
  "clk_do e f c w = doif (\<not> IS_ERR c) (kdo e f [I c]) w"

text \<open>The clocks in the order the code switches them, in both directions.\<close>

definition clk_switch :: "'w env \<Rightarrow> string \<Rightarrow> bsp_priv \<Rightarrow> 'w \<Rightarrow> 'w" where
  "clk_switch e f b w =
     (let w = doif (phy_iface b = PHY_INTERFACE_MODE_RMII)
                (\<lambda>w. clk_do e f (clk_mac_refout b) (clk_do e f (clk_mac_ref b) (clk_do e f (mac_clk_rx b) w))) w;
          w = clk_do e f (aclk_mac b) w;
          w = clk_do e f (pclk_mac b) w;
          w = clk_do e f (mac_clk_tx b) w
      in clk_do e f (clk_mac b) w)"

definition gmac_clk_enable :: "'w env \<Rightarrow> bool \<Rightarrow> bsp_priv \<Rightarrow> 'w \<Rightarrow> int \<times> bsp_priv \<times> 'w" where
  "gmac_clk_enable e enable b w =
     (if enable then
        (if \<not> clk_enabled b then (0, b\<lparr>clk_enabled := True\<rparr>, clk_switch e ''clk_prepare_enable'' b w) else (0, b, w))
      else
        (if clk_enabled b then (0, b\<lparr>clk_enabled := False\<rparr>, clk_switch e ''clk_disable_unprepare'' b w) else (0, b, w)))"

definition gmac_clk_init :: "'w env \<Rightarrow> bsp_priv \<Rightarrow> 'w \<Rightarrow> int \<times> bsp_priv \<times> 'w" where
  "gmac_clk_init e b w =
     (let b = b\<lparr>clk_enabled := False\<rparr>;
          (c, w) = kcall e ''clk_get'' [S ''mac_clk_rx''] w; b = b\<lparr>mac_clk_rx := c\<rparr>;
          (c, w) = kcall e ''clk_get'' [S ''mac_clk_tx''] w; b = b\<lparr>mac_clk_tx := c\<rparr>;
          (c, w) = kcall e ''clk_get'' [S ''clk_mac_ref''] w; b = b\<lparr>clk_mac_ref := c\<rparr>;
          (c, w) = kcall e ''clk_get'' [S ''clk_mac_refout''] w; b = b\<lparr>clk_mac_refout := c\<rparr>;
          (c, w) = kcall e ''clk_get'' [S ''aclk_mac''] w; b = b\<lparr>aclk_mac := c\<rparr>;
          (c, w) = kcall e ''clk_get'' [S ''pclk_mac''] w; b = b\<lparr>pclk_mac := c\<rparr>;
          (c, w) = kcall e ''clk_get'' [S ''clk_mac_pll''] w; b = b\<lparr>clk_mac_pll := c\<rparr>;
          (c, w) = kcall e ''clk_get'' [S ''gmac_clkin''] w; b = b\<lparr>gmac_clkin := c\<rparr>;
          (c, w) = kcall e ''clk_get'' [S ''clk_mac''] w; b = b\<lparr>clk_mac := c\<rparr>;
          parent = (if clock_input b then gmac_clkin b else clk_mac_pll b);
          w = doif (phy_iface b = PHY_INTERFACE_MODE_RMII) (kdo e ''clk_set_rate'' [I parent, I 50000000]) w
      in (0, b, kdo e ''clk_set_parent'' [I (clk_mac b), I parent] w))"

section \<open>Power\<close>

text \<open>The name of the regulator is an array and never \<open>NULL\<close>.\<close>

definition power_on_by_pmu :: "'w env \<Rightarrow> bool \<Rightarrow> bsp_priv \<Rightarrow> 'w \<Rightarrow> int \<times> 'w" where
  "power_on_by_pmu e enable b w =
     (let (ldo, w) = kcall e ''regulator_get'' [S (pmu_regulator b)] w
      in if ldo = 0 then (0, w)
         else
           (let (on, w) = kcall e ''regulator_is_enabled'' [I ldo] w;
                w = (if enable then
                       doif (on = 0) (\<lambda>w. kdo e ''regulator_enable'' [I ldo]
                         (kdo e ''regulator_set_voltage'' [I ldo, I 3300000, I 3300000] w)) w
                     else doif (on \<noteq> 0) (kdo e ''regulator_disable'' [I ldo]) w)
            in (0, kdo e ''regulator_put'' [I ldo] w)))"

text \<open>The logical negation of C.\<close>

definition c_not :: "int \<Rightarrow> int" where
  "c_not v = (if v = 0 then 1 else 0)"

definition gpio_out :: "'w env \<Rightarrow> int \<Rightarrow> int \<Rightarrow> 'w \<Rightarrow> 'w" where
  "gpio_out e io level w =
     (let (valid, w) = kcall e ''gpio_is_valid'' [I io] w
      in doif (valid \<noteq> 0) (kdo e ''gpio_direction_output'' [I io, I level]) w)"

definition power_on_by_gpio :: "'w env \<Rightarrow> bool \<Rightarrow> bsp_priv \<Rightarrow> 'w \<Rightarrow> int \<times> 'w" where
  "power_on_by_gpio e enable b w =
     (0, gpio_out e (power_io b) (if enable then power_io_level b else c_not (power_io_level b)) w)"

definition phy_power_on :: "'w env \<Rightarrow> bool \<Rightarrow> bsp_priv \<Rightarrow> 'w \<Rightarrow> int \<times> 'w" where
  "phy_power_on e enable b w =
     (let (ret, w) = (if power_ctrl_by_pmu b then power_on_by_pmu e enable b w else power_on_by_gpio e enable b w);
          w = (if enable then
                 (let (valid, w) = kcall e ''gpio_is_valid'' [I (reset_io b)] w;
                      w = doif (valid \<noteq> 0) (\<lambda>w.
                        kdo e ''gpio_direction_output'' [I (reset_io b), I (c_not (reset_io_level b))]
                          (kdo e ''mdelay'' [I 5]
                            (kdo e ''gpio_direction_output'' [I (reset_io b), I (reset_io_level b)] w))) w
                  in kdo e ''mdelay'' [I 30] w)
               else gpio_out e (reset_io b) (reset_io_level b) w)
      in (ret, w))"

section \<open>The clocks stay balanced\<close>

text \<open>The clocks the board switches, those the kernel did not have left out.\<close>

definition live_clks :: "bsp_priv \<Rightarrow> ptr list" where
  "live_clks b = filter (\<lambda>c. \<not> IS_ERR c)
     ((if phy_iface b = PHY_INTERFACE_MODE_RMII then [mac_clk_rx b, clk_mac_ref b, clk_mac_refout b] else [])
      @ [aclk_mac b, pclk_mac b, mac_clk_tx b, clk_mac b])"

lemma clk_switch_calls:
  "calls_of f (clk_switch (bench_env ans) g b w) =
     (if f = g then map (\<lambda>c. [I c]) (rev (live_clks b)) else []) @ calls_of f w"
  by (simp add: clk_switch_def clk_do_def live_clks_def doif_def Let_def)

text \<open>
  How often a clock was enabled more than disabled, and how often the board holds it (an array of
  the board may name one clock twice).
\<close>

definition clk_uses :: "ptr \<Rightarrow> bench \<Rightarrow> int" where
  "clk_uses c w = int (count_list (calls_of ''clk_prepare_enable'' w) [I c])
     - int (count_list (calls_of ''clk_disable_unprepare'' w) [I c])"

definition clk_held :: "ptr \<Rightarrow> bsp_priv \<Rightarrow> int" where
  "clk_held c b = (if clk_enabled b then int (count_list (live_clks b) c) else 0)"

lemma count_list_calls: "count_list (map (\<lambda>c. [I c]) (rev xs)) [I c] = count_list xs c"
  by (induction xs) auto

lemma live_clks_enabled [simp]: "live_clks (b\<lparr>clk_enabled := z\<rparr>) = live_clks b"
  by (simp add: live_clks_def)

text \<open>
  The contract of a function that switches the clocks of the board, and what it gives for any
  sequence of requests to switch them on and off.
\<close>

type_synonym 'w clk_fun = "'w env \<Rightarrow> bool \<Rightarrow> bsp_priv \<Rightarrow> 'w \<Rightarrow> int \<times> bsp_priv \<times> 'w"

definition clk_requests :: "'w clk_fun \<Rightarrow> 'w env \<Rightarrow> bool list \<Rightarrow> bsp_priv \<times> 'w \<Rightarrow> bsp_priv \<times> 'w" where
  "clk_requests f e = fold (\<lambda>on (b, w). snd (f e on b w))"

locale clk_gate =
  fixes enable :: "bench clk_fun"
  assumes balance: "clk_uses c (snd (snd (enable (bench_env ans) on b w))) - clk_held c (fst (snd (enable (bench_env ans) on b w)))
      = clk_uses c w - clk_held c b"
    and switched: "clk_enabled (fst (snd (enable (bench_env ans) on b w))) = on"
    and same_clks: "live_clks (fst (snd (enable (bench_env ans) on b w))) = live_clks b"
begin

lemma requests_balance:
  "clk_uses c (snd (clk_requests enable (bench_env ans) rs bw)) - clk_held c (fst (clk_requests enable (bench_env ans) rs bw))
     = clk_uses c (snd bw) - clk_held c (fst bw)"
  by (induction rs arbitrary: bw) (simp_all add: clk_requests_def case_prod_unfold balance)

lemma requests_switched:
  "clk_enabled (fst (clk_requests enable (bench_env ans) rs bw)) = (if rs = [] then clk_enabled (fst bw) else last rs)"
  by (induction rs arbitrary: bw) (simp_all add: clk_requests_def case_prod_unfold switched)

lemma requests_clks: "live_clks (fst (clk_requests enable (bench_env ans) rs bw)) = live_clks (fst bw)"
  by (induction rs arbitrary: bw) (simp_all add: clk_requests_def case_prod_unfold same_clks)

end

interpretation gmac_gate: clk_gate gmac_clk_enable
  by unfold_locales
    (auto simp: gmac_clk_enable_def clk_uses_def clk_held_def clk_switch_calls count_list_calls)

text \<open>
  Property C13. However often the clocks are asked for and released, in any order, the number of
  times a clock was enabled more than disabled follows what the board holds: nothing while the
  clocks are off, once each clock the kernel has while they are on, and never a clock the kernel
  does not have. They are on exactly when the last request was to enable. So no clock is left on or
  released twice.
\<close>

theorem clocks_balanced:
  "let r = clk_requests gmac_clk_enable (bench_env ans) rs (b, w); on = (if rs = [] then clk_enabled b else last rs)
   in clk_uses c (snd r) - clk_uses c w =
        (if on then int (count_list (live_clks b) c) else 0) - (if clk_enabled b then int (count_list (live_clks b) c) else 0)
    \<and> clk_enabled (fst r) = on"
proof -
  have "clk_held c (fst (clk_requests gmac_clk_enable (bench_env ans) rs (b, w))) =
      (if (if rs = [] then clk_enabled b else last rs) then int (count_list (live_clks b) c) else 0)"
    unfolding clk_held_def gmac_gate.requests_switched gmac_gate.requests_clks fst_conv by (rule refl)
  then show ?thesis
    using gmac_gate.requests_balance [of c ans rs "(b, w)"]
      gmac_gate.requests_switched [of ans rs "(b, w)", unfolded fst_conv]
    by (simp add: Let_def clk_held_def split del: if_split)
qed

section \<open>The fields of the general register file\<close>

text \<open>A register that takes its upper half as the mask of what is written.\<close>

definition hiword :: "u32 \<Rightarrow> u32 \<Rightarrow> u32" where
  "hiword v old = (old AND NOT (drop_bit 16 v)) OR (v AND drop_bit 16 v)"

definition hiword_regs :: "'w env \<Rightarrow> u32 set \<Rightarrow> bool" where
  "hiword_regs e A \<longleftrightarrow> (\<forall>a\<in>A. \<forall>b\<in>A. \<forall>v w. peek e a (writel e v b w) = (if a = b then hiword v (peek e a w) else peek e a w))"

lemma hiword_write:
  "hiword_regs e A \<Longrightarrow> a \<in> A \<Longrightarrow> b \<in> A \<Longrightarrow>
     peek e a (writel e v b w) = (if a = b then hiword v (peek e a w) else peek e a w)"
  by (simp add: hiword_regs_def)

lemma bit_hiword: "n < 16 \<Longrightarrow> bit (hiword v old) n = (if bit v (n + 16) then bit v n else bit old n)"
  by (auto simp: hiword_def bit_simps add.commute)

lemma bit_hiword_high: "n \<ge> 16 \<Longrightarrow> n < 32 \<Longrightarrow> bit (hiword v old) n = bit old n"
  by (auto simp: hiword_def bit_simps dest: bit_imp_le_length)

lemma bit_delays:
  "bit (GMAC_CLK_RX_DL_CFG d) n \<longleftrightarrow> n < 32 \<and> (n \<in> {23..<30} \<or> 7 \<le> n \<and> bit d (n - 7))"
  "bit (GMAC_CLK_TX_DL_CFG d) n \<longleftrightarrow> n < 32 \<and> (n \<in> {16..<23} \<or> bit d n)"
proof -
  have m: "(0x3F80 :: u32) = push_bit 7 (mask 7)" "(0x7F :: u32) = mask 7" by (simp_all add: mask_eq_exp_minus_1)
  show "bit (GMAC_CLK_RX_DL_CFG d) n \<longleftrightarrow> n < 32 \<and> (n \<in> {23..<30} \<or> 7 \<le> n \<and> bit d (n - 7))"
    unfolding GMAC_CLK_RX_DL_CFG_def m
    by (simp only: bit_or_iff bit_push_bit_iff bit_mask_iff bit_word_of_int_iff) auto
  show "bit (GMAC_CLK_TX_DL_CFG d) n \<longleftrightarrow> n < 32 \<and> (n \<in> {16..<23} \<or> bit d n)"
    unfolding GMAC_CLK_TX_DL_CFG_def m
    by (simp only: bit_or_iff bit_push_bit_iff bit_mask_iff bit_word_of_int_iff) auto
qed

text \<open>
  The two delays end up in their fields, modulo 128, for all values of 16 bits: what a larger receive
  delay writes of the transmit field is overwritten, since that field is written last.
\<close>

lemma hiword_con3:
  assumes "0 \<le> txd" and "txd < 0x10000" and "0 \<le> rxd" and "rxd < 0x10000"
    and c: "c = hiword (GMAC_CLK_TX_DL_CFG txd) (hiword (GMAC_CLK_RX_DL_CFG rxd) old)"
  shows "uint (take_bit 7 c) = txd mod 128" "uint (take_bit 7 (drop_bit 7 c)) = rxd mod 128"
    "bit c 14 = bit old 14" "bit c 15 = bit old 15"
proof -
  have s: "bit txd m \<Longrightarrow> m < 16" "bit rxd m \<Longrightarrow> m < 16" for m
    using bit_take_bit_iff [of 16 txd m] bit_take_bit_iff [of 16 rxd m] assms(1-4) by (simp_all add: take_bit_int_eq_self)
  have b: "bit c n = (if n < 7 then bit txd n else if n < 14 then bit rxd (n - 7) else bit old n)" if "n < 16" for n
    unfolding c using that s [of "n + 16"] s [of "9 + n"] by (auto simp: bit_hiword bit_delays)
  have t: "txd mod 128 = take_bit 7 txd" "rxd mod 128 = take_bit 7 rxd" by (simp_all add: take_bit_eq_mod)
  have "bit (uint (take_bit 7 c)) n = bit (txd mod 128) n" "bit (uint (take_bit 7 (drop_bit 7 c))) n = bit (rxd mod 128) n" for n
    unfolding t by (cases "n < 7"; auto simp: bit_uint_iff bit_take_bit_iff bit_drop_bit_eq b)+
  then show "uint (take_bit 7 c) = txd mod 128" "uint (take_bit 7 (drop_bit 7 c)) = rxd mod 128" by (simp_all add: bit_eq_iff)
  show "bit c 14 = bit old 14" "bit c 15 = bit old 15" by (simp_all add: b)
qed

text \<open>
  What the registers hold for an interface and a speed: in the first the interface selected in bits
  8 to 6 and 14, and the clock in bits 13 and 12 (RGMII) or 11 and 10 (RMII); in the third, for RGMII,
  the two delays modulo 128, both enabled.
\<close>

definition con1_selects :: "u32 \<Rightarrow> u32 \<Rightarrow> u32 \<Rightarrow> bool" where
  "con1_selects iface speed c \<longleftrightarrow>
     bit c 6 = (iface = PHY_INTERFACE_MODE_RGMII) \<and> \<not> bit c 7 \<and> bit c 8 = (iface = PHY_INTERFACE_MODE_RMII)
     \<and> bit c 14 = (iface = PHY_INTERFACE_MODE_RMII)
     \<and> (if iface = PHY_INTERFACE_MODE_RGMII then bit c 12 = (speed = 100) \<and> bit c 13 = (speed \<noteq> 1000)
        else bit c 10 = (speed = 100) \<and> bit c 11 = (speed = 100))"

definition con3_delays :: "int \<Rightarrow> int \<Rightarrow> u32 \<Rightarrow> bool" where
  "con3_delays txd rxd c \<longleftrightarrow>
     bit c 14 \<and> bit c 15 \<and> uint (take_bit 7 c) = txd mod 128 \<and> uint (take_bit 7 (drop_bit 7 c)) = rxd mod 128"

definition iface_speed_ok :: "u32 \<Rightarrow> u32 \<Rightarrow> bool" where
  "iface_speed_ok iface speed \<longleftrightarrow> iface = PHY_INTERFACE_MODE_RGMII \<and> (speed = 10 \<or> speed = 100 \<or> speed = 1000)
     \<or> iface = PHY_INTERFACE_MODE_RMII \<and> (speed = 10 \<or> speed = 100)"

text \<open>The selection of the interface, as the initialisation makes it, and of the speed.\<close>

definition grf_select :: "grf \<Rightarrow> 'w env \<Rightarrow> bsp_priv \<Rightarrow> 'w \<Rightarrow> 'w" where
  "grf_select g e b w =
     (if phy_iface b = PHY_INTERFACE_MODE_RGMII then SET_RGMII g e (tx_delay b) (rx_delay b) w
      else if phy_iface b = PHY_INTERFACE_MODE_RMII then SET_RMII g e w else w)"

lemma hiword_consts:
  "hiword GMAC_PHY_INTF_SEL_RGMII c = c AND NOT 0x1C0 OR 0x40" "hiword GMAC_PHY_INTF_SEL_RMII c = c AND NOT 0x1C0 OR 0x100"
  "hiword GMAC_RMII_MODE c = c AND NOT 0x4000 OR 0x4000" "hiword GMAC_RMII_MODE_CLR c = c AND NOT 0x4000"
  "hiword GMAC_CLK_125M c = c AND NOT 0x3000" "hiword GMAC_CLK_25M c = c AND NOT 0x3000 OR 0x3000"
  "hiword GMAC_CLK_2_5M c = c AND NOT 0x3000 OR 0x2000"
  "hiword GMAC_SPEED_10M c = c AND NOT 0x400" "hiword GMAC_SPEED_100M c = c AND NOT 0x400 OR 0x400"
  "hiword GMAC_RMII_CLK_2_5M c = c AND NOT 0x800" "hiword GMAC_RMII_CLK_25M c = c AND NOT 0x800 OR 0x800"
  "hiword GMAC_RXCLK_DLY_ENABLE c = c AND NOT 0x8000 OR 0x8000" "hiword GMAC_TXCLK_DLY_ENABLE c = c AND NOT 0x4000 OR 0x4000"
  by (simp_all add: hiword_def hw_consts)

lemma RGMII_not_RMII [simp]: "PHY_INTERFACE_MODE_RGMII \<noteq> PHY_INTERFACE_MODE_RMII" "PHY_INTERFACE_MODE_RMII \<noteq> PHY_INTERFACE_MODE_RGMII"
  by (simp_all add: hw_consts)

text \<open>The bits of the first register the settings are in.\<close>

lemmas con1_bits = bit_or_iff bit_and_iff bit_not_iff

lemma grf_con1:
  assumes h: "hiword_regs e {SOC_CON1 g, SOC_CON3 g}" and n: "SOC_CON1 g \<noteq> SOC_CON3 g"
    and s: "iface_speed_ok (phy_iface b) speed"
  shows "con1_selects (phy_iface b) speed
    (peek e (SOC_CON1 g) (stmmc_pltfr_fix_mac_speed g e junk (Some b) speed (grf_select g e b w)))"
proof -
  note wr = hiword_write [OF h, of "SOC_CON1 g" "SOC_CON1 g"] hiword_write [OF h, of "SOC_CON1 g" "SOC_CON3 g"]
  note defs = grf_select_def stmmc_pltfr_fix_mac_speed_def grf_writel_def wr n hiword_consts
  from s consider "phy_iface b = PHY_INTERFACE_MODE_RGMII" "speed = 10" | "phy_iface b = PHY_INTERFACE_MODE_RGMII" "speed = 100"
    | "phy_iface b = PHY_INTERFACE_MODE_RGMII" "speed = 1000" | "phy_iface b = PHY_INTERFACE_MODE_RMII" "speed = 10"
    | "phy_iface b = PHY_INTERFACE_MODE_RMII" "speed = 100" by (auto simp: iface_speed_ok_def)
  then show ?thesis
  proof cases
    case 1 then show ?thesis by (simp add: defs SET_RGMII_def SET_RGMII_10M_def) (simp add: con1_selects_def con1_bits)
  next
    case 2 then show ?thesis by (simp add: defs SET_RGMII_def SET_RGMII_100M_def) (simp add: con1_selects_def con1_bits)
  next
    case 3 then show ?thesis by (simp add: defs SET_RGMII_def SET_RGMII_1000M_def) (simp add: con1_selects_def con1_bits)
  next
    case 4 then show ?thesis by (simp add: defs SET_RMII_def SET_RMII_10M_def) (simp add: con1_selects_def con1_bits)
  next
    case 5 then show ?thesis by (simp add: defs SET_RMII_def SET_RMII_100M_def) (simp add: con1_selects_def con1_bits)
  qed
qed

lemma grf_con3:
  assumes h: "hiword_regs e {SOC_CON1 g, SOC_CON3 g}" and n: "SOC_CON1 g \<noteq> SOC_CON3 g"
    and i: "phy_iface b = PHY_INTERFACE_MODE_RGMII"
    and d: "0 \<le> tx_delay b" "tx_delay b < 0x10000" "0 \<le> rx_delay b" "rx_delay b < 0x10000"
  shows "con3_delays (tx_delay b) (rx_delay b)
    (peek e (SOC_CON3 g) (stmmc_pltfr_fix_mac_speed g e junk (Some b) speed (grf_select g e b w)))"
proof -
  note wr = hiword_write [OF h, of "SOC_CON3 g" "SOC_CON1 g"] hiword_write [OF h, of "SOC_CON3 g" "SOC_CON3 g"]
  have "peek e (SOC_CON3 g) (stmmc_pltfr_fix_mac_speed g e junk (Some b) speed (grf_select g e b w)) =
      hiword (GMAC_CLK_TX_DL_CFG (tx_delay b)) (hiword (GMAC_CLK_RX_DL_CFG (rx_delay b))
        (hiword GMAC_TXCLK_DLY_ENABLE (hiword GMAC_RXCLK_DLY_ENABLE (peek e (SOC_CON3 g) w))))"
    using i n by (simp add: grf_select_def SET_RGMII_def stmmc_pltfr_fix_mac_speed_def SET_RGMII_10M_def SET_RGMII_100M_def
        SET_RGMII_1000M_def grf_writel_def wr Let_def)
  from hiword_con3 [OF d this] show ?thesis
    by (simp add: con3_delays_def hiword_consts con1_bits)
qed

end
