(* ===== verification/Char_Dev.thy ===== *)
theory Char_Dev
  imports Drv_Env
begin

text \<open>
  The character device: \<open>char_dev_create.c\<close>, its older copy \<open>char_net.c\<close>, which is not in the build,
  and the demonstration module \<open>test.c\<close>. The operations on an open file only return; creation and
  removal are sequences of kernel calls around the two static variables \<open>major\<close> and \<open>cls\<close>.
\<close>

section \<open>Device numbers\<close>

text \<open>\<open>MKDEV\<close> and \<open>MAJOR\<close> of the kernel: twelve bits of major above twenty of minor.\<close>

definition MKDEV :: "u32 \<Rightarrow> u32 \<Rightarrow> u32" where
  "MKDEV ma mi = push_bit 20 ma OR mi"

definition MAJOR :: "u32 \<Rightarrow> u32" where
  "MAJOR devid = drop_bit 20 devid"

definition MAX_DEVICE_NUM :: int where [hw_consts]: "MAX_DEVICE_NUM = 32768"

record char_dev =
  cd_major :: u32
  cd_cls :: ptr

definition I_dev :: "u32 \<Rightarrow> karg" where
  "I_dev devid = I (uint devid)"

section \<open>The open file\<close>

definition char_net_open :: int where "char_net_open = 0"
definition char_net_close :: int where "char_net_close = 0"
definition char_net_read :: int where "char_net_read = 0"
definition char_net_write :: int where "char_net_write = 0"
definition char_net_ioctl :: int where "char_net_ioctl = 0"

section \<open>Creation and removal\<close>

text \<open>
  \<open>alloc_chrdev_region\<close> returns a result and stores a device number; the number is asked for by a
  call of its own.
\<close>

definition alloc_region :: "'w env \<Rightarrow> int \<Rightarrow> int \<Rightarrow> string \<Rightarrow> 'w \<Rightarrow> int \<times> u32 \<times> 'w" where
  "alloc_region e first n name w =
     (let (ret, w) = kcall e ''alloc_chrdev_region'' [I first, I n, S name] w;
          (devid, w) = kcall e ''alloc_chrdev_region:dev'' [] w
      in (ret, word_of_int devid, w))"

text \<open>From \<open>cdev_init\<close> on; the results of the calls but that of \<open>class_create\<close> are not looked at.\<close>

definition cdev_publish :: "'w env \<Rightarrow> u32 \<Rightarrow> char_dev \<Rightarrow> 'w \<Rightarrow> char_dev \<times> 'w" where
  "cdev_publish e devid s w =
     (let w = kdo e ''cdev_init'' [] w;
          w = kdo e ''cdev_add'' [I_dev devid, I 1] w;
          (c, w) = kcall e ''class_create'' [S ''char_net''] w;
          s = s\<lparr>cd_cls := c\<rparr>
      in (s, kdo e ''device_create'' [I (cd_cls s), I_dev (MKDEV (cd_major s) 0), S ''char_net0''] w))"

definition char_dev_create :: "'w env \<Rightarrow> char_dev \<Rightarrow> 'w \<Rightarrow> int \<times> char_dev \<times> 'w" where
  "char_dev_create e s w =
     (if cd_major s \<noteq> 0 then
        (let devid = MKDEV (cd_major s) 0;
             w = kdo e ''register_chrdev_region'' [I_dev devid, I 1, S ''char_net''] w;
             (s, w) = cdev_publish e devid s w
         in (0, s, w))
      else
        (let (ret, devid, w) = alloc_region e 0 MAX_DEVICE_NUM ''char_net'' w
         in if ret < 0 then (- 1, s, w)
            else
              (let s = s\<lparr>cd_major := MAJOR devid\<rparr>;
                   (s, w) = cdev_publish e devid s w
               in (0, s, w))))"

definition char_dev_destroy :: "'w env \<Rightarrow> char_dev \<Rightarrow> 'w \<Rightarrow> int \<times> 'w" where
  "char_dev_destroy e s w =
     (let w = kdo e ''device_destroy'' [I (cd_cls s), I_dev (MKDEV (cd_major s) 0)] w;
          w = kdo e ''class_destroy'' [I (cd_cls s)] w;
          w = kdo e ''cdev_del'' [] w
      in (0, kdo e ''unregister_chrdev_region'' [I_dev (MKDEV (cd_major s) 0), I 1] w))"

section \<open>The older copy\<close>

text \<open>\<open>char_net.c\<close> goes on when no region was allocated. Its file operations only return, too.\<close>

definition old_char_net_open :: int where "old_char_net_open = 0"
definition old_char_net_close :: int where "old_char_net_close = 0"
definition old_char_net_read :: int where "old_char_net_read = 0"
definition old_char_net_write :: int where "old_char_net_write = 0"
definition old_char_net_ioctl :: int where "old_char_net_ioctl = 0"

definition old_char_net_init :: "'w env \<Rightarrow> char_dev \<Rightarrow> 'w \<Rightarrow> int \<times> char_dev \<times> 'w" where
  "old_char_net_init e s w =
     (let (devid, s, w) =
        (if cd_major s \<noteq> 0 then
           (let devid = MKDEV (cd_major s) 0
            in (devid, s, kdo e ''register_chrdev_region'' [I_dev devid, I 1, S ''char_net''] w))
         else
           (let (ret, devid, w) = alloc_region e 0 MAX_DEVICE_NUM ''char_net'' w
            in (devid, s\<lparr>cd_major := MAJOR devid\<rparr>, w)));
          (s, w) = cdev_publish e devid s w
      in (0, s, w))"

definition old_char_net_exit :: "'w env \<Rightarrow> char_dev \<Rightarrow> 'w \<Rightarrow> int \<times> 'w" where
  "old_char_net_exit e s w =
     (let w = kdo e ''device_destroy'' [I (cd_cls s), I_dev (MKDEV (cd_major s) 0)] w;
          w = kdo e ''class_destroy'' [I (cd_cls s)] w;
          w = kdo e ''cdev_del'' [] w
      in (0, kdo e ''unregister_chrdev_region'' [I_dev (MKDEV (cd_major s) 0), I 1] w))"

section \<open>The demonstration module\<close>

text \<open>Its state is the major number, a parameter of the module, and the device it allocated.\<close>

record cdevdemo =
  cdevdemo_major :: u32
  cdevdemo_devp :: ptr

definition CDEVDEMO_MAJOR :: u32 where [hw_consts]: "CDEVDEMO_MAJOR = 255"

definition cdevdemo_open :: int where "cdevdemo_open = 0"
definition cdevdemo_release :: int where "cdevdemo_release = 0"

text \<open>The read operation ends without a value, which its caller then uses: \<open>None\<close>.\<close>

definition cdevdemo_read :: "int option" where "cdevdemo_read = None"

definition cdevdemo_setup_cdev :: "'w env \<Rightarrow> cdevdemo \<Rightarrow> u32 \<Rightarrow> 'w \<Rightarrow> 'w" where
  "cdevdemo_setup_cdev e s index w =
     kdo e ''cdev_add'' [I (cdevdemo_devp s), I_dev (MKDEV (cdevdemo_major s) index), I 1]
       (kdo e ''cdev_init'' [I (cdevdemo_devp s)] w)"

text \<open>
  The result is \<open>None\<close> where the function ends without a value, after the memory could not be
  allocated. The region given back then is the one of \<open>devno\<close>.
\<close>

definition cdevdemo_init :: "'w env \<Rightarrow> cdevdemo \<Rightarrow> 'w \<Rightarrow> int option \<times> cdevdemo \<times> 'w" where
  "cdevdemo_init e s w =
     (let devno = MKDEV (cdevdemo_major s) 0;
          (ret, devno, s, w) =
            (if cdevdemo_major s \<noteq> 0 then
               (let (ret, w) = kcall e ''register_chrdev_region'' [I_dev devno, I 1, S ''cdevdemo''] w
                in (ret, devno, s, w))
             else
               (let (ret, devno, w) = alloc_region e 0 1 ''cdevdemo'' w
                in (ret, devno, s\<lparr>cdevdemo_major := MAJOR devno\<rparr>, w)))
      in if ret < 0 then (Some ret, s, w)
         else
           (let (p, w) = kcall e ''kmalloc'' [S ''cdevdemo_dev''] w;
                s = s\<lparr>cdevdemo_devp := p\<rparr>
            in if p = 0 then (None, s, kdo e ''unregister_chrdev_region'' [I_dev devno, I 1] w)
               else
                 (let w = cdevdemo_setup_cdev e s 0 w;
                      (c, w) = kcall e ''class_create'' [S ''cdevdemo''] w
                  in (Some 0, s, kdo e ''device_create'' [I c, I_dev (MKDEV (cdevdemo_major s) 0), S ''cdevdemo''] w))))"

definition cdevdemo_exit :: "'w env \<Rightarrow> cdevdemo \<Rightarrow> 'w \<Rightarrow> 'w" where
  "cdevdemo_exit e s w =
     (let w = kdo e ''cdev_del'' [I (cdevdemo_devp s)] w;
          w = kdo e ''kfree'' [I (cdevdemo_devp s)] w
      in kdo e ''unregister_chrdev_region'' [I_dev (MKDEV (cdevdemo_major s) 0), I 1] w)"

end
