(* ===== verification/Char_Net.thy ===== *)
theory Char_Net
  imports Phy_Ctrl Gmac_Ctrl Char_Dev Dwmac1000 Norm_Desc
begin

text \<open>
  The character network device as a whole: \<open>char_net_platform.c\<close>, \<open>net_ctrl.c\<close>, \<open>gmac_init.c\<close> and the
  access to the address of the MAC in \<open>gmac_ctrl.c\<close>. Its two static objects, \<open>net_priv\<close> and
  \<open>g_bsp_priv\<close>, are passed through as \<open>n\<close> and \<open>b\<close>; the device tree is an argument.
\<close>

section \<open>The address of the MAC\<close>

definition Isvalid :: "u32 \<Rightarrow> int" where
  "Isvalid x = (if x \<le> 0xff then 0 else - 1)"

text \<open>
  The loop of \<open>setMacAddr\<close> over the indices, writing into the array of the driver; the flag is
  \<open>False\<close> when a byte was found invalid, \<open>None\<close> a read outside of the array.
\<close>

primrec setMacAddr_loop :: "nat list \<Rightarrow> u8 list \<Rightarrow> u8 list \<Rightarrow> (bool \<times> u8 list) option" where
  "setMacAddr_loop [] data mac = Some (True, mac)"
| "setMacAddr_loop (i # is) data mac =
     (if i < length data then
        (if Isvalid (ucast (data ! i)) = 0 then setMacAddr_loop is data (mac[i := data ! i]) else Some (False, mac))
      else None)"

definition setMacAddr :: "'w env \<Rightarrow> u8 list option \<Rightarrow> 'w char_net_priv \<Rightarrow> 'w \<Rightarrow> (int \<times> 'w char_net_priv \<times> 'w) option" where
  "setMacAddr e data n w =
     (case data of None \<Rightarrow> Some (- 1, n, w)
      | Some data \<Rightarrow> do {
          (ok, mac) \<leftarrow> setMacAddr_loop [0..<MACLEN] data (cn_macaddr n);
          let n = n\<lparr>cn_macaddr := mac\<rparr>;
          if \<not> ok then Some (- 2, n, w)
          else do {
            h \<leftarrow> cn_hw n;
            Some (0, n, set_umac_addr (hw_mac h) e (cn_ioaddr n) (cn_macaddr n) 0 w) } })"

text \<open>\<open>data\<close> says whether the pointer is set; the bytes stored there are returned.\<close>

definition getMacAddr :: "'w env \<Rightarrow> bool \<Rightarrow> 'w char_net_priv \<Rightarrow> 'w \<Rightarrow> (int \<times> u8 list \<times> 'w) option" where
  "getMacAddr e data n w = do {
     h \<leftarrow> cn_hw n;
     if data then (let (bytes, w) = get_umac_addr (hw_mac h) e (cn_ioaddr n) 0 w in Some (0, bytes, w))
     else None }"

definition char_net_get_synopsys_id :: "'w char_net_priv \<Rightarrow> u32 option" where
  "char_net_get_synopsys_id n = do {
     h \<leftarrow> cn_hw n;
     Some (if synopsys_uid h \<noteq> 0 then synopsys_uid h AND 0x000000ff else 0) }"

definition gmac_init :: "crc_lib \<Rightarrow> 'w env \<Rightarrow> u32 \<Rightarrow> 'w \<Rightarrow> 'w mac_device_info option \<times> 'w" where
  "gmac_init kl e ioaddr w =
     (let (mac, w) = dwmac1000_setup kl e ioaddr w
      in case mac of None \<Rightarrow> (None, w) | Some m \<Rightarrow> (Some m, w))"

section \<open>Opening the device\<close>

definition char_addr :: "u8 list" where
  "char_addr = [0x11, 0x22, 0x33, 0x44, 0x55, 0x66]"

text \<open>Power and clocks, through the callbacks of the board where they are set.\<close>

definition net_power_on :: "'w env \<Rightarrow> 'w char_net_priv \<Rightarrow> bsp_priv \<Rightarrow> 'w \<Rightarrow> bsp_priv \<times> 'w" where
  "net_power_on e n b w =
     (case cn_plat n of None \<Rightarrow> (b, w)
      | Some pl \<Rightarrow>
          (if cp_bsp pl then
             (let w = doif (has_phy_power_on b) (\<lambda>w. snd (phy_power_on e True b w)) w
              in if has_gmac_clk_enable b then snd (gmac_clk_enable e True b w) else (b, w))
           else (b, w)))"

text \<open>\<open>phys\<close> is what the registration of the bus finds.\<close>

definition net_open ::
    "'w env \<Rightarrow> int option list \<Rightarrow> 'w char_net_priv \<Rightarrow> bsp_priv \<Rightarrow> 'w \<Rightarrow> (int \<times> 'w char_net_priv \<times> bsp_priv \<times> 'w) option" where
  "net_open e phys n b w = do {
     let (b, w) = net_power_on e n b w;
     (ret, n, w) \<leftarrow> setMacAddr e (Some char_addr) n w;
     if ret < 0 then Some (- 1, n, b, w)
     else do {
       (ret, tempaddr, w) \<leftarrow> getMacAddr e True n w;
       if ret < 0 then Some (- 2, n, b, w)
       else do {
         h \<leftarrow> cn_hw n;
         let w = core_init (hw_mac h) e (cn_ioaddr n) w;
         (ret, n, w) \<leftarrow> stmmac_mdio_register e phys n w;
         if ret < 0 then Some (- 1, n, b, w) else Some (0, n, b, w) } } }"

section \<open>The board\<close>

definition gpio_claim :: "'w env \<Rightarrow> int \<Rightarrow> string \<Rightarrow> 'w \<Rightarrow> 'w" where
  "gpio_claim e io name w =
     (let (valid, w) = kcall e ''gpio_is_valid'' [I io] w
      in doif (valid \<noteq> 0) (kdo e ''gpio_request'' [I io, S name]) w)"

definition stmmc_pltfr_init :: "grf \<Rightarrow> 'w env \<Rightarrow> bsp_priv \<Rightarrow> 'w \<Rightarrow> int \<times> 'w" where
  "stmmc_pltfr_init g e b w =
     (let w = gpio_claim e (power_io b) ''gmac_phy_power'' w;
          w = gpio_claim e (reset_io b) ''gmac_phy_reset'' w
      in (0, if phy_iface b = PHY_INTERFACE_MODE_RGMII then SET_RGMII g e (tx_delay b) (rx_delay b) w
             else if phy_iface b = PHY_INTERFACE_MODE_RMII then SET_RMII g e w
             else w))"

text \<open>
  A node of the device tree as the kernel's functions read it: \<open>None\<close> where a property cannot be read;
  a pin comes with its flags, \<open>None\<close> where they are not stored.
\<close>

record dt_node =
  dt_mac :: "u8 list option"
  dt_phy_mode :: int
  dt_string :: "string \<Rightarrow> string option"
  dt_u32 :: "string \<Rightarrow> u32 option"
  dt_gpio :: "string \<Rightarrow> int \<times> int option"
  dt_compatible :: "string \<Rightarrow> bool"

definition GPIO_ACTIVE_HIGH :: int where [hw_consts]: "GPIO_ACTIVE_HIGH = 0"

text \<open>
  The regulator of the PHY. \<open>strcpy\<close> copies its name into an array of 32 characters: \<open>None\<close> when it
  does not fit with its end.
\<close>

definition dt_pmu :: "dt_node \<Rightarrow> bsp_priv \<Rightarrow> bsp_priv option" where
  "dt_pmu np b = do {
     b \<leftarrow> (case dt_string np ''pmu_regulator'' of None \<Rightarrow> Some (b\<lparr>power_ctrl_by_pmu := False\<rparr>)
           | Some s \<Rightarrow> if length s < 32 then Some (b\<lparr>power_ctrl_by_pmu := True, pmu_regulator := s\<rparr>) else None);
     Some (case dt_u32 np ''pmu_enable_level'' of None \<Rightarrow> b\<lparr>power_ctrl_by_pmu := False\<rparr>
           | Some v \<Rightarrow> b\<lparr>power_ctrl_by_pmu := True, pmu_enable_level := sint v\<rparr>) }"

definition dt_clock :: "dt_node \<Rightarrow> bsp_priv \<Rightarrow> bsp_priv" where
  "dt_clock np b =
     b\<lparr>clock_input := (case dt_string np ''clock_in_out'' of None \<Rightarrow> True | Some s \<Rightarrow> s = ''input'')\<rparr>"

definition dt_delays :: "dt_node \<Rightarrow> bsp_priv \<Rightarrow> bsp_priv" where
  "dt_delays np b =
     b\<lparr>tx_delay := (case dt_u32 np ''tx_delay'' of None \<Rightarrow> 0x30 | Some v \<Rightarrow> sint v),
       rx_delay := (case dt_u32 np ''rx_delay'' of None \<Rightarrow> 0x10 | Some v \<Rightarrow> sint v)\<rparr>"

text \<open>\<open>flags\<close> is the variable of the stack, which keeps its value where the flags are not stored.\<close>

definition dt_pins :: "dt_node \<Rightarrow> int \<Rightarrow> bsp_priv \<Rightarrow> bsp_priv" where
  "dt_pins np flags b =
     (let (io, fl) = dt_gpio np ''reset-gpio'';
          flags = (case fl of None \<Rightarrow> flags | Some f \<Rightarrow> f);
          b = b\<lparr>reset_io := io, reset_io_level := (if flags = GPIO_ACTIVE_HIGH then 1 else 0)\<rparr>;
          (io, fl) = dt_gpio np ''power-gpio'';
          flags = (case fl of None \<Rightarrow> flags | Some f \<Rightarrow> f)
      in b\<lparr>power_io := io, power_io_level := (if flags = GPIO_ACTIVE_HIGH then 1 else 0)\<rparr>)"

definition dt_chip :: "dt_node \<Rightarrow> bsp_priv \<Rightarrow> bsp_priv" where
  "dt_chip np b =
     (let b = doif (dt_compatible np ''rockchip,rk3288-gmac'') (chip_update (\<lambda>_. RK3288_GMAC)) b
      in doif (dt_compatible np ''rockchip,rk312x-gmac'') (chip_update (\<lambda>_. RK312X_GMAC)) b)"

definition zero_mdio_bus_data :: mdio_bus_data where
  "zero_mdio_bus_data = \<lparr>md_phy_reset = False, md_phy_mask = 0, md_irqs = None, md_probed_phy_irq = 0\<rparr>"

definition stmmac_probe_config_dt ::
    "'w env \<Rightarrow> int \<Rightarrow> dt_node option \<Rightarrow> cplat \<Rightarrow> bsp_priv \<Rightarrow> 'w \<Rightarrow> (int \<times> u8 list option \<times> cplat \<times> bsp_priv \<times> 'w) option" where
  "stmmac_probe_config_dt e flags np pl b w =
     (case np of None \<Rightarrow> Some (- ENODEV, None, pl, b, w)
      | Some np \<Rightarrow> do {
          let pl = pl\<lparr>cp_interface := word_of_int (dt_phy_mode np)\<rparr>;
          let (m, w) = kcall e ''devm_kzalloc'' [S ''stmmac_mdio_bus_data''] w;
          let pl = pl\<lparr>cp_mdio_bus_data := (if m = 0 then None else Some zero_mdio_bus_data),
                      cp_init := Pltfr_init, cp_has_fix_speed := True\<rparr>;
          b \<leftarrow> dt_pmu np b;
          let b = dt_pins np flags (dt_delays np (dt_clock np b));
          let b = b\<lparr>phy_iface := cp_interface pl, has_phy_power_on := True, has_gmac_clk_enable := True\<rparr>;
          let pl = pl\<lparr>cp_bsp := True\<rparr>;
          let pl = doif (dt_compatible np ''rockchip,rk3288-gmac'' \<or> dt_compatible np ''rockchip,rk312x-gmac'')
                     (\<lambda>pl. pl\<lparr>cp_has_gmac := True, cp_pmt := True\<rparr>) pl;
          Some (0, dt_mac np, pl, dt_chip np b, w) })"

section \<open>Probe and remove\<close>

text \<open>The platform device: its node, if any, and else the platform data of the board.\<close>

record pdev =
  pd_of_node :: "dt_node option"
  pd_platform_data :: "cplat option"

definition zero_cplat :: cplat where
  "zero_cplat = \<lparr>cp_bus_id = 0, cp_phy_addr = 0, cp_interface = 0, cp_mdio_bus_data = None, cp_bsp = False,
     cp_init = No_init, cp_has_fix_speed = False, cp_has_gmac = False, cp_pmt = False\<rparr>"

text \<open>The platform data: the error the probe returns, or the data, \<open>NULL\<close> where the board has none.\<close>

definition probe_plat ::
    "'w env \<Rightarrow> int \<Rightarrow> pdev \<Rightarrow> bsp_priv \<Rightarrow> 'w \<Rightarrow> ((int + cplat option) \<times> bsp_priv \<times> 'w) option" where
  "probe_plat e flags pd b w =
     (case pd_of_node pd of None \<Rightarrow> Some (Inr (pd_platform_data pd), b, w)
      | Some np \<Rightarrow>
          (let (p, w) = kcall e ''devm_kzalloc'' [S ''plat_stmmacenet_data''] w
           in if p = 0 then Some (Inl (- ENOMEM), b, w)
              else do {
                (ret, mac, pl, b, w) \<leftarrow> stmmac_probe_config_dt e flags (Some np) zero_cplat b w;
                Some (if ret \<noteq> 0 then Inl ret else Inr (Some pl), b, w) }))"

definition plat_init :: "grf \<Rightarrow> 'w env \<Rightarrow> cplat \<Rightarrow> bsp_priv \<Rightarrow> 'w \<Rightarrow> int \<times> 'w" where
  "plat_init g e pl b w =
     (case cp_init pl of No_init \<Rightarrow> (0, w)
      | Pltfr_init \<Rightarrow> stmmc_pltfr_init g e b w
      | Board_init \<Rightarrow> kcall e ''plat_init'' [] w)"

text \<open>From \<open>gmac_clk_init\<close> on.\<close>

definition probe_start ::
    "crc_lib \<Rightarrow> bool \<Rightarrow> 'w env \<Rightarrow> int option list \<Rightarrow> cplat \<Rightarrow> 'w char_net_priv \<Rightarrow> bsp_priv \<Rightarrow> 'w \<Rightarrow>
     (int \<times> 'w char_net_priv \<times> bsp_priv \<times> 'w) option" where
  "probe_start kl vlan e phys pl n b w = do {
     let (_, b, w) = gmac_clk_init e b w;
     let n = n\<lparr>cn_plat := Some pl\<rparr>;
     let (irq_num, w) = kcall e ''platform_get_irq_byname'' [S ''macirq''] w;
     if irq_num = - ENXIO then Some (- ENXIO, n, b, w)
     else do {
       let n = n\<lparr>cn_irq_num := irq_num\<rparr>;
       let (mac, w) = gmac_init kl e (cn_ioaddr n) w;
       let n = n\<lparr>cn_hw := mac\<rparr>;
       _ \<leftarrow> char_net_get_synopsys_id n;
       h \<leftarrow> cn_hw n;
       let n = n\<lparr>cn_hw := Some (h\<lparr>hw_desc := Some (ndesc_ops vlan)\<rparr>)\<rparr>;
       let w = kdo e ''platform_set_drvdata'' [S ''net_priv.device''] w;
       (ret, n, b, w) \<leftarrow> net_open e phys n b w;
       Some (0, n, b, w) } }"

definition char_net_probe ::
    "crc_lib \<Rightarrow> bool \<Rightarrow> grf \<Rightarrow> 'w env \<Rightarrow> int \<Rightarrow> int option list \<Rightarrow> pdev \<Rightarrow> 'w char_net_priv \<Rightarrow> bsp_priv \<Rightarrow> 'w \<Rightarrow>
     (int \<times> 'w char_net_priv \<times> bsp_priv \<times> 'w) option" where
  "char_net_probe kl vlan g e flags phys pd n b w =
     (let (res, w) = kcall e ''platform_get_resource'' [] w
      in if res = 0 then Some (- ENODEV, n, b, w)
         else
           (let (addr, w) = kcall e ''devm_ioremap_resource'' [I res] w
            in if IS_ERR addr then Some (addr, n, b, w)
               else do {
                 let n = n\<lparr>cn_ioaddr := word_of_int addr\<rparr>;
                 let w = kdo e ''platform_get_irq'' [I 0] w;
                 (plat_dat, b, w) \<leftarrow> probe_plat e flags pd b w;
                 (case plat_dat of Inl ret \<Rightarrow> Some (ret, n, b, w)
                  | Inr pl \<Rightarrow> do {
                      pl \<leftarrow> pl;
                      let (ret, w) = plat_init g e pl b w;
                      if ret \<noteq> 0 then Some (ret, n, b, w) else probe_start kl vlan e phys pl n b w }) }))"

definition char_net_remove :: "'w env \<Rightarrow> 'w char_net_priv \<Rightarrow> 'w \<Rightarrow> int \<times> 'w" where
  "char_net_remove e n w =
     (let w = kdo e ''devm_iounmap'' [I (uint (cn_ioaddr n))] w
      in (0, kdo e ''platform_set_drvdata'' [I 0] w))"

section \<open>The module\<close>

definition char_net_init :: "'w env \<Rightarrow> char_dev \<Rightarrow> 'w \<Rightarrow> int \<times> char_dev \<times> 'w" where
  "char_net_init e s w =
     (let (ret, s, w) = char_dev_create e s w
      in if ret < 0 then (- 1, s, w)
         else (let (ret, w) = kcall e ''platform_driver_register'' [S ''char_net_driver''] w in (ret, s, w)))"

definition char_net_exit :: "'w env \<Rightarrow> char_dev \<Rightarrow> 'w \<Rightarrow> 'w" where
  "char_net_exit e s w =
     kdo e ''platform_driver_unregister'' [S ''char_net_driver''] (snd (char_dev_destroy e s w))"

end
