(* ===== verification/Char_Net_Props.thy ===== *)
theory Char_Net_Props
  imports Char_Net
begin

text \<open>Properties of the character network device and of its device node.\<close>

section \<open>The device node\<close>

text \<open>What \<open>cdev_publish\<close> calls in the concrete world.\<close>

lemma bench_cdev_publish:
  "cdev_publish (bench_env ans) devid s w =
     (s\<lparr>cd_cls := ans (K ''class_create'' [S ''char_net''])\<rparr>,
      w\<lparr>b_calls := K ''device_create'' [I (ans (K ''class_create'' [S ''char_net''])), I_dev (MKDEV (cd_major s) 0), S ''char_net0'']
        # K ''class_create'' [S ''char_net''] # K ''cdev_add'' [I_dev devid, I 1] # K ''cdev_init'' [] # b_calls w\<rparr>)"
  by (simp add: cdev_publish_def)

text \<open>
  The two copies of the device node do the same whenever a device number is given or
  allocated, and destroy it in the same way. They differ when the allocation fails: the copy in the
  build reports it and changes nothing more, the older one publishes a device under the number the
  stack held.
\<close>

theorem device_node_copies_agree:
  assumes "cd_major s \<noteq> 0 \<or> 0 \<le> kval e ''alloc_chrdev_region'' [I 0, I MAX_DEVICE_NUM, S ''char_net''] w"
  shows "char_dev_create e s w = old_char_net_init e s w \<and> char_dev_destroy e s' w' = old_char_net_exit e s' w'"
  using assms
  by (auto simp: char_dev_create_def old_char_net_init_def char_dev_destroy_def old_char_net_exit_def alloc_region_def
      kcall_eq Let_def case_prod_unfold)

theorem device_node_copies_agree_witness:
  "fst (char_dev_create (bench_env (\<lambda>c. if c = K ''alloc_chrdev_region:dev'' [] then 0x0FE00000 else 0)) \<lparr>cd_major = 0, cd_cls = 0\<rparr> bench0)
   = fst (old_char_net_init (bench_env (\<lambda>c. if c = K ''alloc_chrdev_region:dev'' [] then 0x0FE00000 else 0)) \<lparr>cd_major = 0, cd_cls = 0\<rparr> bench0)"
  using device_node_copies_agree [of "\<lparr>cd_major = 0, cd_cls = 0\<rparr>"
      "bench_env (\<lambda>c. if c = K ''alloc_chrdev_region:dev'' [] then 0x0FE00000 else 0)" bench0 "\<lparr>cd_major = 0, cd_cls = 0\<rparr>" bench0]
  by simp

text \<open>
  What the creation of the device node made, the removal takes back: the device, the
  class and the character device, each once and with the same arguments. The device numbers are the
  exception: 32768 are allocated and one is given back.
\<close>

theorem device_node_undone:
  assumes "char_dev_create (bench_env ans) s bench0 = (0, s', w)" and "cd_major s = 0"
    and "char_dev_destroy (bench_env ans) s' w = (0, w')"
  shows "calls_of ''device_destroy'' w' = map (take 2) (calls_of ''device_create'' w')
    \<and> calls_of ''class_destroy'' w' = [[I (ans (K ''class_create'' [S ''char_net'']))]]
    \<and> length (calls_of ''class_create'' w') = 1
    \<and> length (calls_of ''cdev_add'' w') = 1 \<and> length (calls_of ''cdev_del'' w') = 1
    \<and> calls_of ''alloc_chrdev_region'' w' = [[I 0, I 32768, S ''char_net'']]
    \<and> calls_of ''unregister_chrdev_region'' w' = [[I_dev (MKDEV (cd_major s') 0), I 1]]"
proof -
  have n: "\<not> ans (K ''alloc_chrdev_region'' [I 0, I MAX_DEVICE_NUM, S ''char_net'']) < 0"
    using assms(1, 2) by (auto simp: char_dev_create_def alloc_region_def bench_cdev_publish)
  let ?d = "word_of_int (ans (K ''alloc_chrdev_region:dev'' [])) :: u32"
  have "s' = s\<lparr>cd_major := MAJOR ?d, cd_cls := ans (K ''class_create'' [S ''char_net''])\<rparr>"
    "b_calls w = [K ''device_create'' [I (ans (K ''class_create'' [S ''char_net''])), I_dev (MKDEV (MAJOR ?d) 0), S ''char_net0''],
      K ''class_create'' [S ''char_net''], K ''cdev_add'' [I_dev ?d, I 1], K ''cdev_init'' [],
      K ''alloc_chrdev_region:dev'' [], K ''alloc_chrdev_region'' [I 0, I MAX_DEVICE_NUM, S ''char_net'']]"
    using assms(1, 2) n by (auto simp: char_dev_create_def alloc_region_def bench_cdev_publish bench0_def)
  then show ?thesis
    using assms(3) by (auto simp: char_dev_destroy_def calls_of_def MAX_DEVICE_NUM_def)
qed

theorem device_node_undone_witness:
  "\<exists>s' w w'. char_dev_create (bench_env (\<lambda>_. 0x0FE00000)) \<lparr>cd_major = 0, cd_cls = 0\<rparr> bench0 = (0, s', w)
    \<and> char_dev_destroy (bench_env (\<lambda>_. 0x0FE00000)) s' w = (0, w')
    \<and> calls_of ''unregister_chrdev_region'' w' = [[I_dev (MKDEV (cd_major s') 0), I 1]]"
proof -
  let ?e = "bench_env (\<lambda>_. 0x0FE00000)"
  obtain s' w where c: "char_dev_create ?e \<lparr>cd_major = 0, cd_cls = 0\<rparr> bench0 = (0, s', w)"
    by (simp add: char_dev_create_def alloc_region_def bench_cdev_publish)
  obtain w' where d: "char_dev_destroy ?e s' w = (0, w')" by (simp add: char_dev_destroy_def)
  show ?thesis using device_node_undone [OF c _ d] c d by auto
qed

section \<open>The registers of the chip\<close>

text \<open>
  Property C17. After the initialisation of the platform and the announcement of a speed the
  interface allows, the registers of the chip select that interface and that speed, whatever they
  held before; for RGMII both delays are on and hold the values asked for modulo 128, for all values
  of 16 bits.
\<close>

theorem pltfr_init_selects:
  assumes "hiword_regs e {SOC_CON1 g, SOC_CON3 g}" and "SOC_CON1 g \<noteq> SOC_CON3 g"
    and "iface_speed_ok (phy_iface b) speed"
    and "0 \<le> tx_delay b" and "tx_delay b < 0x10000" and "0 \<le> rx_delay b" and "rx_delay b < 0x10000"
  shows "let w' = stmmc_pltfr_fix_mac_speed g e junk (Some b) speed (snd (stmmc_pltfr_init g e b w))
    in con1_selects (phy_iface b) speed (peek e (SOC_CON1 g) w')
     \<and> (phy_iface b = PHY_INTERFACE_MODE_RGMII \<longrightarrow> con3_delays (tx_delay b) (rx_delay b) (peek e (SOC_CON3 g) w'))"
proof -
  let ?w = "gpio_claim e (reset_io b) ''gmac_phy_reset'' (gpio_claim e (power_io b) ''gmac_phy_power'' w)"
  have "snd (stmmc_pltfr_init g e b w) = grf_select g e b ?w" by (simp add: stmmc_pltfr_init_def grf_select_def Let_def)
  then show ?thesis
    using grf_con1 [OF assms(1-3), of junk ?w] grf_con3 [OF assms(1, 2) _ assms(4-7), of junk speed ?w] by (simp add: Let_def)
qed

text \<open>A world whose registers take a mask of what is written, and a board with RGMII.\<close>

definition bench_grf_env :: "bench env" where
  "bench_grf_env = (bench_env (\<lambda>_. 0))\<lparr>wr_reg := (\<lambda>v a w. w\<lparr>b_regs := (b_regs w)(a := hiword v (b_regs w a))\<rparr>)\<rparr>"

definition bench_bsp :: bsp_priv where
  "bench_bsp = \<lparr>power_ctrl_by_pmu = False, pmu_regulator = '''', pmu_enable_level = 0, power_io = 4, power_io_level = 1,
     reset_io = 5, reset_io_level = 0, phy_iface = PHY_INTERFACE_MODE_RGMII, clock_input = True, chip = RK3288_GMAC,
     tx_delay = 0x30, rx_delay = 0x10, clk_mac = 1, clk_mac_pll = 2, gmac_clkin = 3, mac_clk_rx = 4, mac_clk_tx = 5,
     clk_mac_ref = 6, clk_mac_refout = 7, aclk_mac = 8, pclk_mac = 9, clk_enabled = False, has_phy_power_on = True,
     has_gmac_clk_enable = True\<rparr>"

theorem pltfr_init_selects_witness:
  "con3_delays 0x30 0x10 (peek bench_grf_env 0x254 (stmmc_pltfr_fix_mac_speed \<lparr>SOC_CON1 = 0x248, SOC_CON3 = 0x254\<rparr> bench_grf_env 0
     (Some bench_bsp) 1000 (snd (stmmc_pltfr_init \<lparr>SOC_CON1 = 0x248, SOC_CON3 = 0x254\<rparr> bench_grf_env bench_bsp bench0))))"
proof -
  have "hiword_regs bench_grf_env {0x248, 0x254}"
    by (auto simp: hiword_regs_def bench_grf_env_def peek_def readl_def writel_def bench_env_def)
  then show ?thesis
    using pltfr_init_selects [of bench_grf_env "\<lparr>SOC_CON1 = 0x248, SOC_CON3 = 0x254\<rparr>" bench_bsp 1000 0 bench0]
    by (simp add: bench_bsp_def iface_speed_ok_def Let_def)
qed

section \<open>The address\<close>

lemma Isvalid_byte: "Isvalid (ucast (x :: u8)) = 0"
proof -
  have "unat x < 2 ^ 8" using unsigned_less [of x] by simp
  then show ?thesis by (simp add: Isvalid_def word_le_nat_alt unsigned_ucast_eq take_bit_nat_eq_self)
qed

lemma setMacAddr_loop_take:
  "i + k \<le> length data \<Longrightarrow> i + k \<le> length mac \<Longrightarrow>
     setMacAddr_loop [i..<i + k] data mac = Some (True, take i mac @ take k (drop i data) @ drop (i + k) mac)"
proof (induction k arbitrary: i mac)
  case (Suc k)
  have "take (Suc i) (mac[i := data ! i]) = take i mac @ [data ! i]"
    using Suc.prems by (simp add: take_Suc_conv_app_nth)
  moreover have "data ! i # take k (drop (Suc i) data) = take (Suc k) (drop i data)"
    using Suc.prems by (simp add: Cons_nth_drop_Suc [symmetric])
  ultimately show ?case
    using Suc.IH [of "Suc i" "mac[i := data ! i]"] Suc.prems by (simp add: upt_conv_Cons Isvalid_byte del: upt_Suc)
qed simp

lemma setMacAddr_dwmac1000:
  assumes "cn_hw n = Some h" and "hw_mac h = dwmac1000_ops kl" and "6 \<le> length data" and "length (cn_macaddr n) = 6"
  shows "setMacAddr e (Some data) n w = Some (0, n\<lparr>cn_macaddr := take 6 data\<rparr>,
    dwmac1000_set_umac_addr e (cn_ioaddr n) (take 6 data) 0 w)"
  using setMacAddr_loop_take [of 0 6 data "cn_macaddr n"] assms
  by (simp add: setMacAddr_def MACLEN_def dwmac1000_ops_def)

text \<open>
  Property C21. Setting the address with six bytes succeeds, keeps them in the driver and writes
  them to the device: getting it returns the same six bytes. A missing array is refused by the
  setting, but crashes the getting, which only reports it.
\<close>

theorem mac_addr_roundtrip:
  assumes "rw_regs e M" and "addr_bits_rw M (cn_ioaddr n) (GMAC_ADDR_HIGH 0) (GMAC_ADDR_LOW 0)"
    and "cn_hw n = Some h" and "hw_mac h = dwmac1000_ops kl" and "6 \<le> length data" and "length (cn_macaddr n) = 6"
  shows "\<exists>n' w' w''. setMacAddr e (Some data) n w = Some (0, n', w') \<and> cn_macaddr n' = take 6 data
    \<and> getMacAddr e True n' w' = Some (0, take 6 data, w'')
    \<and> setMacAddr e None n w = Some (- 1, n, w) \<and> getMacAddr e False n w = None"
proof -
  let ?w = "dwmac1000_set_umac_addr e (cn_ioaddr n) (take 6 data) 0 w"
  have "fst (dwmac1000_get_umac_addr e (cn_ioaddr n) 0 ?w) = take 6 data"
    using gmac_umac.get_set [OF assms(1) _ assms(2), of "take 6 data" w] assms(5) by simp
  then have g: "getMacAddr e True (n\<lparr>cn_macaddr := take 6 data\<rparr>) ?w =
      Some (0, take 6 data, snd (dwmac1000_get_umac_addr e (cn_ioaddr n) 0 ?w))"
    using assms(3, 4) by (simp add: getMacAddr_def dwmac1000_ops_def case_prod_unfold prod_eq_iff)
  have "setMacAddr e None n w = Some (- 1, n, w)" "getMacAddr e False n w = None"
    using assms(3) by (simp_all add: setMacAddr_def getMacAddr_def)
  with setMacAddr_dwmac1000 [OF assms(3-6), of e w] g show ?thesis
    by (intro exI [of _ "n\<lparr>cn_macaddr := take 6 data\<rparr>"] exI [of _ ?w] exI) (intro conjI; simp)
qed

definition bench_core :: "bench mac_device_info" where
  "bench_core = the (fst (dwmac1000_setup bench_crc (bench_env (\<lambda>_. 1)) 0x1000 bench0))"

theorem mac_addr_roundtrip_witness:
  "\<exists>n' w' w''. setMacAddr (bench_env (\<lambda>_. 1)) (Some char_addr) (bench_net\<lparr>cn_hw := Some bench_core\<rparr>) bench0 = Some (0, n', w')
    \<and> getMacAddr (bench_env (\<lambda>_. 1)) True n' w' = Some (0, [0x11, 0x22, 0x33, 0x44, 0x55, 0x66], w'')"
  using mac_addr_roundtrip [OF bench_rw_regs [of "\<lambda>_. 1" "\<lambda>_. - 1"], of "bench_net\<lparr>cn_hw := Some bench_core\<rparr>" bench_core bench_crc char_addr bench0]
  by (fastforce simp: addr_bits_rw_def bench_core_def dwmac1000_setup_def char_addr_def bench_net_def)

section \<open>The device tree\<close>

text \<open>The members each step of the reading leaves alone.\<close>

lemma dt_chip_keeps:
  "power_ctrl_by_pmu (dt_chip np b) = power_ctrl_by_pmu b" "pmu_regulator (dt_chip np b) = pmu_regulator b"
  "phy_iface (dt_chip np b) = phy_iface b" "has_phy_power_on (dt_chip np b) = has_phy_power_on b"
  "has_gmac_clk_enable (dt_chip np b) = has_gmac_clk_enable b"
  "tx_delay (dt_chip np b) = tx_delay b" "rx_delay (dt_chip np b) = rx_delay b"
  by (simp_all add: dt_chip_def doif_def Let_def)

lemma dt_pins_keeps:
  "power_ctrl_by_pmu (dt_pins np f b) = power_ctrl_by_pmu b" "pmu_regulator (dt_pins np f b) = pmu_regulator b"
  "tx_delay (dt_pins np f b) = tx_delay b" "rx_delay (dt_pins np f b) = rx_delay b"
  by (simp_all add: dt_pins_def Let_def case_prod_unfold)

lemma dt_clock_delays:
  "power_ctrl_by_pmu (dt_delays np (dt_clock np b)) = power_ctrl_by_pmu b"
  "pmu_regulator (dt_delays np (dt_clock np b)) = pmu_regulator b"
  "tx_delay (dt_delays np b) = (case dt_u32 np ''tx_delay'' of None \<Rightarrow> 48 | Some v \<Rightarrow> sint v)"
  "rx_delay (dt_delays np b) = (case dt_u32 np ''rx_delay'' of None \<Rightarrow> 16 | Some v \<Rightarrow> sint v)"
  by (simp_all add: dt_delays_def dt_clock_def)

lemmas dt_steps = dt_chip_keeps dt_pins_keeps dt_clock_delays

definition regulator_fits :: "dt_node \<Rightarrow> bool" where
  "regulator_fits np = (case dt_string np ''pmu_regulator'' of None \<Rightarrow> True | Some s \<Rightarrow> length s < 32)"

lemma dt_pmu_result:
  "case dt_pmu np b of None \<Rightarrow> \<not> regulator_fits np
   | Some b' \<Rightarrow> regulator_fits np \<and> power_ctrl_by_pmu b' = (dt_u32 np ''pmu_enable_level'' \<noteq> None)
       \<and> pmu_regulator b' = (case dt_string np ''pmu_regulator'' of None \<Rightarrow> pmu_regulator b | Some s \<Rightarrow> s)"
  by (simp add: dt_pmu_def regulator_fits_def split: option.split)

lemma config_dt_None: "stmmac_probe_config_dt e flags (Some np) pl b w = None \<longleftrightarrow> \<not> regulator_fits np"
  using dt_pmu_result [of np b]
  by (cases "dt_pmu np b") (simp_all add: stmmac_probe_config_dt_def Let_def case_prod_unfold)

lemma config_dt_Some:
  assumes "stmmac_probe_config_dt e flags (Some np) pl b w = Some (ret, mac, pl', b', w')"
  shows "ret = 0" "power_ctrl_by_pmu b' = (dt_u32 np ''pmu_enable_level'' \<noteq> None)"
    "pmu_regulator b' = (case dt_string np ''pmu_regulator'' of None \<Rightarrow> pmu_regulator b | Some s \<Rightarrow> s)"
    "phy_iface b' = word_of_int (dt_phy_mode np)" "cp_interface pl' = word_of_int (dt_phy_mode np)"
    "cp_bsp pl'" "cp_init pl' = Pltfr_init" "has_phy_power_on b'" "has_gmac_clk_enable b'"
    "tx_delay b' = (case dt_u32 np ''tx_delay'' of None \<Rightarrow> 48 | Some v \<Rightarrow> sint v)"
    "rx_delay b' = (case dt_u32 np ''rx_delay'' of None \<Rightarrow> 16 | Some v \<Rightarrow> sint v)"
    "cp_phy_addr pl' = cp_phy_addr pl"
proof -
  obtain q where q: "dt_pmu np b = Some q"
    using assms by (cases "dt_pmu np b") (simp_all add: stmmac_probe_config_dt_def Let_def case_prod_unfold)
  note r = assms [unfolded stmmac_probe_config_dt_def, simplified q Let_def case_prod_unfold option.case bind.bind_lunit prod.inject option.inject]
  from r have b: "b' = dt_chip np ((dt_pins np flags (dt_delays np (dt_clock np q)))\<lparr>phy_iface := word_of_int (dt_phy_mode np),
      has_phy_power_on := True, has_gmac_clk_enable := True\<rparr>)" by auto
  from dt_pmu_result [of np b] q show "power_ctrl_by_pmu b' = (dt_u32 np ''pmu_enable_level'' \<noteq> None)"
    "pmu_regulator b' = (case dt_string np ''pmu_regulator'' of None \<Rightarrow> pmu_regulator b | Some s \<Rightarrow> s)"
    unfolding b by (simp_all add: dt_steps)
  show "phy_iface b' = word_of_int (dt_phy_mode np)" "has_phy_power_on b'" "has_gmac_clk_enable b'"
    "tx_delay b' = (case dt_u32 np ''tx_delay'' of None \<Rightarrow> 48 | Some v \<Rightarrow> sint v)"
    "rx_delay b' = (case dt_u32 np ''rx_delay'' of None \<Rightarrow> 16 | Some v \<Rightarrow> sint v)"
    unfolding b by (simp_all add: dt_steps)
  show "ret = 0" "cp_interface pl' = word_of_int (dt_phy_mode np)" "cp_bsp pl'" "cp_init pl' = Pltfr_init"
    "cp_phy_addr pl' = cp_phy_addr pl"
    using r by (auto simp: doif_def)
qed

text \<open>
  Reading the device tree succeeds unless the name of the regulator has 32 characters
  or more, which overruns its array. Whether the PHY is powered by the regulator is decided by the
  property \<open>pmu_enable_level\<close> alone: without a name the one of before is kept, with a name but no
  level the regulator is not used. The interface of the platform and of the board agree, and the
  delays have their defaults 0x30 and 0x10.
\<close>

theorem dt_config_result:
  "case stmmac_probe_config_dt e flags (Some np) pl b w of
     None \<Rightarrow> \<exists>s. dt_string np ''pmu_regulator'' = Some s \<and> 32 \<le> length s
   | Some (ret, mac, pl', b', w') \<Rightarrow>
       ret = 0 \<and> regulator_fits np
       \<and> power_ctrl_by_pmu b' = (dt_u32 np ''pmu_enable_level'' \<noteq> None)
       \<and> pmu_regulator b' = (case dt_string np ''pmu_regulator'' of None \<Rightarrow> pmu_regulator b | Some s \<Rightarrow> s)
       \<and> phy_iface b' = word_of_int (dt_phy_mode np) \<and> cp_interface pl' = phy_iface b'
       \<and> cp_bsp pl' \<and> cp_init pl' = Pltfr_init \<and> has_phy_power_on b' \<and> has_gmac_clk_enable b'
       \<and> tx_delay b' = (case dt_u32 np ''tx_delay'' of None \<Rightarrow> 48 | Some v \<Rightarrow> sint v)
       \<and> rx_delay b' = (case dt_u32 np ''rx_delay'' of None \<Rightarrow> 16 | Some v \<Rightarrow> sint v)
       \<and> cp_phy_addr pl' = cp_phy_addr pl"
proof (cases "stmmac_probe_config_dt e flags (Some np) pl b w")
  case None
  then have "\<not> regulator_fits np" by (simp add: config_dt_None)
  then show ?thesis unfolding None option.case by (auto simp: regulator_fits_def split: option.splits)
next
  case (Some r)
  obtain ret mac pl' b' w' where r: "r = (ret, mac, pl', b', w')" by (metis prod_cases5)
  have "regulator_fits np" using config_dt_None [of e flags np pl b w] Some by simp
  then show ?thesis
    unfolding Some r option.case prod.case using config_dt_Some [OF Some [unfolded r]]
    by (auto simp: regulator_fits_def split: option.splits)
qed

section \<open>Probe\<close>

lemma gmac_clk_init_keeps:
  assumes "gmac_clk_init e b w = (r, b', w')"
  shows "has_phy_power_on b' = has_phy_power_on b" "has_gmac_clk_enable b' = has_gmac_clk_enable b" "\<not> clk_enabled b'"
    "phy_iface b' = phy_iface b"
  using assms by (auto simp: gmac_clk_init_def Let_def case_prod_unfold)

lemma mdio_register_keeps:
  assumes "stmmac_mdio_register e phys n w = Some (r, n', w')"
  shows "cn_macaddr n' = cn_macaddr n \<and> cn_hw n' = cn_hw n \<and> cn_irq_num n' = cn_irq_num n \<and> cn_ioaddr n' = cn_ioaddr n"
  using assms
  by (auto simp: stmmac_mdio_register_def Let_def case_prod_unfold split: option.splits if_splits bind_splits)

lemma net_power_on_clocks:
  assumes "net_power_on e n b w = (b', w')" and "cn_plat n = Some pl" and "cp_bsp pl" and "has_gmac_clk_enable b"
  shows "clk_enabled b'" "live_clks b' = live_clks b"
  using assms by (auto simp: net_power_on_def gmac_clk_enable_def Let_def split: if_splits)

lemma net_open_result:
  assumes "net_open e phys n b w = Some (r, n', b', w')" and "cn_hw n = Some h" and "hw_mac h = dwmac1000_ops kl"
    and "length (cn_macaddr n) = 6" and "cn_plat n = Some pl" and "cp_bsp pl" and "has_gmac_clk_enable b"
  shows "cn_macaddr n' = char_addr \<and> cn_hw n' = Some h \<and> clk_enabled b' \<and> live_clks b' = live_clks b
    \<and> cn_irq_num n' = cn_irq_num n \<and> cn_ioaddr n' = cn_ioaddr n"
proof -
  obtain b1 w1 where p: "net_power_on e n b w = (b1, w1)" by fastforce
  note c = net_power_on_clocks [OF p assms(5-7)]
  have s: "setMacAddr e (Some char_addr) n w1 = Some (0, n\<lparr>cn_macaddr := char_addr\<rparr>,
      dwmac1000_set_umac_addr e (cn_ioaddr n) char_addr 0 w1)"
    using setMacAddr_dwmac1000 [OF assms(2, 3), of char_addr] assms(4) by (simp add: char_addr_def)
  from assms(1) p s c assms(2) show ?thesis
    by (auto simp: net_open_def getMacAddr_def Let_def case_prod_unfold split: if_splits bind_splits dest!: mdio_register_keeps)
qed

lemma probe_plat_dt:
  assumes "probe_plat e flags pd b w = Some (Inr plo, b', w')" and "pd_of_node pd = Some np"
  shows "\<exists>pl. plo = Some pl \<and> cp_bsp pl \<and> cp_init pl = Pltfr_init \<and> has_gmac_clk_enable b' \<and> has_phy_power_on b'
    \<and> phy_iface b' = word_of_int (dt_phy_mode np)"
proof -
  obtain w1 ret mac pl where c: "stmmac_probe_config_dt e flags (Some np) zero_cplat b w1 = Some (ret, mac, pl, b', w')"
    and p: "plo = Some pl"
    using assms by (auto simp: probe_plat_def Let_def case_prod_unfold split: if_splits bind_splits)
  show ?thesis using config_dt_Some [OF c] p by simp
qed

lemma gmac_init_table:
  assumes "gmac_init kl e a w = (Some h, w')"
  shows "hw_mac h = dwmac1000_ops kl"
  using assms by (auto simp: gmac_init_def dwmac1000_setup_def Let_def case_prod_unfold split: if_splits)

text \<open>The part of the probe from the clocks on, once the interrupt is known.\<close>

lemma probe_start_open:
  assumes "probe_start kl vlan e phys pl n b w = Some (0, n', b', w')"
  obtains h r b1 w0 w1 irq n1 where "snd (gmac_clk_init e b w) = (b1, w0)"
    "n1 = n\<lparr>cn_plat := Some pl, cn_irq_num := irq, cn_hw := Some h\<rparr>" "irq \<noteq> - ENXIO"
    "hw_mac h = dwmac1000_ops kl" "hw_desc h = Some (ndesc_ops vlan)" "net_open e phys n1 b1 w1 = Some (r, n', b', w')"
    "w1 = kdo e ''platform_set_drvdata'' [S ''net_priv.device'']
       (snd (gmac_init kl e (cn_ioaddr n) (kdo e ''platform_get_irq_byname'' [S ''macirq''] w0)))"
proof -
  obtain b1 w0 where c: "snd (gmac_clk_init e b w) = (b1, w0)" by fastforce
  let ?irq = "kval e ''platform_get_irq_byname'' [S ''macirq''] w0"
  let ?w = "kdo e ''platform_get_irq_byname'' [S ''macirq''] w0"
  obtain m w2 where g: "gmac_init kl e (cn_ioaddr n) ?w = (m, w2)" by fastforce
  have i: "?irq \<noteq> - ENXIO" using assms c by (auto simp: probe_start_def Let_def case_prod_unfold kcall_eq ENXIO_def)
  then obtain h where m: "m = Some h"
    using assms c g by (cases m) (auto simp: probe_start_def Let_def case_prod_unfold kcall_eq char_net_get_synopsys_id_def)
  have t: "hw_mac h = dwmac1000_ops kl" using gmac_init_table [OF g [unfolded m]] .
  from assms c g m i obtain r where
    "net_open e phys (n\<lparr>cn_plat := Some pl, cn_irq_num := ?irq, cn_hw := Some (h\<lparr>hw_desc := Some (ndesc_ops vlan)\<rparr>)\<rparr>) b1
      (kdo e ''platform_set_drvdata'' [S ''net_priv.device''] w2) = Some (r, n', b', w')"
    by (auto simp: probe_start_def Let_def case_prod_unfold kcall_eq char_net_get_synopsys_id_def split: bind_splits)
  from that [OF c refl i _ _ this] t g show thesis by simp
qed

lemma probe_success:
  assumes "char_net_probe kl vlan g e flags phys pd n b w = Some (0, n', b', w')"
  obtains addr res b0 w0 w1 pl where
    "probe_plat e flags pd b (kdo e ''platform_get_irq'' [I 0] w0) = Some (Inr (Some pl), b0, w1)"
    "w0 = kdo e ''devm_ioremap_resource'' [I res] (kdo e ''platform_get_resource'' [] w)"
    "fst (plat_init g e pl b0 w1) = 0"
    "probe_start kl vlan e phys pl (n\<lparr>cn_ioaddr := word_of_int addr\<rparr>) b0 (snd (plat_init g e pl b0 w1)) = Some (0, n', b', w')"
proof -
  let ?w1 = "kdo e ''platform_get_resource'' [] w"
  let ?res = "kval e ''platform_get_resource'' [] w"
  let ?addr = "kval e ''devm_ioremap_resource'' [I ?res] ?w1" and ?w2 = "kdo e ''devm_ioremap_resource'' [I ?res] ?w1"
  have a: "?res \<noteq> 0" "\<not> IS_ERR ?addr"
    using assms by (auto simp: char_net_probe_def Let_def case_prod_unfold kcall_eq ENODEV_def IS_ERR_def split: if_splits)
  obtain q b0 w3 where p: "probe_plat e flags pd b (kdo e ''platform_get_irq'' [I 0] ?w2) = Some (q, b0, w3)"
    using assms a by (auto simp: char_net_probe_def Let_def case_prod_unfold kcall_eq split: bind_splits)
  have l: "probe_plat e flags pd b v \<noteq> Some (Inl 0, x, y)" for v x y
    by (auto simp: probe_plat_def Let_def case_prod_unfold ENOMEM_def split: option.splits if_splits bind_splits)
  obtain pl where q: "q = Inr (Some pl)"
    using assms a p l by (auto simp: char_net_probe_def Let_def case_prod_unfold kcall_eq split: sum.splits bind_splits)
  show thesis
    using assms a p q by (intro that [OF _ refl]) (auto simp: char_net_probe_def Let_def case_prod_unfold kcall_eq split: if_splits)
qed

text \<open>A kernel that finds what the probe asks for; nothing is said of the bus.\<close>

definition probe_friendly :: "'w env \<Rightarrow> bool" where
  "probe_friendly e \<longleftrightarrow> (\<forall>v. kval e ''platform_get_resource'' [] v \<noteq> 0)
     \<and> (\<forall>r v. \<not> IS_ERR (kval e ''devm_ioremap_resource'' [I r] v))
     \<and> (\<forall>v. kval e ''devm_kzalloc'' [S ''plat_stmmacenet_data''] v \<noteq> 0)
     \<and> (\<forall>v. kval e ''platform_get_irq_byname'' [S ''macirq''] v \<noteq> - ENXIO)
     \<and> (\<forall>v. kval e ''kzalloc'' [S ''mac_device_info''] v \<noteq> 0)"

definition phys_fit :: "int option list \<Rightarrow> bool" where
  "phys_fit phys \<longleftrightarrow> (\<forall>irq. Some irq \<in> set phys \<longrightarrow> irq_str_fits irq)"

lemma mdio_scan_total:
  assumes "phys_fit phys" and "md_probed_phy_irq d = 0"
  shows "mdio_scan d addr phys st \<noteq> None"
  using assms(1)
proof (induction phys arbitrary: addr st)
  case (Cons phy phys)
  obtain f pl l where st: "st = (f, pl, l)" by (metis prod_cases3)
  have "phys_fit phys" using Cons.prems by (simp add: phys_fit_def)
  moreover have "mdio_take d addr irq (pl, l) \<noteq> None" if "phy = Some irq" for irq
    using Cons.prems that assms(2) by (simp add: mdio_take_def phys_fit_def Let_def)
  ultimately show ?case using Cons.IH by (auto simp: st split: option.split)
qed simp

lemma mdio_register_total:
  assumes "phys_fit phys" and "cn_plat n = Some pl"
    and "\<And>d. cp_mdio_bus_data pl = Some d \<Longrightarrow> md_probed_phy_irq d = 0"
  shows "stmmac_mdio_register e phys n w \<noteq> None"
proof (cases "cp_mdio_bus_data pl")
  case (Some d)
  obtain f q l where "mdio_scan d 0 phys (False, pl, case md_irqs d of Some l \<Rightarrow> l | None \<Rightarrow> cn_mii_irq n) = Some (f, q, l)"
    using mdio_scan_total [OF assms(1) assms(3) [OF Some]] by (metis not_Some_eq prod_cases3)
  then show ?thesis using Some assms(2) by (simp add: stmmac_mdio_register_def Let_def case_prod_unfold split: option.split)
qed (simp add: stmmac_mdio_register_def assms(2))

lemma net_open_total:
  assumes "phys_fit phys" and "cn_plat n = Some pl" and "\<And>d. cp_mdio_bus_data pl = Some d \<Longrightarrow> md_probed_phy_irq d = 0"
    and "cn_hw n = Some h" and "hw_mac h = dwmac1000_ops kl" and "length (cn_macaddr n) = 6"
  shows "net_open e phys n b w \<noteq> None"
proof -
  have r: "stmmac_mdio_register e phys (n\<lparr>cn_macaddr := char_addr\<rparr>) v \<noteq> None" for v
    using assms(1-3) by (intro mdio_register_total) simp_all
  have s: "setMacAddr e (Some char_addr) n v = Some (0, n\<lparr>cn_macaddr := char_addr\<rparr>,
      dwmac1000_set_umac_addr e (cn_ioaddr n) char_addr 0 v)" for v
    using setMacAddr_dwmac1000 [OF assms(4, 5), of char_addr] assms(6) by (simp add: char_addr_def)
  show ?thesis
    using r assms(4) by (auto simp: net_open_def s getMacAddr_def Let_def case_prod_unfold split: bind_splits)
qed

lemma config_dt_bus_data:
  assumes "stmmac_probe_config_dt e flags (Some np) pl b w = Some (ret, mac, pl', b', w')" and "cp_mdio_bus_data pl' = Some d"
  shows "md_probed_phy_irq d = 0"
  using assms
  by (auto simp: stmmac_probe_config_dt_def Let_def case_prod_unfold zero_mdio_bus_data_def doif_def split: if_splits bind_splits)

lemma probe_start_returns:
  assumes "probe_friendly e" and "phys_fit phys" and "\<And>d. cp_mdio_bus_data pl = Some d \<Longrightarrow> md_probed_phy_irq d = 0"
    and "length (cn_macaddr n) = 6"
  shows "\<exists>n' b' w'. probe_start kl vlan e phys pl n b w = Some (0, n', b', w')"
proof -
  obtain b1 w0 where c: "snd (gmac_clk_init e b w) = (b1, w0)" by fastforce
  let ?irq = "kval e ''platform_get_irq_byname'' [S ''macirq''] w0"
  obtain m w2 where g: "gmac_init kl e (cn_ioaddr n) (kdo e ''platform_get_irq_byname'' [S ''macirq''] w0) = (m, w2)"
    by fastforce
  obtain h where m: "m = Some h"
    using g assms(1) by (cases m) (auto simp: gmac_init_def dwmac1000_setup_def readl_eq kcall_eq probe_friendly_def Let_def)
  let ?n = "n\<lparr>cn_plat := Some pl, cn_irq_num := ?irq, cn_hw := Some (h\<lparr>hw_desc := Some (ndesc_ops vlan)\<rparr>)\<rparr>"
  have "net_open e phys ?n b1 (kdo e ''platform_set_drvdata'' [S ''net_priv.device''] w2) \<noteq> None"
    using assms(2-4) gmac_init_table [OF g [unfolded m]]
    by (intro net_open_total [of phys ?n pl "h\<lparr>hw_desc := Some (ndesc_ops vlan)\<rparr>" kl]) simp_all
  then show ?thesis
    using c g m assms(1)
    by (auto simp: probe_start_def Let_def case_prod_unfold kcall_eq char_net_get_synopsys_id_def probe_friendly_def split: bind_splits)
qed

text \<open>A node of the device tree, and a kernel that gives every object an address.\<close>

definition bench_node :: dt_node where
  "bench_node = \<lparr>dt_mac = None, dt_phy_mode = uint PHY_INTERFACE_MODE_RMII, dt_string = (\<lambda>_. None), dt_u32 = (\<lambda>_. None),
     dt_gpio = (\<lambda>_. (4, Some 0)), dt_compatible = (\<lambda>c. c = ''rockchip,rk3288-gmac'')\<rparr>"

definition bench_alloc :: "kcall \<Rightarrow> int" where
  "bench_alloc c = (case c of K n as \<Rightarrow> if n = ''mdiobus_register'' then 0 else 0x7000)"

lemma char_net_probe_total:
  assumes "probe_friendly e" and "phys_fit phys" and "pd_of_node pd = Some np" and "regulator_fits np"
    and "length (cn_macaddr n) = 6"
  shows "\<exists>n' b' w'. char_net_probe kl vlan g e flags phys pd n b w = Some (0, n', b', w')"
proof -
  have c: "stmmac_probe_config_dt e flags (Some np) zero_cplat b v \<noteq> None" for v using assms(4) by (simp add: config_dt_None)
  have "\<exists>pl b1 w1. probe_plat e flags pd b v = Some (Inr (Some pl), b1, w1) \<and> cp_init pl = Pltfr_init
      \<and> (\<forall>d. cp_mdio_bus_data pl = Some d \<longrightarrow> md_probed_phy_irq d = 0)" for v
  proof -
    let ?v = "kdo e ''devm_kzalloc'' [S ''plat_stmmacenet_data''] v"
    obtain ret mac pl b1 w1 where r: "stmmac_probe_config_dt e flags (Some np) zero_cplat b ?v = Some (ret, mac, pl, b1, w1)"
      using c by (metis not_Some_eq prod_cases5)
    then show ?thesis
      using config_dt_Some [OF r] config_dt_bus_data [OF r] assms(1, 3)
      by (simp add: probe_plat_def kcall_eq probe_friendly_def)
  qed
  moreover have "fst (plat_init g e pl b1 w1) = 0" if "cp_init pl = Pltfr_init" for pl b1 w1
    using that by (simp add: plat_init_def stmmc_pltfr_init_def Let_def)
  moreover define w0 where "w0 = kdo e ''devm_ioremap_resource'' [I (kval e ''platform_get_resource'' [] w)] (kdo e ''platform_get_resource'' [] w)"
  ultimately obtain pl b1 w1 where p: "probe_plat e flags pd b (kdo e ''platform_get_irq'' [I 0] w0) = Some (Inr (Some pl), b1, w1)"
    and i: "fst (plat_init g e pl b1 w1) = 0" and d: "\<And>d. cp_mdio_bus_data pl = Some d \<Longrightarrow> md_probed_phy_irq d = 0" by metis
  have "\<exists>n' b' w'. probe_start kl vlan e phys pl (n\<lparr>cn_ioaddr := a\<rparr>) b1 v = Some (0, n', b', w')" for a v
    using assms(5) by (intro probe_start_returns [OF assms(1, 2) d]) simp_all
  with p i assms(1) show ?thesis
    by (simp add: char_net_probe_def kcall_eq probe_friendly_def case_prod_unfold w0_def [symmetric])
qed

text \<open>
  Property C15. Where the kernel finds the device, its memory and its interrupt, the name of the
  regulator fits and the interrupts of the PHYs do, the probe neither crashes nor fails: it returns
  0 whatever the registration of the bus does, since the result of \<open>net_open\<close> is dropped.
\<close>

theorem char_net_probe_returns:
  assumes "probe_friendly e" and "phys_fit phys" and "pd_of_node pd = Some np" and "regulator_fits np"
    and "length (cn_macaddr n) = 6"
  shows "\<exists>n' b' w'. char_net_probe kl vlan g e flags phys pd n b w = Some (0, n', b', w')"
  by (rule char_net_probe_total [OF assms])

lemma bench_probe_conditions:
  "probe_friendly (bench_env bench_alloc)" "phys_fit [None, Some PHY_POLL]" "regulator_fits bench_node"
  "length (cn_macaddr bench_net) = 6"
  by (simp_all add: probe_friendly_def bench_alloc_def IS_ERR_def ENXIO_def phys_fit_def irq_str_fits_def regulator_fits_def
      bench_node_def bench_net_def)

theorem char_net_probe_returns_witness:
  "\<exists>n' b' w'. char_net_probe bench_crc False \<lparr>SOC_CON1 = 0x248, SOC_CON3 = 0x254\<rparr> (bench_env bench_alloc) 0 [None, Some PHY_POLL]
      \<lparr>pd_of_node = Some bench_node, pd_platform_data = None\<rparr> bench_net bench_bsp bench0 = Some (0, n', b', w')"
  by (rule char_net_probe_returns [OF bench_probe_conditions(1, 2) _ bench_probe_conditions(3, 4)]) simp

text \<open>
  Property C14. When the probe of a device of the device tree returns 0, the core is a GMAC with the
  normal descriptors, the address of the driver is 11:22:33:44:55:66, the interrupt of the MAC was
  found, and the clocks of the board are on.
\<close>

theorem char_net_probe_result:
  assumes "char_net_probe kl vlan g e flags phys pd n b w = Some (0, n', b', w')"
    and "pd_of_node pd = Some np" and "length (cn_macaddr n) = 6"
  shows "(\<exists>h. cn_hw n' = Some h \<and> hw_mac h = dwmac1000_ops kl \<and> hw_desc h = Some (ndesc_ops vlan))
    \<and> cn_macaddr n' = [0x11, 0x22, 0x33, 0x44, 0x55, 0x66] \<and> cn_irq_num n' \<noteq> - ENXIO \<and> clk_enabled b'"
proof -
  from assms(1) obtain addr b0 w0 w1 pl w2 where p: "probe_plat e flags pd b w0 = Some (Inr (Some pl), b0, w1)"
    and s: "probe_start kl vlan e phys pl (n\<lparr>cn_ioaddr := addr\<rparr>) b0 w2 = Some (0, n', b', w')"
    by (rule probe_success) blast
  from probe_plat_dt [OF p assms(2)] have pl: "cp_bsp pl" "has_gmac_clk_enable b0" by auto
  from s obtain h r b1 w3 w4 irq n1 where c: "snd (gmac_clk_init e b0 w2) = (b1, w3)"
    and n1: "n1 = (n\<lparr>cn_ioaddr := addr\<rparr>)\<lparr>cn_plat := Some pl, cn_irq_num := irq, cn_hw := Some h\<rparr>" "irq \<noteq> - ENXIO"
    and h: "hw_mac h = dwmac1000_ops kl" "hw_desc h = Some (ndesc_ops vlan)"
    and o: "net_open e phys n1 b1 w4 = Some (r, n', b', w')" by (rule probe_start_open)
  have "has_gmac_clk_enable b1" using gmac_clk_init_keeps [of e b0 w2] c pl(2) by (metis prod.collapse)
  from net_open_result [OF o _ h(1) _ _ pl(1) this] show ?thesis
    using n1 h assms(3) by (auto simp: char_addr_def)
qed

theorem char_net_probe_result_witness:
  "\<exists>n' b' w'. char_net_probe bench_crc False \<lparr>SOC_CON1 = 0x248, SOC_CON3 = 0x254\<rparr> (bench_env bench_alloc) 0 [None, Some PHY_POLL]
      \<lparr>pd_of_node = Some bench_node, pd_platform_data = None\<rparr> bench_net bench_bsp bench0 = Some (0, n', b', w')
    \<and> cn_macaddr n' = [0x11, 0x22, 0x33, 0x44, 0x55, 0x66] \<and> clk_enabled b'"
proof -
  let ?p = "char_net_probe bench_crc False \<lparr>SOC_CON1 = 0x248, SOC_CON3 = 0x254\<rparr> (bench_env bench_alloc) 0 [None, Some PHY_POLL]
      \<lparr>pd_of_node = Some bench_node, pd_platform_data = None\<rparr> bench_net bench_bsp bench0"
  have "\<exists>n' b' w'. ?p = Some (0, n', b', w')"
    by (rule char_net_probe_total [OF bench_probe_conditions(1, 2) _ bench_probe_conditions(3, 4)]) simp
  then obtain n' b' w' where r: "?p = Some (0, n', b', w')" by blast
  from char_net_probe_result [OF r, of bench_node] r show ?thesis using bench_probe_conditions(4) by simp
qed

section \<open>Remove\<close>

lemma clk_uses_upd [simp]:
  "clk_uses c (w\<lparr>b_calls := K n as # cs\<rparr>) = clk_uses c (w\<lparr>b_calls := cs\<rparr>)
     + (if n = ''clk_prepare_enable'' \<and> as = [I c] then 1 else 0) - (if n = ''clk_disable_unprepare'' \<and> as = [I c] then 1 else 0)"
  "clk_uses c (w\<lparr>b_calls := b_calls v\<rparr>) = clk_uses c v"
  "clk_uses c (w\<lparr>b_regs := r\<rparr>) = clk_uses c w"
  by (auto simp: clk_uses_def)

text \<open>The operations that make no clock call.\<close>

lemma clk_uses_gmac_clk_init: "gmac_clk_init (bench_env ans) b w = (r, b', w') \<Longrightarrow> clk_uses c w' = clk_uses c w"
  by (auto simp: gmac_clk_init_def Let_def doif_def)

lemma clk_uses_pltfr_init: "clk_uses c (snd (stmmc_pltfr_init g (bench_env ans) b w)) = clk_uses c w"
  by (simp add: stmmc_pltfr_init_def gpio_claim_def SET_RGMII_def SET_RMII_def grf_writel_def Let_def doif_def)

lemma clk_uses_phy_power: "clk_uses c (snd (phy_power_on (bench_env ans) on b w)) = clk_uses c w"
  by (simp add: phy_power_on_def power_on_by_gpio_def power_on_by_pmu_def gpio_out_def Let_def doif_def)

lemma clk_uses_mdio_register:
  "stmmac_mdio_register (bench_env ans) phys n w = Some (r, n', w') \<Longrightarrow> clk_uses c w' = clk_uses c w"
  by (auto simp: stmmac_mdio_register_def Let_def split: option.splits if_splits bind_splits)

lemma clk_uses_gmac_init: "gmac_init kl (bench_env ans) a w = (h, w') \<Longrightarrow> clk_uses c w' = clk_uses c w"
  by (auto simp: gmac_init_def dwmac1000_setup_def Let_def split: if_splits)

lemma clk_uses_config_dt:
  "stmmac_probe_config_dt (bench_env ans) flags (Some np) pl b w = Some (r, mac, pl', b', w') \<Longrightarrow> clk_uses c w' = clk_uses c w"
  by (auto simp: stmmac_probe_config_dt_def Let_def split: bind_splits)

lemma clk_uses_net_open:
  assumes "net_open (bench_env ans) phys n b w = Some (r, n', b', w')" and "cn_plat n = Some pl" and "cp_bsp pl"
    and "has_gmac_clk_enable b" and "\<not> clk_enabled b" and "cn_hw n = Some h" and "hw_mac h = dwmac1000_ops kl"
    and "length (cn_macaddr n) = 6"
  shows "clk_uses c w' = clk_uses c w + int (count_list (live_clks b') c)"
proof -
  let ?e = "bench_env ans"
  obtain b1 w1 where p: "net_power_on ?e n b w = (b1, w1)" by fastforce
  obtain v where v: "snd (gmac_clk_enable ?e True b v) = (b1, w1)" and u: "clk_uses c v = clk_uses c w"
    using p assms(2-4) by (auto simp: net_power_on_def doif_def clk_uses_phy_power split: if_splits)
  have k: "clk_uses c w1 = clk_uses c w + int (count_list (live_clks b1) c)"
    using gmac_gate.balance [of c ans True b v] gmac_gate.switched [of ans True b v] v u assms(5) by (simp add: clk_held_def)
  have s: "setMacAddr ?e (Some char_addr) n w1 = Some (0, n\<lparr>cn_macaddr := char_addr\<rparr>,
      dwmac1000_set_umac_addr ?e (cn_ioaddr n) char_addr 0 w1)"
    using setMacAddr_dwmac1000 [OF assms(6, 7), of char_addr] assms(8) by (simp add: char_addr_def)
  obtain n2 w2 r2 where m: "stmmac_mdio_register ?e phys (n\<lparr>cn_macaddr := char_addr\<rparr>)
      (dwmac1000_core_init ?e (cn_ioaddr n) (snd (dwmac1000_get_umac_addr ?e (cn_ioaddr n) 0
        (dwmac1000_set_umac_addr ?e (cn_ioaddr n) char_addr 0 w1)))) = Some (r2, n2, w2)" and e: "b' = b1" "w' = w2"
    using assms(1, 6, 7) p s
    by (auto simp: net_open_def getMacAddr_def Let_def case_prod_unfold dwmac1000_ops_def split: if_splits bind_splits)
  show ?thesis
    using clk_uses_mdio_register [OF m, of c] k unfolding e
    by (simp add: dwmac1000_core_init_def dwmac1000_get_umac_addr_def dwmac1000_set_umac_addr_def stmmac_set_mac_addr_def
        stmmac_get_mac_addr_def rmw_def Let_def)
qed

text \<open>
  Property C39. The removal of a probed device gives back the mapping only: every clock the board
  has was enabled once more than it was disabled, and stays so.
\<close>

theorem remove_leaves_clocks_on:
  assumes "char_net_probe kl vlan g (bench_env ans) flags phys pd n b w = Some (0, n', b', w')"
    and "pd_of_node pd = Some np" and "length (cn_macaddr n) = 6"
  shows "clk_uses c (snd (char_net_remove (bench_env ans) n' w')) = clk_uses c w + int (count_list (live_clks b') c)"
proof -
  let ?e = "bench_env ans"
  from assms(1) obtain addr res b0 w0 w1 pl where
    p: "probe_plat ?e flags pd b (kdo ?e ''platform_get_irq'' [I 0] w0) = Some (Inr (Some pl), b0, w1)"
    and w0: "w0 = kdo ?e ''devm_ioremap_resource'' [I res] (kdo ?e ''platform_get_resource'' [] w)"
    and s: "probe_start kl vlan ?e phys pl (n\<lparr>cn_ioaddr := word_of_int addr\<rparr>) b0 (snd (plat_init g ?e pl b0 w1)) = Some (0, n', b', w')"
    by (rule probe_success) blast
  from probe_plat_dt [OF p assms(2)] have pl: "cp_bsp pl" "cp_init pl = Pltfr_init" "has_gmac_clk_enable b0" by auto
  have u1: "clk_uses c (snd (plat_init g ?e pl b0 w1)) = clk_uses c w"
    using p assms(2) pl(2) w0
    by (auto simp: probe_plat_def plat_init_def clk_uses_pltfr_init dest!: clk_uses_config_dt [where c = c] split: if_splits bind_splits)
  from s obtain h r b1 w3 w4 irq n1 where cl: "snd (gmac_clk_init ?e b0 (snd (plat_init g ?e pl b0 w1))) = (b1, w3)"
    and n1: "n1 = (n\<lparr>cn_ioaddr := word_of_int addr\<rparr>)\<lparr>cn_plat := Some pl, cn_irq_num := irq, cn_hw := Some h\<rparr>"
    and h: "hw_mac h = dwmac1000_ops kl" and o: "net_open ?e phys n1 b1 w4 = Some (r, n', b', w')"
    and w4: "w4 = kdo ?e ''platform_set_drvdata'' [S ''net_priv.device'']
      (snd (gmac_init kl ?e (cn_ioaddr (n\<lparr>cn_ioaddr := word_of_int addr\<rparr>)) (kdo ?e ''platform_get_irq_byname'' [S ''macirq''] w3)))"
    by (rule probe_start_open)
  have u4: "clk_uses c w4 = clk_uses c w3"
    using clk_uses_gmac_init [of kl ans "word_of_int addr" "kdo ?e ''platform_get_irq_byname'' [S ''macirq''] w3" _ _ c]
    by (simp add: w4 prod_eq_iff)
  have "gmac_clk_init ?e b0 (snd (plat_init g ?e pl b0 w1)) = (fst (gmac_clk_init ?e b0 (snd (plat_init g ?e pl b0 w1))), b1, w3)"
    using cl by (simp add: prod_eq_iff)
  note i = gmac_clk_init_keeps [OF this] clk_uses_gmac_clk_init [OF this, of c]
  have "clk_uses c w' = clk_uses c w4 + int (count_list (live_clks b') c)"
    using i pl n1 h assms(3) by (intro clk_uses_net_open [OF o]) simp_all
  then show ?thesis using i u1 u4 by (simp add: char_net_remove_def)
qed

theorem remove_leaves_clocks_on_witness:
  "\<exists>n' b' w'. char_net_probe bench_crc False \<lparr>SOC_CON1 = 0x248, SOC_CON3 = 0x254\<rparr> (bench_env bench_alloc) 0 [None, Some PHY_POLL]
      \<lparr>pd_of_node = Some bench_node, pd_platform_data = None\<rparr> bench_net bench_bsp bench0 = Some (0, n', b', w')
    \<and> clk_uses 0x7000 (snd (char_net_remove (bench_env bench_alloc) n' w')) = clk_uses 0x7000 bench0 + int (count_list (live_clks b') 0x7000)"
proof -
  let ?p = "char_net_probe bench_crc False \<lparr>SOC_CON1 = 0x248, SOC_CON3 = 0x254\<rparr> (bench_env bench_alloc) 0 [None, Some PHY_POLL]
      \<lparr>pd_of_node = Some bench_node, pd_platform_data = None\<rparr> bench_net bench_bsp bench0"
  have "\<exists>n' b' w'. ?p = Some (0, n', b', w')"
    by (rule char_net_probe_total [OF bench_probe_conditions(1, 2) _ bench_probe_conditions(3, 4)]) simp
  then obtain n' b' w' where r: "?p = Some (0, n', b', w')" by blast
  from remove_leaves_clocks_on [OF r, where np = bench_node and c = "0x7000"] r show ?thesis using bench_probe_conditions(4) by simp
qed

end
