(* ===== verification/Stmmac_Platform.thy ===== *)
theory Stmmac_Platform
  imports Stmmac_Lifecycle Char_Net
begin

text \<open>
  The platform part of the network driver, \<open>stmmac_platform.c\<close>. It has its own copies of the board
  functions of \<open>gmac_ctrl.c\<close>, with the chip as an argument, and of the reading of the device tree; they
  are translated here once more, under names with the prefix \<open>pltfr_\<close>. The static object
  \<open>g_bsp_priv\<close> is passed through as \<open>b\<close>. The callbacks this file gives to \<open>stmmac_main.c\<close> act on the
  world, so there it is kept in the world, behind a pair of access functions.
\<close>

section \<open>Interface and speed, by chip\<close>

text \<open>The branches of the chip RK312X are commented out.\<close>

definition pltfr_SET_RGMII :: "grf \<Rightarrow> 'w env \<Rightarrow> int \<Rightarrow> int \<Rightarrow> int \<Rightarrow> 'w \<Rightarrow> 'w" where
  "pltfr_SET_RGMII g e type txd rxd w =
     (if type = RK3288_GMAC then
        fold (\<lambda>(v, a). grf_writel e v a)
          [(GMAC_PHY_INTF_SEL_RGMII, SOC_CON1 g), (GMAC_RMII_MODE_CLR, SOC_CON1 g),
           (GMAC_RXCLK_DLY_ENABLE, SOC_CON3 g), (GMAC_TXCLK_DLY_ENABLE, SOC_CON3 g),
           (GMAC_CLK_RX_DL_CFG rxd, SOC_CON3 g), (GMAC_CLK_TX_DL_CFG txd, SOC_CON3 g)] w
      else w)"

definition pltfr_SET_RMII :: "grf \<Rightarrow> 'w env \<Rightarrow> int \<Rightarrow> 'w \<Rightarrow> 'w" where
  "pltfr_SET_RMII g e type w =
     (if type = RK3288_GMAC then
        fold (\<lambda>(v, a). grf_writel e v a) [(GMAC_PHY_INTF_SEL_RMII, SOC_CON1 g), (GMAC_RMII_MODE, SOC_CON1 g)] w
      else w)"

definition pltfr_SET_RGMII_10M :: "grf \<Rightarrow> 'w env \<Rightarrow> int \<Rightarrow> 'w \<Rightarrow> 'w" where
  "pltfr_SET_RGMII_10M g e type w = (if type = RK3288_GMAC then grf_writel e GMAC_CLK_2_5M (SOC_CON1 g) w else w)"

definition pltfr_SET_RGMII_100M :: "grf \<Rightarrow> 'w env \<Rightarrow> int \<Rightarrow> 'w \<Rightarrow> 'w" where
  "pltfr_SET_RGMII_100M g e type w = (if type = RK3288_GMAC then grf_writel e GMAC_CLK_25M (SOC_CON1 g) w else w)"

definition pltfr_SET_RGMII_1000M :: "grf \<Rightarrow> 'w env \<Rightarrow> int \<Rightarrow> 'w \<Rightarrow> 'w" where
  "pltfr_SET_RGMII_1000M g e type w = (if type = RK3288_GMAC then grf_writel e GMAC_CLK_125M (SOC_CON1 g) w else w)"

definition pltfr_SET_RMII_10M :: "grf \<Rightarrow> 'w env \<Rightarrow> int \<Rightarrow> 'w \<Rightarrow> 'w" where
  "pltfr_SET_RMII_10M g e type w =
     (if type = RK3288_GMAC then
        fold (\<lambda>(v, a). grf_writel e v a) [(GMAC_RMII_CLK_2_5M, SOC_CON1 g), (GMAC_SPEED_10M, SOC_CON1 g)] w
      else w)"

definition pltfr_SET_RMII_100M :: "grf \<Rightarrow> 'w env \<Rightarrow> int \<Rightarrow> 'w \<Rightarrow> 'w" where
  "pltfr_SET_RMII_100M g e type w =
     (if type = RK3288_GMAC then
        fold (\<lambda>(v, a). grf_writel e v a) [(GMAC_RMII_CLK_25M, SOC_CON1 g), (GMAC_SPEED_100M, SOC_CON1 g)] w
      else w)"

text \<open>
  Without the pointer \<open>interface\<close> is the value the stack held, here \<open>junk\<close>, and the chip is read
  through \<open>NULL\<close> where a speed is known.
\<close>

definition pltfr_fix_mac_speed :: "grf \<Rightarrow> 'w env \<Rightarrow> u32 \<Rightarrow> bsp_priv option \<Rightarrow> u32 \<Rightarrow> 'w \<Rightarrow> 'w option" where
  "pltfr_fix_mac_speed g e junk priv speed w =
     (let interface = (case priv of Some b \<Rightarrow> phy_iface b | None \<Rightarrow> junk);
          by_chip = (\<lambda>f. map_option (\<lambda>b. f g e (chip b) w) priv)
      in if interface = PHY_INTERFACE_MODE_RGMII then
           (if speed = 10 then by_chip pltfr_SET_RGMII_10M
            else if speed = 100 then by_chip pltfr_SET_RGMII_100M
            else if speed = 1000 then by_chip pltfr_SET_RGMII_1000M
            else Some w)
         else if interface = PHY_INTERFACE_MODE_RMII then
           (if speed = 10 then by_chip pltfr_SET_RMII_10M
            else if speed = 100 then by_chip pltfr_SET_RMII_100M
            else Some w)
         else Some w)"

section \<open>Clocks and power\<close>

text \<open>The rate of \<open>clk_mac\<close> is printed, so the object behind the pointer is read even if there is none.\<close>

definition pltfr_gmac_clk_init :: "'w env \<Rightarrow> bsp_priv \<Rightarrow> 'w \<Rightarrow> (int \<times> bsp_priv \<times> 'w) option" where
  "pltfr_gmac_clk_init e b w =
     (let b = b\<lparr>clk_enabled := False\<rparr>;
          (c, w) = kcall e ''clk_get'' [S ''mac_clk_rx''] w; b = b\<lparr>mac_clk_rx := c\<rparr>;
          (c, w) = kcall e ''clk_get'' [S ''mac_clk_tx''] w; b = b\<lparr>mac_clk_tx := c\<rparr>;
          (c, w) = kcall e ''clk_get'' [S ''clk_mac_ref''] w; b = b\<lparr>clk_mac_ref := c\<rparr>;
          (c, w) = kcall e ''clk_get'' [S ''clk_mac_refout''] w; b = b\<lparr>clk_mac_refout := c\<rparr>;
          (c, w) = kcall e ''clk_get'' [S ''aclk_mac''] w; b = b\<lparr>aclk_mac := c\<rparr>;
          (c, w) = kcall e ''clk_get'' [S ''pclk_mac''] w; b = b\<lparr>pclk_mac := c\<rparr>;
          (c, w) = kcall e ''clk_get'' [S ''clk_mac_pll''] w; b = b\<lparr>clk_mac_pll := c\<rparr>;
          (c, w) = kcall e ''clk_get'' [S ''gmac_clkin''] w; b = b\<lparr>gmac_clkin := c\<rparr>;
          (c, w) = kcall e ''clk_get'' [S ''clk_mac''] w; b = b\<lparr>clk_mac := c\<rparr>
      in if IS_ERR (clk_mac b) \<or> clk_mac b = 0 then None
         else if clock_input b then
           (let w = doif (phy_iface b = PHY_INTERFACE_MODE_RMII) (kdo e ''clk_set_rate'' [I (gmac_clkin b), I 50000000]) w
            in Some (0, b, kdo e ''clk_set_parent'' [I (clk_mac b), I (gmac_clkin b)] w))
         else
           (let w = doif (phy_iface b = PHY_INTERFACE_MODE_RMII) (kdo e ''clk_set_rate'' [I (clk_mac_pll b), I 50000000]) w
            in Some (0, b, kdo e ''clk_set_parent'' [I (clk_mac b), I (clk_mac_pll b)] w)))"

definition pltfr_gmac_clk_enable :: "'w env \<Rightarrow> bool \<Rightarrow> bsp_priv \<Rightarrow> 'w \<Rightarrow> int \<times> bsp_priv \<times> 'w" where
  "pltfr_gmac_clk_enable e enable b w =
     (let rmii = (if phy_iface b = PHY_INTERFACE_MODE_RMII then [mac_clk_rx b, clk_mac_ref b, clk_mac_refout b] else []);
          clks = filter (\<lambda>c. \<not> IS_ERR c) (rmii @ [aclk_mac b, pclk_mac b, mac_clk_tx b, clk_mac b])
      in if enable then
           (if \<not> clk_enabled b then (0, b\<lparr>clk_enabled := True\<rparr>, fold (\<lambda>c. kdo e ''clk_prepare_enable'' [I c]) clks w)
            else (0, b, w))
         else
           (if clk_enabled b then (0, b\<lparr>clk_enabled := False\<rparr>, fold (\<lambda>c. kdo e ''clk_disable_unprepare'' [I c]) clks w)
            else (0, b, w)))"

definition pltfr_power_on_by_pmu :: "'w env \<Rightarrow> bool \<Rightarrow> bsp_priv \<Rightarrow> 'w \<Rightarrow> int \<times> 'w" where
  "pltfr_power_on_by_pmu e enable b w =
     (let (ldo, w) = kcall e ''regulator_get'' [S (pmu_regulator b)] w
      in if ldo = 0 then (0, w)
         else
           (let (on, w) = kcall e ''regulator_is_enabled'' [I ldo] w;
                w = (if enable \<and> on = 0 then
                       (let w = kdo e ''regulator_set_voltage'' [I ldo, I 3300000, I 3300000] w
                        in kdo e ''regulator_enable'' [I ldo] w)
                     else if \<not> enable \<and> on \<noteq> 0 then kdo e ''regulator_disable'' [I ldo] w
                     else w)
            in (0, kdo e ''regulator_put'' [I ldo] w)))"

definition pltfr_power_on_by_gpio :: "'w env \<Rightarrow> bool \<Rightarrow> bsp_priv \<Rightarrow> 'w \<Rightarrow> int \<times> 'w" where
  "pltfr_power_on_by_gpio e enable b w =
     (let (valid, w) = kcall e ''gpio_is_valid'' [I (power_io b)] w;
          level = (if enable then power_io_level b else c_not (power_io_level b))
      in (0, if valid \<noteq> 0 then kdo e ''gpio_direction_output'' [I (power_io b), I level] w else w))"

definition pltfr_phy_power_on :: "'w env \<Rightarrow> bool \<Rightarrow> bsp_priv \<Rightarrow> 'w \<Rightarrow> int \<times> 'w" where
  "pltfr_phy_power_on e enable b w =
     (let (ret, w) = (if power_ctrl_by_pmu b then pltfr_power_on_by_pmu e enable b w else pltfr_power_on_by_gpio e enable b w);
          (valid, w) = kcall e ''gpio_is_valid'' [I (reset_io b)] w;
          w = doif (valid \<noteq> 0) (kdo e ''gpio_direction_output'' [I (reset_io b), I (reset_io_level b)]) w
      in if enable then
           (let w = doif (valid \<noteq> 0) (\<lambda>w.
                      let w = kdo e ''mdelay'' [I 5] w
                      in kdo e ''gpio_direction_output'' [I (reset_io b), I (c_not (reset_io_level b))] w) w
            in (ret, kdo e ''mdelay'' [I 30] w))
         else (ret, w))"

definition pltfr_init :: "grf \<Rightarrow> 'w env \<Rightarrow> bsp_priv \<Rightarrow> 'w \<Rightarrow> int \<times> 'w" where
  "pltfr_init g e b w =
     (let (valid, w) = kcall e ''gpio_is_valid'' [I (power_io b)] w;
          w = doif (valid \<noteq> 0) (kdo e ''gpio_request'' [I (power_io b), S ''gmac_phy_power'']) w;
          (valid, w) = kcall e ''gpio_is_valid'' [I (reset_io b)] w;
          w = doif (valid \<noteq> 0) (kdo e ''gpio_request'' [I (reset_io b), S ''gmac_phy_reset'']) w
      in if phy_iface b = PHY_INTERFACE_MODE_RGMII then (0, pltfr_SET_RGMII g e (chip b) (tx_delay b) (rx_delay b) w)
         else if phy_iface b = PHY_INTERFACE_MODE_RMII then (0, pltfr_SET_RMII g e (chip b) w)
         else (0, w))"

section \<open>The platform data\<close>

text \<open>Where \<open>g_bsp_priv\<close> is in the world.\<close>

record 'w bsp_store =
  bs_get :: "'w \<Rightarrow> bsp_priv"
  bs_put :: "bsp_priv \<Rightarrow> 'w \<Rightarrow> 'w"

text \<open>
  \<open>struct plat_stmmacenet_data\<close>: what \<open>stmmac_main.c\<close> uses of it, the callbacks it does not use, and
  whether \<open>bsp_priv\<close> and \<open>fix_mac_speed\<close> are those of this file; the callbacks of a board file are
  calls of their name.
\<close>

record 'w pltfr_data =
  pf_plat :: "'w plat"
  pf_mdio_bus_data :: "mdio_bus_data option"
  pf_init :: init_callback
  pf_exit :: bool
  pf_own_bsp :: bool
  pf_own_fix_speed :: bool

definition zero_plat :: "'w plat" where
  "zero_plat = \<lparr>pl_phy_bus_name = None, pl_bus_id = 0, pl_phy_addr = 0, pl_interface = 0, pl_has_gmac = False, pl_enh_desc = 0,
     pl_tx_coe = 0, pl_rx_coe = 0, pl_bugged_jumbo = False, pl_pmt = 0, pl_force_sf_dma_mode = False, pl_riwt_off = False,
     pl_clk_csr = 0, pl_dma_cfg = None, pl_bsp = None, pl_fix_mac_speed = None, pl_bus_setup = None\<rparr>"

definition zero_pltfr_data :: "'w pltfr_data" where
  "zero_pltfr_data = \<lparr>pf_plat = zero_plat, pf_mdio_bus_data = None, pf_init = No_init, pf_exit = False, pf_own_bsp = False,
     pf_own_fix_speed = False\<rparr>"

text \<open>The callbacks as \<open>stmmac_main.c\<close> calls them, with \<open>g_bsp_priv\<close> as it then is in the world.\<close>

definition board_callbacks :: "'w bsp_store \<Rightarrow> 'w env \<Rightarrow> 'w \<Rightarrow> 'w bsp" where
  "board_callbacks st e w = \<lparr>
     bsp.phy_power_on = (if has_phy_power_on (bs_get st w) then Some (\<lambda>on w. snd (pltfr_phy_power_on e on (bs_get st w) w)) else None),
     bsp.gmac_clk_enable = (if has_gmac_clk_enable (bs_get st w)
       then Some (\<lambda>on w. let (_, b, w) = pltfr_gmac_clk_enable e on (bs_get st w) w in bs_put st b w) else None),
     bsp_clk_mac = clk_mac (bs_get st w)\<rparr>"

definition board_fix_speed :: "'w bsp_store \<Rightarrow> grf \<Rightarrow> 'w env \<Rightarrow> u32 \<Rightarrow> 'w \<Rightarrow> 'w" where
  "board_fix_speed st g e speed w =
     (case pltfr_fix_mac_speed g e 0 (Some (bs_get st w)) speed w of None \<Rightarrow> w | Some w \<Rightarrow> w)"

definition plat_view :: "'w bsp_store \<Rightarrow> grf \<Rightarrow> 'w env \<Rightarrow> 'w pltfr_data \<Rightarrow> 'w \<Rightarrow> 'w plat" where
  "plat_view st g e d w =
     (let pl = doif (pf_own_bsp d) (pl_bsp_update (\<lambda>_. Some (board_callbacks st e w))) (pf_plat d)
      in doif (pf_own_fix_speed d) (pl_fix_mac_speed_update (\<lambda>_. Some (board_fix_speed st g e))) pl)"

text \<open>
  What reading the device tree makes of the board, and of the platform data. The name of the regulator
  is copied into an array of 32 characters.
\<close>

definition pltfr_dt_board :: "dt_node \<Rightarrow> int \<Rightarrow> bsp_priv \<Rightarrow> bsp_priv option" where
  "pltfr_dt_board np flags b =
     (let name = (case dt_string np ''pmu_regulator'' of None \<Rightarrow> Some (pmu_regulator b)
                  | Some s \<Rightarrow> if length s < 32 then Some s else None);
          level = dt_u32 np ''pmu_enable_level'';
          flags1 = (case snd (dt_gpio np ''reset-gpio'') of None \<Rightarrow> flags | Some f \<Rightarrow> f);
          flags2 = (case snd (dt_gpio np ''power-gpio'') of None \<Rightarrow> flags1 | Some f \<Rightarrow> f)
      in map_option (\<lambda>name. b\<lparr>pmu_regulator := name, power_ctrl_by_pmu := level \<noteq> None,
             pmu_enable_level := (case level of None \<Rightarrow> pmu_enable_level b | Some v \<Rightarrow> sint v),
             clock_input := (case dt_string np ''clock_in_out'' of None \<Rightarrow> True | Some s \<Rightarrow> s = ''input''),
             tx_delay := (case dt_u32 np ''tx_delay'' of None \<Rightarrow> 0x30 | Some v \<Rightarrow> sint v),
             rx_delay := (case dt_u32 np ''rx_delay'' of None \<Rightarrow> 0x10 | Some v \<Rightarrow> sint v),
             reset_io := fst (dt_gpio np ''reset-gpio''), reset_io_level := (if flags1 = GPIO_ACTIVE_HIGH then 1 else 0),
             power_io := fst (dt_gpio np ''power-gpio''), power_io_level := (if flags2 = GPIO_ACTIVE_HIGH then 1 else 0),
             phy_iface := word_of_int (dt_phy_mode np), has_phy_power_on := True, has_gmac_clk_enable := True,
             chip := (if dt_compatible np ''rockchip,rk312x-gmac'' then RK312X_GMAC
                      else if dt_compatible np ''rockchip,rk3288-gmac'' then RK3288_GMAC else chip b)\<rparr>) name)"

definition pltfr_probe_config_dt ::
    "'w env \<Rightarrow> int \<Rightarrow> dt_node option \<Rightarrow> 'w pltfr_data \<Rightarrow> bsp_priv \<Rightarrow> 'w \<Rightarrow>
     (int \<times> u8 list option \<times> 'w pltfr_data \<times> bsp_priv \<times> 'w) option" where
  "pltfr_probe_config_dt e flags np d b w =
     (case np of None \<Rightarrow> Some (- ENODEV, None, d, b, w)
      | Some np \<Rightarrow>
          (let (m, w) = kcall e ''devm_kzalloc'' [S ''stmmac_mdio_bus_data''] w;
               gmac = (dt_compatible np ''rockchip,rk3288-gmac'' \<or> dt_compatible np ''rockchip,rk312x-gmac'');
               pl = (pf_plat d)\<lparr>pl_interface := word_of_int (dt_phy_mode np)\<rparr>;
               pl = doif gmac (\<lambda>pl. pl\<lparr>pl_has_gmac := True, pl_pmt := 1\<rparr>) pl;
               d = d\<lparr>pf_plat := pl, pf_mdio_bus_data := (if m = 0 then None else Some zero_mdio_bus_data),
                     pf_init := Pltfr_init, pf_own_fix_speed := True, pf_own_bsp := True\<rparr>
           in map_option (\<lambda>b. (0, dt_mac np, d, b, w)) (pltfr_dt_board np flags b)))"

section \<open>Probe and remove\<close>

record 'w pltfr_pdev =
  pp_of_node :: "dt_node option"
  pp_platform_data :: "'w pltfr_data option"

definition pltfr_probe_plat ::
    "'w env \<Rightarrow> int \<Rightarrow> 'w pltfr_pdev \<Rightarrow> bsp_priv \<Rightarrow> 'w \<Rightarrow>
     ((int + 'w pltfr_data option \<times> u8 list option) \<times> bsp_priv \<times> 'w) option" where
  "pltfr_probe_plat e flags pd b w =
     (case pp_of_node pd of None \<Rightarrow> Some (Inr (pp_platform_data pd, None), b, w)
      | Some np \<Rightarrow>
          (let (p, w) = kcall e ''devm_kzalloc'' [S ''plat_stmmacenet_data''] w
           in if p = 0 then Some (Inl (- ENOMEM), b, w)
              else do {
                (ret, mac, d, b, w) \<leftarrow> pltfr_probe_config_dt e flags (Some np) zero_pltfr_data b w;
                Some (if ret \<noteq> 0 then Inl ret else Inr (Some d, mac), b, w) }))"

definition pltfr_call_init :: "grf \<Rightarrow> 'w env \<Rightarrow> 'w pltfr_data \<Rightarrow> bsp_priv \<Rightarrow> 'w \<Rightarrow> int \<times> 'w" where
  "pltfr_call_init g e d b w =
     (case pf_init d of No_init \<Rightarrow> (0, w)
      | Pltfr_init \<Rightarrow> pltfr_init g e b w
      | Board_init \<Rightarrow> kcall e ''plat_init'' [] w)"

text \<open>What the driver that \<open>stmmac_dvr_probe\<close> returned is given: its address and its interrupts.\<close>

definition pltfr_probe_finish :: "'w env \<Rightarrow> u8 list option \<Rightarrow> 'w priv \<Rightarrow> 'w \<Rightarrow> int \<times> 'w priv option \<times> 'w" where
  "pltfr_probe_finish e mac p w =
     (let p = (case mac of None \<Rightarrow> p | Some m \<Rightarrow> p\<lparr>dev := (dev p)\<lparr>nd_dev_addr := take 6 m\<rparr>\<rparr>);
          (irq, w) = kcall e ''platform_get_irq_byname'' [S ''macirq''] w;
          p = p\<lparr>dev := (dev p)\<lparr>nd_irq := irq\<rparr>\<rparr>
      in if irq = - ENXIO then (- ENXIO, Some p, w)
         else
           (let (wol, w) = kcall e ''platform_get_irq_byname'' [S ''eth_wake_irq''] w;
                p = p\<lparr>wol_irq := (if wol = - ENXIO then nd_irq (dev p) else wol)\<rparr>;
                (lpi, w) = kcall e ''platform_get_irq_byname'' [S ''eth_lpi''] w;
                p = p\<lparr>lpi_irq := lpi\<rparr>
            in (0, Some p, kdo e ''platform_set_drvdata'' [S ''ndev''] w)))"

text \<open>
  \<open>g_bsp_priv\<close> is taken from the world and put back before \<open>stmmac_dvr_probe\<close> runs, and where the
  probe ends before. The driver is returned where it exists, also after an error.
\<close>

definition stmmac_pltfr_probe ::
    "'w bsp_store \<Rightarrow> grf \<Rightarrow> 'w ext \<Rightarrow> netif_f \<Rightarrow> crc_lib \<Rightarrow> 'w env \<Rightarrow> int \<Rightarrow> 'w priv \<Rightarrow> 'w pltfr_pdev \<Rightarrow> 'w \<Rightarrow>
     (int \<times> 'w priv option \<times> 'w) option" where
  "stmmac_pltfr_probe st g x nf kl e flags mem pd w =
     (let (res, w) = kcall e ''platform_get_resource'' [] w
      in if res = 0 then Some (- ENODEV, None, w)
         else
           (let (addr, w) = kcall e ''devm_ioremap_resource'' [I res] w
            in if IS_ERR addr then Some (addr, None, w)
               else do {
                 let w = kdo e ''platform_get_irq'' [I 0] w;
                 (plat_dat, b, w) \<leftarrow> pltfr_probe_plat e flags pd (bs_get st w) w;
                 (case plat_dat of Inl ret \<Rightarrow> Some (ret, None, bs_put st b w)
                  | Inr (d, mac) \<Rightarrow> do {
                      d \<leftarrow> d;
                      let (ret, w) = pltfr_call_init g e d b w;
                      if ret \<noteq> 0 then Some (ret, None, bs_put st b w)
                      else do {
                        (_, b, w) \<leftarrow> pltfr_gmac_clk_init e b w;
                        let w = bs_put st b w;
                        (priv, w) \<leftarrow> stmmac_dvr_probe x nf kl e mem (plat_view st g e d w) (word_of_int addr) w;
                        Some (case priv of None \<Rightarrow> (- ENODEV, None, w) | Some p \<Rightarrow> pltfr_probe_finish e mac p w) } }) }))"

text \<open>
  \<open>priv\<close> lies in the memory \<open>stmmac_dvr_remove\<close> frees, and is read after: \<open>stale\<close> is what is then read
  as the platform data, \<open>None\<close> where that read fails.
\<close>

definition stmmac_pltfr_remove :: "'w env \<Rightarrow> 'w pltfr_data option \<Rightarrow> 'w priv \<Rightarrow> 'w \<Rightarrow> (int \<times> 'w) option" where
  "stmmac_pltfr_remove e stale p w =
     (let (ret, w) = stmmac_dvr_remove e p w
      in map_option (\<lambda>d. (ret, kdo e ''platform_set_drvdata'' [I 0] (doif (pf_exit d) (kdo e ''plat_exit'' []) w))) stale)"

section \<open>Power management\<close>

text \<open>The driver is the one kept with the device, if any.\<close>

definition stmmac_pltfr_suspend :: "'w env \<Rightarrow> 'w priv option \<Rightarrow> 'w \<Rightarrow> (int \<times> 'w priv option \<times> 'w) option" where
  "stmmac_pltfr_suspend e ndev w = stmmac_suspend e ndev w"

definition stmmac_pltfr_resume :: "'w env \<Rightarrow> 'w priv option \<Rightarrow> 'w \<Rightarrow> (int \<times> 'w priv \<times> 'w) option" where
  "stmmac_pltfr_resume e ndev w = map_option (\<lambda>p. stmmac_resume e p w) ndev"

definition stmmac_pltfr_freeze ::
    "'w env \<Rightarrow> 'w pltfr_pdev \<Rightarrow> 'w priv option \<Rightarrow> 'w \<Rightarrow> (int \<times> 'w priv option \<times> 'w) option" where
  "stmmac_pltfr_freeze e pd ndev w = do {
     (ret, ndev, w) \<leftarrow> stmmac_freeze e ndev w;
     d \<leftarrow> pp_platform_data pd;
     Some (ret, ndev, doif (pf_exit d) (kdo e ''plat_exit'' []) w) }"

definition stmmac_pltfr_restore ::
    "'w bsp_store \<Rightarrow> grf \<Rightarrow> 'w ext \<Rightarrow> 'w env \<Rightarrow> 'w pltfr_pdev \<Rightarrow> 'w priv option \<Rightarrow> 'w \<Rightarrow> (int \<times> 'w priv option \<times> 'w) option" where
  "stmmac_pltfr_restore st g x e pd ndev w = do {
     d \<leftarrow> pp_platform_data pd;
     let (_, w) = pltfr_call_init g e d (bs_get st w) w;
     stmmac_restore x e ndev w }"

end
