(* ===== verification/Stmmac_Platform_Props.thy ===== *)
theory Stmmac_Platform_Props
  imports Stmmac_Platform Char_Net_Props Main_Props
begin

text \<open>
  Properties of the platform part: it agrees with the board code of the character network device, and
  what its probe and its power management do, also together with \<open>stmmac_main.c\<close>.
\<close>

section \<open>The two copies of the board functions\<close>

lemma fold_clks: "fold (\<lambda>c. kdo e f [I c]) (filter (\<lambda>c. \<not> IS_ERR c) cs) w = fold (\<lambda>c. clk_do e f c) cs w"
  by (induction cs arbitrary: w) (simp_all add: clk_do_def doif_def)

lemma pltfr_gmac_clk_enable_eq: "pltfr_gmac_clk_enable e on b w = gmac_clk_enable e on b w"
proof -
  have "fold (\<lambda>c. kdo e f [I c]) (filter (\<lambda>c. \<not> IS_ERR c)
      ((if phy_iface b = PHY_INTERFACE_MODE_RMII then [mac_clk_rx b, clk_mac_ref b, clk_mac_refout b] else [])
        @ [aclk_mac b, pclk_mac b, mac_clk_tx b, clk_mac b])) w = clk_switch e f b w" for f
    unfolding fold_clks by (simp add: clk_switch_def doif_def Let_def)
  then show ?thesis by (simp only: pltfr_gmac_clk_enable_def gmac_clk_enable_def Let_def)
qed

interpretation pltfr_gate: clk_gate pltfr_gmac_clk_enable
  by unfold_locales (simp_all add: pltfr_gmac_clk_enable_eq gmac_gate.balance gmac_gate.switched gmac_gate.same_clks)

lemma pltfr_power_on_eq:
  "pltfr_power_on_by_pmu e on b w = power_on_by_pmu e on b w"
  "pltfr_power_on_by_gpio e on b w = power_on_by_gpio e on b w"
  by (simp_all add: pltfr_power_on_by_pmu_def power_on_by_pmu_def pltfr_power_on_by_gpio_def power_on_by_gpio_def
      gpio_out_def doif_def kcall_eq Let_def)

lemma pltfr_phy_power_on_eq: "pltfr_phy_power_on e on b w = Gmac_Ctrl.phy_power_on e on b w"
  by (cases on; cases "power_ctrl_by_pmu b")
    (simp_all add: pltfr_phy_power_on_def Gmac_Ctrl.phy_power_on_def pltfr_power_on_eq gpio_out_def doif_def kcall_eq Let_def
      case_prod_unfold)

lemma pltfr_init_eq: "chip b = RK3288_GMAC \<Longrightarrow> pltfr_init g e b w = stmmc_pltfr_init g e b w"
  by (simp add: pltfr_init_def stmmc_pltfr_init_def gpio_claim_def pltfr_SET_RGMII_def pltfr_SET_RMII_def SET_RGMII_def
      SET_RMII_def doif_def kcall_eq Let_def)

lemma pltfr_fix_mac_speed_eq:
  "chip b = RK3288_GMAC \<Longrightarrow> pltfr_fix_mac_speed g e junk (Some b) speed w = Some (stmmc_pltfr_fix_mac_speed g e junk (Some b) speed w)"
  by (simp add: pltfr_fix_mac_speed_def stmmc_pltfr_fix_mac_speed_def pltfr_SET_RGMII_10M_def pltfr_SET_RGMII_100M_def
      pltfr_SET_RGMII_1000M_def pltfr_SET_RMII_10M_def pltfr_SET_RMII_100M_def SET_RGMII_10M_def SET_RGMII_100M_def
      SET_RGMII_1000M_def SET_RMII_10M_def SET_RMII_100M_def Let_def)

lemma pltfr_gmac_clk_init_eq:
  "pltfr_gmac_clk_init e b w =
     (if IS_ERR (clk_mac (fst (snd (gmac_clk_init e b w)))) \<or> clk_mac (fst (snd (gmac_clk_init e b w))) = 0 then None
      else Some (gmac_clk_init e b w))"
proof -
  obtain c1 w1 where 1: "kcall e ''clk_get'' [S ''mac_clk_rx''] w = (c1, w1)" by fastforce
  obtain c2 w2 where 2: "kcall e ''clk_get'' [S ''mac_clk_tx''] w1 = (c2, w2)" by fastforce
  obtain c3 w3 where 3: "kcall e ''clk_get'' [S ''clk_mac_ref''] w2 = (c3, w3)" by fastforce
  obtain c4 w4 where 4: "kcall e ''clk_get'' [S ''clk_mac_refout''] w3 = (c4, w4)" by fastforce
  obtain c5 w5 where 5: "kcall e ''clk_get'' [S ''aclk_mac''] w4 = (c5, w5)" by fastforce
  obtain c6 w6 where 6: "kcall e ''clk_get'' [S ''pclk_mac''] w5 = (c6, w6)" by fastforce
  obtain c7 w7 where 7: "kcall e ''clk_get'' [S ''clk_mac_pll''] w6 = (c7, w7)" by fastforce
  obtain c8 w8 where 8: "kcall e ''clk_get'' [S ''gmac_clkin''] w7 = (c8, w8)" by fastforce
  obtain c9 w9 where 9: "kcall e ''clk_get'' [S ''clk_mac''] w8 = (c9, w9)" by fastforce
  note k = 1 2 3 4 5 6 7 8 9
  show ?thesis by (simp add: pltfr_gmac_clk_init_def gmac_clk_init_def k Let_def)
qed

lemma dt_chip_eq:
  "dt_chip np b = b\<lparr>chip := (if dt_compatible np ''rockchip,rk312x-gmac'' then RK312X_GMAC
     else if dt_compatible np ''rockchip,rk3288-gmac'' then RK3288_GMAC else chip b)\<rparr>"
  by (simp add: dt_chip_def doif_def Let_def)

lemma dt_pmu_eq:
  "dt_pmu np b = map_option (\<lambda>name. b\<lparr>pmu_regulator := name, power_ctrl_by_pmu := dt_u32 np ''pmu_enable_level'' \<noteq> None,
       pmu_enable_level := (case dt_u32 np ''pmu_enable_level'' of None \<Rightarrow> pmu_enable_level b | Some v \<Rightarrow> sint v)\<rparr>)
     (case dt_string np ''pmu_regulator'' of None \<Rightarrow> Some (pmu_regulator b) | Some s \<Rightarrow> if length s < 32 then Some s else None)"
  by (simp add: dt_pmu_def split: option.split)

text \<open>The steps of the one copy give the record of the other.\<close>

definition dt_board :: "dt_node \<Rightarrow> int \<Rightarrow> bsp_priv \<Rightarrow> bsp_priv" where
  "dt_board np flags b = dt_chip np ((dt_pins np flags (dt_delays np (dt_clock np b)))
     \<lparr>phy_iface := word_of_int (dt_phy_mode np), has_phy_power_on := True, has_gmac_clk_enable := True\<rparr>)"

lemma dt_board_record:
  "dt_board np flags b = (let
     flags1 = (case snd (dt_gpio np ''reset-gpio'') of None \<Rightarrow> flags | Some f \<Rightarrow> f);
     flags2 = (case snd (dt_gpio np ''power-gpio'') of None \<Rightarrow> flags1 | Some f \<Rightarrow> f)
     in b\<lparr>clock_input := (case dt_string np ''clock_in_out'' of None \<Rightarrow> True | Some s \<Rightarrow> s = ''input''),
          tx_delay := (case dt_u32 np ''tx_delay'' of None \<Rightarrow> 0x30 | Some v \<Rightarrow> sint v),
          rx_delay := (case dt_u32 np ''rx_delay'' of None \<Rightarrow> 0x10 | Some v \<Rightarrow> sint v),
          reset_io := fst (dt_gpio np ''reset-gpio''), reset_io_level := (if flags1 = GPIO_ACTIVE_HIGH then 1 else 0),
          power_io := fst (dt_gpio np ''power-gpio''), power_io_level := (if flags2 = GPIO_ACTIVE_HIGH then 1 else 0),
          phy_iface := word_of_int (dt_phy_mode np), has_phy_power_on := True, has_gmac_clk_enable := True,
          chip := (if dt_compatible np ''rockchip,rk312x-gmac'' then RK312X_GMAC
                   else if dt_compatible np ''rockchip,rk3288-gmac'' then RK3288_GMAC else chip b)\<rparr>)"
  by (simp only: dt_board_def dt_chip_eq dt_pins_def dt_delays_def dt_clock_def Let_def case_prod_unfold) simp

lemma pltfr_dt_board_steps: "pltfr_dt_board np flags b = map_option (dt_board np flags) (dt_pmu np b)"
  unfolding pltfr_dt_board_def dt_pmu_eq option.map_comp comp_def dt_board_record Let_def
  by (rule option.map_cong0) simp

lemma pltfr_dt_board_eq:
  "map_option (\<lambda>(ret, mac, pl, b, w). (ret, mac, b, w)) (stmmac_probe_config_dt e flags (Some np) pl b w) =
   map_option (\<lambda>(ret, mac, d, b, w). (ret, mac, b, w)) (pltfr_probe_config_dt e flags (Some np) d b w)"
  by (cases "dt_pmu np b")
    (simp_all add: stmmac_probe_config_dt_def pltfr_probe_config_dt_def pltfr_dt_board_steps dt_board_def kcall_eq Let_def doif_def)

text \<open>
  Property C16. The board code exists twice, in the platform part of the network driver and in the
  character network device. On the chip RK3288 the copies do the same to the board, the registers and
  the kernel: initialisation, speed, clocks, power and the reading of the device tree. The one
  difference is that the copy of the network driver crashes where the kernel has no clock \<open>clk_mac\<close>.
\<close>

theorem board_copies_agree:
  assumes "chip b = RK3288_GMAC"
  shows "pltfr_init g e b w = stmmc_pltfr_init g e b w
    \<and> pltfr_fix_mac_speed g e junk (Some b) speed w = Some (stmmc_pltfr_fix_mac_speed g e junk (Some b) speed w)
    \<and> pltfr_gmac_clk_enable e on b w = Gmac_Ctrl.gmac_clk_enable e on b w
    \<and> pltfr_phy_power_on e on b w = Gmac_Ctrl.phy_power_on e on b w
    \<and> pltfr_gmac_clk_init e b w = (let r = gmac_clk_init e b w; c = clk_mac (fst (snd r)) in if IS_ERR c \<or> c = 0 then None else Some r)
    \<and> map_option (\<lambda>(ret, mac, d, b, w). (ret, mac, b, w)) (pltfr_probe_config_dt e flags (Some np) d b w)
      = map_option (\<lambda>(ret, mac, pl, b, w). (ret, mac, b, w)) (stmmac_probe_config_dt e flags (Some np) pl b w)"
  using assms pltfr_dt_board_eq [of e flags np pl b w d]
  by (simp add: pltfr_init_eq pltfr_fix_mac_speed_eq pltfr_gmac_clk_enable_eq pltfr_phy_power_on_eq pltfr_gmac_clk_init_eq Let_def)

theorem board_copies_agree_witness:
  "pltfr_fix_mac_speed \<lparr>SOC_CON1 = 0x248, SOC_CON3 = 0x254\<rparr> (bench_env (\<lambda>_. 1)) 0 (Some bench_bsp) 100 bench0
   = Some (stmmc_pltfr_fix_mac_speed \<lparr>SOC_CON1 = 0x248, SOC_CON3 = 0x254\<rparr> (bench_env (\<lambda>_. 1)) 0 (Some bench_bsp) 100 bench0)"
  using board_copies_agree [of bench_bsp "\<lparr>SOC_CON1 = 0x248, SOC_CON3 = 0x254\<rparr>" "bench_env (\<lambda>_. 1)" bench0 0 100
      False 0 bench_node zero_pltfr_data zero_cplat]
  by (simp add: bench_bsp_def)

text \<open>
  On the chip RK312X, which the device tree may name and the driver accepts, neither the
  initialisation nor a change of speed writes a register: the interface is never selected.
\<close>

theorem rk312x_never_selected:
  assumes "dt_compatible np ''rockchip,rk312x-gmac''"
    and "pltfr_probe_config_dt e' flags (Some np) d b0 w0 = Some (ret, mac, d', b, w1)"
  shows "pl_has_gmac (pf_plat d') \<and> b_regs (snd (pltfr_init g (bench_env ans) b w)) = b_regs w
    \<and> pltfr_fix_mac_speed g (bench_env ans) junk (Some b) speed w = Some w"
proof -
  have c: "chip b = RK312X_GMAC" and p: "pl_has_gmac (pf_plat d')"
    using assms by (auto simp: pltfr_probe_config_dt_def pltfr_dt_board_def Let_def case_prod_unfold doif_def)
  have n: "RK312X_GMAC \<noteq> RK3288_GMAC" by (simp add: hw_consts)
  show ?thesis
    using p by (simp add: pltfr_init_def pltfr_fix_mac_speed_def c n pltfr_SET_RGMII_def pltfr_SET_RMII_def pltfr_SET_RGMII_10M_def
        pltfr_SET_RGMII_100M_def pltfr_SET_RGMII_1000M_def pltfr_SET_RMII_10M_def pltfr_SET_RMII_100M_def Let_def doif_def)
qed

theorem rk312x_never_selected_witness:
  "\<exists>ret mac d' b w1. pltfr_probe_config_dt (bench_env (\<lambda>_. 1)) 0 (Some (bench_node\<lparr>dt_compatible := (\<lambda>c. c = ''rockchip,rk312x-gmac'')\<rparr>))
      zero_pltfr_data bench_bsp bench0 = Some (ret, mac, d', b, w1)
    \<and> b_regs (snd (pltfr_init \<lparr>SOC_CON1 = 0x248, SOC_CON3 = 0x254\<rparr> (bench_env (\<lambda>_. 1)) b bench0)) = b_regs bench0"
proof -
  let ?n = "bench_node\<lparr>dt_compatible := (\<lambda>c. c = ''rockchip,rk312x-gmac'')\<rparr>"
  obtain ret mac d' b w1 where r: "pltfr_probe_config_dt (bench_env (\<lambda>_. 1)) 0 (Some ?n) zero_pltfr_data bench_bsp bench0
      = Some (ret, mac, d', b, w1)"
    by (simp add: pltfr_probe_config_dt_def pltfr_dt_board_def bench_node_def Let_def)
  from rk312x_never_selected [OF _ r] r show ?thesis by (simp add: bench_node_def)
qed

section \<open>Probe\<close>

lemma probe_finish_result:
  "case pltfr_probe_finish e mac p w of (ret, ndev, w') \<Rightarrow>
     (case ndev of None \<Rightarrow> False
      | Some q \<Rightarrow> (if nd_irq (dev q) = - ENXIO then ret = - ENXIO else ret = 0 \<and> wol_irq q \<noteq> - ENXIO))"
  by (simp add: pltfr_probe_finish_def Let_def case_prod_unfold)


text \<open>The platform part gives its callbacks to the driver, and the detection of the core keeps them.\<close>

lemma hw_select_plat: "plat (hw_select x m p) = plat p"
  by (simp add: hw_select_def stmmac_selec_desc_mode_def doif_def Let_def)

lemma hw_caps_override_bsp: "pl_bsp (plat (hw_caps_override p)) = pl_bsp (plat p)"
  by (simp add: hw_caps_override_def Let_def)

lemma hw_features_plat: "plat (fst (snd (stmmac_get_hw_features e p w))) = plat p"
  using hw_features_keeps [of e p w] by (metis prod.collapse)

lemma hw_init_keeps_bsp: "pl_bsp (plat (fst (snd (stmmac_hw_init x kl e p w)))) = pl_bsp (plat p)"
  unfolding stmmac_hw_init_def Let_def case_prod_unfold
  by (simp add: hw_select_plat hw_features_plat hw_caps_override_bsp doif_def split: option.split)

lemma probe_setup_bsp: "pl_bsp (plat (probe_setup pl a p)) = pl_bsp pl"
  by (simp add: probe_setup_def stmmac_verify_args_def Let_def)

lemma probe_features_plat: "plat (fst (probe_features x nf e p w)) = plat p"
  by (simp add: probe_features_def kcall_eq doif_def Let_def)

lemma dvr_probe_total:
  assumes "pl_bsp pl \<noteq> None"
  shows "stmmac_dvr_probe x nf kl e mem pl a w \<noteq> None"
proof -
  obtain b where "pl_bsp pl = Some b" using assms by blast
  then have "pl_bsp (plat (fst (snd (stmmac_hw_init x kl e (probe_setup pl a mem) v)))) = Some b" for v
    by (simp add: hw_init_keeps_bsp probe_setup_bsp)
  then show ?thesis
    by (simp add: stmmac_dvr_probe_def case_prod_unfold Let_def probe_features_plat)
qed

text \<open>A world of registers, calls and the board, and a kernel that finds everything.\<close>

type_synonym board_world = "bench \<times> bsp_priv"

definition board_env :: "(kcall \<Rightarrow> int) \<Rightarrow> board_world env" where
  "board_env ans = \<lparr>rd_reg = (\<lambda>a w. (b_regs (fst w) a, w)),
     wr_reg = (\<lambda>v a w. ((fst w)\<lparr>b_regs := (b_regs (fst w))(a := v)\<rparr>, snd w)),
     kfun = (\<lambda>c w. (ans c, ((fst w)\<lparr>b_calls := c # b_calls (fst w)\<rparr>, snd w)))\<rparr>"

definition board_store :: "board_world bsp_store" where
  "board_store = \<lparr>bs_get = snd, bs_put = (\<lambda>b w. (fst w, b))\<rparr>"

lemma board_env_simps [simp]:
  "readl (board_env ans) a w = (b_regs (fst w) a, w)"
  "peek (board_env ans) a w = b_regs (fst w) a"
  "after_read (board_env ans) a w = w"
  "writel (board_env ans) v a w = ((fst w)\<lparr>b_regs := (b_regs (fst w))(a := v)\<rparr>, snd w)"
  "kcall (board_env ans) n as w = (ans (K n as), (fst w)\<lparr>b_calls := K n as # b_calls (fst w)\<rparr>, snd w)"
  "kdo (board_env ans) n as w = ((fst w)\<lparr>b_calls := K n as # b_calls (fst w)\<rparr>, snd w)"
  "kval (board_env ans) n as w = ans (K n as)"
 
  by (simp_all add: board_env_def readl_def peek_def after_read_def writel_def kcall_def kdo_def kval_def)

lemma board_store_simps [simp]: "bs_get board_store w = snd w" "bs_put board_store b w = (fst w, b)"
  by (simp_all add: board_store_def)

definition bench_found :: "kcall \<Rightarrow> int" where
  "bench_found c = (case c of K n as \<Rightarrow> if n = ''register_netdev'' then 0 else 0x7000)"

lemma clk_init_total:
  assumes "\<And>v. \<not> IS_ERR (kval e ''clk_get'' [S ''clk_mac''] v)" and "\<And>v. kval e ''clk_get'' [S ''clk_mac''] v \<noteq> 0"
  shows "pltfr_gmac_clk_init e b w \<noteq> None"
  unfolding pltfr_gmac_clk_init_eq gmac_clk_init_def Let_def case_prod_unfold
  using assms by (simp add: kval_def kcall_def)

lemma pltfr_probe_total:
  assumes "probe_friendly e" and "\<And>v. \<not> IS_ERR (kval e ''clk_get'' [S ''clk_mac''] v)"
    and "\<And>v. kval e ''clk_get'' [S ''clk_mac''] v \<noteq> 0" and "pp_of_node pd = Some np" and "regulator_fits np"
  shows "stmmac_pltfr_probe st g x nf kl e flags mem pd w \<noteq> None"
proof -
  have f: "\<exists>b. pltfr_dt_board np flags b0 = Some b" for b0
    using assms(5) by (auto simp: pltfr_dt_board_def regulator_fits_def Let_def split: option.splits)
  have "\<exists>d mac b v'. pltfr_probe_plat e flags pd b0 v = Some (Inr (Some d, mac), b, v') \<and> pf_own_bsp d \<and> pf_init d = Pltfr_init"
    for b0 v
    using f [of b0] assms(1, 4)
    by (auto simp: pltfr_probe_plat_def pltfr_probe_config_dt_def kcall_eq probe_friendly_def Let_def)
  moreover define w0 where "w0 = kdo e ''platform_get_irq'' [I 0] (kdo e ''devm_ioremap_resource''
      [I (kval e ''platform_get_resource'' [] w)] (kdo e ''platform_get_resource'' [] w))"
  ultimately obtain d mac b v where p: "pltfr_probe_plat e flags pd (bs_get st w0) w0 = Some (Inr (Some d, mac), b, v)"
    and d: "pf_own_bsp d" "pf_init d = Pltfr_init" by metis
  have i: "fst (pltfr_call_init g e d b v) = 0"
    using d(2) by (simp add: pltfr_call_init_def pltfr_init_def kcall_eq Let_def)
  obtain r b1 w1 where c: "pltfr_gmac_clk_init e b (snd (pltfr_call_init g e d b v)) = Some (r, b1, w1)"
    using clk_init_total [OF assms(2, 3)] by (metis not_Some_eq prod_cases3)
  have "stmmac_dvr_probe x nf kl e mem (plat_view st g e d w2) a w2 \<noteq> None" for a w2
    using d(1) by (intro dvr_probe_total) (simp add: plat_view_def doif_def Let_def)
  then show ?thesis
    using p i c assms(1)
    by (auto simp: stmmac_pltfr_probe_def kcall_eq probe_friendly_def case_prod_unfold w0_def [symmetric] Let_def
        simp del: not_None_eq split: bind_splits)
qed

definition board_priv :: "(kcall \<Rightarrow> int) \<Rightarrow> board_world priv" where
  "board_priv ans = \<lparr>glob = default_params, dev = bench_dev,
     dma_etx = [], dma_tx = replicate 4 zero_desc, tx_skbuff = replicate 4 0, cur_tx = 0, dirty_tx = 0,
     dma_tx_size = 4, tx_count_frames = 0, tx_coal_frames = 0, tx_coal_timer = 0,
     tx_skbuff_dma = replicate 4 0, dma_tx_phy = 0, hwts_tx_en = False, tx_path_in_lpi_mode = False,
     dma_rx = replicate 4 zero_desc, dma_erx = [], rx_skbuff = replicate 4 0, cur_rx = 0, dirty_rx = 0,
     dma_rx_size = 4, dma_buf_sz = 2048, rx_riwt = 0, hwts_rx_en = False,
     rx_skbuff_dma = replicate 4 0, dma_rx_phy = 0, ioaddr = 0x1000,
     hw = \<lparr>hw_mac = dwmac1000_ops bench_crc, hw_desc = Some (ndesc_ops False), hw_dma = dwmac1000_dma_ops,
       hw_ring = True, hw_chain = False, hw_ptp = False, hw_mii = \<lparr>mii_addr = GMAC_MII_ADDR, mii_data = GMAC_MII_DATA\<rparr>,
       hw_link = \<lparr>link_port = GMAC_CONTROL_PS, link_duplex = GMAC_CONTROL_DM, link_speed = GMAC_CONTROL_FES\<rparr>, synopsys_uid = 0x35\<rparr>,
     no_csum_insertion = False, phydev = None, oldlink = False, p_speed = 0, oldduplex = 0, p_flow_ctrl = 0, p_pause = 0,
     xstats = zero_xstats, plat = zero_plat\<lparr>pl_bsp := Some (board_callbacks board_store (board_env ans) (bench0, bench_bsp))\<rparr>,
     dma_cap = decode_hw_cap 0, mmc = zero_counters, hw_cap_support = 0, synopsys_id = 0x35, msg_enable = 0, wolopts = 0,
     wol_irq = 0, stmmac_clk = 0, p_clk_csr = 0, lpi_irq = 0, eee_enabled = False, eee_active = False, tx_lpi_timer = 0,
     pcs = 0, mode = STMMAC_RING_MODE, extend_desc = False, default_addend = 0, adv_ts = 0, use_riwt = False,
     mdio_registered = False\<rparr>"

text \<open>The helpers of the ring and chain modes, which do nothing here, and the feature bits.\<close>

definition board_ext :: "board_world ext" where
  "board_ext = \<lparr>ring_is_jumbo_frm = (\<lambda>_ _. False), ring_jumbo_frm = (\<lambda>e p skb b w. (p, w)),
     ring_refill_desc3 = (\<lambda>p d. d), ring_init_desc3 = (\<lambda>d. d), ring_clean_desc3 = (\<lambda>p d. d),
     ring_set_16kib_bfsize = (\<lambda>_. 0), chain_init = (\<lambda>ds _. ds), chain_init_extended = (\<lambda>ds _. ds),
     chain_is_jumbo_frm = (\<lambda>_ _. False), chain_jumbo_frm = (\<lambda>e p skb b w. (p, w)), max_skb_frags = 17,
     l1_cache_bytes = 64, enh_desc_ops = ndesc_ops False, vlan_tag_used = False\<rparr>"

definition bench_features :: netif_f where
  "bench_features = \<lparr>f_sg = 1, f_ip_csum = 2, f_ipv6_csum = 16, f_rxcsum = 0x100000000, f_all_csum = 26, f_highdma = 32,
     f_vlan_ctag_rx = 256\<rparr>"


section \<open>Power management\<close>

text \<open>
  The freeze and restore callbacks read the platform data of the device, which a device
  of the device tree does not have: both crash, the first after the network device was released.
\<close>

theorem freeze_crashes_on_device_tree:
  assumes "pp_platform_data pd = None"
  shows "stmmac_pltfr_freeze e pd ndev w = None \<and> stmmac_pltfr_restore st g x e pd ndev' w' = None"
  using assms by (cases "stmmac_freeze e ndev w") (simp_all add: stmmac_pltfr_freeze_def stmmac_pltfr_restore_def case_prod_unfold)

text \<open>The operations of the cores used on suspend and resume write registers only.\<close>

lemma board_core_ops:
  "calls_of f (fst (dwmac_dma_stop_tx (board_env ans) a w)) = calls_of f (fst w)"
  "calls_of f (fst (dwmac_dma_stop_rx (board_env ans) a w)) = calls_of f (fst w)"
  "calls_of f (fst (dwmac_dma_start_tx (board_env ans) a w)) = calls_of f (fst w)"
  "calls_of f (fst (dwmac_dma_start_rx (board_env ans) a w)) = calls_of f (fst w)"
  "calls_of f (fst (stmmac_set_mac (board_env ans) a on w)) = calls_of f (fst w)"
  "calls_of f (fst (dwmac1000_pmt (board_env ans) a m w)) = calls_of f (fst w)"
  "snd (dwmac_dma_stop_tx (board_env ans) a w) = snd w" "snd (dwmac_dma_stop_rx (board_env ans) a w) = snd w"
  "snd (dwmac_dma_start_tx (board_env ans) a w) = snd w" "snd (dwmac_dma_start_rx (board_env ans) a w) = snd w"
  "snd (stmmac_set_mac (board_env ans) a on w) = snd w" "snd (dwmac1000_pmt (board_env ans) a m w) = snd w"
  by (simp_all add: dwmac_dma_stop_tx_def dwmac_dma_stop_rx_def dwmac_dma_start_tx_def dwmac_dma_start_rx_def
      stmmac_set_mac_def dwmac1000_pmt_def rmw_def doif_def Let_def)

text \<open>What the clocks were enabled more than disabled, less what the board holds.\<close>

definition clk_debt :: "ptr \<Rightarrow> board_world \<Rightarrow> int" where
  "clk_debt c w = clk_uses c (fst w) - clk_held c (snd w)"

lemma clk_debt_same: "(\<And>f. calls_of f (fst w') = calls_of f (fst w)) \<Longrightarrow> snd w' = snd w \<Longrightarrow> clk_debt c w' = clk_debt c w"
  by (simp add: clk_debt_def clk_uses_def)

lemma clk_debt_core_ops:
  "clk_debt c (dwmac_dma_stop_tx (board_env ans) a w) = clk_debt c w" "clk_debt c (dwmac_dma_stop_rx (board_env ans) a w) = clk_debt c w"
  "clk_debt c (dwmac_dma_start_tx (board_env ans) a w) = clk_debt c w" "clk_debt c (dwmac_dma_start_rx (board_env ans) a w) = clk_debt c w"
  "clk_debt c (stmmac_set_mac (board_env ans) a on w) = clk_debt c w"
  by (rule clk_debt_same; simp add: board_core_ops)+

lemma clk_debt_kdo:
  "n \<noteq> ''clk_prepare_enable'' \<Longrightarrow> n \<noteq> ''clk_disable_unprepare'' \<Longrightarrow> clk_debt c (kdo (board_env ans) n as w) = clk_debt c w"
  "snd (kdo (board_env ans) n as w) = snd w"
  by (simp_all add: clk_debt_def)

lemma board_power_sources:
  "snd (snd (pltfr_power_on_by_pmu (board_env ans) on b w)) = snd w" "snd (snd (pltfr_power_on_by_gpio (board_env ans) on b w)) = snd w"
  "clk_uses c (fst (snd (pltfr_power_on_by_pmu (board_env ans) on b w))) = clk_uses c (fst w)"
  "clk_uses c (fst (snd (pltfr_power_on_by_gpio (board_env ans) on b w))) = clk_uses c (fst w)"
  by (simp_all add: pltfr_power_on_by_pmu_def pltfr_power_on_by_gpio_def Let_def)

lemma board_power:
  "snd (snd (pltfr_phy_power_on (board_env ans) on b w)) = snd w"
  "clk_uses c (fst (snd (pltfr_phy_power_on (board_env ans) on b w))) = clk_uses c (fst w)"
  by (cases on; cases "power_ctrl_by_pmu b"; simp add: pltfr_phy_power_on_def board_power_sources doif_def Let_def case_prod_unfold)+

lemma fold_kdo_calls:
  "calls_of f (fst (fold (\<lambda>c. kdo (board_env ans) g [I c]) cs w)) = (if f = g then map (\<lambda>c. [I c]) (rev cs) else []) @ calls_of f (fst w)"
  "snd (fold (\<lambda>c. kdo (board_env ans) g [I c]) cs w) = snd w"
  by (induction cs arbitrary: w) simp_all

text \<open>The clock callback in the world of the board.\<close>

definition board_gate :: "(kcall \<Rightarrow> int) \<Rightarrow> bool \<Rightarrow> board_world \<Rightarrow> board_world" where
  "board_gate ans on w = (let (_, b, w) = pltfr_gmac_clk_enable (board_env ans) on (bs_get board_store w) w in bs_put board_store b w)"

lemma board_gate_balance:
  "clk_debt c (board_gate ans on w) = clk_debt c w" "clk_enabled (snd (board_gate ans on w)) = on"
  "live_clks (snd (board_gate ans on w)) = live_clks (snd w)"
  "has_gmac_clk_enable (snd (board_gate ans on w)) = has_gmac_clk_enable (snd w)"
proof -
  have l: "filter (\<lambda>c. \<not> IS_ERR c) ((if phy_iface b = PHY_INTERFACE_MODE_RMII then [mac_clk_rx b, clk_mac_ref b, clk_mac_refout b] else [])
      @ [aclk_mac b, pclk_mac b, mac_clk_tx b, clk_mac b]) = live_clks b" for b by (simp add: live_clks_def)
  note d = board_gate_def pltfr_gmac_clk_enable_def Let_def l case_prod_unfold
  show "clk_debt c (board_gate ans on w) = clk_debt c w" "clk_enabled (snd (board_gate ans on w)) = on"
    "live_clks (snd (board_gate ans on w)) = live_clks (snd w)"
    "has_gmac_clk_enable (snd (board_gate ans on w)) = has_gmac_clk_enable (snd w)"
    unfolding d by (simp_all add: clk_debt_def clk_uses_def clk_held_def fold_kdo_calls count_list_calls)
qed

definition core_side :: "'w priv \<Rightarrow> 'w plat \<times> 'w mac_device_info \<times> u32 \<times> phy_device option" where
  "core_side p = (plat p, hw p, ioaddr p, phydev p)"

lemma clear_core_side: "core_side (clear_rx_descriptors ops p) = core_side p" "core_side (clear_tx_descriptors ops p) = core_side p"
  unfolding clear_rx_descriptors_def clear_tx_descriptors_def
  by (rule fold_keeps, simp add: core_side_def set_rx_desc_def) (rule fold_keeps, simp add: core_side_def set_tx_desc_def)

lemma clear_descriptors_keeps:
  "plat (stmmac_clear_descriptors ops p) = plat p" "hw (stmmac_clear_descriptors ops p) = hw p"
  "ioaddr (stmmac_clear_descriptors ops p) = ioaddr p" "phydev (stmmac_clear_descriptors ops p) = phydev p"
  using clear_core_side(1) [of ops p] clear_core_side(2) [of ops "clear_rx_descriptors ops p"]
  by (simp_all add: core_side_def stmmac_clear_descriptors_def)

text \<open>A driver whose board callbacks are those of this file, on a GMAC.\<close>

definition board_driver :: "(kcall \<Rightarrow> int) \<Rightarrow> board_world priv \<Rightarrow> bool" where
  "board_driver ans p \<longleftrightarrow> hw_dma (hw p) = dwmac1000_dma_ops \<and> hw_desc (hw p) \<noteq> None
     \<and> (\<exists>w. pl_bsp (plat p) = Some (board_callbacks board_store (board_env ans) w) \<and> has_gmac_clk_enable (snd w))"

lemma board_driver_gate: "board_driver ans p \<Longrightarrow> bsp_call bsp.gmac_clk_enable on p w = board_gate ans on w"
  by (auto simp: board_driver_def bsp_call_def board_callbacks_def board_gate_def case_prod_unfold)

lemma board_driver_power:
  "board_driver ans p \<Longrightarrow> clk_debt c (bsp_call bsp.phy_power_on on p w) = clk_debt c w \<and> snd (bsp_call bsp.phy_power_on on p w) = snd w"
  by (auto simp: board_driver_def bsp_call_def board_callbacks_def clk_debt_def board_power)

lemmas suspend_simps = kcall_eq clk_debt_kdo clk_debt_core_ops board_core_ops board_gate_balance board_driver_gate board_driver_power

text \<open>
  Property C12. Suspending a running driver that may not wake the system up switches the clocks of
  the board off, and resuming it switches them on, the same clocks: with the callbacks of the platform
  part, at both points each clock was enabled more than disabled exactly as often as the board holds
  it, if that was so before.
\<close>

theorem suspend_resume_clocks:
  assumes "board_driver ans p" and "ans (K ''netif_running'' []) \<noteq> 0" and "ans (K ''device_may_wakeup'' []) = 0"
  shows "\<exists>p' w1. stmmac_pltfr_suspend (board_env ans) (Some p) w = Some (0, Some p', w1)
    \<and> \<not> clk_enabled (snd w1) \<and> clk_debt c w1 = clk_debt c w
    \<and> (\<exists>p'' w2. stmmac_pltfr_resume (board_env ans) (Some p') w1 = Some (0, p'', w2)
        \<and> clk_enabled (snd w2) \<and> clk_debt c w2 = clk_debt c w \<and> live_clks (snd w2) = live_clks (snd w))"
proof -
  let ?e = "board_env ans"
  obtain ops where ops: "hw_desc (hw p) = Some ops" using assms(1) by (auto simp: board_driver_def)
  have dma: "hw_dma (hw p) = dwmac1000_dma_ops" using assms(1) by (simp add: board_driver_def)
  let ?p = "stmmac_clear_descriptors ops p"
  have d: "board_driver ans ?p" "phydev ?p = phydev p" using assms(1) by (simp_all add: board_driver_def clear_descriptors_keeps)
  have "\<exists>w1. stmmac_suspend ?e (Some p) w = Some (0, Some ?p, w1) \<and> \<not> clk_enabled (snd w1)
      \<and> clk_debt c w1 = clk_debt c w \<and> live_clks (snd w1) = live_clks (snd w)"
    using assms d ops dma
    by (cases "phydev p") (simp_all add: stmmac_suspend_def Let_def suspend_simps dwmac1000_dma_ops_def clear_descriptors_keeps
        del: board_env_simps(1-6) split_paired_Ex)
  then obtain w1 where s: "stmmac_suspend ?e (Some p) w = Some (0, Some ?p, w1)"
    and w1: "\<not> clk_enabled (snd w1)" "clk_debt c w1 = clk_debt c w" "live_clks (snd w1) = live_clks (snd w)" by blast
  have "\<exists>w2. stmmac_resume ?e ?p w1 = (0, ?p, w2) \<and> clk_enabled (snd w2) \<and> clk_debt c w2 = clk_debt c w1
      \<and> live_clks (snd w2) = live_clks (snd w1)"
    using assms d dma
    by (cases "phydev p") (simp_all add: stmmac_resume_def Let_def suspend_simps dwmac1000_dma_ops_def clear_descriptors_keeps
        del: board_env_simps(1-6) split_paired_Ex)
  then obtain w2 where r: "stmmac_resume ?e ?p w1 = (0, ?p, w2)"
    and w2: "clk_enabled (snd w2)" "clk_debt c w2 = clk_debt c w1" "live_clks (snd w2) = live_clks (snd w1)" by blast
  from s w1 r w2 show ?thesis
    by (simp add: stmmac_pltfr_suspend_def stmmac_pltfr_resume_def del: split_paired_Ex)
qed

definition no_wakeup :: "kcall \<Rightarrow> int" where
  "no_wakeup c = (if c = K ''device_may_wakeup'' [] then 0 else 1)"

theorem suspend_resume_clocks_witness:
  "\<exists>p' w1 p'' w2.
     stmmac_pltfr_suspend (board_env no_wakeup) (Some (board_priv no_wakeup)) (bench0, bench_bsp) = Some (0, Some p', w1)
   \<and> \<not> clk_enabled (snd w1)
   \<and> stmmac_pltfr_resume (board_env no_wakeup) (Some p') w1 = Some (0, p'', w2) \<and> clk_enabled (snd w2)"
proof -
  have "board_driver no_wakeup (board_priv no_wakeup)"
    unfolding board_driver_def by (intro conjI exI [of _ "(bench0, bench_bsp)"]) (simp_all add: board_priv_def bench_bsp_def)
  from suspend_resume_clocks [OF this, of "(bench0, bench_bsp)" 0] show ?thesis by (auto simp: no_wakeup_def simp del: split_paired_Ex)
qed

theorem freeze_crashes_on_device_tree_witness:
  "stmmac_pltfr_freeze (bench_env (\<lambda>_. 0)) \<lparr>pp_of_node = Some bench_node, pp_platform_data = None\<rparr> (Some (bench_priv 4 STMMAC_RING_MODE)) bench0
   = None"
  using freeze_crashes_on_device_tree [of "\<lparr>pp_of_node = Some bench_node, pp_platform_data = None\<rparr>" "bench_env (\<lambda>_. 0)"] by simp

end
